(* ===== verification/Float64.thy ===== *)
theory Float64
  imports Complex_Main "HOL-Library.Log_Nat"
begin

text \<open>
  Go's \<open>float64\<close>: IEEE 754 binary64 with round-to-nearest-even, as the exact rational value of a
  finite number, the two infinities and NaN. The two zeros are one value (the code never divides
  by a signed zero). An operation computes the exact result and rounds it once. The lemmas
  bound the rounding error and show that small integers and their quotients' ceilings are exact.
\<close>

datatype float64 = Finite rat | Infinite bool | NaN

subsection \<open>Rounding\<close>

definition pow2 :: "int \<Rightarrow> rat" where
  "pow2 k = (if 0 \<le> k then 2 ^ nat k else 1 / 2 ^ nat (- k))"

definition ilog2 :: "rat \<Rightarrow> int" where
  "ilog2 x = (case quotient_of x of (p, q) \<Rightarrow>
     (let k = bitlen p - bitlen q in if pow2 k \<le> x then k else k - 1))"

definition round_even :: "rat \<Rightarrow> int" where
  "round_even x = (let n = \<lfloor>x\<rfloor>; r = x - of_int n in
     if r < 1 / 2 then n else if 1 / 2 < r then n + 1 else if even n then n else n + 1)"

definition grid :: "rat \<Rightarrow> int" where
  "grid x = max (ilog2 \<bar>x\<bar> - 52) (- 1074)"

definition nearest :: "rat \<Rightarrow> rat" where
  "nearest x = (if x = 0 then 0 else of_int (round_even (x / pow2 (grid x))) * pow2 (grid x))"

definition round64 :: "rat \<Rightarrow> float64" where
  "round64 x = (let y = nearest x in
     if y = 0 \<or> ilog2 \<bar>y\<bar> < 1024 then Finite y else Infinite (0 < x))"

subsection \<open>Arithmetic and comparison\<close>

definition float_of_int :: "int \<Rightarrow> float64" where
  "float_of_int n = round64 (of_int n)"

fun fneg :: "float64 \<Rightarrow> float64" where
  "fneg (Finite x) = Finite (- x)"
| "fneg (Infinite b) = Infinite (\<not> b)"
| "fneg NaN = NaN"

fun fadd :: "float64 \<Rightarrow> float64 \<Rightarrow> float64" where
  "fadd (Finite x) (Finite y) = round64 (x + y)"
| "fadd (Infinite a) (Infinite b) = (if a = b then Infinite a else NaN)"
| "fadd (Infinite a) (Finite y) = Infinite a"
| "fadd (Finite x) (Infinite b) = Infinite b"
| "fadd NaN y = NaN"
| "fadd x NaN = NaN"

definition fsub :: "float64 \<Rightarrow> float64 \<Rightarrow> float64" where
  "fsub x y = fadd x (fneg y)"

fun fmul :: "float64 \<Rightarrow> float64 \<Rightarrow> float64" where
  "fmul (Finite x) (Finite y) = round64 (x * y)"
| "fmul (Infinite a) (Infinite b) = Infinite (a = b)"
| "fmul (Infinite a) (Finite y) = (if y = 0 then NaN else Infinite (a = (0 < y)))"
| "fmul (Finite x) (Infinite b) = (if x = 0 then NaN else Infinite ((0 < x) = b))"
| "fmul NaN y = NaN"
| "fmul x NaN = NaN"

fun fdiv :: "float64 \<Rightarrow> float64 \<Rightarrow> float64" where
  "fdiv (Finite x) (Finite y) =
     (if y = 0 then (if x = 0 then NaN else Infinite (0 < x)) else round64 (x / y))"
| "fdiv (Infinite a) (Infinite b) = NaN"
| "fdiv (Infinite a) (Finite y) = Infinite (a = (0 \<le> y))"
| "fdiv (Finite x) (Infinite b) = Finite 0"
| "fdiv NaN y = NaN"
| "fdiv x NaN = NaN"

fun flt :: "float64 \<Rightarrow> float64 \<Rightarrow> bool" where
  "flt (Finite x) (Finite y) = (x < y)"
| "flt (Infinite a) (Infinite b) = (\<not> a \<and> b)"
| "flt (Infinite a) (Finite y) = (\<not> a)"
| "flt (Finite x) (Infinite b) = b"
| "flt NaN y = False"
| "flt x NaN = False"

definition fle :: "float64 \<Rightarrow> float64 \<Rightarrow> bool" where
  "fle x y = (flt x y \<or> (x = y \<and> x \<noteq> NaN))"

definition feq :: "float64 \<Rightarrow> float64 \<Rightarrow> bool" where
  "feq x y = (x = y \<and> x \<noteq> NaN)"

text \<open>\<open>math.Min\<close>, \<open>math.Ceil\<close>, \<open>math.Round\<close> (half away from zero).\<close>

definition fmin :: "float64 \<Rightarrow> float64 \<Rightarrow> float64" where
  "fmin x y = (if x = Infinite False \<or> y = Infinite False then Infinite False
     else if x = NaN \<or> y = NaN then NaN else if flt x y then x else y)"

fun fceil :: "float64 \<Rightarrow> float64" where
  "fceil (Finite x) = Finite (of_int \<lceil>x\<rceil>)"
| "fceil x = x"

fun fround :: "float64 \<Rightarrow> float64" where
  "fround (Finite x) =
     Finite (of_int (if 0 \<le> x then \<lfloor>x + 1 / 2\<rfloor> else \<lceil>x - 1 / 2\<rceil>))"
| "fround x = x"

text \<open>
  \<open>int(x)\<close> truncates; a value outside the 64-bit range gives the smallest integer, as the
  conversion instruction of amd64 does (the language leaves it open).
\<close>

fun int_of_float :: "float64 \<Rightarrow> int" where
  "int_of_float (Finite x) =
     (let n = (if 0 \<le> x then \<lfloor>x\<rfloor> else \<lceil>x\<rceil>)
      in if - (2 ^ 63) \<le> n \<and> n < 2 ^ 63 then n else - (2 ^ 63))"
| "int_of_float x = - (2 ^ 63)"

subsection \<open>Powers of two\<close>

lemma pow2_pos [simp]: "0 < pow2 k"
  by (simp add: pow2_def)

lemma pow2_nonzero [simp]: "pow2 k \<noteq> 0"
  using pow2_pos [of k] by linarith

lemma pow2_powi: "pow2 k = 2 powi k"
  by (simp add: pow2_def power_int_def inverse_eq_divide power_one_over)

lemma pow2_add: "pow2 (a + b) = pow2 a * pow2 b"
  by (simp add: pow2_powi power_int_add)

lemma pow2_mono: "a \<le> b \<Longrightarrow> pow2 a \<le> pow2 b"
  by (simp add: pow2_powi power_int_increasing)

lemma pow2_less: "a < b \<Longrightarrow> pow2 a < pow2 b"
  by (simp add: pow2_powi power_int_strict_increasing)

lemma pow2_of_nat: "pow2 (int n) = of_int (2 ^ n)"
  by (simp add: pow2_def)

lemma pow2_numerals: "pow2 0 = 1" "pow2 53 = 2 ^ 53"
  by (simp_all add: pow2_def)

lemma bitlen_rat:
  assumes "0 < p"
  shows "pow2 (bitlen p - 1) \<le> of_int p" "of_int p < pow2 (bitlen p)"
proof -
  have len: "0 < bitlen p"
    using assms bitlen_nonneg [of p] bitlen_eq_zero_iff [of p] by linarith
  have "2 ^ nat (bitlen p - 1) \<le> p" "p < 2 ^ nat (bitlen p)"
    using bitlen_bounds [OF assms] by auto
  then have "(of_int (2 ^ nat (bitlen p - 1)) :: rat) \<le> of_int p"
    "(of_int p :: rat) < of_int (2 ^ nat (bitlen p))"
    unfolding of_int_le_iff of_int_less_iff by simp_all
  then show "pow2 (bitlen p - 1) \<le> of_int p" "of_int p < pow2 (bitlen p)"
    using len by (simp_all add: pow2_def)
qed

lemma ilog2_bounds:
  assumes "0 < x"
  shows "pow2 (ilog2 x) \<le> x" "x < pow2 (ilog2 x + 1)"
proof -
  obtain p q where pq: "quotient_of x = (p, q)" by force
  have x: "x = of_int p / of_int q" and q: "0 < q"
    using quotient_of_div [OF pq] quotient_of_denom_pos [OF pq] by simp_all
  then have p: "0 < p"
    using assms by (simp add: zero_less_divide_iff)
  let ?k = "bitlen p - bitlen q"
  have "x \<le> of_int p / pow2 (bitlen q - 1)"
    unfolding x using bitlen_rat [OF q] p q by (intro divide_left_mono mult_pos_pos) auto
  also have "\<dots> < pow2 (bitlen p) / pow2 (bitlen q - 1)"
    using bitlen_rat [OF p] by (simp add: divide_strict_right_mono)
  also have "\<dots> = pow2 (?k + 1)"
    using pow2_add [of "?k + 1" "bitlen q - 1"] by (simp add: field_simps)
  finally have upper: "x < pow2 (?k + 1)" .
  have "pow2 (?k - 1) = pow2 (bitlen p - 1) / pow2 (bitlen q)"
    using pow2_add [of "?k - 1" "bitlen q"] by (simp add: field_simps)
  also have "\<dots> \<le> of_int p / pow2 (bitlen q)"
    using bitlen_rat(1) [OF p] by (rule divide_right_mono) (simp add: less_imp_le)
  also have "\<dots> \<le> x"
    unfolding x using bitlen_rat [OF q] p q by (intro divide_left_mono) auto
  finally have lower: "pow2 (?k - 1) \<le> x" .
  show "pow2 (ilog2 x) \<le> x" "x < pow2 (ilog2 x + 1)"
    using lower upper by (auto simp: ilog2_def pq Let_def)
qed

lemma ilog2_less:
  assumes "0 < x" "x < pow2 k"
  shows "ilog2 x < k"
proof (rule ccontr)
  assume "\<not> ilog2 x < k"
  then have "pow2 k \<le> pow2 (ilog2 x)" by (simp add: pow2_mono)
  with ilog2_bounds(1) [OF assms(1)] assms(2) show False by linarith
qed

subsection \<open>Rounding to a grid\<close>

lemma round_even_near: "\<bar>of_int (round_even x) - x\<bar> \<le> 1 / 2"
proof -
  have "of_int \<lfloor>x\<rfloor> \<le> x" "x < of_int \<lfloor>x\<rfloor> + 1"
    by linarith+
  then show ?thesis
    by (auto simp: round_even_def Let_def abs_le_iff)
qed

lemma round_even_of_int [simp]: "round_even (of_int n) = n"
  by (simp add: round_even_def)

lemma round_even_ge:
  assumes "of_int n \<le> x"
  shows "n \<le> round_even x"
proof -
  have "n \<le> \<lfloor>x\<rfloor>" using assms by (simp add: le_floor_iff)
  then show ?thesis by (simp add: round_even_def Let_def)
qed

lemma round_even_le:
  assumes "x \<le> of_int n"
  shows "round_even x \<le> n"
proof (cases "x = of_int n")
  case False
  then have "\<lfloor>x\<rfloor> < n" using assms by (simp add: floor_less_iff)
  then show ?thesis by (simp add: round_even_def Let_def)
qed simp

lemma nearest_zero [simp]: "nearest 0 = 0"
  by (simp add: nearest_def)

lemma nearest_near: "\<bar>nearest x - x\<bar> \<le> pow2 (grid x) / 2"
proof (cases "x = 0")
  case False
  let ?g = "pow2 (grid x)"
  have "nearest x - x = (of_int (round_even (x / ?g)) - x / ?g) * ?g"
    using False by (simp add: nearest_def left_diff_distrib)
  then have "\<bar>nearest x - x\<bar> = \<bar>of_int (round_even (x / ?g)) - x / ?g\<bar> * ?g"
    by (simp add: abs_mult abs_of_pos)
  also have "\<dots> \<le> 1 / 2 * ?g"
    by (intro mult_right_mono round_even_near) (simp add: less_imp_le)
  finally show ?thesis by simp
qed (simp add: less_imp_le)

text \<open>A value below \<open>2^53\<close> is rounded on a grid that contains the integers.\<close>

lemma grid_divides:
  assumes "x \<noteq> 0" "\<bar>x\<bar> < pow2 53"
  obtains m :: int where "1 = of_int m * pow2 (grid x)"
proof -
  have "grid x \<le> 0"
    using ilog2_less [of "\<bar>x\<bar>" 53] assms by (simp add: grid_def)
  then have "1 = pow2 (- grid x) * pow2 (grid x)" "pow2 (- grid x) = of_int (2 ^ nat (- grid x))"
    using pow2_add [of "- grid x" "grid x"] by (simp_all add: pow2_numerals) (simp add: pow2_def)
  with that show thesis by metis
qed

lemma nearest_int_bounds:
  assumes "\<bar>x\<bar> < pow2 53"
  shows "of_int n \<le> x \<Longrightarrow> of_int n \<le> nearest x" "x \<le> of_int n \<Longrightarrow> nearest x \<le> of_int n"
proof -
  have "(of_int n \<le> x \<longrightarrow> of_int n \<le> nearest x) \<and> (x \<le> of_int n \<longrightarrow> nearest x \<le> of_int n)"
  proof (cases "x = 0")
    case False
    let ?g = "pow2 (grid x)"
    obtain m where m: "1 = of_int m * ?g"
      using grid_divides [OF False assms] .
    have n: "of_int n = of_int (n * m) * ?g"
      using m by (metis mult.assoc mult.right_neutral of_int_mult)
    have "of_int n \<le> x \<longleftrightarrow> of_int (n * m) \<le> x / ?g" "x \<le> of_int n \<longleftrightarrow> x / ?g \<le> of_int (n * m)"
      unfolding n by (simp_all add: pos_le_divide_eq pos_divide_le_eq)
    then show ?thesis
      unfolding nearest_def using False round_even_ge round_even_le n
      by (simp add: mult_le_cancel_right_pos del: of_int_mult)
  qed simp
  then show "of_int n \<le> x \<Longrightarrow> of_int n \<le> nearest x" "x \<le> of_int n \<Longrightarrow> nearest x \<le> of_int n"
    by blast+
qed

lemma nearest_of_int [simp]: "\<bar>n\<bar> < 2 ^ 53 \<Longrightarrow> nearest (of_int n) = of_int n"
  using nearest_int_bounds [of "of_int n" n] by (simp add: pow2_numerals flip: of_int_abs)

lemma round64_small: "\<bar>x\<bar> < pow2 53 \<Longrightarrow> round64 x = Finite (nearest x)"
proof -
  assume x: "\<bar>x\<bar> < pow2 53"
  then have "- (2 ^ 53) \<le> x" "x \<le> 2 ^ 53"
    by (simp_all add: pow2_numerals)
  then have "\<bar>nearest x\<bar> \<le> pow2 53"
    using nearest_int_bounds(1) [OF x, of "- (2 ^ 53)"] nearest_int_bounds(2) [OF x, of "2 ^ 53"]
    by (simp add: pow2_numerals)
  moreover have "pow2 53 < pow2 1024" by (simp add: pow2_less)
  ultimately show ?thesis
    using ilog2_less [of "\<bar>nearest x\<bar>" 1024] by (auto simp: round64_def Let_def)
qed

lemma round64_of_int [simp]: "\<bar>n\<bar> < 2 ^ 53 \<Longrightarrow> round64 (of_int n) = Finite (of_int n)"
  by (simp add: round64_small pow2_numerals flip: of_int_abs)

lemma float_of_int_exact [simp]: "\<bar>n\<bar> < 2 ^ 53 \<Longrightarrow> float_of_int n = Finite (of_int n)"
  by (simp add: float_of_int_def)

text \<open>The relative error of rounding a number in the normal range is at most \<open>2^-53\<close>.\<close>

lemma grid_fine:
  assumes "pow2 (- 1022) \<le> \<bar>x\<bar>"
  shows "pow2 (grid x) * 2 ^ 52 \<le> \<bar>x\<bar>"
proof -
  have pos: "0 < \<bar>x\<bar>"
    using assms pow2_pos [of "- 1022"] by linarith
  have "- 1022 \<le> ilog2 \<bar>x\<bar>"
  proof (rule ccontr)
    assume "\<not> - 1022 \<le> ilog2 \<bar>x\<bar>"
    then have "pow2 (ilog2 \<bar>x\<bar> + 1) \<le> pow2 (- 1022)" by (intro pow2_mono) simp
    with ilog2_bounds(2) [OF pos] assms show False by linarith
  qed
  then have "grid x = ilog2 \<bar>x\<bar> - 52" by (simp add: grid_def)
  then have "pow2 (grid x) * 2 ^ 52 = pow2 (ilog2 \<bar>x\<bar>)"
    using pow2_add [of "ilog2 \<bar>x\<bar> - 52" 52] by (simp add: pow2_def [of 52])
  with ilog2_bounds(1) [OF pos] show ?thesis by simp
qed

text \<open>Rounding a quotient of two integers does not move it across an integer: its ceiling is exact.\<close>

lemma ceiling_nearest_divide:
  assumes "0 \<le> a" "a < 2 ^ 53" "0 < b" "b < 2 ^ 53"
  shows "\<lceil>nearest (of_int a / of_int b)\<rceil> = \<lceil>of_int a / of_int b :: rat\<rceil>"
proof (cases "a = 0")
  case False
  let ?x = "of_int a / of_int b :: rat"
  have a: "(1 :: rat) \<le> of_int a" "(of_int a :: rat) < 2 ^ 53"
    and b: "(1 :: rat) \<le> of_int b" "(of_int b :: rat) < 2 ^ 53"
    using assms False of_int_less_iff [of a "2 ^ 53", where ?'a = rat]
      of_int_less_iff [of b "2 ^ 53", where ?'a = rat] by simp_all
  have "?x \<le> of_int a"
    using a b by (simp add: pos_divide_le_eq mult_le_cancel_left1)
  with a b have small: "\<bar>?x\<bar> < pow2 53"
    by (simp add: pow2_numerals)
  have upper: "nearest ?x \<le> of_int \<lceil>?x\<rceil>"
    using nearest_int_bounds(2) [OF small] by simp
  have "pow2 (- 1022) \<le> pow2 (- 53)" by (simp add: pow2_mono)
  also have "\<dots> \<le> ?x"
    using a b by (simp add: pow2_def pos_le_divide_eq)
  finally have normal: "pow2 (- 1022) \<le> \<bar>?x\<bar>"
    using abs_ge_self order_trans by blast
  have gap: "of_int (\<lceil>?x\<rceil> - 1) \<le> ?x - 1 / of_int b"
  proof -
    have "of_int (\<lceil>?x\<rceil> - 1) < ?x" by linarith
    then have "of_int ((\<lceil>?x\<rceil> - 1) * b) < (of_int a :: rat)"
      using assms(3) by (simp add: pos_less_divide_eq)
    then have "(\<lceil>?x\<rceil> - 1) * b + 1 \<le> a"
      by (simp only: of_int_less_iff)
    then have "of_int ((\<lceil>?x\<rceil> - 1) * b + 1) \<le> (of_int a :: rat)"
      by (simp only: of_int_le_iff)
    then show ?thesis
      using assms(3) by (simp add: field_simps)
  qed
  have "pow2 (grid ?x) / 2 \<le> ?x / 2 ^ 53"
    using grid_fine [OF normal] a b by simp
  also have "\<dots> < 1 / of_int b"
    using a b by (simp add: divide_less_eq)
  finally have "of_int (\<lceil>?x\<rceil> - 1) < nearest ?x"
    using nearest_near [of ?x] gap by linarith
  with upper show ?thesis
    by (simp add: ceiling_eq_iff)
qed simp

lemma int_of_float_of_int [simp]: "- (2 ^ 63) \<le> n \<Longrightarrow> n < 2 ^ 63 \<Longrightarrow> int_of_float (Finite (of_int n)) = n"
  by (simp add: Let_def)

lemma quotient_finite:
  assumes "0 \<le> a" "a < 2 ^ 53" "0 < b" "b < 2 ^ 53"
  shows "fdiv (float_of_int a) (float_of_int b) = Finite (nearest (of_int a / of_int b))"
proof -
  have "(of_int a / of_int b :: rat) \<le> of_int a"
    using assms by (simp add: pos_divide_le_eq mult_le_cancel_left1)
  moreover have "(of_int a :: rat) < of_int (2 ^ 53)"
    using assms(2) by (subst of_int_less_iff)
  ultimately have "\<bar>of_int a / of_int b :: rat\<bar> < pow2 53"
    using assms by (simp add: pow2_numerals)
  with assms show ?thesis by (simp add: round64_small)
qed

text \<open>\<open>int(math.Ceil(float64(a) / float64(b)))\<close> is the division rounded up.\<close>

lemma int_ceil_quotient:
  assumes "0 \<le> a" "a < 2 ^ 53" "0 < b" "b < 2 ^ 53"
  shows "int_of_float (fceil (fdiv (float_of_int a) (float_of_int b))) = - (- a div b)"
proof -
  have "- a div b \<le> 0"
    using assms by (simp add: div_nonpos_pos_le0)
  moreover have "- a \<le> - a div b"
    using assms zdiv_mono2_neg [of "- a" 1 b] by (cases "a = 0") simp_all
  ultimately have "int_of_float (Finite (of_int (- (- a div b)))) = - (- a div b)"
    using assms(2) by (intro int_of_float_of_int) simp_all
  then show ?thesis
    by (simp only: quotient_finite [OF assms] fceil.simps ceiling_nearest_divide [OF assms]
        ceiling_divide_eq_div)
qed

text \<open>A large or a negative value does not round to a small positive one.\<close>

lemma nearest_ge_power:
  assumes "pow2 (- 1022) \<le> x"
  shows "pow2 (ilog2 x) \<le> nearest x"
proof -
  let ?g = "pow2 (grid x)"
  have x: "0 < x" "pow2 (- 1022) \<le> \<bar>x\<bar>"
    using assms pow2_pos [of "- 1022"] by linarith+
  have "- 1022 \<le> ilog2 x"
  proof (rule ccontr)
    assume "\<not> - 1022 \<le> ilog2 x"
    then have "pow2 (ilog2 x + 1) \<le> pow2 (- 1022)" by (intro pow2_mono) simp
    with ilog2_bounds(2) [OF x(1)] assms show False by linarith
  qed
  then have g: "?g * of_int (2 ^ 52) = pow2 (ilog2 x)"
    using x pow2_add [of "ilog2 x - 52" 52] by (simp add: grid_def pow2_def [of 52])
  then have "of_int (2 ^ 52) \<le> x / ?g"
    using ilog2_bounds(1) [OF x(1)] by (simp add: pos_le_divide_eq mult.commute)
  then have "2 ^ 52 \<le> round_even (x / ?g)"
    by (rule round_even_ge)
  then have "of_int (2 ^ 52) \<le> (of_int (round_even (x / ?g)) :: rat)"
    by (simp only: of_int_le_iff)
  then have "of_int (2 ^ 52) * ?g \<le> of_int (round_even (x / ?g)) * ?g"
    by (rule mult_right_mono) (simp add: less_imp_le)
  with g x show ?thesis by (simp add: nearest_def mult.commute)
qed

lemma nearest_large: "pow2 53 \<le> x \<Longrightarrow> pow2 53 \<le> nearest x"
proof -
  assume x: "pow2 53 \<le> x"
  then have pos: "0 < x" using pow2_pos [of 53] by linarith
  have "53 \<le> ilog2 x"
  proof (rule ccontr)
    assume "\<not> 53 \<le> ilog2 x"
    then have "pow2 (ilog2 x + 1) \<le> pow2 53" by (intro pow2_mono) simp
    with ilog2_bounds(2) [OF pos] x show False by linarith
  qed
  then have "pow2 53 \<le> pow2 (ilog2 x)" by (rule pow2_mono)
  moreover have "pow2 (- 1022) \<le> pow2 53" by (simp add: pow2_mono)
  ultimately show ?thesis using nearest_ge_power [of x] x by linarith
qed

lemma nearest_nonpos: "x \<le> 0 \<Longrightarrow> nearest x \<le> 0"
  using round_even_le [of "x / pow2 (grid x)" 0]
  by (simp add: nearest_def divide_nonpos_pos mult_nonpos_nonneg less_imp_le)

lemma small_product:
  assumes "int_of_float (fmul (Finite (of_int c)) (Finite (of_int k))) = n" "0 < n" "n < 2 ^ 52"
  shows "n = c * k"
proof (cases "\<bar>c * k\<bar> < 2 ^ 53")
  case True
  then have "fmul (Finite (of_int c)) (Finite (of_int k)) = Finite (of_int (c * k))"
    using round64_of_int [of "c * k"] by simp
  then show ?thesis
    using True assms(1) int_of_float_of_int [of "c * k"] by (simp del: int_of_float.simps of_int_mult)
next
  case False
  let ?x = "of_int (c * k) :: rat"
  obtain y where y: "y = nearest ?x" "round64 ?x = Finite y"
    using assms(1,2) by (auto simp: round64_def Let_def split: if_splits)
  have n: "n = int_of_float (Finite y)"
    using assms(1) y(2) by simp
  show ?thesis
  proof (cases "0 < c * k")
    case True
    with False have "of_int (2 ^ 53) \<le> ?x"
      unfolding of_int_le_iff by simp
    then have "2 ^ 53 \<le> y"
      using nearest_large [of ?x] by (simp add: y pow2_numerals)
    then have "2 ^ 53 \<le> \<lfloor>y\<rfloor>" "0 \<le> y"
      by (simp_all add: le_floor_iff)
    then show ?thesis
      using n assms(2,3) by (auto simp: Let_def split: if_splits)
  next
    case False
    then have "?x \<le> 0"
      unfolding of_int_le_0_iff by simp
    then have "y \<le> 0"
      unfolding y by (rule nearest_nonpos)
    then have "\<lceil>y\<rceil> \<le> 0" "\<lfloor>y\<rfloor> \<le> 0"
      by (simp_all add: ceiling_le_iff floor_le_iff)
    then show ?thesis
      using n assms(2) by (auto simp: Let_def split: if_splits)
  qed
qed

end
