(* ===== verification/Prelude.thy ===== *)
theory Prelude
  imports Float64 "HOL-Library.Word" "HOL-Library.Multiset"
begin

text \<open>
  Shared vocabulary of the development: the Go base types, the row order of unordered
  queries and map iterations, SQL pattern matching, and the lemma collections the
  component theories extend.

  Go's \<open>string\<close> is a byte string, so HOL's \<^typ>\<open>string\<close> is its exact counterpart.
  A \<open>uuid.UUID\<close> is sixteen bytes, a stored Go \<open>int\<close> is a 64-bit two's complement word, a
  \<open>float64\<close> is a value of the theory \<open>Float64\<close>, and a \<open>time.Time\<close> is a number of nanoseconds.
\<close>

type_synonym uuid = "128 word"
type_synonym goint = "64 word"
type_synonym time = int

text \<open>The zero value of \<open>time.Time\<close> and of \<open>uuid.UUID\<close> (\<open>uuid.Nil\<close>).\<close>

abbreviation zero_time :: time where "zero_time \<equiv> 0"
abbreviation nil_uuid :: uuid where "nil_uuid \<equiv> 0"

named_theorems store_spec \<open>what one statement of the store returns and changes\<close>
named_theorems local_intro \<open>operations that leave committed rows alone inside a transaction\<close>
named_theorems frame_intro \<open>operations that keep a predicate of the stored rows\<close>
named_theorems readonly_intro \<open>operations that change no stored row\<close>

text \<open>Quantified results of a request stay one variable, whatever their type.\<close>

declare split_paired_All [simp del] split_paired_Ex [simp del]

subsection \<open>Unspecified orders\<close>

text \<open>
  A \<open>SELECT\<close> without \<open>ORDER BY\<close> and a Go \<open>range\<close> over a map deliver their elements in
  any order. The order is an argument: a list of positions, used if it is a permutation of
  the positions there are. Every order is reached by some argument, and no argument
  loses, repeats or invents an element.
\<close>

definition reorder :: "nat list \<Rightarrow> 'a list \<Rightarrow> 'a list" where
  "reorder p xs = (if sort p = [0..<length xs] then map (\<lambda>i. xs ! i) p else xs)"

lemma mset_reorder [simp]: "mset (reorder p xs) = mset xs"
proof (cases "sort p = [0..<length xs]")
  case True
  then have "mset p = mset [0..<length xs]"
    by (metis mset_sort)
  then have "mset (map (\<lambda>i. xs ! i) p) = mset (map (\<lambda>i. xs ! i) [0..<length xs])"
    by (simp only: mset_map)
  with True show ?thesis
    by (simp add: reorder_def map_nth)
qed (simp add: reorder_def)

lemma set_reorder [simp]: "set (reorder p xs) = set xs"
  by (metis mset_reorder set_mset_mset)

lemma length_reorder [simp]: "length (reorder p xs) = length xs"
  by (metis mset_reorder size_mset)

lemma distinct_reorder [simp]: "distinct (reorder p xs) = distinct xs"
  by (metis mset_reorder distinct_count_atmost_1 set_reorder)

lemma reorder_Nil [simp]: "reorder p [] = []"
  by (metis length_0_conv length_reorder)

lemma reorder_eq_Nil [simp]: "reorder p xs = [] \<longleftrightarrow> xs = []"
  by (metis length_0_conv length_reorder)

lemma reorder_singleton [simp]: "reorder p [x] = [x]"
proof -
  have "mset (reorder p [x]) = {#x#}" by simp
  then show ?thesis by (metis mset_single_iff_right)
qed

subsection \<open>\<open>First\<close>: the least row by primary key\<close>

definition first_by :: "('r \<Rightarrow> 'k::linorder) \<Rightarrow> 'r list \<Rightarrow> 'r option" where
  "first_by k rs = (case sort_key k rs of [] \<Rightarrow> None | r # _ \<Rightarrow> Some r)"

lemma first_by_Nil [simp]: "first_by k [] = None"
  by (simp add: first_by_def)

lemma first_by_singleton [simp]: "first_by k [x] = Some x"
  by (simp add: first_by_def)

lemma first_by_None [simp]: "first_by k rs = None \<longleftrightarrow> rs = []"
  by (cases "sort_key k rs")
     (auto simp: first_by_def, metis set_empty set_sort)

lemma first_by_SomeD: "first_by k rs = Some r \<Longrightarrow> r \<in> set rs"
  by (auto simp: first_by_def split: list.splits) (metis list.set_intros(1) set_sort)

lemma first_by_filterD: "first_by k (filter P rs) = Some r \<Longrightarrow> r \<in> set rs \<and> P r"
  by (auto dest: first_by_SomeD)

subsection \<open>Case folding and \<open>ILIKE\<close>\<close>

text \<open>ASCII letters only: the names the code compares are ASCII.\<close>

definition lower_char :: "char \<Rightarrow> char" where
  "lower_char c = (let n = (of_char c :: nat)
     in if 65 \<le> n \<and> n \<le> 90 then char_of (n + 32) else c)"

definition lower :: "string \<Rightarrow> string" where
  "lower s = map lower_char s"

text \<open>
  SQL \<open>LIKE\<close>: a percent sign stands for any run of characters, an underscore for any one,
  and a backslash makes the next pattern character literal.
\<close>

fun like :: "string \<Rightarrow> string \<Rightarrow> bool" where
  "like [] s = (s = [])"
| "like (p # ps) [] = (p = CHR ''%'' \<and> like ps [])"
| "like (p # ps) (c # cs) =
     (if p = CHR ''%'' then like ps (c # cs) \<or> like (p # ps) cs
      else if p = CHR 0x5C
      then (case ps of [] \<Rightarrow> False | q # qs \<Rightarrow> q = c \<and> like qs cs)
      else (p = CHR ''_'' \<or> p = c) \<and> like ps cs)"

definition ilike :: "string \<Rightarrow> string \<Rightarrow> bool" where
  "ilike pattern s = like (lower pattern) (lower s)"

text \<open>A pattern without wildcards matches only itself.\<close>

definition plain_chars :: "string \<Rightarrow> bool" where
  "plain_chars s \<longleftrightarrow> (\<forall>c \<in> set s. c \<noteq> CHR ''%'' \<and> c \<noteq> CHR ''_'' \<and> c \<noteq> CHR 0x5C)"

lemma like_percent_Nil: "like [CHR ''%''] s"
  by (induction s) auto

lemma like_plain_suffix: "plain_chars ps \<Longrightarrow> like (ps @ [CHR ''%'']) (ps @ s)"
  by (induction ps) (auto simp: plain_chars_def like_percent_Nil)

lemma like_percent_here: "like ps s \<Longrightarrow> like (CHR ''%'' # ps) s"
  by (cases s) auto

lemma like_percent_skip: "like ps s \<Longrightarrow> like (CHR ''%'' # ps) (xs @ s)"
  by (induction xs) (auto intro: like_percent_here)

text \<open>Every string that contains the (plain) text between two percent signs matches.\<close>

lemma like_infix:
  assumes "plain_chars t"
  shows "like (CHR ''%'' # t @ [CHR ''%'']) (xs @ t @ ys)"
  using like_percent_skip [OF like_plain_suffix [OF assms]] .

text \<open>\<open>strings.TrimSpace(s) == ""\<close> for a text of ASCII characters.\<close>

definition blank :: "string \<Rightarrow> bool" where
  "blank s \<longleftrightarrow> list_all (\<lambda>c. c \<in> {CHR 0x09, CHR 0x0A, CHR 0x0B, CHR 0x0C, CHR 0x0D, CHR '' ''}) s"

subsection \<open>Decimal digits\<close>

text \<open>\<open>%d\<close>: the decimal form of an integer.\<close>

definition digit :: "nat \<Rightarrow> char" where
  "digit n = char_of (48 + n)"

fun digits :: "nat \<Rightarrow> string" where
  "digits n = (if n < 10 then [digit n] else digits (n div 10) @ [digit (n mod 10)])"

declare digits.simps [simp del]

definition itoa :: "int \<Rightarrow> string" where
  "itoa i = (if i < 0 then CHR ''-'' # digits (nat (- i)) else digits (nat i))"

definition digits_value :: "string \<Rightarrow> nat" where
  "digits_value s = foldl (\<lambda>v c. 10 * v + (of_char c - 48)) 0 s"

lemma digits_value_snoc: "digits_value (s @ [c]) = 10 * digits_value s + (of_char c - 48)"
  by (simp add: digits_value_def)

lemma of_char_digit: "n < 10 \<Longrightarrow> of_char (digit n) = (48 + n :: nat)"
  by (simp add: digit_def)

lemma digits_value_digits [simp]: "digits_value (digits n) = n"
proof (induction n rule: digits.induct)
  case (1 n)
  show ?case
  proof (cases "n < 10")
    case True
    then show ?thesis
      by (subst digits.simps) (simp add: digits_value_def of_char_digit)
  next
    case False
    then show ?thesis
      using 1 by (subst digits.simps) (simp add: digits_value_snoc of_char_digit)
  qed
qed

lemma inj_digits: "inj digits"
  by (metis digits_value_digits injI)

lemma itoa_nat_eq: "0 \<le> i \<Longrightarrow> 0 \<le> j \<Longrightarrow> itoa i = itoa j \<longleftrightarrow> i = j"
  by (auto simp: itoa_def dest: injD [OF inj_digits])

subsection \<open>Substrings\<close>

text \<open>\<open>strings.Contains\<close>.\<close>

fun contains :: "string \<Rightarrow> string \<Rightarrow> bool" where
  "contains [] sub = (sub = [])"
| "contains (c # cs) sub = (take (length sub) (c # cs) = sub \<or> contains cs sub)"

lemma contains_iff: "contains s sub \<longleftrightarrow> (\<exists>xs ys. s = xs @ sub @ ys)"
proof (induction s)
  case (Cons c cs)
  have "contains (c # cs) sub \<longleftrightarrow>
      (\<exists>ys. c # cs = [] @ sub @ ys) \<or> (\<exists>xs ys. c # cs = (c # xs) @ sub @ ys)"
    using Cons by (auto simp: append_eq_conv_conj [symmetric] intro: append_take_drop_id [symmetric])
      (metis append_take_drop_id)
  also have "\<dots> \<longleftrightarrow> (\<exists>xs ys. c # cs = xs @ sub @ ys)"
    by (metis append_Cons list.exhaust list.sel(1))
  finally show ?case .
qed auto

subsection \<open>Small facts on lists\<close>

lemma filter_id_unique:
  assumes "distinct (map f xs)" "x \<in> set xs"
  shows "filter (\<lambda>y. f y = f x) xs = [x]"
  using assms
proof (induction xs)
  case (Cons a xs)
  then show ?case
    by (cases "x = a") (auto simp: filter_empty_conv image_iff)
qed simp

lemma distinct_map_filterI: "distinct (map f xs) \<Longrightarrow> distinct (map f (filter P xs))"
  by (simp add: distinct_map_filter)

lemma inj_on_fieldD:
  assumes "distinct (map f xs)" "x \<in> set xs" "y \<in> set xs" "f x = f y"
  shows "x = y"
  using assms by (simp add: distinct_map inj_on_def)

end
