(* ===== verification/Errors.thy ===== *)
theory Errors
  imports Prelude
begin

text \<open>
  The error values of \<open>internal/service/errors.go\<close> and \<open>internal/store/errors.go\<close>, and
  the driver errors the store translates. An error made with \<open>fmt.Errorf\<close> keeps its format
  string and its arguments; rendering them is not modelled. \<open>Wrapf\<close> is an error made with
  the \<open>%w\<close> verb: \<open>errors.Is\<close> looks through it, a type switch does not.
\<close>

type_synonym errmsg = "string \<times> string list"

datatype error =
    StoreRecordNotFound
  | StoreDuplicateKey
  | GormRecordNotFound
  | GormDuplicatedKey
  | DbError string
  | TxNotStarted
  | Panic string
  | OtherError errmsg
  | Wrapf errmsg error
  | ErrForbidden errmsg
  | ErrInvalidVCenterID errmsg
  | ErrResourceNotFound errmsg
  | ErrFileCorrupted errmsg
  | ErrAgentUpdateForbidden errmsg
  | ErrSourceInventoryRequired errmsg
  | ErrAssessmentCreationForbidden errmsg
  | ErrSourceHasNoInventory errmsg
  | ErrInventoryHasNoVMs errmsg
  | ErrMembershipMismatch errmsg
  | ErrDuplicateKey errmsg
  | ErrJobNotFound goint
  | ErrJobForbidden goint
  | ErrInvalidClusterInventory errmsg
  | ErrInvalidRequest errmsg
  | ErrInvalidSchema errmsg
  | ErrInvalidEstimationParam errmsg
  | ErrNotACustomer errmsg
  | ErrActiveRequestExists errmsg

text \<open>\<open>errors.Is\<close>: unwrap until the target is met. The service error types have no \<open>Unwrap\<close>.\<close>

fun errors_is :: "error \<Rightarrow> error \<Rightarrow> bool" where
  "errors_is (Wrapf m e) target = (Wrapf m e = target \<or> errors_is e target)"
| "errors_is e target = (e = target)"

subsection \<open>Constructors of the service errors\<close>

definition new_err_forbidden :: "string \<Rightarrow> string \<Rightarrow> error" where
  "new_err_forbidden resource ident =
     ErrForbidden (''forbidden: insufficient permissions on %s %s'', [resource, ident])"

definition new_err_resource_not_found :: "(uuid \<Rightarrow> string) \<Rightarrow> uuid \<Rightarrow> string \<Rightarrow> error" where
  "new_err_resource_not_found us ident rtype =
     ErrResourceNotFound (''%s %s not found'', [rtype, us ident])"

definition new_err_resource_not_found_by_str :: "string \<Rightarrow> string \<Rightarrow> error" where
  "new_err_resource_not_found_by_str ident rtype =
     ErrResourceNotFound (''%s %s not found'', [rtype, ident])"

definition new_err_source_not_found :: "(uuid \<Rightarrow> string) \<Rightarrow> uuid \<Rightarrow> error" where
  "new_err_source_not_found us ident = new_err_resource_not_found us ident ''source''"

definition new_err_agent_not_found :: "(uuid \<Rightarrow> string) \<Rightarrow> uuid \<Rightarrow> error" where
  "new_err_agent_not_found us ident = new_err_resource_not_found us ident ''agent''"

definition new_err_member_not_found :: "string \<Rightarrow> error" where
  "new_err_member_not_found username =
     ErrResourceNotFound (''member %s not found'', [username])"

definition new_err_assessment_not_found :: "(uuid \<Rightarrow> string) \<Rightarrow> uuid \<Rightarrow> error" where
  "new_err_assessment_not_found us ident = new_err_resource_not_found us ident ''assessment''"

definition new_err_assessment_creation_forbidden :: "(uuid \<Rightarrow> string) \<Rightarrow> uuid \<Rightarrow> error" where
  "new_err_assessment_creation_forbidden us sid =
     ErrAssessmentCreationForbidden (''forbidden to create assessment from source id:%s'', [us sid])"

definition new_err_source_has_no_inventory :: "(uuid \<Rightarrow> string) \<Rightarrow> uuid \<Rightarrow> error" where
  "new_err_source_has_no_inventory us sid =
     ErrSourceHasNoInventory (''source has no inventory: %s'', [us sid])"

definition new_err_inventory_has_no_vms :: error where
  "new_err_inventory_has_no_vms =
     ErrInventoryHasNoVMs
       (''no VMs found in inventory - cannot create assessment without VM data'', [])"

definition new_err_membership_mismatch :: "(uuid \<Rightarrow> string) \<Rightarrow> string \<Rightarrow> uuid \<Rightarrow> error" where
  "new_err_membership_mismatch us username gid =
     ErrMembershipMismatch (''member %s does not belong to group %s'', [username, us gid])"

definition new_err_duplicate_key :: "string \<Rightarrow> string \<Rightarrow> error" where
  "new_err_duplicate_key rtype name =
     ErrDuplicateKey (''%s with name %q already exists'', [rtype, name])"

definition new_err_member_exists_in_another_group :: "string \<Rightarrow> error" where
  "new_err_member_exists_in_another_group username =
     ErrDuplicateKey (''member %q already belongs to another group'', [username])"

definition new_err_assessment_duplicate_name :: "string \<Rightarrow> error" where
  "new_err_assessment_duplicate_name name = new_err_duplicate_key ''assessment'' name"

definition new_err_source_duplicate_name :: "string \<Rightarrow> error" where
  "new_err_source_duplicate_name name = new_err_duplicate_key ''source'' name"

definition new_err_job_not_found :: "goint \<Rightarrow> error" where
  "new_err_job_not_found jid = ErrJobNotFound jid"

definition new_err_job_forbidden :: "goint \<Rightarrow> error" where
  "new_err_job_forbidden jid = ErrJobForbidden jid"

definition new_err_invalid_request :: "string \<Rightarrow> error" where
  "new_err_invalid_request message = ErrInvalidRequest (message, [])"

definition new_err_invalid_vcenter_id :: "(uuid \<Rightarrow> string) \<Rightarrow> uuid \<Rightarrow> string \<Rightarrow> error" where
  "new_err_invalid_vcenter_id us sid vcenter_id =
     ErrInvalidVCenterID
       (''source %s vcenter id is different than the one specified %s'', [us sid, vcenter_id])"

definition new_err_agent_update_forbidden :: "(uuid \<Rightarrow> string) \<Rightarrow> uuid \<Rightarrow> uuid \<Rightarrow> error" where
  "new_err_agent_update_forbidden us sid aid =
     ErrAgentUpdateForbidden (''agent %s is not associated with source %s'', [us aid, us sid])"

definition new_err_source_inventory_required :: "(uuid \<Rightarrow> string) \<Rightarrow> uuid \<Rightarrow> error" where
  "new_err_source_inventory_required us sid =
     ErrSourceInventoryRequired
       (''source %s must have main inventory before subsets can be created'', [us sid])"

definition new_err_cluster_not_found :: "(uuid \<Rightarrow> string) \<Rightarrow> string \<Rightarrow> uuid \<Rightarrow> error" where
  "new_err_cluster_not_found us cid aid =
     ErrResourceNotFound (''cluster %s not found in assessment %s'', [cid, us aid])"

definition new_err_cluster_requirements_not_found ::
    "(uuid \<Rightarrow> string) \<Rightarrow> string \<Rightarrow> uuid \<Rightarrow> error" where
  "new_err_cluster_requirements_not_found us cid aid =
     ErrResourceNotFound
       (''no cluster requirements input found for cluster %s in assessment %s'', [cid, us aid])"

definition new_err_invalid_cluster_inventory :: "string \<Rightarrow> string \<Rightarrow> error" where
  "new_err_invalid_cluster_inventory cid reason =
     ErrInvalidClusterInventory (''cluster %s has invalid inventory: %s'', [cid, reason])"

definition new_err_not_a_customer :: "string \<Rightarrow> error" where
  "new_err_not_a_customer username =
     ErrNotACustomer (''user %s is not a customer with an accepted partner relationship'', [username])"

definition new_err_active_request_exists :: "string \<Rightarrow> error" where
  "new_err_active_request_exists username =
     ErrActiveRequestExists (''user %s already has an active partner request'', [username])"

lemmas new_err_defs =
  new_err_forbidden_def new_err_resource_not_found_def new_err_resource_not_found_by_str_def
  new_err_member_not_found_def new_err_assessment_not_found_def
  new_err_assessment_creation_forbidden_def new_err_source_has_no_inventory_def
  new_err_inventory_has_no_vms_def new_err_membership_mismatch_def new_err_duplicate_key_def
  new_err_member_exists_in_another_group_def new_err_assessment_duplicate_name_def
  new_err_invalid_request_def new_err_not_a_customer_def new_err_active_request_exists_def

lemma errors_is_refl [simp]: "errors_is e e"
  by (cases e) auto

end
