(* ===== verification/Database.thy ===== *)
theory Database
  imports Errors
begin

text \<open>
  The relational state of the service: one record per row of the tables the accounts, partner,
  assessment and source components use (\<open>internal/store/model/*.go\<close>), the tables, and the effect of
  each statement the stores issue, with the constraints the schema declares: primary keys,
  unique indexes, the partial unique index on active partner requests, foreign keys and their
  \<open>ON DELETE CASCADE\<close>. A statement either fails and changes nothing, or returns the new tables.

  A column the code never reads is left out: the surrogate keys of \<open>relations\<close> and of
  \<open>image_infras\<close> (a source has one row of it) and the times of the latter. A foreign key
  column is text, so a \<open>uuid\<close> is compared with it through its string form, the argument \<open>us\<close>.
\<close>

subsection \<open>Rows\<close>

record group =
  g_id :: uuid
  g_created_at :: time
  g_updated_at :: "time option"
  g_name :: string
  g_description :: string
  g_kind :: string
  g_icon :: string
  g_company :: string
  g_parent_id :: "uuid option"

record member =
  m_id :: uuid
  m_created_at :: time
  m_updated_at :: "time option"
  m_username :: string
  m_email :: string
  m_group_id :: uuid
  m_org_id :: string

abbreviation RequestStatusPending :: string where "RequestStatusPending \<equiv> ''pending''"
abbreviation RequestStatusAccepted :: string where "RequestStatusAccepted \<equiv> ''accepted''"
abbreviation RequestStatusRejected :: string where "RequestStatusRejected \<equiv> ''rejected''"
abbreviation RequestStatusCancelled :: string where "RequestStatusCancelled \<equiv> ''cancelled''"

record partner_customer =
  pc_id :: uuid
  pc_username :: string
  pc_username_org_id :: string
  pc_partner_id :: string
  pc_request_status :: string
  pc_name :: string
  pc_contact_name :: string
  pc_contact_phone :: string
  pc_email :: string
  pc_location :: string
  pc_reason :: "string option"
  pc_accepted_at :: "time option"
  pc_terminated_at :: "time option"
  pc_created_at :: time

record relation_row =
  r_resource :: string
  r_resource_id :: string
  r_relation :: string
  r_subject_namespace :: string
  r_subject_id :: string

record assessment_row =
  a_id :: uuid
  a_created_at :: time
  a_updated_at :: "time option"
  a_name :: string
  a_org_id :: string
  a_username :: string
  a_owner_first_name :: "string option"
  a_owner_last_name :: "string option"
  a_source_type :: string
  a_source_id :: "uuid option"

record inventory_row =
  ai_id :: uuid
  ai_created_at :: time
  ai_name :: string
  ai_is_subset :: bool
  ai_vcenter_id :: string
  ai_vms_count :: goint
  ai_hosts_count :: goint
  ai_networks_count :: goint
  ai_datastores_count :: goint
  ai_version :: nat
  ai_inventory :: string
  ai_assessment_id :: uuid

record source_row =
  s_id :: uuid
  s_created_at :: time
  s_updated_at :: "time option"
  s_name :: string
  s_vcenter_id :: string
  s_username :: string
  s_org_id :: string
  s_inventory :: "string option"
  s_on_premises :: bool
  s_update_type :: string
  s_email_domain :: "string option"

record subset_row =
  ss_id :: uuid
  ss_created_at :: time
  ss_updated_at :: "time option"
  ss_name :: string
  ss_source_id :: uuid
  ss_vcenter_id :: string
  ss_vms_count :: goint
  ss_inventory :: string
  ss_update_type :: string

record agent_row =
  ag_id :: uuid
  ag_created_at :: time
  ag_updated_at :: "time option"
  ag_status :: string
  ag_status_info :: string
  ag_cred_url :: string
  ag_version :: string
  ag_source_id :: uuid

record image_infra_row =
  ii_source_id :: uuid
  ii_http_proxy_url :: string
  ii_https_proxy_url :: string
  ii_no_proxy_domains :: string
  ii_certificate_chain :: string
  ii_ssh_public_key :: string
  ii_image_token_key :: string
  ii_ip_address :: string
  ii_subnet_mask :: string
  ii_default_gateway :: string
  ii_dns :: string
  ii_agent_version :: "string option"
  ii_agent_token :: "string option"

record label_row =
  lb_key :: string
  lb_value :: string
  lb_source_id :: string

record key_row =
  k_org_id :: string
  k_id :: string
  k_private_key :: string

record sizing_input_row =
  si_assessment_id :: uuid
  si_external_cluster_id :: string
  si_cpu_over_commit_ratio :: "string option"
  si_memory_over_commit_ratio :: "string option"
  si_worker_node_cpu :: "int option"
  si_worker_node_threads :: "int option"
  si_worker_node_memory :: "int option"
  si_control_plane_schedulable :: "bool option"
  si_control_plane_node_count :: "int option"
  si_control_plane_cpu :: "int option"
  si_control_plane_memory :: "int option"
  si_hosted_control_plane :: "bool option"
  si_compact_mode :: "bool option"
  si_updated_at :: "time option"

record outbox_row =
  ob_id :: nat
  ob_event_type :: string
  ob_payload :: string
  ob_retry_count :: nat
  ob_next_retry_at :: "time option"

record db =
  groups :: "group list"
  members :: "member list"
  partners_customers :: "partner_customer list"
  relations :: "relation_row list"
  assessments :: "assessment_row list"
  assessment_inventories :: "inventory_row list"
  sources :: "source_row list"
  source_subset_inventories :: "subset_row list"
  cluster_sizing_inputs :: "sizing_input_row list"
  agents :: "agent_row list"
  image_infras :: "image_infra_row list"
  labels :: "label_row list"
  private_keys :: "key_row list"
  outbox_events :: "outbox_row list"

definition empty_db :: db where
  "empty_db = \<lparr>groups = [], members = [], partners_customers = [], relations = [],
     assessments = [], assessment_inventories = [], sources = [],
     source_subset_inventories = [], cluster_sizing_inputs = [],
     agents = [], image_infras = [], labels = [], private_keys = [], outbox_events = []\<rparr>"

text \<open>The two statuses of the partial unique index \<open>uq_partner_customer_active_username\<close>.\<close>

definition active_status :: "string \<Rightarrow> bool" where
  "active_status s \<longleftrightarrow> s = RequestStatusPending \<or> s = RequestStatusAccepted"

text \<open>The values of the enumeration type \<open>request_status\<close>.\<close>

definition request_status_enum :: "string \<Rightarrow> bool" where
  "request_status_enum s \<longleftrightarrow>
     s \<in> {RequestStatusPending, RequestStatusAccepted, RequestStatusRejected, RequestStatusCancelled}"

subsection \<open>Statements on \<open>groups\<close> and \<open>members\<close>\<close>

definition insert_group :: "group \<Rightarrow> db \<Rightarrow> error + db" where
  "insert_group g d =
     (if \<exists>r \<in> set (groups d). g_id r = g_id g then Inl GormDuplicatedKey
      else if \<exists>r \<in> set (groups d). g_company r = g_company g \<and> g_name r = g_name g
      then Inl GormDuplicatedKey
      else if \<exists>p. g_parent_id g = Some p \<and> p \<noteq> g_id g \<and> p \<notin> g_id ` set (groups d)
      then Inl (DbError ''groups_parent_id_fkey'')
      else Inr (d\<lparr>groups := groups d @ [g]\<rparr>))"

definition update_group_columns :: "group \<Rightarrow> db \<Rightarrow> error + db" where
  "update_group_columns g d =
     (if (\<exists>r \<in> set (groups d). g_id r = g_id g) \<and>
         (\<exists>r \<in> set (groups d). g_id r \<noteq> g_id g \<and> g_company r = g_company g \<and> g_name r = g_name g)
      then Inl GormDuplicatedKey
      else Inr (d\<lparr>groups := map (\<lambda>r. if g_id r = g_id g
                 then r\<lparr>g_name := g_name g, g_description := g_description g, g_icon := g_icon g,
                        g_company := g_company g, g_updated_at := g_updated_at g\<rparr>
                 else r) (groups d)\<rparr>))"

definition delete_group_row :: "(uuid \<Rightarrow> string) \<Rightarrow> uuid \<Rightarrow> db \<Rightarrow> error + db" where
  "delete_group_row us i d =
     (if \<exists>r \<in> set (groups d). g_id r \<noteq> i \<and> g_parent_id r = Some i \<and> i \<in> g_id ` set (groups d)
      then Inl (DbError ''groups_parent_id_fkey'')
      else Inr (d\<lparr>groups := filter (\<lambda>r. g_id r \<noteq> i) (groups d),
                  members := filter (\<lambda>r. m_group_id r \<noteq> i) (members d),
                  partners_customers :=
                    filter (\<lambda>r. pc_partner_id r \<noteq> us i) (partners_customers d)\<rparr>))"

definition insert_member :: "member \<Rightarrow> db \<Rightarrow> error + db" where
  "insert_member m d =
     (if \<exists>r \<in> set (members d). m_id r = m_id m \<or> m_username r = m_username m
      then Inl GormDuplicatedKey
      else if m_group_id m \<notin> g_id ` set (groups d) then Inl (DbError ''members_group_id_fkey'')
      else Inr (d\<lparr>members := members d @ [m]\<rparr>))"

text \<open>\<open>Updates\<close> with a struct writes the non-zero fields only.\<close>

definition update_member_columns :: "member \<Rightarrow> db \<Rightarrow> error + db" where
  "update_member_columns m d =
     (let upd = (\<lambda>r. r\<lparr>m_created_at := if m_created_at m = zero_time then m_created_at r else m_created_at m,
                      m_updated_at := if m_updated_at m = None then m_updated_at r else m_updated_at m,
                      m_username := if m_username m = [] then m_username r else m_username m,
                      m_email := if m_email m = [] then m_email r else m_email m,
                      m_group_id := if m_group_id m = nil_uuid then m_group_id r else m_group_id m,
                      m_org_id := if m_org_id m = [] then m_org_id r else m_org_id m\<rparr>)
      in if \<exists>r \<in> set (members d). m_id r = m_id m \<and>
              (\<exists>q \<in> set (members d). m_id q \<noteq> m_id m \<and> m_username q = m_username (upd r))
         then Inl GormDuplicatedKey
         else if \<exists>r \<in> set (members d). m_id r = m_id m \<and> m_group_id (upd r) \<notin> g_id ` set (groups d)
         then Inl (DbError ''members_group_id_fkey'')
         else Inr (d\<lparr>members := map (\<lambda>r. if m_id r = m_id m then upd r else r) (members d)\<rparr>))"

definition delete_member_row :: "uuid \<Rightarrow> db \<Rightarrow> error + db" where
  "delete_member_row i d = Inr (d\<lparr>members := filter (\<lambda>r. m_id r \<noteq> i) (members d)\<rparr>)"

subsection \<open>Statements on \<open>partners_customers\<close>\<close>

definition insert_partner_customer ::
    "(uuid \<Rightarrow> string) \<Rightarrow> partner_customer \<Rightarrow> db \<Rightarrow> error + db" where
  "insert_partner_customer us p d =
     (if \<not> request_status_enum (pc_request_status p) then Inl (DbError ''request_status'')
      else if \<exists>r \<in> set (partners_customers d). pc_id r = pc_id p then Inl GormDuplicatedKey
      else if active_status (pc_request_status p) \<and>
              (\<exists>r \<in> set (partners_customers d).
                 pc_username r = pc_username p \<and> active_status (pc_request_status r))
      then Inl GormDuplicatedKey
      else if pc_partner_id p \<notin> us ` g_id ` set (groups d)
      then Inl (DbError ''fk_partners_customers_group'')
      else Inr (d\<lparr>partners_customers := partners_customers d @ [p]\<rparr>))"

text \<open>
  \<open>Select("request_status", "reason", "accepted_at", "terminated_at")\<close> writes these four columns,
  the zero values included.
\<close>

definition update_partner_customer ::
    "uuid \<Rightarrow> string \<Rightarrow> string option \<Rightarrow> time option \<Rightarrow> time option \<Rightarrow> db \<Rightarrow> error + db" where
  "update_partner_customer i st reason acc term d =
     (if \<not> request_status_enum st then Inl (DbError ''request_status'')
      else if active_status st \<and>
              (\<exists>r \<in> set (partners_customers d). pc_id r = i \<and>
                 (\<exists>q \<in> set (partners_customers d). pc_id q \<noteq> i \<and>
                    pc_username q = pc_username r \<and> active_status (pc_request_status q)))
      then Inl GormDuplicatedKey
      else Inr (d\<lparr>partners_customers := map (\<lambda>r. if pc_id r = i
                 then r\<lparr>pc_request_status := st, pc_reason := reason,
                        pc_accepted_at := acc, pc_terminated_at := term\<rparr>
                 else r) (partners_customers d)\<rparr>))"

subsection \<open>Statements on \<open>relations\<close>\<close>

text \<open>\<open>INSERT ... ON CONFLICT DO NOTHING\<close>, row by row, and \<open>DELETE ... IN\<close>.\<close>

fun insert_ignore :: "relation_row list \<Rightarrow> relation_row list \<Rightarrow> relation_row list" where
  "insert_ignore [] tbl = tbl"
| "insert_ignore (r # rs) tbl = insert_ignore rs (if r \<in> set tbl then tbl else tbl @ [r])"

definition touch_relations :: "relation_row list \<Rightarrow> db \<Rightarrow> error + db" where
  "touch_relations rs d = Inr (d\<lparr>relations := insert_ignore rs (relations d)\<rparr>)"

definition delete_relation_rows :: "relation_row list \<Rightarrow> db \<Rightarrow> error + db" where
  "delete_relation_rows rs d =
     Inr (d\<lparr>relations := filter (\<lambda>r. r \<notin> set rs) (relations d)\<rparr>)"

definition delete_relations_where :: "(relation_row \<Rightarrow> bool) \<Rightarrow> db \<Rightarrow> error + db" where
  "delete_relations_where P d = Inr (d\<lparr>relations := filter (\<lambda>r. \<not> P r) (relations d)\<rparr>)"

subsection \<open>Statements on \<open>assessments\<close> and their inventories\<close>

text \<open>
  Creating an assessment also inserts its inventories (an association of the model), each with
  the assessment's identifier, skipping those whose primary key is taken.
\<close>

fun insert_inventories :: "inventory_row list \<Rightarrow> inventory_row list \<Rightarrow> inventory_row list" where
  "insert_inventories [] tbl = tbl"
| "insert_inventories (r # rs) tbl =
     insert_inventories rs (if ai_id r \<in> ai_id ` set tbl then tbl else tbl @ [r])"

definition insert_assessment :: "assessment_row \<Rightarrow> inventory_row list \<Rightarrow> db \<Rightarrow> error + db" where
  "insert_assessment a invs d =
     (if \<exists>r \<in> set (assessments d). a_id r = a_id a then Inl GormDuplicatedKey
      else if \<exists>r \<in> set (assessments d). a_org_id r = a_org_id a \<and> a_username r = a_username a \<and>
                a_name r = a_name a
      then Inl GormDuplicatedKey
      else if \<exists>s. a_source_id a = Some s \<and> s \<notin> s_id ` set (sources d)
      then Inl (DbError ''assessments_source_id_fkey'')
      else Inr (d\<lparr>assessments := assessments d @ [a],
                  assessment_inventories :=
                    insert_inventories (map (\<lambda>i. i\<lparr>ai_assessment_id := a_id a\<rparr>) invs)
                      (assessment_inventories d)\<rparr>))"

definition insert_inventory_rows :: "inventory_row list \<Rightarrow> db \<Rightarrow> error + db" where
  "insert_inventory_rows invs d =
     (if \<not> distinct (map ai_id invs) \<or> (\<exists>i \<in> set invs. ai_id i \<in> ai_id ` set (assessment_inventories d))
      then Inl GormDuplicatedKey
      else if \<exists>i \<in> set invs. ai_assessment_id i \<notin> a_id ` set (assessments d)
      then Inl (DbError ''assessment_inventories_assessment_id_fkey'')
      else Inr (d\<lparr>assessment_inventories := assessment_inventories d @ invs\<rparr>))"

text \<open>
  \<open>ON CONFLICT (id) DO UPDATE\<close> of every column but the key and \<open>created_at\<close>, whose default is an
  SQL function. One statement cannot touch a row twice.
\<close>

fun upsert_inventories :: "inventory_row list \<Rightarrow> inventory_row list \<Rightarrow> inventory_row list" where
  "upsert_inventories [] tbl = tbl"
| "upsert_inventories (r # rs) tbl = upsert_inventories rs
     (if ai_id r \<in> ai_id ` set tbl
      then map (\<lambda>q. if ai_id q = ai_id r then r\<lparr>ai_created_at := ai_created_at q\<rparr> else q) tbl
      else tbl @ [r])"

definition upsert_inventory_rows :: "inventory_row list \<Rightarrow> db \<Rightarrow> error + db" where
  "upsert_inventory_rows invs d =
     (if invs = [] then Inl (DbError ''empty slice found'')
      else if \<not> distinct (map ai_id invs) then Inl (DbError ''cannot affect row a second time'')
      else if \<exists>i \<in> set invs. ai_assessment_id i \<notin> a_id ` set (assessments d)
      then Inl (DbError ''assessment_inventories_assessment_id_fkey'')
      else Inr (d\<lparr>assessment_inventories := upsert_inventories invs (assessment_inventories d)\<rparr>))"

text \<open>\<open>Updates(&assessment)\<close> after a read of the row: of the columns, only the name and the time change.\<close>

definition update_assessment_columns ::
    "uuid \<Rightarrow> string \<Rightarrow> time option \<Rightarrow> db \<Rightarrow> error + db" where
  "update_assessment_columns i name upd d =
     (if \<exists>r \<in> set (assessments d). a_id r = i \<and>
           (\<exists>q \<in> set (assessments d). a_id q \<noteq> i \<and> a_org_id q = a_org_id r \<and>
              a_username q = a_username r \<and> a_name q = (if name = [] then a_name r else name))
      then Inl GormDuplicatedKey
      else Inr (d\<lparr>assessments := map (\<lambda>r. if a_id r = i
                 then r\<lparr>a_name := (if name = [] then a_name r else name), a_updated_at := upd\<rparr>
                 else r) (assessments d)\<rparr>))"

definition delete_assessment_row :: "uuid \<Rightarrow> db \<Rightarrow> error + db" where
  "delete_assessment_row i d =
     Inr (d\<lparr>assessments := filter (\<lambda>r. a_id r \<noteq> i) (assessments d),
            assessment_inventories :=
              filter (\<lambda>r. ai_assessment_id r \<noteq> i) (assessment_inventories d),
            cluster_sizing_inputs :=
              filter (\<lambda>r. si_assessment_id r \<noteq> i) (cluster_sizing_inputs d)\<rparr>)"

subsection \<open>Statements on \<open>assessment_cluster_sizing_inputs\<close>\<close>

text \<open>
  The upsert on the key \<open>(assessment_id, external_cluster_id)\<close> replaces every other column. The
  column \<open>compact_mode\<close> has a default: a missing value is written as false.
\<close>

definition upsert_sizing_input :: "sizing_input_row \<Rightarrow> db \<Rightarrow> error + db" where
  "upsert_sizing_input r d =
     (let r = r\<lparr>si_compact_mode := Some (si_compact_mode r = Some True)\<rparr>;
          same = (\<lambda>q. si_assessment_id q = si_assessment_id r \<and>
                      si_external_cluster_id q = si_external_cluster_id r)
      in if si_assessment_id r \<notin> a_id ` set (assessments d)
         then Inl (DbError ''assessment_cluster_sizing_inputs_assessment_id_fkey'')
         else Inr (d\<lparr>cluster_sizing_inputs :=
           (if \<exists>q \<in> set (cluster_sizing_inputs d). same q
            then map (\<lambda>q. if same q then r else q) (cluster_sizing_inputs d)
            else cluster_sizing_inputs d @ [r])\<rparr>))"

subsection \<open>Statements on \<open>sources\<close>\<close>

text \<open>
  Creating a source also inserts its labels (an association of the model), skipping those whose key
  is taken.
\<close>

fun insert_labels :: "label_row list \<Rightarrow> label_row list \<Rightarrow> label_row list" where
  "insert_labels [] tbl = tbl"
| "insert_labels (l # ls) tbl = insert_labels ls
     (if \<exists>q \<in> set tbl. lb_key q = lb_key l \<and> lb_source_id q = lb_source_id l then tbl else tbl @ [l])"

definition insert_source :: "source_row \<Rightarrow> label_row list \<Rightarrow> db \<Rightarrow> error + db" where
  "insert_source s ls d =
     (if \<exists>r \<in> set (sources d). s_id r = s_id s then Inl GormDuplicatedKey
      else if \<exists>r \<in> set (sources d). s_org_id r = s_org_id s \<and> s_username r = s_username s \<and> s_name r = s_name s
      then Inl GormDuplicatedKey
      else Inr (d\<lparr>sources := sources d @ [s], labels := insert_labels ls (labels d)\<rparr>))"

text \<open>
  \<open>Updates(&source)\<close> writes the non-zero fields: an empty string, a missing inventory and a false
  flag keep what the row has. An empty text is no JSON.
\<close>

definition updated_source :: "source_row \<Rightarrow> source_row \<Rightarrow> source_row" where
  "updated_source s r = r\<lparr>s_created_at := if s_created_at s = zero_time then s_created_at r else s_created_at s,
     s_updated_at := if s_updated_at s = None then s_updated_at r else s_updated_at s,
     s_name := if s_name s = [] then s_name r else s_name s,
     s_vcenter_id := if s_vcenter_id s = [] then s_vcenter_id r else s_vcenter_id s,
     s_username := if s_username s = [] then s_username r else s_username s,
     s_org_id := if s_org_id s = [] then s_org_id r else s_org_id s,
     s_inventory := if s_inventory s = None then s_inventory r else s_inventory s,
     s_on_premises := s_on_premises s \<or> s_on_premises r,
     s_update_type := if s_update_type s = [] then s_update_type r else s_update_type s,
     s_email_domain := if s_email_domain s = None then s_email_domain r else s_email_domain s\<rparr>"

definition update_source_columns :: "source_row \<Rightarrow> db \<Rightarrow> error + db" where
  "update_source_columns s d =
     (if s_inventory s = Some [] then Inl (DbError ''invalid input syntax for type json'')
      else if \<exists>r \<in> set (sources d). s_id r = s_id s \<and>
           (\<exists>q \<in> set (sources d). s_id q \<noteq> s_id s \<and> s_org_id q = s_org_id (updated_source s r) \<and>
              s_username q = s_username (updated_source s r) \<and> s_name q = s_name (updated_source s r))
      then Inl GormDuplicatedKey
      else Inr (d\<lparr>sources := map (\<lambda>r. if s_id r = s_id s then updated_source s r else r) (sources d)\<rparr>))"

text \<open>\<open>ON DELETE CASCADE\<close>, and \<open>ON DELETE SET NULL\<close> for the assessments.\<close>

definition delete_source_row :: "(uuid \<Rightarrow> string) \<Rightarrow> uuid \<Rightarrow> db \<Rightarrow> error + db" where
  "delete_source_row us i d =
     Inr (d\<lparr>sources := filter (\<lambda>r. s_id r \<noteq> i) (sources d),
       agents := filter (\<lambda>r. ag_source_id r \<noteq> i) (agents d),
       image_infras := filter (\<lambda>r. ii_source_id r \<noteq> i) (image_infras d),
       labels := filter (\<lambda>r. lb_source_id r \<noteq> us i) (labels d),
       source_subset_inventories := filter (\<lambda>r. ss_source_id r \<noteq> i) (source_subset_inventories d),
       assessments := map (\<lambda>a. if a_source_id a = Some i then a\<lparr>a_source_id := None\<rparr> else a) (assessments d)\<rparr>)"

subsection \<open>Statements on \<open>agents\<close>\<close>

definition insert_agent :: "agent_row \<Rightarrow> db \<Rightarrow> error + db" where
  "insert_agent a d =
     (if ag_id a \<in> ag_id ` set (agents d) then Inl GormDuplicatedKey
      else if ag_source_id a \<notin> s_id ` set (sources d) then Inl (DbError ''agents_source_id_fkey'')
      else Inr (d\<lparr>agents := agents d @ [a]\<rparr>))"

definition updated_agent :: "agent_row \<Rightarrow> agent_row \<Rightarrow> agent_row" where
  "updated_agent a r = r\<lparr>ag_created_at := if ag_created_at a = zero_time then ag_created_at r else ag_created_at a,
     ag_updated_at := if ag_updated_at a = None then ag_updated_at r else ag_updated_at a,
     ag_status := if ag_status a = [] then ag_status r else ag_status a,
     ag_status_info := if ag_status_info a = [] then ag_status_info r else ag_status_info a,
     ag_cred_url := if ag_cred_url a = [] then ag_cred_url r else ag_cred_url a,
     ag_version := if ag_version a = [] then ag_version r else ag_version a,
     ag_source_id := if ag_source_id a = nil_uuid then ag_source_id r else ag_source_id a\<rparr>"

definition update_agent_columns :: "agent_row \<Rightarrow> db \<Rightarrow> error + db" where
  "update_agent_columns a d =
     (if (\<exists>r \<in> set (agents d). ag_id r = ag_id a \<and> ag_source_id (updated_agent a r) \<notin> s_id ` set (sources d))
      then Inl (DbError ''agents_source_id_fkey'')
      else Inr (d\<lparr>agents := map (\<lambda>r. if ag_id r = ag_id a then updated_agent a r else r) (agents d)\<rparr>))"

definition delete_agent_row :: "uuid \<Rightarrow> db \<Rightarrow> error + db" where
  "delete_agent_row i d = Inr (d\<lparr>agents := filter (\<lambda>r. ag_id r \<noteq> i) (agents d)\<rparr>)"

subsection \<open>Statements on \<open>source_subset_inventories\<close>\<close>

definition insert_subsets :: "subset_row list \<Rightarrow> db \<Rightarrow> error + db" where
  "insert_subsets rs d =
     (if \<not> distinct (map ss_id rs) \<or> (\<exists>r \<in> set rs. ss_id r \<in> ss_id ` set (source_subset_inventories d))
      then Inl GormDuplicatedKey
      else if \<exists>r \<in> set rs. ss_inventory r = [] then Inl (DbError ''invalid input syntax for type json'')
      else if \<exists>r \<in> set rs. ss_source_id r \<notin> s_id ` set (sources d)
      then Inl (DbError ''source_subset_inventories_source_id_fkey'')
      else Inr (d\<lparr>source_subset_inventories := source_subset_inventories d @ rs\<rparr>))"

text \<open>The columns of the \<open>Select\<close> are written, zero values included.\<close>

definition update_subset_columns :: "subset_row \<Rightarrow> db \<Rightarrow> error + db" where
  "update_subset_columns s d =
     (if ss_inventory s = [] then Inl (DbError ''invalid input syntax for type json'')
      else if ss_id s \<in> ss_id ` set (source_subset_inventories d) \<and> ss_source_id s \<notin> s_id ` set (sources d)
      then Inl (DbError ''source_subset_inventories_source_id_fkey'')
      else Inr (d\<lparr>source_subset_inventories := map (\<lambda>r. if ss_id r = ss_id s
             then s\<lparr>ss_created_at := ss_created_at r\<rparr> else r) (source_subset_inventories d)\<rparr>))"

definition delete_subset_row :: "uuid \<Rightarrow> db \<Rightarrow> error + db" where
  "delete_subset_row i d = Inr (d\<lparr>source_subset_inventories :=
     filter (\<lambda>r. ss_id r \<noteq> i) (source_subset_inventories d)\<rparr>)"

definition delete_subset_rows_of :: "uuid \<Rightarrow> db \<Rightarrow> error + db" where
  "delete_subset_rows_of sid d = Inr (d\<lparr>source_subset_inventories :=
     filter (\<lambda>r. ss_source_id r \<noteq> sid) (source_subset_inventories d)\<rparr>)"

subsection \<open>Statements on \<open>image_infras\<close>, \<open>labels\<close> and \<open>keys\<close>\<close>

definition insert_image_infra :: "image_infra_row \<Rightarrow> db \<Rightarrow> error + db" where
  "insert_image_infra i d =
     (if ii_source_id i \<notin> s_id ` set (sources d) then Inl (DbError ''image_infras_source_id_fkey'')
      else Inr (d\<lparr>image_infras := image_infras d @ [i]\<rparr>))"

text \<open>\<open>Save\<close> without the version and the token: an update, or an insert if there is no row.\<close>

definition save_image_infra :: "image_infra_row \<Rightarrow> db \<Rightarrow> error + db" where
  "save_image_infra i d =
     (if ii_source_id i \<notin> ii_source_id ` set (image_infras d)
      then insert_image_infra (i\<lparr>ii_agent_version := None, ii_agent_token := None\<rparr>) d
      else Inr (d\<lparr>image_infras := map (\<lambda>r. if ii_source_id r = ii_source_id i
             then i\<lparr>ii_agent_version := ii_agent_version r, ii_agent_token := ii_agent_token r\<rparr> else r)
           (image_infras d)\<rparr>))"

definition update_infra_where ::
    "(image_infra_row \<Rightarrow> bool) \<Rightarrow> (image_infra_row \<Rightarrow> image_infra_row) \<Rightarrow> db \<Rightarrow> error + db" where
  "update_infra_where P f d = Inr (d\<lparr>image_infras := map (\<lambda>r. if P r then f r else r) (image_infras d)\<rparr>)"

definition delete_labels_of :: "string \<Rightarrow> db \<Rightarrow> error + db" where
  "delete_labels_of sid d = Inr (d\<lparr>labels := filter (\<lambda>l. lb_source_id l \<noteq> sid) (labels d)\<rparr>)"

definition insert_label :: "(uuid \<Rightarrow> string) \<Rightarrow> label_row \<Rightarrow> db \<Rightarrow> error + db" where
  "insert_label us l d =
     (if \<exists>q \<in> set (labels d). lb_key q = lb_key l \<and> lb_source_id q = lb_source_id l
      then Inl GormDuplicatedKey
      else if lb_source_id l \<notin> us ` s_id ` set (sources d) then Inl (DbError ''labels_source_id_fkey'')
      else Inr (d\<lparr>labels := labels d @ [l]\<rparr>))"

definition insert_key :: "key_row \<Rightarrow> db \<Rightarrow> error + db" where
  "insert_key k d =
     (if \<exists>q \<in> set (private_keys d). k_id q = k_id k \<and> k_org_id q = k_org_id k then Inl GormDuplicatedKey
      else Inr (d\<lparr>private_keys := private_keys d @ [k]\<rparr>))"

definition delete_key_rows :: "string \<Rightarrow> db \<Rightarrow> error + db" where
  "delete_key_rows org d = Inr (d\<lparr>private_keys := filter (\<lambda>k. k_org_id k \<noteq> org) (private_keys d)\<rparr>)"

subsection \<open>Statements on \<open>outbox_events\<close>\<close>

definition insert_outbox_row :: "outbox_row \<Rightarrow> db \<Rightarrow> error + db" where
  "insert_outbox_row r d =
     (if ob_id r \<in> ob_id ` set (outbox_events d) then Inl GormDuplicatedKey
      else if ob_payload r = [] then Inl (DbError ''invalid input syntax for type json'')
      else Inr (d\<lparr>outbox_events := outbox_events d @ [r]\<rparr>))"

definition delete_outbox_rows :: "nat list \<Rightarrow> db \<Rightarrow> error + db" where
  "delete_outbox_rows is d = Inr (d\<lparr>outbox_events := filter (\<lambda>r. ob_id r \<notin> set is) (outbox_events d)\<rparr>)"

definition update_outbox_rows :: "nat list \<Rightarrow> (outbox_row \<Rightarrow> outbox_row) \<Rightarrow> db \<Rightarrow> error + db" where
  "update_outbox_rows is f d = Inr (d\<lparr>outbox_events :=
     map (\<lambda>r. if ob_id r \<in> set is then f r else r) (outbox_events d)\<rparr>)"

end
