(* ===== verification/Inventory.thy ===== *)
theory Inventory
  imports Prelude
begin

text \<open>
  The inventory of \<open>internal/model/inventory.go\<close> and the assessment types of
  \<open>internal/model/assessment.go\<close>, \<open>internal/model/authz.go\<close>. A Go map is the list of its
  entries; a pointer, and a slice or a map the code compares with nil, is an option; the named string types
  are strings.
\<close>

type_synonym 'a gomap = "(string \<times> 'a) list"

abbreviation InventoryVersionV1 :: nat where "InventoryVersionV1 \<equiv> 1"
abbreviation InventoryVersionV2 :: nat where "InventoryVersionV2 \<equiv> 2"

record cluster_features =
  cf_drs_enabled :: "bool option"
  cf_drs_mode :: "string option"
  cf_ha_enabled :: "bool option"

record cluster_utilization =
  cu_confidence :: float64
  cu_cpu_avg :: float64
  cu_cpu_max :: float64
  cu_cpu_p95 :: float64
  cu_mem_avg :: float64
  cu_mem_max :: float64
  cu_mem_p95 :: float64

record storage_io_configuration =
  sio_congestion_threshold :: "goint option"
  sio_congestion_threshold_mode :: "string option"
  sio_enabled :: "bool option"
  sio_percent_of_peak_throughput :: "goint option"

record datastore =
  ds_backing_device_ids :: "string list option"
  ds_filesystem_major_version :: "32 word option"
  ds_filesystem_type :: "string option"
  ds_disk_id :: string
  ds_free_capacity_gb :: goint
  ds_hardware_accelerated_move :: bool
  ds_host_id :: "string option"
  ds_model :: string
  ds_protocol_type :: string
  ds_storage_io_configuration :: "storage_io_configuration option"
  ds_storage_protocol :: "string option"
  ds_total_capacity_gb :: goint
  ds_type :: string
  ds_vendor :: string
  ds_vsan_snapshot_support :: "bool option"

record host =
  h_cpu_cores :: "goint option"
  h_cpu_sockets :: "goint option"
  h_id :: "string option"
  h_memory_mb :: "64 word option"
  h_model :: string
  h_storage_vmotion_supported :: "bool option"
  h_vendor :: string
  h_vmotion_supported :: "bool option"

record network =
  n_dvswitch :: "string option"
  n_name :: string
  n_type :: string
  n_vlan_id :: "string option"
  n_vms_count :: "goint option"

record infra =
  if_clusters_per_datacenter :: "goint list option"
  if_cpu_over_commitment :: "float64 option"
  if_datastores :: "datastore list option"
  if_host_power_states :: "goint gomap option"
  if_hosts :: "host list option"
  if_hosts_per_cluster :: "goint list option"
  if_memory_over_commitment :: "float64 option"
  if_networks :: "network list option"
  if_standalone_hosts_detected :: "bool option"
  if_total_clusters :: "goint option"
  if_total_datacenters :: "goint option"
  if_total_hosts :: goint
  if_vms_per_cluster :: "goint list option"
  if_vms_per_host_average :: "float64 option"

record vcenter =
  vc_id :: string

record histogram =
  hg_data :: "goint list"
  hg_min_value :: goint
  hg_step :: goint

record vm_resource_breakdown =
  rb_histogram :: "histogram option"
  rb_total :: goint
  rb_total_for_migratable :: goint
  rb_total_for_migratable_with_warnings :: goint
  rb_total_for_not_migratable :: goint

record disk_size_tier_summary =
  dst_total_size_tb :: float64
  dst_vm_count :: goint

record disk_type_summary =
  dty_total_size_tb :: float64
  dty_vm_count :: goint

record issues_breakdown =
  ib_advisory :: goint
  ib_critical :: goint
  ib_error :: goint
  ib_information :: goint
  ib_warning :: goint

record migration_issue =
  mi_assessment :: string
  mi_count :: goint
  mi_id :: "string option"
  mi_label :: string

record os_info =
  os_count :: goint
  os_support_tier :: "string option"
  os_supported :: bool
  os_upgrade_recommendation :: "string option"

record vms =
  vm_complexity_distribution :: "disk_size_tier_summary gomap option"
  vm_cpu_cores :: vm_resource_breakdown
  vm_disk_complexity_tier :: "disk_size_tier_summary gomap option"
  vm_disk_count :: vm_resource_breakdown
  vm_disk_gb :: vm_resource_breakdown
  vm_disk_size_tier :: "disk_size_tier_summary gomap option"
  vm_disk_types :: "disk_type_summary gomap option"
  vm_distribution_by_complexity :: "goint gomap option"
  vm_distribution_by_cpu_tier :: "goint gomap option"
  vm_distribution_by_memory_tier :: "goint gomap option"
  vm_distribution_by_nic_count :: "goint gomap option"
  vm_issues_breakdown :: "issues_breakdown option"
  vm_migration_warnings :: "migration_issue list option"
  vm_nic_count :: "vm_resource_breakdown option"
  vm_not_migratable_reasons :: "migration_issue list option"
  vm_os :: "goint gomap option"
  vm_os_info :: "os_info gomap option"
  vm_power_states :: "goint gomap option"
  vm_ram_gb :: vm_resource_breakdown
  vm_total :: goint
  vm_total_migratable :: goint
  vm_total_migratable_with_warnings :: "goint option"
  vm_total_with_fault_tolerance :: "goint option"
  vm_total_with_rdm :: "goint option"
  vm_total_with_shared_disks :: "goint option"

record inventory_data =
  dt_cluster_features :: "cluster_features option"
  dt_cluster_utilization :: "cluster_utilization option"
  dt_infra :: infra
  dt_vcenter :: "vcenter option"
  dt_vms :: vms

record inventory =
  inv_clusters :: "inventory_data gomap option"
  inv_collection_time :: "time option"
  inv_created_at :: "time option"
  inv_vcenter :: "inventory_data option"
  inv_vcenter_id :: string
  inv_vcenter_version :: "string option"

text \<open>\<open>Inventory{}\<close>, the zero value of the structure.\<close>

definition zero_inventory :: inventory where
  "zero_inventory = \<lparr>inv_clusters = None, inv_collection_time = None, inv_created_at = None,
     inv_vcenter = None, inv_vcenter_id = [], inv_vcenter_version = None\<rparr>"

text \<open>The zero values of the parts of an inventory.\<close>

definition zero_breakdown :: vm_resource_breakdown where
  "zero_breakdown = \<lparr>rb_histogram = None, rb_total = 0, rb_total_for_migratable = 0,
     rb_total_for_migratable_with_warnings = 0, rb_total_for_not_migratable = 0\<rparr>"

definition zero_vms :: vms where
  "zero_vms = \<lparr>vm_complexity_distribution = None, vm_cpu_cores = zero_breakdown,
     vm_disk_complexity_tier = None, vm_disk_count = zero_breakdown, vm_disk_gb = zero_breakdown,
     vm_disk_size_tier = None, vm_disk_types = None, vm_distribution_by_complexity = None,
     vm_distribution_by_cpu_tier = None, vm_distribution_by_memory_tier = None,
     vm_distribution_by_nic_count = None, vm_issues_breakdown = None, vm_migration_warnings = None,
     vm_nic_count = None, vm_not_migratable_reasons = None, vm_os = None, vm_os_info = None,
     vm_power_states = None, vm_ram_gb = zero_breakdown, vm_total = 0, vm_total_migratable = 0,
     vm_total_migratable_with_warnings = None, vm_total_with_fault_tolerance = None,
     vm_total_with_rdm = None, vm_total_with_shared_disks = None\<rparr>"

definition zero_infra :: infra where
  "zero_infra = \<lparr>if_clusters_per_datacenter = None, if_cpu_over_commitment = None,
     if_datastores = None, if_host_power_states = None, if_hosts = None, if_hosts_per_cluster = None,
     if_memory_over_commitment = None, if_networks = None, if_standalone_hosts_detected = None,
     if_total_clusters = None, if_total_datacenters = None, if_total_hosts = 0,
     if_vms_per_cluster = None, if_vms_per_host_average = None\<rparr>"

definition zero_inventory_data :: inventory_data where
  "zero_inventory_data = \<lparr>dt_cluster_features = None, dt_cluster_utilization = None,
     dt_infra = zero_infra, dt_vcenter = None, dt_vms = zero_vms\<rparr>"

subsection \<open>Sharing and assessments\<close>

record sharing_subject =
  ssub_type :: string
  ssub_id :: string
  ssub_name :: string

record sharing =
  sh_is_shared :: bool
  sh_shared_with :: "sharing_subject list"
  sh_shared_by :: "sharing_subject option"

record assessment_inventory =
  asi_id :: uuid
  asi_created_at :: time
  asi_name :: string
  asi_is_subset :: bool
  asi_vcenter_id :: string
  asi_vms_count :: goint
  asi_hosts_count :: goint
  asi_networks_count :: goint
  asi_datastores_count :: goint
  asi_version :: nat
  asi_inventory :: inventory
  asi_assessment_id :: uuid

record assessment =
  as_id :: uuid
  as_created_at :: time
  as_updated_at :: "time option"
  as_name :: string
  as_org_id :: string
  as_username :: string
  as_owner_first_name :: "string option"
  as_owner_last_name :: "string option"
  as_source_type :: string
  as_source_id :: "uuid option"
  as_main_inventory :: assessment_inventory
  as_subset_inventories :: "assessment_inventory list"
  as_permissions :: "string list"
  as_sharing :: "sharing option"

record assessment_summary =
  sum_id :: uuid
  sum_created_at :: time
  sum_name :: string
  sum_org_id :: string
  sum_username :: string
  sum_owner_first_name :: "string option"
  sum_owner_last_name :: "string option"
  sum_source_type :: string
  sum_source_id :: "uuid option"
  sum_vms_count :: goint
  sum_hosts_count :: goint
  sum_networks_count :: goint
  sum_datastores_count :: goint
  sum_permissions :: "string list"
  sum_sharing :: "sharing option"

definition zero_assessment_inventory :: assessment_inventory where
  "zero_assessment_inventory = \<lparr>asi_id = nil_uuid, asi_created_at = zero_time, asi_name = [],
     asi_is_subset = False, asi_vcenter_id = [], asi_vms_count = 0, asi_hosts_count = 0,
     asi_networks_count = 0, asi_datastores_count = 0, asi_version = 0,
     asi_inventory = zero_inventory, asi_assessment_id = nil_uuid\<rparr>"

text \<open>\<open>len\<close> of a slice that may be nil\<close>

definition slice_len :: "'a list option \<Rightarrow> goint" where
  "slice_len x = (case x of None \<Rightarrow> 0 | Some xs \<Rightarrow> of_nat (length xs))"

definition new_assessment_inventory ::
    "uuid \<Rightarrow> uuid \<Rightarrow> string \<Rightarrow> nat \<Rightarrow> bool \<Rightarrow> inventory \<Rightarrow> assessment_inventory" where
  "new_assessment_inventory i aid name version is_subset ivt =
     (let r = zero_assessment_inventory\<lparr>asi_id := i, asi_assessment_id := aid, asi_name := name,
                asi_is_subset := is_subset, asi_version := version,
                asi_vcenter_id := inv_vcenter_id ivt, asi_inventory := ivt\<rparr>
      in case inv_vcenter ivt of
           None \<Rightarrow> r
         | Some vc \<Rightarrow> r\<lparr>asi_vms_count := vm_total (dt_vms vc),
                        asi_hosts_count := if_total_hosts (dt_infra vc),
                        asi_networks_count := slice_len (if_networks (dt_infra vc)),
                        asi_datastores_count := slice_len (if_datastores (dt_infra vc))\<rparr>)"

lemma new_assessment_inventory_simps [simp]:
  "asi_id (new_assessment_inventory i aid name version sub ivt) = i"
  "asi_assessment_id (new_assessment_inventory i aid name version sub ivt) = aid"
  "asi_name (new_assessment_inventory i aid name version sub ivt) = name"
  "asi_is_subset (new_assessment_inventory i aid name version sub ivt) = sub"
  "asi_version (new_assessment_inventory i aid name version sub ivt) = version"
  "asi_inventory (new_assessment_inventory i aid name version sub ivt) = ivt"
  by (simp_all add: new_assessment_inventory_def Let_def split: option.splits)

lemma new_assessment_inventory_vms:
  "asi_vms_count (new_assessment_inventory i aid name version sub ivt) =
     (case inv_vcenter ivt of None \<Rightarrow> 0 | Some vc \<Rightarrow> vm_total (dt_vms vc))"
  by (simp add: new_assessment_inventory_def zero_assessment_inventory_def Let_def split: option.splits)

end
