(* ===== verification/Transactions.thy ===== *)
theory Transactions
  imports Database Inventory
begin

text \<open>
  The execution of a request (\<open>internal/store/transaction.go\<close> and the \<open>getDB\<close> methods of the
  stores). A request runs in a \<^emph>\<open>world\<close>: the committed tables, the tables as the open
  transaction sees them, and a counter of the steps the request has made. What the code cannot
  know is an argument, the \<^emph>\<open>environment\<close>: which database calls fail, the order of unordered
  results, the clock, the fresh identifiers, the IAM service, the third-party \<open>uuid\<close> text codec and the
  JSON codec of the stored inventories. All theorems hold for every environment unless they name a hypothesis on it.

  One request is modelled at a time. A failed \<open>COMMIT\<close> leaves the committed tables as they
  were. After a failed statement PostgreSQL refuses the rest of its transaction; here the
  later statements may fail or succeed as the environment says, which is more general.
\<close>

record env =
  fault :: "nat \<Rightarrow> bool"
  order :: "nat \<Rightarrow> nat \<Rightarrow> nat list"
  clock :: "nat \<Rightarrow> time"
  fresh :: "nat \<Rightarrow> uuid"
  uuid_str :: "uuid \<Rightarrow> string"
  uuid_parse :: "string \<Rightarrow> uuid option"
  iam_user_org :: "string \<Rightarrow> error + string"
  iam_account :: "string \<Rightarrow> error + string \<times> string"
  json_marshal :: "inventory \<Rightarrow> error + string"
  json_marshal_data :: "inventory_data option \<Rightarrow> error + string"
  json_unmarshal :: "string \<Rightarrow> error + inventory"
  json_unmarshal_data :: "string \<Rightarrow> error + inventory_data"
  json_keys :: "string \<Rightarrow> error + string list"

record user =
  u_username :: string
  u_organization :: string
  u_first_name :: string
  u_last_name :: string

text \<open>
  The context of a call: the authenticated user, whether the transaction key holds a
  transaction, and the owner flag. The \<open>Tx\<close> object the context points to lives in the world
  (\<open>open_tx\<close>; \<open>None\<close> is a \<open>Tx\<close> whose \<open>tx\<close> field is nil).
\<close>

record gocontext =
  ctx_user :: "user option"
  ctx_tx :: bool
  ctx_owner :: bool

record world =
  committed :: db
  open_tx :: "db option"
  tick :: nat

definition request_context :: "user \<Rightarrow> gocontext" where
  "request_context u = \<lparr>ctx_user = Some u, ctx_tx = False, ctx_owner = False\<rparr>"

definition start :: "db \<Rightarrow> world" where
  "start d = \<lparr>committed = d, open_tx = None, tick = 0\<rparr>"

subsection \<open>Sequencing\<close>

text \<open>
  A Go function that returns \<open>(value, error)\<close> is a function of the world. \<open>attempt m h k\<close> runs
  \<open>m\<close>, then \<open>h\<close> on its error or \<open>k\<close> on its value; \<open>bind\<close> is the case
  \<open>if err != nil { return err }\<close>.
\<close>

type_synonym 'a go = "world \<Rightarrow> (error + 'a) \<times> world"

definition ret :: "'a \<Rightarrow> 'a go" where
  "ret a w = (Inr a, w)"

definition raise :: "error \<Rightarrow> 'a go" where
  "raise e w = (Inl e, w)"

definition attempt :: "'a go \<Rightarrow> (error \<Rightarrow> 'b go) \<Rightarrow> ('a \<Rightarrow> 'b go) \<Rightarrow> 'b go" where
  "attempt m h k w = (case m w of (Inl e, w') \<Rightarrow> h e w' | (Inr a, w') \<Rightarrow> k a w')"

definition bind :: "'a go \<Rightarrow> ('a \<Rightarrow> 'b go) \<Rightarrow> 'b go" where
  "bind m k = attempt m raise k"

lemma bind_eq: "bind m k w = (case m w of (Inl e, w') \<Rightarrow> (Inl e, w') | (Inr a, w') \<Rightarrow> k a w')"
  by (simp add: bind_def attempt_def raise_def split: prod.splits sum.splits)

lemma bind_ret [simp]: "bind (ret a) k = k a"
  by (rule ext) (simp add: bind_eq ret_def)

lemma attempt_ret [simp]: "attempt (ret a) h k = k a"
  by (rule ext) (simp add: attempt_def ret_def)

lemma attempt_raise [simp]: "attempt (raise e) h k = h e"
  by (rule ext) (simp add: attempt_def raise_def)

text \<open>\<open>return x, err\<close> with the error wrapped or translated.\<close>

definition map_err :: "(error \<Rightarrow> error) \<Rightarrow> 'a go \<Rightarrow> 'a go" where
  "map_err f m = attempt m (\<lambda>e. raise (f e)) ret"

definition reject_if :: "bool \<Rightarrow> error \<Rightarrow> unit go" where
  "reject_if b e = (if b then raise e else ret ())"

text \<open>\<open>auth.MustHaveUser\<close>: a panic, as an error no caller handles.\<close>

definition must_have_user :: "gocontext \<Rightarrow> user go" where
  "must_have_user c = (case ctx_user c of
     Some u \<Rightarrow> ret u | None \<Rightarrow> raise (Panic ''failed to find user in context''))"

lemma must_have_user_request [simp]: "must_have_user (request_context u) = ret u"
  by (simp add: must_have_user_def request_context_def)

subsection \<open>The clock and fresh identifiers\<close>

definition time_now :: "env \<Rightarrow> time go" where
  "time_now E w = (Inr (clock E (tick w)), w\<lparr>tick := Suc (tick w)\<rparr>)"

definition uuid_new :: "env \<Rightarrow> uuid go" where
  "uuid_new E w = (Inr (fresh E (tick w)), w\<lparr>tick := Suc (tick w)\<rparr>)"

subsection \<open>Statements\<close>

definition from_context :: "gocontext \<Rightarrow> world \<Rightarrow> db option" where
  "from_context c w = (if ctx_tx c then open_tx w else None)"

text \<open>\<open>getDB\<close>: the transaction of the context, if it is still open, or else the database.\<close>

definition get_db :: "gocontext \<Rightarrow> world \<Rightarrow> db" where
  "get_db c w = (case from_context c w of Some d \<Rightarrow> d | None \<Rightarrow> committed w)"

definition put_db :: "gocontext \<Rightarrow> db \<Rightarrow> world \<Rightarrow> world" where
  "put_db c d w = (case from_context c w of
     Some _ \<Rightarrow> w\<lparr>open_tx := Some d\<rparr> | None \<Rightarrow> w\<lparr>committed := d\<rparr>)"

definition next_tick :: "world \<Rightarrow> world" where
  "next_tick w = w\<lparr>tick := Suc (tick w)\<rparr>"

abbreviation io_error :: error where "io_error \<equiv> DbError ''database error''"

definition query :: "env \<Rightarrow> gocontext \<Rightarrow> (nat \<Rightarrow> db \<Rightarrow> error + 'a) \<Rightarrow> 'a go" where
  "query E c f w =
     (if fault E (tick w) then (Inl io_error, next_tick w)
      else (f (tick w) (get_db c w), next_tick w))"

definition exec :: "env \<Rightarrow> gocontext \<Rightarrow> (db \<Rightarrow> error + db) \<Rightarrow> unit go" where
  "exec E c f w =
     (if fault E (tick w) then (Inl io_error, next_tick w)
      else (case f (get_db c w) of
              Inl e \<Rightarrow> (Inl e, next_tick w)
            | Inr d \<Rightarrow> (Inr (), put_db c d (next_tick w))))"

text \<open>\<open>Find\<close> with the filters of a query, in any order.\<close>

definition find_rows :: "env \<Rightarrow> nat \<Rightarrow> ('r \<Rightarrow> bool) \<Rightarrow> 'r list \<Rightarrow> 'r list" where
  "find_rows E t P rs = (let xs = filter P rs in reorder (order E t (length xs)) xs)"

lemma set_find_rows [simp]: "set (find_rows E t P rs) = {r \<in> set rs. P r}"
  by (auto simp: find_rows_def Let_def)

lemma mset_find_rows [simp]: "mset (find_rows E t P rs) = mset (filter P rs)"
  by (simp add: find_rows_def Let_def)

lemma length_find_rows: "length (find_rows E t P rs) = length (filter P rs)"
  by (simp add: find_rows_def Let_def)

lemma find_rows_Nil: "find_rows E t P rs = [] \<longleftrightarrow> (\<forall>r \<in> set rs. \<not> P r)"
  by (simp add: find_rows_def Let_def filter_empty_conv)

subsection \<open>Transactions\<close>

definition new_transaction :: "env \<Rightarrow> unit go" where
  "new_transaction E w =
     (if fault E (tick w) then (Inl io_error, next_tick w)
      else (Inr (), (next_tick w)\<lparr>open_tx := Some (committed w)\<rparr>))"

definition new_transaction_context :: "env \<Rightarrow> gocontext \<Rightarrow> gocontext go" where
  "new_transaction_context E c =
     (if ctx_tx c then ret (c\<lparr>ctx_owner := False\<rparr>)
      else bind (new_transaction E) (\<lambda>_. ret (c\<lparr>ctx_tx := True, ctx_owner := True\<rparr>)))"

definition tx_commit :: "env \<Rightarrow> unit go" where
  "tx_commit E w =
     (case open_tx w of
        None \<Rightarrow> (Inl TxNotStarted, w)
      | Some d \<Rightarrow>
          if fault E (tick w) then (Inl io_error, next_tick w)
          else (Inr (), (next_tick w)\<lparr>committed := d, open_tx := None\<rparr>))"

definition tx_rollback :: "env \<Rightarrow> unit go" where
  "tx_rollback E w =
     (case open_tx w of
        None \<Rightarrow> (Inl TxNotStarted, w)
      | Some d \<Rightarrow>
          if fault E (tick w) then (Inl io_error, next_tick w)
          else (Inr (), (next_tick w)\<lparr>open_tx := None\<rparr>))"

definition commit :: "env \<Rightarrow> gocontext \<Rightarrow> gocontext go" where
  "commit E c =
     (if \<not> ctx_tx c then ret c
      else if \<not> ctx_owner c then ret c
      else bind (tx_commit E) (\<lambda>_. ret (c\<lparr>ctx_tx := False\<rparr>)))"

definition rollback :: "env \<Rightarrow> gocontext \<Rightarrow> gocontext go" where
  "rollback E c =
     (if \<not> ctx_tx c then ret c
      else if \<not> ctx_owner c then ret c
      else bind (tx_rollback E) (\<lambda>_. ret (c\<lparr>ctx_tx := False\<rparr>)))"

text \<open>
  \<open>defer func() { _, _ = store.Rollback(ctx) }()\<close>: whatever the body returns, roll back and
  return it; the rollback's own error is dropped. After a commit the \<open>Tx\<close> is closed and the
  rollback does nothing.
\<close>

definition defer_rollback :: "env \<Rightarrow> gocontext \<Rightarrow> 'a go \<Rightarrow> 'a go" where
  "defer_rollback E c m w = (case m w of (r, w') \<Rightarrow> (r, snd (rollback E c w')))"

text \<open>The variant of \<open>Initialize\<close>: roll back only if an error is returned.\<close>

definition defer_rollback_on_error :: "env \<Rightarrow> gocontext \<Rightarrow> 'a go \<Rightarrow> 'a go" where
  "defer_rollback_on_error E c m w = (case m w of
     (Inl e, w') \<Rightarrow> (Inl e, snd (rollback E c w')) | (Inr a, w') \<Rightarrow> (Inr a, w'))"

text \<open>
  \<open>getDB(ctx).Transaction(func(tx) ...)\<close>: a transaction of its own, or a savepoint when the
  context has one. The body's error undoes what the body did.
\<close>

definition db_transaction :: "env \<Rightarrow> gocontext \<Rightarrow> 'a go \<Rightarrow> 'a go" where
  "db_transaction E c m w =
     (if fault E (tick w) then (Inl io_error, next_tick w)
      else case m (next_tick w) of
             (Inl e, w') \<Rightarrow> (Inl e, put_db c (get_db c w) w')
           | (Inr a, w') \<Rightarrow>
               if fault E (tick w') then (Inl io_error, put_db c (get_db c w) (next_tick w'))
               else (Inr a, next_tick w'))"

end
