(* ===== verification/Execution.thy ===== *)
theory Execution
  imports Transactions
begin

text \<open>
  Reasoning about requests: \<open>wp m w Q\<close> says that running \<open>m\<close> from \<open>w\<close> ends with a result and a
  world that satisfy \<open>Q\<close>. Its equations (\<open>wp_simps\<close>) run a handler symbolically. \<open>local_tx\<close> is
  the frame property of everything done through a context that holds an open transaction; the
  locale \<open>unit_of_work\<close> turns it into the all-or-nothing theorem of the transaction idiom.
\<close>

definition wp :: "'a go \<Rightarrow> world \<Rightarrow> (error + 'a \<Rightarrow> world \<Rightarrow> bool) \<Rightarrow> bool" where
  "wp m w Q = (case m w of (r, w') \<Rightarrow> Q r w')"

lemma wp_run: "wp m w Q \<longleftrightarrow> Q (fst (m w)) (snd (m w))"
  by (simp add: wp_def split: prod.splits)

lemma wp_mono: "wp m w P \<Longrightarrow> (\<And>r w'. P r w' \<Longrightarrow> Q r w') \<Longrightarrow> wp m w Q"
  by (simp add: wp_run)

lemma wpD: "wp m w Q \<Longrightarrow> m w = (r, w') \<Longrightarrow> Q r w'"
  by (simp add: wp_def)

lemma wpI: "(\<And>r w'. m w = (r, w') \<Longrightarrow> Q r w') \<Longrightarrow> wp m w Q"
  by (simp add: wp_def split: prod.splits)

lemma wp_ret: "wp (ret a) w Q = Q (Inr a) w"
  by (simp add: wp_def ret_def)

lemma wp_raise: "wp (raise e) w Q = Q (Inl e) w"
  by (simp add: wp_def raise_def)

lemma wp_attempt:
  "wp (attempt m h k) w Q =
     wp m w (\<lambda>r w'. (\<forall>e. r = Inl e \<longrightarrow> wp (h e) w' Q) \<and> (\<forall>a. r = Inr a \<longrightarrow> wp (k a) w' Q))"
  by (simp add: wp_def attempt_def split: prod.splits sum.splits)

lemma wp_bind:
  "wp (bind m k) w Q =
     wp m w (\<lambda>r w'. (\<forall>e. r = Inl e \<longrightarrow> Q (Inl e) w') \<and> (\<forall>a. r = Inr a \<longrightarrow> wp (k a) w' Q))"
  by (simp add: bind_def wp_attempt wp_raise)

lemma wp_map_err:
  "wp (map_err f m) w Q =
     wp m w (\<lambda>r w'. (\<forall>e. r = Inl e \<longrightarrow> Q (Inl (f e)) w') \<and> (\<forall>a. r = Inr a \<longrightarrow> Q (Inr a) w'))"
  by (simp add: map_err_def wp_attempt wp_raise wp_ret)

lemma wp_reject_if: "wp (reject_if b e) w Q = (if b then Q (Inl e) w else Q (Inr ()) w)"
  by (simp add: reject_if_def wp_raise wp_ret)

lemma wp_if: "wp (if b then m else n) w Q = (if b then wp m w Q else wp n w Q)"
  by simp

lemma wp_time_now: "wp (time_now E) w Q = Q (Inr (clock E (tick w))) (next_tick w)"
  by (simp add: wp_def time_now_def next_tick_def)

lemma wp_uuid_new: "wp (uuid_new E) w Q = Q (Inr (fresh E (tick w))) (next_tick w)"
  by (simp add: wp_def uuid_new_def next_tick_def)

lemma wp_query:
  "wp (query E c f) w Q =
     ((fault E (tick w) \<longrightarrow> Q (Inl io_error) (next_tick w)) \<and>
      (\<not> fault E (tick w) \<longrightarrow> Q (f (tick w) (get_db c w)) (next_tick w)))"
  by (simp add: wp_def query_def)

lemma wp_exec:
  "wp (exec E c f) w Q =
     ((fault E (tick w) \<longrightarrow> Q (Inl io_error) (next_tick w)) \<and>
      (\<not> fault E (tick w) \<longrightarrow>
        (\<forall>e. f (get_db c w) = Inl e \<longrightarrow> Q (Inl e) (next_tick w)) \<and>
        (\<forall>d. f (get_db c w) = Inr d \<longrightarrow> Q (Inr ()) (put_db c d (next_tick w)))))"
  by (simp add: wp_def exec_def split: sum.splits)

lemma wp_new_transaction:
  "wp (new_transaction E) w Q =
     ((fault E (tick w) \<longrightarrow> Q (Inl io_error) (next_tick w)) \<and>
      (\<not> fault E (tick w) \<longrightarrow> Q (Inr ()) ((next_tick w)\<lparr>open_tx := Some (committed w)\<rparr>)))"
  by (simp add: wp_def new_transaction_def)

lemma wp_tx_commit:
  "wp (tx_commit E) w Q =
     ((open_tx w = None \<longrightarrow> Q (Inl TxNotStarted) w) \<and>
      (\<forall>d. open_tx w = Some d \<longrightarrow>
        (fault E (tick w) \<longrightarrow> Q (Inl io_error) (next_tick w)) \<and>
        (\<not> fault E (tick w) \<longrightarrow> Q (Inr ()) ((next_tick w)\<lparr>committed := d, open_tx := None\<rparr>))))"
  by (simp add: wp_def tx_commit_def split: option.splits)

lemma wp_db_transaction:
  "wp (db_transaction E c m) w Q =
     ((fault E (tick w) \<longrightarrow> Q (Inl io_error) (next_tick w)) \<and>
      (\<not> fault E (tick w) \<longrightarrow>
        wp m (next_tick w) (\<lambda>r w'.
          (\<forall>e. r = Inl e \<longrightarrow> Q (Inl e) (put_db c (get_db c w) w')) \<and>
          (\<forall>a. r = Inr a \<longrightarrow>
             (fault E (tick w') \<longrightarrow> Q (Inl io_error) (put_db c (get_db c w) (next_tick w'))) \<and>
             (\<not> fault E (tick w') \<longrightarrow> Q (Inr a) (next_tick w'))))))"
  by (simp add: wp_def db_transaction_def split: prod.splits sum.splits)

text \<open>What a rollback leaves: the committed rows, and no open transaction unless it failed.\<close>

lemma committed_rollback [simp]: "committed (snd (rollback E c w)) = committed w"
  by (simp add: rollback_def bind_eq tx_rollback_def ret_def next_tick_def split: option.splits)

lemma wp_defer_rollback:
  "wp (defer_rollback E c m) w Q = wp m w (\<lambda>r w'. Q r (snd (rollback E c w')))"
  by (simp add: wp_def defer_rollback_def split: prod.splits)

lemma wp_defer_rollback_on_error:
  "wp (defer_rollback_on_error E c m) w Q =
     wp m w (\<lambda>r w'. (\<forall>e. r = Inl e \<longrightarrow> Q r (snd (rollback E c w'))) \<and> (\<forall>a. r = Inr a \<longrightarrow> Q r w'))"
  by (auto simp: wp_def defer_rollback_on_error_def split: prod.splits sum.splits)

lemmas wp_simps =
  wp_ret wp_raise wp_attempt wp_bind wp_map_err wp_reject_if wp_if wp_time_now wp_uuid_new
  wp_query wp_exec wp_new_transaction wp_tx_commit wp_defer_rollback wp_defer_rollback_on_error
  wp_db_transaction

subsection \<open>Reading and writing through a context\<close>

abbreviation tx_context :: "gocontext \<Rightarrow> gocontext" where
  "tx_context c \<equiv> c\<lparr>ctx_tx := True, ctx_owner := True\<rparr>"

lemma next_tick_simps [simp]:
  "committed (next_tick w) = committed w" "open_tx (next_tick w) = open_tx w"
  "get_db c (next_tick w) = get_db c w" "put_db c d (next_tick w) = next_tick (put_db c d w)"
  by (simp_all add: next_tick_def get_db_def put_db_def from_context_def split: option.splits)

lemma get_db_plain [simp]: "\<not> ctx_tx c \<Longrightarrow> get_db c w = committed w"
  by (simp add: get_db_def from_context_def)

lemma put_db_plain [simp]: "\<not> ctx_tx c \<Longrightarrow> put_db c d w = w\<lparr>committed := d\<rparr>"
  by (simp add: put_db_def from_context_def)

lemma get_db_tx [simp]: "ctx_tx c \<Longrightarrow> open_tx w = Some d \<Longrightarrow> get_db c w = d"
  by (simp add: get_db_def from_context_def)

lemma put_db_tx [simp]: "ctx_tx c \<Longrightarrow> open_tx w = Some d' \<Longrightarrow> put_db c d w = w\<lparr>open_tx := Some d\<rparr>"
  by (simp add: put_db_def from_context_def)

lemma get_put_db [simp]: "get_db c (put_db c d w) = d"
  by (simp add: get_db_def put_db_def from_context_def split: option.splits)

lemma put_get_db [simp]: "put_db c (get_db c w) w = w"
  by (auto simp: put_db_def get_db_def from_context_def split: option.splits)

lemma put_db_twice [simp]: "put_db c d' (put_db c d w) = put_db c d' w"
  by (simp add: put_db_def from_context_def split: option.splits)

lemma request_context_simps [simp]:
  "\<not> ctx_tx (request_context u)" "\<not> ctx_owner (request_context u)"
  "ctx_user (request_context u) = Some u"
  by (simp_all add: request_context_def)

lemma must_have_user_simps [simp]:
  "ctx_user c = Some u \<Longrightarrow> must_have_user c = ret u"
  by (simp add: must_have_user_def)

lemma wp_new_transaction_context:
  "wp (new_transaction_context E c) w Q =
     (if ctx_tx c then Q (Inr (c\<lparr>ctx_owner := False\<rparr>)) w
      else (fault E (tick w) \<longrightarrow> Q (Inl io_error) (next_tick w)) \<and>
           (\<not> fault E (tick w) \<longrightarrow>
              Q (Inr (tx_context c)) ((next_tick w)\<lparr>open_tx := Some (committed w)\<rparr>)))"
  by (simp add: new_transaction_context_def wp_simps)

lemma wp_commit_owner:
  "ctx_tx c \<Longrightarrow> ctx_owner c \<Longrightarrow> open_tx w = Some d \<Longrightarrow>
   wp (commit E c) w Q =
     ((fault E (tick w) \<longrightarrow> Q (Inl io_error) (next_tick w)) \<and>
      (\<not> fault E (tick w) \<longrightarrow>
         Q (Inr (c\<lparr>ctx_tx := False\<rparr>)) ((next_tick w)\<lparr>committed := d, open_tx := None\<rparr>)))"
  by (simp add: commit_def wp_simps)

lemma wp_commit_joined: "\<not> ctx_owner c \<Longrightarrow> wp (commit E c) w Q = Q (Inr c) w"
  by (simp add: commit_def wp_simps)

subsection \<open>Reads\<close>

definition readonly :: "'a go \<Rightarrow> bool" where
  "readonly m \<longleftrightarrow> (\<forall>w. wp m w (\<lambda>r w'. committed w' = committed w \<and> open_tx w' = open_tx w))"

lemma readonlyD:
  "readonly m \<Longrightarrow> committed w = d \<Longrightarrow> open_tx w = x \<Longrightarrow>
     wp m w (\<lambda>r w'. committed w' = d \<and> open_tx w' = x)"
  by (auto simp: readonly_def)

lemma readonly_run: "readonly m \<Longrightarrow> m w = (r, w') \<Longrightarrow> committed w' = committed w \<and> open_tx w' = open_tx w"
  unfolding readonly_def wp_run by (metis snd_conv)

lemma readonly_ret [readonly_intro]: "readonly (ret a)"
  and readonly_raise [readonly_intro]: "readonly (raise e)"
  and readonly_reject_if [readonly_intro]: "readonly (reject_if b e)"
  and readonly_time_now [readonly_intro]: "readonly (time_now E)"
  and readonly_uuid_new [readonly_intro]: "readonly (uuid_new E)"
  and readonly_query [readonly_intro]: "readonly (query E c f)"
  and readonly_must_have_user [readonly_intro]: "readonly (must_have_user c)"
  by (auto simp: readonly_def wp_simps must_have_user_def split: option.splits)

lemma readonly_attempt [readonly_intro]:
  assumes "readonly m" "\<And>e. readonly (h e)" "\<And>a. readonly (k a)"
  shows "readonly (attempt m h k)"
  unfolding readonly_def wp_attempt
proof
  fix w
  show "wp m w (\<lambda>r w'.
          (\<forall>e. r = Inl e \<longrightarrow> wp (h e) w' (\<lambda>r w'. committed w' = committed w \<and> open_tx w' = open_tx w)) \<and>
          (\<forall>a. r = Inr a \<longrightarrow> wp (k a) w' (\<lambda>r w'. committed w' = committed w \<and> open_tx w' = open_tx w)))"
    by (rule wp_mono [OF readonlyD [OF assms(1) refl refl]]) (blast intro: readonlyD assms(2,3))
qed

lemma readonly_bind [readonly_intro]:
  "readonly m \<Longrightarrow> (\<And>a. readonly (k a)) \<Longrightarrow> readonly (bind m k)"
  by (simp add: bind_def readonly_attempt readonly_raise)

lemma readonly_map_err [readonly_intro]: "readonly m \<Longrightarrow> readonly (map_err f m)"
  by (simp add: map_err_def readonly_attempt readonly_raise readonly_ret)

lemma readonly_if [readonly_intro]: "readonly m \<Longrightarrow> readonly n \<Longrightarrow> readonly (if b then m else n)"
  by simp

subsection \<open>Operations inside a transaction\<close>

definition local_tx :: "gocontext \<Rightarrow> 'a go \<Rightarrow> bool" where
  "local_tx c m \<longleftrightarrow>
     (\<forall>w d. ctx_tx c \<longrightarrow> open_tx w = Some d \<longrightarrow>
        wp m w (\<lambda>r w'. committed w' = committed w \<and> open_tx w' \<noteq> None))"

lemma local_txI:
  "(\<And>w d. ctx_tx c \<Longrightarrow> open_tx w = Some d \<Longrightarrow>
      wp m w (\<lambda>r w'. committed w' = committed w \<and> open_tx w' \<noteq> None)) \<Longrightarrow> local_tx c m"
  by (simp add: local_tx_def)

lemma local_txD:
  "local_tx c m \<Longrightarrow> ctx_tx c \<Longrightarrow> open_tx w = Some d \<Longrightarrow>
     wp m w (\<lambda>r w'. committed w' = committed w \<and> open_tx w' \<noteq> None)"
  by (simp add: local_tx_def)

lemma wp_local:
  "local_tx c m \<Longrightarrow> ctx_tx c \<Longrightarrow> committed w = d \<Longrightarrow> open_tx w \<noteq> None \<Longrightarrow>
     wp m w (\<lambda>r w'. committed w' = d \<and> open_tx w' \<noteq> None)"
  by (auto simp: local_tx_def)

lemma local_readonly: "readonly m \<Longrightarrow> local_tx c m"
  by (auto simp: readonly_def local_tx_def wp_run)

lemma local_ret [local_intro]: "local_tx c (ret a)"
  and local_raise [local_intro]: "local_tx c (raise e)"
  and local_reject_if [local_intro]: "local_tx c (reject_if b e)"
  and local_time_now [local_intro]: "local_tx c (time_now E)"
  and local_uuid_new [local_intro]: "local_tx c (uuid_new E)"
  and local_query [local_intro]: "local_tx c (query E c f)"
  and local_must_have_user [local_intro]: "local_tx c (must_have_user c')"
  by (auto simp: local_tx_def wp_simps must_have_user_def split: option.splits)

lemma local_exec [local_intro]: "local_tx c (exec E c f)"
  by (rule local_txI) (simp add: wp_simps)

lemma local_attempt [local_intro]:
  assumes "local_tx c m" "\<And>e. local_tx c (h e)" "\<And>a. local_tx c (k a)"
  shows "local_tx c (attempt m h k)"
proof (rule local_txI)
  fix w :: world and d
  assume c: "ctx_tx c" and "open_tx w = Some d"
  with assms(1) have m: "wp m w (\<lambda>r w'. committed w' = committed w \<and> open_tx w' \<noteq> None)"
    by (rule local_txD)
  show "wp (attempt m h k) w (\<lambda>r w'. committed w' = committed w \<and> open_tx w' \<noteq> None)"
    unfolding wp_attempt
    by (rule wp_mono [OF m]) (blast intro: wp_local assms(2,3) c)
qed

lemma local_bind [local_intro]:
  "local_tx c m \<Longrightarrow> (\<And>a. local_tx c (k a)) \<Longrightarrow> local_tx c (bind m k)"
  by (simp add: bind_def local_attempt local_raise)

lemma local_map_err [local_intro]: "local_tx c m \<Longrightarrow> local_tx c (map_err f m)"
  by (simp add: map_err_def local_attempt local_raise local_ret)

lemma local_if [local_intro]: "local_tx c m \<Longrightarrow> local_tx c n \<Longrightarrow> local_tx c (if b then m else n)"
  by simp

lemma local_db_transaction [local_intro]:
  assumes "local_tx c m"
  shows "local_tx c (db_transaction E c m)"
proof (rule local_txI)
  fix w :: world and d
  assume c: "ctx_tx c" and d: "open_tx w = Some d"
  then have "wp m (next_tick w) (\<lambda>r w'. committed w' = committed (next_tick w) \<and> open_tx w' \<noteq> None)"
    by (intro local_txD [OF assms]) simp_all
  then show "wp (db_transaction E c m) w (\<lambda>r w'. committed w' = committed w \<and> open_tx w' \<noteq> None)"
    unfolding wp_db_transaction using c d by (auto simp: wp_run)
qed

text \<open>A nested scope joins the transaction: it neither commits nor rolls back.\<close>

lemma local_join [local_intro]:
  assumes "\<And>c'. ctx_tx c' = ctx_tx c \<Longrightarrow> ctx_user c' = ctx_user c \<Longrightarrow> \<not> ctx_owner c' \<Longrightarrow> local_tx c' (body c')"
    and "ctx_tx c"
  shows "local_tx c (bind (new_transaction_context E c) body)"
proof -
  have "local_tx (c\<lparr>ctx_owner := False\<rparr>) (body (c\<lparr>ctx_owner := False\<rparr>))"
    by (rule assms(1)) simp_all
  with \<open>ctx_tx c\<close> show ?thesis
    by (simp add: new_transaction_context_def local_tx_def)
qed

lemma local_defer_joined [local_intro]:
  "\<not> ctx_owner c' \<Longrightarrow> local_tx c m \<Longrightarrow> local_tx c (defer_rollback E c' m)"
  by (simp add: local_tx_def wp_simps rollback_def ret_def)

lemma local_commit_joined [local_intro]: "\<not> ctx_owner c' \<Longrightarrow> local_tx c (commit E c')"
  by (simp add: local_tx_def wp_commit_joined)

subsection \<open>The transaction idiom\<close>

text \<open>
  \<open>ctx, err := NewTransactionContext(ctx); defer Rollback(ctx); \<dots>; Commit(ctx)\<close>: \<open>tx_scope\<close> of
  a body that does the work, and the value returned after the commit.
\<close>

definition tx_scope :: "env \<Rightarrow> gocontext \<Rightarrow> (gocontext \<Rightarrow> 'a go) \<Rightarrow> 'a go" where
  "tx_scope E c body =
     bind (new_transaction_context E c) (\<lambda>c'.
       defer_rollback E c' (bind (body c') (\<lambda>a. bind (commit E c') (\<lambda>_. ret a))))"

text \<open>Some database call of the run may fail.\<close>

definition faulty :: "env \<Rightarrow> bool" where
  "faulty E \<longleftrightarrow> (\<exists>t. fault E t)"

lemma faultyI [intro, simp]: "fault E t \<Longrightarrow> faulty E"
  by (auto simp: faulty_def)

locale unit_of_work =
  fixes E :: env
    and c :: gocontext
    and body :: "gocontext \<Rightarrow> 'a go"
  assumes outermost: "\<not> ctx_tx c"
    and body_local: "local_tx (tx_context c) (body (tx_context c))"
begin

text \<open>
  The scope either fails and leaves the committed rows as they were, or succeeds and the
  committed rows are those the body reached from them in its transaction.
\<close>

lemma scope_wp:
  "wp (tx_scope E c body) w (\<lambda>r w'.
     (case r of
        Inl e \<Rightarrow> committed w' = committed w
      | Inr a \<Rightarrow> (\<exists>wi wf. committed wi = committed w \<and> open_tx wi = Some (committed w) \<and>
           body (tx_context c) wi = (Inr a, wf) \<and> open_tx wf = Some (committed w'))))"
proof (cases "fault E (tick w)")
  case True
  with outermost show ?thesis
    by (simp add: tx_scope_def wp_bind wp_new_transaction_context)
next
  case False
  let ?wi = "(next_tick w)\<lparr>open_tx := Some (committed w)\<rparr>"
  obtain r wf where run: "body (tx_context c) ?wi = (r, wf)"
    by (cases "body (tx_context c) ?wi")
  have "wp (body (tx_context c)) ?wi
          (\<lambda>r w'. committed w' = committed ?wi \<and> open_tx w' \<noteq> None)"
    by (rule local_txD [OF body_local]) simp_all
  then have wf: "committed wf = committed w" "open_tx wf \<noteq> None"
    using run by (simp_all add: wp_def)
  then obtain d where d: "open_tx wf = Some d" by blast
  show ?thesis
  proof (cases r)
    case (Inl e)
    with outermost False run wf show ?thesis
      by (simp add: tx_scope_def wp_bind wp_new_transaction_context wp_defer_rollback
            wp_def [of "body (tx_context c)"])
  next
    case (Inr a)
    have b: "body (tx_context c) ?wi = (Inr a, wf)" using run Inr by simp
    show ?thesis
    proof (cases "fault E (tick wf)")
      case True
      with outermost False b wf d show ?thesis
        by (simp add: tx_scope_def wp_bind wp_new_transaction_context wp_defer_rollback
              wp_def [of "body (tx_context c)"] wp_commit_owner wp_ret)
    next
      case not_fault: False
      have "\<exists>wi. committed wi = committed w \<and> open_tx wi = Some (committed w) \<and>
              (\<exists>wf. body (tx_context c) wi = (Inr a, wf) \<and> open_tx wf = Some d)"
        using b d by (intro exI [of _ ?wi]) simp
      with outermost False b wf d not_fault show ?thesis
        by (simp add: tx_scope_def wp_bind wp_new_transaction_context wp_defer_rollback
              wp_def [of "body (tx_context c)"] wp_commit_owner wp_ret)
    qed
  qed
qed

lemma all_or_nothing:
  assumes "tx_scope E c body w = (Inl e, w')"
  shows "committed w' = committed w"
  using wpD [OF scope_wp assms] by simp

text \<open>The same as a rule about what the caller sees: the result and the committed rows.\<close>

lemma scope_rule:
  assumes fails: "\<And>e. faulty E \<Longrightarrow> P (Inl e) (committed w)"
    and body: "\<And>wi. committed wi = committed w \<Longrightarrow> open_tx wi = Some (committed w) \<Longrightarrow>
      wp (body (tx_context c)) wi (\<lambda>r wf. (\<forall>e. r = Inl e \<longrightarrow> P (Inl e) (committed w)) \<and>
        (\<forall>a d. r = Inr a \<longrightarrow> open_tx wf = Some d \<longrightarrow> P (Inr a) d))"
  shows "wp (tx_scope E c body) w (\<lambda>r w'. P r (committed w'))"
proof (cases "fault E (tick w)")
  case True
  with outermost fails show ?thesis
    by (auto simp: tx_scope_def wp_bind wp_new_transaction_context)
next
  case False
  let ?wi = "(next_tick w)\<lparr>open_tx := Some (committed w)\<rparr>"
  have "wp (body (tx_context c)) ?wi (\<lambda>r wf. committed wf = committed w \<and>
      (\<exists>d. open_tx wf = Some d \<and> (\<forall>e. r = Inl e \<longrightarrow> P (Inl e) (committed w)) \<and>
           (\<forall>a. r = Inr a \<longrightarrow> P (Inr a) d)))"
    using body [of ?wi] local_txD [OF body_local, of ?wi "committed w"]
    by (auto simp: wp_run)
  then have "wp (body (tx_context c)) ?wi (\<lambda>r w'.
      (\<forall>e. r = Inl e \<longrightarrow> P (Inl e) (committed w')) \<and>
      (\<forall>a. r = Inr a \<longrightarrow> wp (commit E (tx_context c)) w' (\<lambda>r w'.
         (\<forall>e. r = Inl e \<longrightarrow> P (Inl e) (committed w')) \<and>
         (\<forall>c'. r = Inr c' \<longrightarrow> P (Inr a) (committed w')))))"
    by (rule wp_mono) (use fails in \<open>auto simp: wp_commit_owner\<close>)
  with outermost False show ?thesis
    by (simp add: tx_scope_def wp_bind wp_new_transaction_context wp_defer_rollback wp_ret)
qed

end

subsection \<open>Refinement of an atomic specification\<close>

text \<open>
  The specification of a request relates the rows before it to its outcome: an error, or a value
  and the rows after it. A request refines it if, whatever the schedule of database failures, the
  caller sees an outcome of the specification, or an error after a failure; and an error always
  leaves the committed rows alone.
\<close>

definition outcome ::
    "env \<Rightarrow> (db \<Rightarrow> error + 'a \<times> db \<Rightarrow> bool) \<Rightarrow> db \<Rightarrow> error + 'a \<Rightarrow> db \<Rightarrow> bool" where
  "outcome E S d r d' \<longleftrightarrow> (case r of
     Inl e \<Rightarrow> d' = d \<and> (faulty E \<or> S d (Inl e))
   | Inr a \<Rightarrow> S d (Inr (a, d')))"

definition refines :: "env \<Rightarrow> 'a go \<Rightarrow> (db \<Rightarrow> error + 'a \<times> db \<Rightarrow> bool) \<Rightarrow> bool" where
  "refines E m S \<longleftrightarrow> (\<forall>w. wp m w (\<lambda>r w'. outcome E S (committed w) r (committed w')))"

lemma outcome_simps [simp]:
  "outcome E S d (Inl e) d' \<longleftrightarrow> d' = d \<and> (faulty E \<or> S d (Inl e))"
  "outcome E S d (Inr a) d' \<longleftrightarrow> S d (Inr (a, d'))"
  by (simp_all add: outcome_def)

lemma refinesI:
  "(\<And>w. wp m w (\<lambda>r w'. outcome E S (committed w) r (committed w'))) \<Longrightarrow> refines E m S"
  by (simp add: refines_def)

lemma refines_run:
  assumes "refines E m S" "m w = (r, w')"
  shows "outcome E S (committed w) r (committed w')"
  using assms wpD unfolding refines_def by fastforce

lemma refines_at:
  assumes "refines E m S" "committed w = d" "\<And>out. S d out \<Longrightarrow> S' d out"
  shows "wp m w (\<lambda>r w'. outcome E S' d r (committed w'))"
proof -
  have "wp m w (\<lambda>r w'. outcome E S d r (committed w'))"
    using assms(1,2) unfolding refines_def by blast
  then show ?thesis
    by (rule wp_mono) (use assms(3) in \<open>auto simp: outcome_def split: sum.splits\<close>)
qed

lemma refines_error: "refines E m S \<Longrightarrow> m w = (Inl e, w') \<Longrightarrow> committed w' = committed w"
  using refines_run by fastforce

lemma refines_value: "refines E m S \<Longrightarrow> m w = (Inr a, w') \<Longrightarrow> S (committed w) (Inr (a, committed w'))"
  using refines_run by fastforce

subsection \<open>What a read observes\<close>

definition observes :: "gocontext \<Rightarrow> 'a go \<Rightarrow> (db \<Rightarrow> error + 'a \<Rightarrow> bool) \<Rightarrow> bool" where
  "observes c m R \<longleftrightarrow> (\<forall>w. wp m w (\<lambda>r w'.
     committed w' = committed w \<and> open_tx w' = open_tx w \<and> R (get_db c w) r))"

lemma get_db_cong: "committed w' = committed w \<Longrightarrow> open_tx w' = open_tx w \<Longrightarrow> get_db c w' = get_db c w"
  by (simp add: get_db_def from_context_def split: option.splits)

lemma observes_wp:
  assumes "observes c m R"
    and "\<And>r w'. committed w' = committed w \<Longrightarrow> open_tx w' = open_tx w \<Longrightarrow> R (get_db c w) r \<Longrightarrow> Q r w'"
  shows "wp m w Q"
  by (rule wp_mono [OF assms(1) [unfolded observes_def, rule_format]]) (blast intro: assms(2))

lemma observes_readonly: "observes c m R \<Longrightarrow> readonly m"
  by (simp add: observes_def readonly_def wp_run)

lemma observesI:
  assumes "readonly m" "\<And>w. wp m w (\<lambda>r w'. R (get_db c w) r)"
  shows "observes c m R"
  using assms unfolding observes_def readonly_def wp_run by blast

lemma observes_refines:
  assumes "observes c m R" "\<not> ctx_tx c"
    and "\<And>d r. R d r \<Longrightarrow> outcome E S d r d"
  shows "refines E m S"
  by (rule refinesI, rule observes_wp [OF assms(1)]) (use assms(2,3) in simp)

definition same_rows :: "world \<Rightarrow> world \<Rightarrow> bool" where
  "same_rows w w' \<longleftrightarrow> committed w' = committed w \<and> open_tx w' = open_tx w"

lemma same_rows_simps [simp]: "same_rows w w" "same_rows w (next_tick w') = same_rows w w'"
  by (simp_all add: same_rows_def)

lemma same_rows_get_db: "same_rows w w' \<Longrightarrow> get_db c w' = get_db c w"
  unfolding same_rows_def by (rule get_db_cong) simp_all

lemma same_rows_put_db: "same_rows w w' \<Longrightarrow> same_rows (put_db c d w) (put_db c d w')"
  by (auto simp: same_rows_def put_db_def from_context_def split: option.splits)

lemma wp_bind_observed:
  assumes "observes c m R"
    and "\<And>e w'. same_rows w w' \<Longrightarrow> R (get_db c w) (Inl e) \<Longrightarrow> Q (Inl e) w'"
    and "\<And>a w'. same_rows w w' \<Longrightarrow> R (get_db c w) (Inr a) \<Longrightarrow> wp (k a) w' Q"
  shows "wp (bind m k) w Q"
  unfolding wp_bind
  by (rule observes_wp [OF assms(1)]) (auto simp: same_rows_def intro: assms(2,3))

lemma observes_map_err:
  assumes "observes c m R" "\<And>d e. R d (Inl e) \<Longrightarrow> S d (Inl (f e))" "\<And>d a. R d (Inr a) \<Longrightarrow> S d (Inr a)"
  shows "observes c (map_err f m) S"
  unfolding observes_def wp_map_err
  by (intro allI, rule observes_wp [OF assms(1)]) (use assms(2,3) in auto)

lemma observes_mono:
  "observes c m R \<Longrightarrow> (\<And>d r. R d r \<Longrightarrow> S d r) \<Longrightarrow> observes c m S"
  by (fastforce simp: observes_def wp_run)

subsection \<open>Composing refinements\<close>

text \<open>A request that only reads, a request behind a guard, and a request that is one statement.\<close>

definition reads :: "(db \<Rightarrow> error + 'a \<Rightarrow> bool) \<Rightarrow> db \<Rightarrow> error + 'a \<times> db \<Rightarrow> bool" where
  "reads R d out \<longleftrightarrow> (case out of Inl e \<Rightarrow> R d (Inl e) | Inr (a, d') \<Rightarrow> d' = d \<and> R d (Inr a))"

definition guarded :: "(db \<Rightarrow> bool) \<Rightarrow> error \<Rightarrow> (db \<Rightarrow> error + 'a \<times> db \<Rightarrow> bool) \<Rightarrow>
    db \<Rightarrow> error + 'a \<times> db \<Rightarrow> bool" where
  "guarded P e S d out \<longleftrightarrow> (if P d then S d out else out = Inl e)"

definition executes :: "(db \<Rightarrow> error + db) \<Rightarrow> (error \<Rightarrow> error) \<Rightarrow> 'a \<Rightarrow> db \<Rightarrow> error + 'a \<times> db" where
  "executes f err a d = (case f d of Inl e \<Rightarrow> Inl (err e) | Inr d' \<Rightarrow> Inr (a, d'))"

lemma executes_Inl: "f d = Inl e \<Longrightarrow> e' = err e \<Longrightarrow> Inl e' = executes f err a d"
  and executes_Inr: "f d = Inr d' \<Longrightarrow> Inr (a, d') = executes f err a d"
  by (simp_all add: executes_def)

lemma reads_simps [simp]:
  "reads R d (Inl e) \<longleftrightarrow> R d (Inl e)" "reads R d (Inr (a, d')) \<longleftrightarrow> d' = d \<and> R d (Inr a)"
  by (simp_all add: reads_def)

lemma refines_reads:
  assumes "observes c m (\<lambda>d r. (isl r \<and> faulty E) \<or> R d r)" "\<not> ctx_tx c"
  shows "refines E m (reads R)"
  by (rule observes_refines [OF assms]) (auto simp: outcome_def isl_def split: sum.splits)

lemma refines_guard:
  assumes "observes c g (\<lambda>d r. case r of Inl e' \<Rightarrow> faulty E \<or> \<not> P d \<and> e' = e | Inr (_ :: 'b) \<Rightarrow> P d)"
    and c: "\<not> ctx_tx c" and m: "refines E m S"
  shows "refines E (bind g (\<lambda>_. m)) (guarded P e S)"
proof (rule refinesI)
  fix w
  show "wp (bind g (\<lambda>_. m)) w (\<lambda>r w'. outcome E (guarded P e S) (committed w) r (committed w'))"
    unfolding wp_bind
  proof (rule observes_wp [OF assms(1)])
    fix r and w' :: world
    assume same: "committed w' = committed w"
      and g: "case r of Inl e' \<Rightarrow> faulty E \<or> \<not> P (get_db c w) \<and> e' = e | Inr _ \<Rightarrow> P (get_db c w)"
    have "wp m w' (\<lambda>r w''. outcome E S (committed w) r (committed w''))"
      using m same unfolding refines_def by metis
    then have "P (committed w) \<Longrightarrow>
        wp m w' (\<lambda>r w''. outcome E (guarded P e S) (committed w) r (committed w''))"
      by (rule wp_mono) (simp add: outcome_def guarded_def split: sum.splits)
    with g same c show
      "(\<forall>e'. r = Inl e' \<longrightarrow> outcome E (guarded P e S) (committed w) (Inl e') (committed w')) \<and>
       (\<forall>a. r = Inr a \<longrightarrow>
          wp m w' (\<lambda>r w''. outcome E (guarded P e S) (committed w) r (committed w'')))"
      by (auto simp: guarded_def)
  qed
qed

end
