(* ===== verification/Filters.thy ===== *)
theory Filters
  imports Transactions
begin

text \<open>
  \<open>internal/store/options.go\<close>: the query filters. A filter collects the conditions that the
  store adds to its query, so it is the list of the predicates of a row; the query returns the
  rows that satisfy all of them. A comparison with a text column goes through the string form
  \<open>us\<close> of the identifier.
\<close>

type_synonym 'r query_filter = "('r \<Rightarrow> bool) list"

definition new_query_filter :: "'r query_filter" where
  "new_query_filter = []"

definition satisfies :: "'r query_filter option \<Rightarrow> 'r \<Rightarrow> bool" where
  "satisfies qf r = (case qf of None \<Rightarrow> True | Some fs \<Rightarrow> list_all (\<lambda>f. f r) fs)"

lemma satisfies_simps [simp]:
  "satisfies None r"
  "satisfies (Some new_query_filter) r"
  "satisfies (Some (fs @ [f])) r \<longleftrightarrow> satisfies (Some fs) r \<and> f r"
  by (auto simp: satisfies_def new_query_filter_def)

subsection \<open>Partner requests\<close>

definition partner_by_id ::
    "uuid \<Rightarrow> partner_customer query_filter \<Rightarrow> partner_customer query_filter" where
  "partner_by_id i f = f @ [\<lambda>r. pc_id r = i]"

definition partner_by_username ::
    "string \<Rightarrow> partner_customer query_filter \<Rightarrow> partner_customer query_filter" where
  "partner_by_username u f = f @ [\<lambda>r. pc_username r = u]"

definition partner_by_partner_id ::
    "string \<Rightarrow> partner_customer query_filter \<Rightarrow> partner_customer query_filter" where
  "partner_by_partner_id p f = f @ [\<lambda>r. pc_partner_id r = p]"

definition partner_by_status ::
    "string \<Rightarrow> partner_customer query_filter \<Rightarrow> partner_customer query_filter" where
  "partner_by_status s f = f @ [\<lambda>r. pc_request_status r = s]"

definition partner_by_active_status ::
    "partner_customer query_filter \<Rightarrow> partner_customer query_filter" where
  "partner_by_active_status f =
     f @ [\<lambda>r. pc_request_status r \<in> set [RequestStatusPending, RequestStatusAccepted]]"

lemma partner_filter_simps [simp]:
  "satisfies (Some (partner_by_id i f)) r \<longleftrightarrow> satisfies (Some f) r \<and> pc_id r = i"
  "satisfies (Some (partner_by_username u f)) r \<longleftrightarrow> satisfies (Some f) r \<and> pc_username r = u"
  "satisfies (Some (partner_by_partner_id p f)) r \<longleftrightarrow> satisfies (Some f) r \<and> pc_partner_id r = p"
  "satisfies (Some (partner_by_status s f)) r \<longleftrightarrow> satisfies (Some f) r \<and> pc_request_status r = s"
  "satisfies (Some (partner_by_active_status f)) r \<longleftrightarrow>
     satisfies (Some f) r \<and> active_status (pc_request_status r)"
  by (simp_all add: partner_by_id_def partner_by_username_def partner_by_partner_id_def
      partner_by_status_def partner_by_active_status_def active_status_def)

subsection \<open>Groups and members\<close>

definition group_by_kind :: "string \<Rightarrow> group query_filter \<Rightarrow> group query_filter" where
  "group_by_kind k f = f @ [\<lambda>g. g_kind g = k]"

definition group_by_parent_id :: "uuid \<Rightarrow> group query_filter \<Rightarrow> group query_filter" where
  "group_by_parent_id i f = f @ [\<lambda>g. g_parent_id g = Some i]"

definition group_by_name :: "string \<Rightarrow> group query_filter \<Rightarrow> group query_filter" where
  "group_by_name n f = f @ [\<lambda>g. ilike (''%'' @ n @ ''%'') (g_name g)]"

definition group_by_company :: "string \<Rightarrow> group query_filter \<Rightarrow> group query_filter" where
  "group_by_company n f = f @ [\<lambda>g. ilike (''%'' @ n @ ''%'') (g_company g)]"

definition member_by_group_id :: "uuid \<Rightarrow> member query_filter \<Rightarrow> member query_filter" where
  "member_by_group_id i f = f @ [\<lambda>m. m_group_id m = i]"

lemma group_filter_simps [simp]:
  "satisfies (Some (group_by_kind k f)) g \<longleftrightarrow> satisfies (Some f) g \<and> g_kind g = k"
  "satisfies (Some (group_by_parent_id i f)) g \<longleftrightarrow> satisfies (Some f) g \<and> g_parent_id g = Some i"
  "satisfies (Some (group_by_name n f)) g \<longleftrightarrow>
     satisfies (Some f) g \<and> ilike (''%'' @ n @ ''%'') (g_name g)"
  "satisfies (Some (group_by_company n f)) g \<longleftrightarrow>
     satisfies (Some f) g \<and> ilike (''%'' @ n @ ''%'') (g_company g)"
  by (simp_all only: group_by_kind_def group_by_parent_id_def group_by_name_def
      group_by_company_def satisfies_simps)

lemma member_filter_simps [simp]:
  "satisfies (Some (member_by_group_id i h)) m \<longleftrightarrow> satisfies (Some h) m \<and> m_group_id m = i"
  by (simp add: member_by_group_id_def)

subsection \<open>Assessments\<close>

definition assessment_with_ids ::
    "uuid list \<Rightarrow> assessment_row query_filter \<Rightarrow> assessment_row query_filter" where
  "assessment_with_ids ids f = f @ [\<lambda>a. a_id a \<in> set ids]"

definition assessment_with_username ::
    "string \<Rightarrow> assessment_row query_filter \<Rightarrow> assessment_row query_filter" where
  "assessment_with_username u f = f @ [\<lambda>a. a_username a = u]"

definition assessment_with_org_id ::
    "string \<Rightarrow> assessment_row query_filter \<Rightarrow> assessment_row query_filter" where
  "assessment_with_org_id i f = f @ [\<lambda>a. a_org_id a = i]"

definition assessment_with_source_type ::
    "string \<Rightarrow> assessment_row query_filter \<Rightarrow> assessment_row query_filter" where
  "assessment_with_source_type s f = f @ [\<lambda>a. a_source_type a = s]"

definition assessment_with_source_id ::
    "(uuid \<Rightarrow> string) \<Rightarrow> string \<Rightarrow> assessment_row query_filter \<Rightarrow> assessment_row query_filter" where
  "assessment_with_source_id us i f = f @ [\<lambda>a. map_option us (a_source_id a) = Some i]"

definition assessment_with_name_like ::
    "string \<Rightarrow> assessment_row query_filter \<Rightarrow> assessment_row query_filter" where
  "assessment_with_name_like pat f = f @ [\<lambda>a. ilike (''%'' @ pat @ ''%'') (a_name a)]"

lemma assessment_filter_simps [simp]:
  "satisfies (Some (assessment_with_ids ids f)) a \<longleftrightarrow> satisfies (Some f) a \<and> a_id a \<in> set ids"
  "satisfies (Some (assessment_with_username u f)) a \<longleftrightarrow> satisfies (Some f) a \<and> a_username a = u"
  "satisfies (Some (assessment_with_org_id i f)) a \<longleftrightarrow> satisfies (Some f) a \<and> a_org_id a = i"
  "satisfies (Some (assessment_with_source_type s f)) a \<longleftrightarrow>
     satisfies (Some f) a \<and> a_source_type a = s"
  "satisfies (Some (assessment_with_source_id us i f)) a \<longleftrightarrow>
     satisfies (Some f) a \<and> map_option us (a_source_id a) = Some i"
  "satisfies (Some (assessment_with_name_like pat f)) a \<longleftrightarrow>
     satisfies (Some f) a \<and> ilike (''%'' @ pat @ ''%'') (a_name a)"
  by (simp_all only: assessment_with_ids_def assessment_with_username_def assessment_with_org_id_def
      assessment_with_source_type_def assessment_with_source_id_def assessment_with_name_like_def
      satisfies_simps)

subsection \<open>Sources\<close>

definition source_by_username :: "string \<Rightarrow> source_row query_filter \<Rightarrow> source_row query_filter" where
  "source_by_username u f = f @ [\<lambda>s. s_username s = u]"

definition source_by_org_id :: "string \<Rightarrow> source_row query_filter \<Rightarrow> source_row query_filter" where
  "source_by_org_id i f = f @ [\<lambda>s. s_org_id s = i]"

definition source_by_on_premises :: "bool \<Rightarrow> source_row query_filter \<Rightarrow> source_row query_filter" where
  "source_by_on_premises b f = f @ [\<lambda>s. if b then s_on_premises s else \<not> s_on_premises s]"

definition subset_by_source_id :: "uuid \<Rightarrow> subset_row query_filter \<Rightarrow> subset_row query_filter" where
  "subset_by_source_id i f = f @ [\<lambda>s. ss_source_id s = i]"

lemma source_filter_simps [simp]:
  "satisfies (Some (source_by_username u f)) s \<longleftrightarrow> satisfies (Some f) s \<and> s_username s = u"
  "satisfies (Some (source_by_org_id i f)) s \<longleftrightarrow> satisfies (Some f) s \<and> s_org_id s = i"
  "satisfies (Some (source_by_on_premises b f)) s \<longleftrightarrow> satisfies (Some f) s \<and> s_on_premises s = b"
  "satisfies (Some (subset_by_source_id k g)) t \<longleftrightarrow> satisfies (Some g) t \<and> ss_source_id t = k"
  by (auto simp: source_by_username_def source_by_org_id_def source_by_on_premises_def
      subset_by_source_id_def)

text \<open>
  A name filter is a substring pattern: it matches every row whose name contains the given text,
  whatever the case of either.
\<close>

lemma ilike_substring:
  assumes "plain_chars (lower t)"
  shows "ilike (''%'' @ t @ ''%'') (xs @ t @ ys)"
proof -
  have "lower (''%'' @ t @ ''%'') = CHR ''%'' # lower t @ [CHR ''%'']"
    by (simp add: lower_def lower_char_def of_char_def)
  moreover have "lower (xs @ t @ ys) = lower xs @ lower t @ lower ys"
    by (simp add: lower_def)
  ultimately show ?thesis
    using like_infix [OF assms] by (simp add: ilike_def)
qed

end
