(* ===== verification/AccountsStore.thy ===== *)
theory AccountsStore
  imports Execution Filters
begin

text \<open>
  \<open>internal/store/accounts.go\<close>: groups and members. A group is returned with its members and a
  member with its group, as \<open>Preload\<close> fetches them. The driver sets \<open>created_at\<close> and
  \<open>updated_at\<close> of a new row when they are zero.
\<close>

definition gorm_not_found :: "error \<Rightarrow> error" where
  "gorm_not_found e = (if errors_is e GormRecordNotFound then StoreRecordNotFound else e)"

definition gorm_duplicated :: "error \<Rightarrow> error" where
  "gorm_duplicated e = (if errors_is e GormDuplicatedKey then StoreDuplicateKey else e)"

text \<open>\<open>First\<close>: the selected row, with what the query preloads.\<close>

definition gorm_first ::
    "env \<Rightarrow> gocontext \<Rightarrow> (db \<Rightarrow> 'r option) \<Rightarrow> (nat \<Rightarrow> db \<Rightarrow> 'r \<Rightarrow> 'a) \<Rightarrow> 'a go" where
  "gorm_first E c sel preload = query E c (\<lambda>t d.
     case sel d of None \<Rightarrow> Inl GormRecordNotFound | Some r \<Rightarrow> Inr (preload t d r))"

text \<open>\<open>Model(&row).Updates\<close> finds the row by its primary key; a zero key is refused.\<close>

definition model_update :: "uuid \<Rightarrow> (db \<Rightarrow> error + db) \<Rightarrow> db \<Rightarrow> error + db" where
  "model_update i f d =
     (if i = nil_uuid then Inl (DbError ''WHERE conditions required'') else f d)"

text \<open>\<open>First(&Row{ID: i})\<close> selects by the primary key; a zero key is no condition.\<close>

definition primary_key :: "uuid \<Rightarrow> uuid \<Rightarrow> bool" where
  "primary_key i k \<longleftrightarrow> i = nil_uuid \<or> k = i"

subsection \<open>Preloads\<close>

definition preload_members :: "env \<Rightarrow> nat \<Rightarrow> db \<Rightarrow> group list \<Rightarrow> (group \<times> member list) list" where
  "preload_members E t d gs =
     (let ms = find_rows E t (\<lambda>m. m_group_id m \<in> g_id ` set gs) (members d)
      in map (\<lambda>g. (g, filter (\<lambda>m. m_group_id m = g_id g) ms)) gs)"

definition find_group :: "db \<Rightarrow> uuid \<Rightarrow> group option" where
  "find_group d i = first_by g_id (filter (\<lambda>g. g_id g = i) (groups d))"

definition find_member :: "db \<Rightarrow> string \<Rightarrow> member option" where
  "find_member d u = first_by m_id (filter (\<lambda>m. m_username m = u) (members d))"

definition preload_group :: "db \<Rightarrow> member \<Rightarrow> member \<times> group option" where
  "preload_group d m = (m, find_group d (m_group_id m))"

subsection \<open>Groups\<close>

definition list_groups ::
    "env \<Rightarrow> gocontext \<Rightarrow> group query_filter option \<Rightarrow> (group \<times> member list) list go" where
  "list_groups E c qf = query E c (\<lambda>t d. Inr (preload_members E t d
     (sort_key (\<lambda>g. - g_created_at g) (find_rows E t (satisfies qf) (groups d)))))"

definition get_group :: "env \<Rightarrow> gocontext \<Rightarrow> uuid \<Rightarrow> (group \<times> member list) go" where
  "get_group E c i = map_err gorm_not_found
     (gorm_first E c (\<lambda>d. find_group d i) (\<lambda>t d g. hd (preload_members E t d [g])))"

definition stamp_group :: "time \<Rightarrow> group \<Rightarrow> group" where
  "stamp_group now g =
     g\<lparr>g_created_at := if g_created_at g = zero_time then now else g_created_at g,
       g_updated_at := if g_updated_at g = None then Some now else g_updated_at g\<rparr>"

definition create_group :: "env \<Rightarrow> gocontext \<Rightarrow> group \<Rightarrow> group go" where
  "create_group E c g =
     bind (time_now E) (\<lambda>now.
     bind (map_err gorm_duplicated (exec E c (insert_group (stamp_group now g)))) (\<lambda>_.
     ret (stamp_group now g)))"

definition update_group :: "env \<Rightarrow> gocontext \<Rightarrow> group \<Rightarrow> group go" where
  "update_group E c g =
     bind (map_err gorm_not_found
            (gorm_first E c (\<lambda>d. find_group d (g_id g)) (\<lambda>_ _ r. r))) (\<lambda>_.
     bind (time_now E) (\<lambda>now.
       let g' = g\<lparr>g_updated_at := Some now\<rparr>
       in bind (map_err gorm_duplicated (exec E c (model_update (g_id g) (update_group_columns g')))) (\<lambda>_. ret g')))"

definition delete_group :: "env \<Rightarrow> gocontext \<Rightarrow> uuid \<Rightarrow> unit go" where
  "delete_group E c i =
     attempt (exec E c (delete_group_row (uuid_str E) i))
       (\<lambda>e. if \<not> errors_is e GormRecordNotFound then raise e else ret ()) ret"

subsection \<open>Members\<close>

definition list_members ::
    "env \<Rightarrow> gocontext \<Rightarrow> member query_filter option \<Rightarrow> (member \<times> group option) list go" where
  "list_members E c qf = query E c (\<lambda>t d. Inr (map (preload_group d)
     (sort_key (\<lambda>m. - m_created_at m) (find_rows E t (satisfies qf) (members d)))))"

definition get_member :: "env \<Rightarrow> gocontext \<Rightarrow> string \<Rightarrow> (member \<times> group option) go" where
  "get_member E c u = map_err gorm_not_found
     (gorm_first E c (\<lambda>d. find_member d u) (\<lambda>_ d m. preload_group d m))"

definition stamp_member :: "time \<Rightarrow> member \<Rightarrow> member" where
  "stamp_member now m =
     m\<lparr>m_created_at := if m_created_at m = zero_time then now else m_created_at m,
       m_updated_at := if m_updated_at m = None then Some now else m_updated_at m\<rparr>"

definition create_member :: "env \<Rightarrow> gocontext \<Rightarrow> member \<Rightarrow> member go" where
  "create_member E c m =
     bind (if m_id m = nil_uuid then bind (uuid_new E) (\<lambda>i. ret (m\<lparr>m_id := i\<rparr>)) else ret m) (\<lambda>m1.
     bind (time_now E) (\<lambda>now.
     bind (map_err gorm_duplicated (exec E c (insert_member (stamp_member now m1)))) (\<lambda>_.
     ret (stamp_member now m1))))"

definition update_member :: "env \<Rightarrow> gocontext \<Rightarrow> member \<Rightarrow> member go" where
  "update_member E c m =
     bind (map_err gorm_not_found
            (gorm_first E c (\<lambda>d. first_by m_id (filter (\<lambda>r. m_id r = m_id m) (members d)))
               (\<lambda>_ _ r. r))) (\<lambda>_.
     bind (time_now E) (\<lambda>now.
       let m' = m\<lparr>m_updated_at := Some now\<rparr>
       in bind (exec E c (model_update (m_id m) (update_member_columns m'))) (\<lambda>_. ret m')))"

definition delete_member :: "env \<Rightarrow> gocontext \<Rightarrow> uuid \<Rightarrow> unit go" where
  "delete_member E c i =
     attempt (exec E c (delete_member_row i))
       (\<lambda>e. if \<not> errors_is e GormRecordNotFound then raise e else ret ()) ret"

subsection \<open>What each operation does\<close>

lemma gorm_translate_simps [simp]:
  "gorm_not_found GormRecordNotFound = StoreRecordNotFound"
  "gorm_not_found (DbError s) = DbError s"
  "gorm_duplicated GormDuplicatedKey = StoreDuplicateKey"
  "gorm_duplicated (DbError s) = DbError s"
  by (simp_all add: gorm_not_found_def gorm_duplicated_def)

text \<open>A statement fails with a driver error, which the store and the service translate.\<close>

definition stmt_error :: "error \<Rightarrow> bool" where
  "stmt_error e \<longleftrightarrow> e = GormDuplicatedKey \<or> (\<exists>s. e = DbError s)"

lemma stmt_error_simps [simp]: "stmt_error GormDuplicatedKey" "stmt_error (DbError s)"
  by (simp_all add: stmt_error_def)

lemma stmt_errors:
  "insert_group g d = Inl e \<Longrightarrow> stmt_error e"
  "update_group_columns g d = Inl e \<Longrightarrow> stmt_error e"
  "insert_member m d = Inl e \<Longrightarrow> stmt_error e"
  "update_member_columns m d = Inl e \<Longrightarrow> stmt_error e"
  "delete_group_row us i d = Inl e \<Longrightarrow> stmt_error e"
  "insert_partner_customer us p d = Inl e \<Longrightarrow> stmt_error e"
  "update_partner_customer i st reason acc term d = Inl e \<Longrightarrow> stmt_error e"
  by (auto simp: insert_group_def update_group_columns_def insert_member_def
      update_member_columns_def delete_group_row_def insert_partner_customer_def
      update_partner_customer_def Let_def split: if_splits)

lemma stmt_error_model_update:
  "model_update i f d = Inl e \<Longrightarrow> (\<And>e. f d = Inl e \<Longrightarrow> stmt_error e) \<Longrightarrow> stmt_error e"
  by (auto simp: model_update_def split: if_splits)

lemma stmt_error_translate [simp]:
  "stmt_error e \<Longrightarrow> errors_is (gorm_duplicated e) StoreDuplicateKey \<longleftrightarrow> e = GormDuplicatedKey"
  "stmt_error e \<Longrightarrow> e \<noteq> GormDuplicatedKey \<Longrightarrow> gorm_duplicated e = e"
  "stmt_error e \<Longrightarrow> \<not> errors_is (gorm_duplicated e) StoreRecordNotFound"
  "stmt_error e \<Longrightarrow> \<not> errors_is e StoreRecordNotFound"
  "stmt_error e \<Longrightarrow> \<not> errors_is e GormRecordNotFound"
  by (auto simp: stmt_error_def gorm_duplicated_def)

lemma wp_gorm_first:
  "wp (gorm_first E c sel preload) w Q =
     ((fault E (tick w) \<longrightarrow> Q (Inl io_error) (next_tick w)) \<and>
      (\<not> fault E (tick w) \<longrightarrow>
        (sel (get_db c w) = None \<longrightarrow> Q (Inl GormRecordNotFound) (next_tick w)) \<and>
        (\<forall>r. sel (get_db c w) = Some r \<longrightarrow>
          Q (Inr (preload (tick w) (get_db c w) r)) (next_tick w))))"
  by (auto simp: gorm_first_def wp_query split: option.splits)

lemma readonly_gorm_first [readonly_intro]: "readonly (gorm_first E c sel preload)"
  by (simp add: gorm_first_def readonly_intro)

lemma local_gorm_first [local_intro]: "local_tx c (gorm_first E c' sel preload)"
  by (simp add: local_readonly readonly_intro)

lemma find_groupD: "find_group d i = Some g \<Longrightarrow> g \<in> set (groups d) \<and> g_id g = i"
  by (auto simp: find_group_def dest: first_by_filterD)

lemma find_memberD: "find_member d u = Some m \<Longrightarrow> m \<in> set (members d) \<and> m_username m = u"
  by (auto simp: find_member_def dest: first_by_filterD)

lemma find_group_None: "find_group d i = None \<longleftrightarrow> i \<notin> g_id ` set (groups d)"
  by (auto simp: find_group_def filter_empty_conv)

lemma find_member_None: "find_member d u = None \<longleftrightarrow> u \<notin> m_username ` set (members d)"
  by (auto simp: find_member_def filter_empty_conv)

definition members_in :: "env \<Rightarrow> nat \<Rightarrow> db \<Rightarrow> uuid \<Rightarrow> member list" where
  "members_in E t d i = filter (\<lambda>m. m_group_id m = i) (find_rows E t (\<lambda>m. m_group_id m = i) (members d))"

lemma set_members_in [simp]: "set (members_in E t d i) = {m \<in> set (members d). m_group_id m = i}"
  by (auto simp: members_in_def)

lemma preload_members_single [simp]:
  "hd (preload_members E t d [g]) = (g, members_in E t d (g_id g))"
  by (simp add: preload_members_def members_in_def)

lemma wp_get_group [store_spec]:
  "wp (get_group E c i) w Q =
     ((fault E (tick w) \<longrightarrow> Q (Inl io_error) (next_tick w)) \<and>
      (\<not> fault E (tick w) \<longrightarrow>
        (find_group (get_db c w) i = None \<longrightarrow> Q (Inl StoreRecordNotFound) (next_tick w)) \<and>
        (\<forall>g. find_group (get_db c w) i = Some g \<longrightarrow>
          Q (Inr (g, members_in E (tick w) (get_db c w) (g_id g))) (next_tick w))))"
  by (auto simp: get_group_def wp_map_err wp_gorm_first)

lemma wp_get_member [store_spec]:
  "wp (get_member E c u) w Q =
     ((fault E (tick w) \<longrightarrow> Q (Inl io_error) (next_tick w)) \<and>
      (\<not> fault E (tick w) \<longrightarrow>
        (find_member (get_db c w) u = None \<longrightarrow> Q (Inl StoreRecordNotFound) (next_tick w)) \<and>
        (\<forall>m. find_member (get_db c w) u = Some m \<longrightarrow>
          Q (Inr (m, find_group (get_db c w) (m_group_id m))) (next_tick w))))"
  by (auto simp: get_member_def preload_group_def wp_map_err wp_gorm_first)

lemma readonly_accounts [readonly_intro]:
  "readonly (list_groups E c gf)" "readonly (get_group E c i)"
  "readonly (list_members E c mf)" "readonly (get_member E c u)"
  by (simp_all add: list_groups_def get_group_def list_members_def get_member_def readonly_intro)

lemma map_fst_preload_members [simp]: "map fst (preload_members E t d gs) = gs"
  by (simp add: preload_members_def Let_def comp_def)

lemma wp_list_groups [store_spec]:
  "wp (list_groups E c qf) w Q =
     ((fault E (tick w) \<longrightarrow> Q (Inl io_error) (next_tick w)) \<and>
      (\<not> fault E (tick w) \<longrightarrow>
        Q (Inr (preload_members E (tick w) (get_db c w) (sort_key (\<lambda>g. - g_created_at g)
             (find_rows E (tick w) (satisfies qf) (groups (get_db c w)))))) (next_tick w)))"
  by (simp add: list_groups_def wp_simps)

text \<open>Statements run in a transaction are local to it.\<close>

lemma local_exec_joined [local_intro]:
  "ctx_tx c' = ctx_tx c \<Longrightarrow> local_tx c (exec E c' f)"
  by (rule local_txI) (simp add: wp_simps put_db_def from_context_def)

lemma local_accounts_reads [local_intro]:
  "local_tx c (list_groups E c' gf)" "local_tx c (get_group E c' i)"
  "local_tx c (list_members E c' mf)" "local_tx c (get_member E c' u)"
  by (simp_all add: local_readonly readonly_intro)

lemma local_accounts_writes [local_intro]:
  assumes "ctx_tx c' = ctx_tx c"
  shows "local_tx c (create_group E c' g)" "local_tx c (update_group E c' g)"
    "local_tx c (delete_group E c' i)" "local_tx c (create_member E c' m)"
    "local_tx c (update_member E c' m)" "local_tx c (delete_member E c' i)"
proof -
  note intros = local_intro assms local_readonly [OF readonly_query]
  show "local_tx c (create_group E c' g)"
    by (simp add: create_group_def Let_def intros)
  show "local_tx c (update_group E c' g)"
    by (simp add: update_group_def Let_def intros)
  show "local_tx c (delete_group E c' i)"
    by (simp add: delete_group_def intros)
  show "local_tx c (create_member E c' m)"
    by (simp add: create_member_def Let_def intros)
  show "local_tx c (update_member E c' m)"
    by (simp add: update_member_def Let_def intros)
  show "local_tx c (delete_member E c' i)"
    by (simp add: delete_member_def intros)
qed

end
