(* ===== verification/PartnerStore.thy ===== *)
theory PartnerStore
  imports AccountsStore
begin

text \<open>
  \<open>internal/store/partner.go\<close>: partner requests. A request is returned with its partner group,
  which \<open>Create\<close> also fetches the members of.
\<close>

type_synonym partner_request = "partner_customer \<times> (group \<times> member list) option"

definition find_partner :: "(uuid \<Rightarrow> string) \<Rightarrow> db \<Rightarrow> string \<Rightarrow> group option" where
  "find_partner us d p = first_by g_id (filter (\<lambda>g. us (g_id g) = p) (groups d))"

definition preload_partner ::
    "env \<Rightarrow> nat \<Rightarrow> bool \<Rightarrow> db \<Rightarrow> partner_customer \<Rightarrow> partner_request" where
  "preload_partner E t with_members d p =
     (p, map_option (\<lambda>g. (g, if with_members then members_in E t d (g_id g) else []))
           (find_partner (uuid_str E) d (pc_partner_id p)))"

lemma fst_preload_partner [simp]: "fst (preload_partner E t b d p) = p"
  by (simp add: preload_partner_def)

definition find_request :: "db \<Rightarrow> uuid \<Rightarrow> partner_customer option" where
  "find_request d i = first_by pc_id (filter (\<lambda>r. pc_id r = i) (partners_customers d))"

definition list_partner_customers ::
    "env \<Rightarrow> gocontext \<Rightarrow> partner_customer query_filter option \<Rightarrow> partner_request list go" where
  "list_partner_customers E c qf = query E c (\<lambda>t d. Inr (map (preload_partner E t False d)
     (find_rows E t (satisfies qf) (partners_customers d))))"

definition stamp_request :: "time \<Rightarrow> partner_customer \<Rightarrow> partner_customer" where
  "stamp_request now pc =
     pc\<lparr>pc_request_status := if pc_request_status pc = [] then RequestStatusPending
                              else pc_request_status pc,
        pc_created_at := if pc_created_at pc = zero_time then now else pc_created_at pc\<rparr>"

definition create_partner_customer ::
    "env \<Rightarrow> gocontext \<Rightarrow> partner_customer \<Rightarrow> partner_request go" where
  "create_partner_customer E c pc = db_transaction E c
     (bind (time_now E) (\<lambda>now.
       bind (map_err gorm_duplicated (exec E c
              (insert_partner_customer (uuid_str E) (stamp_request now pc)))) (\<lambda>_.
          gorm_first E c (\<lambda>d. find_request d (pc_id pc)) (\<lambda>t d. preload_partner E t True d))))"

definition get_partner_customer ::
    "env \<Rightarrow> gocontext \<Rightarrow> partner_customer query_filter option \<Rightarrow> partner_request go" where
  "get_partner_customer E c qf = map_err gorm_not_found
     (gorm_first E c (\<lambda>d. first_by pc_id (filter (satisfies qf) (partners_customers d)))
        (\<lambda>t d. preload_partner E t False d))"

definition update_partner_customer_row ::
    "env \<Rightarrow> gocontext \<Rightarrow> partner_customer \<Rightarrow> partner_request go" where
  "update_partner_customer_row E c pc = db_transaction E c
     (bind (exec E c (model_update (pc_id pc) (update_partner_customer (pc_id pc)
              (pc_request_status pc) (pc_reason pc) (pc_accepted_at pc) (pc_terminated_at pc)))) (\<lambda>_.
      gorm_first E c (\<lambda>d. find_request d (pc_id pc)) (\<lambda>t d. preload_partner E t False d)))"

subsection \<open>What each operation does\<close>

lemma wp_list_partner_customers [store_spec]:
  "wp (list_partner_customers E c qf) w Q =
     ((fault E (tick w) \<longrightarrow> Q (Inl io_error) (next_tick w)) \<and>
      (\<not> fault E (tick w) \<longrightarrow>
        Q (Inr (map (preload_partner E (tick w) False (get_db c w))
             (find_rows E (tick w) (satisfies qf) (partners_customers (get_db c w))))) (next_tick w)))"
  by (simp add: list_partner_customers_def wp_simps)

lemma wp_get_partner_customer [store_spec]:
  "wp (get_partner_customer E c qf) w Q =
     ((fault E (tick w) \<longrightarrow> Q (Inl io_error) (next_tick w)) \<and>
      (\<not> fault E (tick w) \<longrightarrow>
        ((\<forall>p \<in> set (partners_customers (get_db c w)). \<not> satisfies qf p) \<longrightarrow>
           Q (Inl StoreRecordNotFound) (next_tick w)) \<and>
        (\<forall>p. first_by pc_id (filter (satisfies qf) (partners_customers (get_db c w))) = Some p \<longrightarrow>
           Q (Inr (preload_partner E (tick w) False (get_db c w) p)) (next_tick w))))"
  by (auto simp: get_partner_customer_def wp_map_err wp_gorm_first filter_empty_conv)

lemma readonly_partners [readonly_intro]:
  "readonly (list_partner_customers E c pf)" "readonly (get_partner_customer E c pf)"
  by (simp_all add: list_partner_customers_def get_partner_customer_def readonly_intro)

lemma local_db_transaction_joined [local_intro]:
  assumes "ctx_tx c' = ctx_tx c" "local_tx c m"
  shows "local_tx c (db_transaction E c' m)"
proof (rule local_txI)
  fix w :: world and d
  assume c: "ctx_tx c" and d: "open_tx w = Some d"
  then have "wp m (next_tick w) (\<lambda>r w'. committed w' = committed (next_tick w) \<and> open_tx w' \<noteq> None)"
    by (intro local_txD [OF assms(2)]) simp_all
  then show "wp (db_transaction E c' m) w (\<lambda>r w'. committed w' = committed w \<and> open_tx w' \<noteq> None)"
    unfolding wp_db_transaction using c d assms(1) by (auto simp: wp_run)
qed

lemma local_partners [local_intro]:
  "local_tx c (list_partner_customers E c' pf)" "local_tx c (get_partner_customer E c' pf)"
  by (simp_all add: local_readonly readonly_intro)

lemma local_partners_writes [local_intro]:
  assumes "ctx_tx c' = ctx_tx c"
  shows "local_tx c (create_partner_customer E c' p)"
    "local_tx c (update_partner_customer_row E c' p)"
proof -
  note intros = local_intro assms local_readonly [OF readonly_query]
  show "local_tx c (create_partner_customer E c' p)"
    by (simp add: create_partner_customer_def Let_def intros)
  show "local_tx c (update_partner_customer_row E c' p)"
    by (simp add: update_partner_customer_row_def intros)
qed

text \<open>
  The two writes are transactions of their own, so they fail and leave the rows alone, or do
  what their one statement does and return the row it wrote.
\<close>

lemma find_request_inserted:
  assumes "insert_partner_customer us p d = Inr d'"
  shows "find_request d' (pc_id p) = Some p"
proof -
  have "filter (\<lambda>r. pc_id r = pc_id p) (partners_customers d') = [p]"
    using assms by (auto simp: insert_partner_customer_def filter_empty_conv split: if_splits)
  then show ?thesis by (simp add: find_request_def)
qed

lemma wp_create_partner_customer:
  assumes "\<And>e w'. same_rows w w' \<Longrightarrow> faulty E \<Longrightarrow> Q (Inl e) w'"
    and "\<And>e now w'. same_rows w w' \<Longrightarrow>
      insert_partner_customer (uuid_str E) (stamp_request now pc) (get_db c w) = Inl e \<Longrightarrow>
      Q (Inl (gorm_duplicated e)) w'"
    and "\<And>now p d w'. same_rows (put_db c d w) w' \<Longrightarrow> fst p = stamp_request now pc \<Longrightarrow>
      insert_partner_customer (uuid_str E) (stamp_request now pc) (get_db c w) = Inr d \<Longrightarrow>
      Q (Inr p) w'"
  shows "wp (create_partner_customer E c pc) w Q"
proof -
  have stamp: "pc_id (stamp_request now pc) = pc_id pc" for now
    by (simp add: stamp_request_def)
  then show ?thesis
    using find_request_inserted [of "uuid_str E" "stamp_request (clock E (tick (next_tick w))) pc"]
    by (auto simp: create_partner_customer_def
        wp_db_transaction wp_bind wp_time_now wp_map_err wp_exec wp_gorm_first intro!: assms)
qed

definition update_request_row :: "partner_customer \<Rightarrow> db \<Rightarrow> error + db" where
  "update_request_row p = model_update (pc_id p) (update_partner_customer (pc_id p)
     (pc_request_status p) (pc_reason p) (pc_accepted_at p) (pc_terminated_at p))"

lemma wp_update_partner_customer_row:
  assumes "\<And>e w'. same_rows w w' \<Longrightarrow> faulty E \<or> update_request_row pc (get_db c w) = Inl e \<or>
      (\<exists>d. update_request_row pc (get_db c w) = Inr d \<and> find_request d (pc_id pc) = None \<and>
           e = GormRecordNotFound) \<Longrightarrow> Q (Inl e) w'"
    and "\<And>p d w'. same_rows (put_db c d w) w' \<Longrightarrow> update_request_row pc (get_db c w) = Inr d \<Longrightarrow>
      find_request d (pc_id pc) = Some (fst p) \<Longrightarrow> Q (Inr p) w'"
  shows "wp (update_partner_customer_row E c pc) w Q"
  by (auto simp: update_partner_customer_row_def update_request_row_def [symmetric]
      wp_db_transaction wp_bind wp_exec wp_gorm_first intro!: assms)

end
