(* ===== verification/RelationModel.thy ===== *)
theory RelationModel
  imports Execution
begin

text \<open>
  The relationship tuples of \<open>internal/store/model/authz.go\<close>, the permissions of
  \<open>internal/model/authz.go\<close> and the builder of \<open>internal/store/authz_builder.go\<close>. The Go types
  \<open>ResourceType\<close>, \<open>SubjectType\<close>, \<open>Relation\<close> and \<open>Permission\<close> are strings with named constants.
\<close>

abbreviation AssessmentResource :: string where "AssessmentResource \<equiv> ''assessment''"
abbreviation OrgResource :: string where "OrgResource \<equiv> ''org''"
abbreviation UserSubject :: string where "UserSubject \<equiv> ''user''"
abbreviation OrgSubject :: string where "OrgSubject \<equiv> ''org''"
abbreviation OwnerRelation :: string where "OwnerRelation \<equiv> ''owner''"
abbreviation ViewerRelation :: string where "ViewerRelation \<equiv> ''viewer''"
abbreviation MemberRelation :: string where "MemberRelation \<equiv> ''member''"
abbreviation ReadPermission :: string where "ReadPermission \<equiv> ''read''"
abbreviation EditPermission :: string where "EditPermission \<equiv> ''edit''"
abbreviation SharePermission :: string where "SharePermission \<equiv> ''share''"
abbreviation DeletePermission :: string where "DeletePermission \<equiv> ''delete''"

definition permission_in :: "string \<Rightarrow> string list \<Rightarrow> bool" where
  "permission_in p perms = (p \<in> set perms)"

definition relation_permissions :: "string \<Rightarrow> string list" where
  "relation_permissions r =
     (if r = OwnerRelation then [ReadPermission, EditPermission, SharePermission, DeletePermission]
      else if r = ViewerRelation then [ReadPermission]
      else [])"

definition permission_relations :: "string \<Rightarrow> string list" where
  "permission_relations p =
     (if p = ReadPermission then [OwnerRelation, ViewerRelation]
      else if p = EditPermission \<or> p = SharePermission \<or> p = DeletePermission then [OwnerRelation]
      else [])"

record subject =
  sub_id :: string
  sub_kind :: string

record relationship =
  rel_resource_type :: string
  rel_resource_id :: string
  rel_relation :: string
  rel_subject :: subject

record resource =
  res_type :: string
  res_id :: string
  res_permissions :: "string list"

definition relationship_string :: "relationship \<Rightarrow> string" where
  "relationship_string r =
     rel_resource_type r @ '':'' @ rel_resource_id r @ ''#'' @ rel_relation r @ ''@'' @
     sub_kind (rel_subject r) @ '':'' @ sub_id (rel_subject r)"

definition new_relationship :: "string \<Rightarrow> string \<Rightarrow> string \<Rightarrow> subject \<Rightarrow> relationship" where
  "new_relationship rtype rid rel sub =
     \<lparr>rel_resource_type = rtype, rel_resource_id = rid, rel_relation = rel, rel_subject = sub\<rparr>"

definition new_assessment_resource :: "string \<Rightarrow> resource" where
  "new_assessment_resource i = \<lparr>res_type = AssessmentResource, res_id = i, res_permissions = []\<rparr>"

definition new_org_resource :: "string \<Rightarrow> resource" where
  "new_org_resource i = \<lparr>res_type = OrgResource, res_id = i, res_permissions = []\<rparr>"

definition new_user_subject :: "string \<Rightarrow> subject" where
  "new_user_subject i = \<lparr>sub_id = i, sub_kind = UserSubject\<rparr>"

definition new_org_subject :: "string \<Rightarrow> subject" where
  "new_org_subject i = \<lparr>sub_id = i, sub_kind = OrgSubject\<rparr>"

datatype operation = OperationTouch | OperationDelete

record relationship_update =
  up_operation :: operation
  up_relationship :: relationship

definition to_relationship :: "relation_row \<Rightarrow> relationship" where
  "to_relationship r =
     \<lparr>rel_resource_type = r_resource r, rel_resource_id = r_resource_id r,
      rel_relation = r_relation r,
      rel_subject = \<lparr>sub_id = r_subject_id r, sub_kind = r_subject_namespace r\<rparr>\<rparr>"

definition to_sql :: "relationship \<Rightarrow> relation_row" where
  "to_sql rel =
     \<lparr>r_resource = rel_resource_type rel, r_resource_id = rel_resource_id rel,
      r_relation = rel_relation rel, r_subject_namespace = sub_kind (rel_subject rel),
      r_subject_id = sub_id (rel_subject rel)\<rparr>"

subsection \<open>\<open>RelationshipBuilder\<close>\<close>

type_synonym relationship_builder = "relationship_update list"

definition new_relationship_builder :: relationship_builder where
  "new_relationship_builder = []"

definition builder_with ::
    "resource \<Rightarrow> string \<Rightarrow> subject \<Rightarrow> relationship_builder \<Rightarrow> relationship_builder" where
  "builder_with res rel sub b =
     b @ [\<lparr>up_operation = OperationTouch,
           up_relationship = new_relationship (res_type res) (res_id res) rel sub\<rparr>]"

definition builder_without ::
    "resource \<Rightarrow> string \<Rightarrow> subject \<Rightarrow> relationship_builder \<Rightarrow> relationship_builder" where
  "builder_without res rel sub b =
     b @ [\<lparr>up_operation = OperationDelete,
           up_relationship = new_relationship (res_type res) (res_id res) rel sub\<rparr>]"

definition builder_build :: "relationship_builder \<Rightarrow> relationship_update list" where
  "builder_build b = b"

lemmas builder_defs =
  new_relationship_builder_def builder_with_def builder_without_def builder_build_def
  new_relationship_def

subsection \<open>Facts\<close>

lemma relation_permissions_iff:
  "p \<in> set (relation_permissions r) \<longleftrightarrow>
     (r = OwnerRelation \<and> p \<in> {ReadPermission, EditPermission, SharePermission, DeletePermission}) \<or>
     (r = ViewerRelation \<and> p = ReadPermission)"
  by (auto simp: relation_permissions_def)

lemma relation_permissions_simps [simp]:
  "relation_permissions OwnerRelation =
     [ReadPermission, EditPermission, SharePermission, DeletePermission]"
  "relation_permissions ViewerRelation = [ReadPermission]"
  "relation_permissions MemberRelation = []"
  by (simp_all add: relation_permissions_def)

lemma to_relationship_to_sql: "to_relationship (to_sql r) = r"
  by (simp add: to_relationship_def to_sql_def)

lemma to_sql_to_relationship: "to_sql (to_relationship r) = r"
  by (simp add: to_relationship_def to_sql_def)


end
