(* ===== verification/AuthzStore.thy ===== *)
theory AuthzStore
  imports RelationModel "HOL-Library.AList"
begin

text \<open>
  \<open>internal/store/authz.go\<close>: the store of relationship tuples, and the two queries that resolve
  a user's permissions from them, directly or through membership of an organisation.
\<close>

subsection \<open>Writing tuples\<close>

fun split_updates ::
    "relationship_update list \<Rightarrow> relation_row list \<times> relation_row list" where
  "split_updates [] = ([], [])"
| "split_updates (u # us) =
     (case split_updates us of (touch, del) \<Rightarrow>
        (case up_operation u of
           OperationTouch \<Rightarrow> (to_sql (up_relationship u) # touch, del)
         | OperationDelete \<Rightarrow> (touch, to_sql (up_relationship u) # del)))"

definition write_relationships ::
    "env \<Rightarrow> gocontext \<Rightarrow> relationship_update list \<Rightarrow> unit go" where
  "write_relationships E c updates =
     (if updates = [] then ret ()
      else (let (touch, del) = split_updates updates in
        bind (if touch \<noteq> [] then exec E c (touch_relations touch) else ret ()) (\<lambda>_.
          if del \<noteq> [] then exec E c (delete_relation_rows del) else ret ())))"

text \<open>The \<open>WHERE\<close> clause of a resource: its type, and its identifier unless that is empty.\<close>

definition of_resource :: "resource \<Rightarrow> relation_row \<Rightarrow> bool" where
  "of_resource res r \<longleftrightarrow>
     r_resource r = res_type res \<and> (res_id res \<noteq> [] \<longrightarrow> r_resource_id r = res_id res)"

definition delete_relationships :: "env \<Rightarrow> gocontext \<Rightarrow> resource \<Rightarrow> unit go" where
  "delete_relationships E c res = exec E c (delete_relations_where (of_resource res))"

subsection \<open>Reading tuples\<close>

definition list_relationships ::
    "env \<Rightarrow> gocontext \<Rightarrow> resource \<Rightarrow> relationship list go" where
  "list_relationships E c res =
     query E c (\<lambda>t d. Inr (map to_relationship (find_rows E t (of_resource res) (relations d))))"

fun bulk_by_id ::
    "relation_row list \<Rightarrow> (string \<Rightarrow> relationship list) \<Rightarrow> string \<Rightarrow> relationship list" where
  "bulk_by_id [] m = m"
| "bulk_by_id (r # rs) m =
     bulk_by_id rs (m(r_resource_id r := m (r_resource_id r) @ [to_relationship r]))"

definition list_bulk_relationship ::
    "env \<Rightarrow> gocontext \<Rightarrow> string list \<Rightarrow> (string \<Rightarrow> relationship list) go" where
  "list_bulk_relationship E c ids =
     query E c (\<lambda>t d. Inr (bulk_by_id
       (find_rows E t (\<lambda>r. r_resource_id r \<in> set ids) (relations d)) (\<lambda>_. [])))"

subsection \<open>Resolving permissions\<close>

text \<open>The rows of the \<open>direct\<close> query, and of the join that is the \<open>indirect\<close> query.\<close>

definition direct_row :: "string \<Rightarrow> string \<Rightarrow> relation_row \<Rightarrow> bool" where
  "direct_row uid rtype r \<longleftrightarrow>
     r_resource r = rtype \<and> r_subject_namespace r = UserSubject \<and> r_subject_id r = uid"

definition membership_row :: "string \<Rightarrow> string \<Rightarrow> relation_row \<Rightarrow> bool" where
  "membership_row uid org m \<longleftrightarrow>
     r_resource m = OrgResource \<and> r_resource_id m = org \<and> r_relation m = MemberRelation \<and>
     r_subject_namespace m = UserSubject \<and> r_subject_id m = uid"

definition indirect_row :: "db \<Rightarrow> string \<Rightarrow> string \<Rightarrow> relation_row \<Rightarrow> bool" where
  "indirect_row d uid rtype r \<longleftrightarrow>
     r_resource r = rtype \<and> r_subject_namespace r = OrgSubject \<and>
     (\<exists>m \<in> set (relations d). membership_row uid (r_subject_id r) m)"

definition related_rows :: "db \<Rightarrow> string \<Rightarrow> string \<Rightarrow> relation_row list" where
  "related_rows d uid rtype =
     filter (direct_row uid rtype) (relations d) @ filter (indirect_row d uid rtype) (relations d)"

text \<open>\<open>UNION\<close> drops duplicates and orders the rows as it likes.\<close>

definition union_rows :: "env \<Rightarrow> nat \<Rightarrow> 'a list \<Rightarrow> 'a list" where
  "union_rows E t xs = reorder (order E t (length (remdups xs))) (remdups xs)"

fun add_permissions :: "string list \<Rightarrow> string list \<Rightarrow> string list" where
  "add_permissions [] acc = acc"
| "add_permissions (p # ps) acc =
     add_permissions ps (if permission_in p acc then acc else acc @ [p])"

fun add_relations :: "string list \<Rightarrow> string list \<Rightarrow> string list" where
  "add_relations [] acc = acc"
| "add_relations (rel # rels) acc =
     add_relations rels (add_permissions (relation_permissions rel) acc)"

definition get_permissions :: "env \<Rightarrow> gocontext \<Rightarrow> string \<Rightarrow> resource \<Rightarrow> resource go" where
  "get_permissions E c uid res =
     bind (query E c (\<lambda>t d. Inr (union_rows E t
             (map r_relation (filter (\<lambda>r. r_resource_id r = res_id res)
                (related_rows d uid (res_type res)))))))
       (\<lambda>rels. ret (res\<lparr>res_permissions := add_relations rels (res_permissions res)\<rparr>))"

text \<open>\<open>permsMap[id] = append(permsMap[id], p)\<close>, unless it is there.\<close>

definition grant ::
    "string \<Rightarrow> string \<Rightarrow> (string \<times> string list) list \<Rightarrow> (string \<times> string list) list" where
  "grant i p m =
     (let ps = (case map_of m i of None \<Rightarrow> [] | Some ps \<Rightarrow> ps)
      in if permission_in p ps then m else AList.update i (ps @ [p]) m)"

fun group_permissions ::
    "(string \<times> string) list \<Rightarrow> (string \<times> string list) list \<Rightarrow> (string \<times> string list) list" where
  "group_permissions [] m = m"
| "group_permissions ((i, rel) # rows) m =
     group_permissions rows (fold (grant i) (relation_permissions rel) m)"

text \<open>A Go \<open>range\<close> over a map, given as its list of entries.\<close>

definition range_map :: "env \<Rightarrow> 'a list \<Rightarrow> 'a list go" where
  "range_map E xs w = (Inr (reorder (order E (tick w) (length xs)) xs), next_tick w)"

definition list_resources :: "env \<Rightarrow> gocontext \<Rightarrow> string \<Rightarrow> string \<Rightarrow> resource list go" where
  "list_resources E c uid rtype =
     bind (query E c (\<lambda>t d. Inr (union_rows E t
             (map (\<lambda>r. (r_resource_id r, r_relation r)) (related_rows d uid rtype)))))
       (\<lambda>rows. bind (range_map E (group_permissions rows []))
          (\<lambda>entries. ret (map (\<lambda>(i, perms).
             \<lparr>res_type = rtype, res_id = i, res_permissions = perms\<rparr>) entries)))"

definition close_authz :: "unit go" where
  "close_authz = ret ()"

subsection \<open>What the queries return\<close>

text \<open>
  The relation a user holds on a resource: as its direct subject, or as a member of an
  organisation that is its subject. \<open>permits\<close> is the contract of the two queries.
\<close>

definition related :: "db \<Rightarrow> string \<Rightarrow> string \<Rightarrow> string \<Rightarrow> string \<Rightarrow> bool" where
  "related d uid rtype rid rel \<longleftrightarrow>
     (\<exists>r \<in> set (relations d). r_resource_id r = rid \<and> r_relation r = rel \<and>
        (direct_row uid rtype r \<or> indirect_row d uid rtype r))"

definition permits :: "db \<Rightarrow> string \<Rightarrow> string \<Rightarrow> string \<Rightarrow> string \<Rightarrow> bool" where
  "permits d uid rtype rid p \<longleftrightarrow>
     (\<exists>rel \<in> {OwnerRelation, ViewerRelation}.
        related d uid rtype rid rel \<and> p \<in> set (relation_permissions rel))"

lemma permits_iff:
  "permits d uid rtype rid p \<longleftrightarrow>
     (\<exists>rel. related d uid rtype rid rel \<and> p \<in> set (relation_permissions rel))"
  by (auto simp: permits_def relation_permissions_iff)

lemma set_union_rows [simp]: "set (union_rows E t xs) = set xs"
  by (simp add: union_rows_def)

lemma set_add_permissions [simp]: "set (add_permissions ps acc) = set ps \<union> set acc"
  by (induction ps acc rule: add_permissions.induct) (auto simp: permission_in_def)

lemma distinct_add_permissions [simp]: "distinct acc \<Longrightarrow> distinct (add_permissions ps acc)"
  by (induction ps acc rule: add_permissions.induct) (auto simp: permission_in_def)

lemma set_add_relations [simp]:
  "set (add_relations rels acc) = set acc \<union> (\<Union>rel \<in> set rels. set (relation_permissions rel))"
  by (induction rels acc rule: add_relations.induct) auto

lemma distinct_add_relations [simp]: "distinct acc \<Longrightarrow> distinct (add_relations rels acc)"
  by (induction rels acc rule: add_relations.induct) auto

lemma set_related_rows:
  "set (related_rows d uid rtype) =
     {r \<in> set (relations d). direct_row uid rtype r \<or> indirect_row d uid rtype r}"
  by (auto simp: related_rows_def)

text \<open>The value \<open>get_permissions\<close> returns, at tick \<open>t\<close> on the tables \<open>d\<close>.\<close>

definition permissions_value :: "env \<Rightarrow> nat \<Rightarrow> db \<Rightarrow> string \<Rightarrow> resource \<Rightarrow> resource" where
  "permissions_value E t d uid res =
     res\<lparr>res_permissions := add_relations (union_rows E t
       (map r_relation (filter (\<lambda>r. r_resource_id r = res_id res)
          (related_rows d uid (res_type res))))) (res_permissions res)\<rparr>"

lemma set_permissions_value:
  "set (res_permissions (permissions_value E t d uid res)) =
     set (res_permissions res) \<union> {p. permits d uid (res_type res) (res_id res) p}"
  by (auto simp: permissions_value_def set_related_rows permits_iff related_def)

lemma permission_in_value [simp]:
  "res_permissions res = [] \<Longrightarrow>
   permission_in p (res_permissions (permissions_value E t d uid res)) \<longleftrightarrow>
     permits d uid (res_type res) (res_id res) p"
  by (simp add: permission_in_def set_permissions_value)

lemma wp_get_permissions [store_spec]:
  "wp (get_permissions E c uid res) w Q =
     ((fault E (tick w) \<longrightarrow> Q (Inl io_error) (next_tick w)) \<and>
      (\<not> fault E (tick w) \<longrightarrow>
        Q (Inr (permissions_value E (tick w) (get_db c w) uid res)) (next_tick w)))"
  by (simp add: get_permissions_def wp_simps permissions_value_def)

lemma readonly_get_permissions [readonly_intro]: "readonly (get_permissions E c uid res)"
  by (simp add: get_permissions_def readonly_intro)

lemma readonly_list_relationships [readonly_intro]: "readonly (list_relationships E c res)"
  by (simp add: list_relationships_def readonly_intro)

lemma readonly_list_bulk [readonly_intro]: "readonly (list_bulk_relationship E c ids)"
  by (simp add: list_bulk_relationship_def readonly_intro)

lemma readonly_range_map [readonly_intro]: "readonly (range_map E xs)"
  by (simp add: readonly_def range_map_def wp_def)

lemma readonly_list_resources [readonly_intro]: "readonly (list_resources E c uid rtype)"
  by (simp add: list_resources_def readonly_intro)

subsection \<open>Permissions grouped by resource\<close>

definition perms_of :: "(string \<times> string list) list \<Rightarrow> string \<Rightarrow> string list" where
  "perms_of m i = (case map_of m i of None \<Rightarrow> [] | Some ps \<Rightarrow> ps)"

lemma perms_of_grant:
  "perms_of (grant i p m) j =
     (if j = i \<and> p \<notin> set (perms_of m i) then perms_of m i @ [p] else perms_of m j)"
  by (auto simp: perms_of_def grant_def permission_in_def Let_def update_conv' split: option.splits)

lemma set_perms_of_fold_grant:
  "set (perms_of (fold (grant i) ps m) j) = set (perms_of m j) \<union> (if j = i then set ps else {})"
  by (induction ps arbitrary: m) (auto simp: perms_of_grant)

lemma set_perms_of_group:
  "set (perms_of (group_permissions rows m) j) =
     set (perms_of m j) \<union> (\<Union>(i, rel) \<in> set rows. if i = j then set (relation_permissions rel) else {})"
  by (induction rows m rule: group_permissions.induct) (auto simp: set_perms_of_fold_grant)

definition grouped :: "(string \<times> string list) list \<Rightarrow> bool" where
  "grouped m \<longleftrightarrow> distinct (map fst m) \<and> (\<forall>e \<in> set m. snd e \<noteq> [])"

lemma grouped_update: "grouped m \<Longrightarrow> ps \<noteq> [] \<Longrightarrow> grouped (AList.update i ps m)"
  unfolding grouped_def by (induction m) (auto simp: AList.update_keys split: if_splits)

lemma grouped_grant: "grouped m \<Longrightarrow> grouped (grant i p m)"
  by (simp add: grant_def Let_def grouped_update)

lemma grouped_fold_grant: "grouped m \<Longrightarrow> grouped (fold (grant i) ps m)"
  by (induction ps arbitrary: m) (auto simp: grouped_grant)

lemma grouped_group_permissions: "grouped m \<Longrightarrow> grouped (group_permissions rows m)"
  by (induction rows m rule: group_permissions.induct) (auto simp: grouped_fold_grant)

lemma perms_of_entry: "distinct (map fst m) \<Longrightarrow> (i, ps) \<in> set m \<Longrightarrow> perms_of m i = ps"
  by (simp add: perms_of_def map_of_is_SomeI)

lemma perms_of_nonempty: "perms_of m i \<noteq> [] \<Longrightarrow> (i, perms_of m i) \<in> set m"
  by (auto simp: perms_of_def split: option.splits dest: map_of_SomeD)

subsection \<open>Writing\<close>

definition touched :: "relationship_update list \<Rightarrow> relation_row set" where
  "touched us = {to_sql (up_relationship u) | u. u \<in> set us \<and> up_operation u = OperationTouch}"

definition deleted :: "relationship_update list \<Rightarrow> relation_row set" where
  "deleted us = {to_sql (up_relationship u) | u. u \<in> set us \<and> up_operation u = OperationDelete}"

lemma touched_deleted_simps [simp]:
  "touched [] = {}" "deleted [] = {}"
  "touched (u # us) = (if up_operation u = OperationTouch
     then insert (to_sql (up_relationship u)) (touched us) else touched us)"
  "deleted (u # us) = (if up_operation u = OperationDelete
     then insert (to_sql (up_relationship u)) (deleted us) else deleted us)"
  by (auto simp: touched_def deleted_def)

lemma touched_deleted_append [simp]:
  "touched (us @ vs) = touched us \<union> touched vs" "deleted (us @ vs) = deleted us \<union> deleted vs"
  by (auto simp: touched_def deleted_def)

lemma split_updates_sets:
  "split_updates us = (t, d) \<Longrightarrow> set t = touched us \<and> set d = deleted us"
  by (induction us arbitrary: t d) (auto split: prod.splits operation.splits)

lemma set_insert_ignore [simp]: "set (insert_ignore rs tbl) = set tbl \<union> set rs"
  by (induction rs tbl rule: insert_ignore.induct) auto

lemma distinct_insert_ignore [simp]: "distinct tbl \<Longrightarrow> distinct (insert_ignore rs tbl)"
  by (induction rs tbl rule: insert_ignore.induct) auto

text \<open>The tables after a write that succeeds: touched rows added, then deleted rows removed.\<close>

definition written :: "relationship_update list \<Rightarrow> db \<Rightarrow> db" where
  "written us d = (case split_updates us of (t, x) \<Rightarrow>
     d\<lparr>relations := filter (\<lambda>r. r \<notin> set x) (insert_ignore t (relations d))\<rparr>)"

lemma set_relations_written:
  "set (relations (written us d)) = (set (relations d) \<union> touched us) - deleted us"
  by (auto simp: written_def dest: split_updates_sets split: prod.splits)

lemma written_other [simp]:
  "groups (written us d) = groups d" "members (written us d) = members d"
  "partners_customers (written us d) = partners_customers d"
  "assessments (written us d) = assessments d"
  "assessment_inventories (written us d) = assessment_inventories d"
  "sources (written us d) = sources d"
  "source_subset_inventories (written us d) = source_subset_inventories d"
  by (simp_all add: written_def split: prod.splits)

lemma written_Nil [simp]: "written [] d = d"
  by (simp add: written_def)

lemma touched_Nil_iff: "touched us = {} \<longleftrightarrow> (\<forall>u \<in> set us. up_operation u = OperationDelete)"
  by (auto simp: touched_def) (metis operation.exhaust)

lemma deleted_Nil_iff: "deleted us = {} \<longleftrightarrow> (\<forall>u \<in> set us. up_operation u = OperationTouch)"
  by (auto simp: deleted_def) (metis operation.exhaust)

text \<open>A batch of one kind of update, as every builder of the code makes it, is one statement.\<close>

lemma wp_write_relationships [store_spec]:
  assumes "touched us = {} \<or> deleted us = {}"
  shows "wp (write_relationships E c us) w Q =
     ((us = [] \<longrightarrow> Q (Inr ()) w) \<and>
      (us \<noteq> [] \<longrightarrow>
        (fault E (tick w) \<longrightarrow> Q (Inl io_error) (next_tick w)) \<and>
        (\<not> fault E (tick w) \<longrightarrow> Q (Inr ()) (put_db c (written us (get_db c w)) (next_tick w)))))"
proof -
  obtain t x where tx: "split_updates us = (t, x)" by fastforce
  then have sets: "set t = touched us" "set x = deleted us"
    using split_updates_sets by auto
  have "us \<noteq> [] \<Longrightarrow> t \<noteq> [] \<or> x \<noteq> []"
    using tx by (cases us) (auto split: prod.splits operation.splits)
  moreover have "t = [] \<or> x = []"
    using assms sets by auto
  ultimately show ?thesis
    using tx
    by (auto simp: write_relationships_def wp_simps written_def touch_relations_def
        delete_relation_rows_def)
qed

lemma local_write_relationships [local_intro]: "local_tx c (write_relationships E c' us)"
  if "ctx_tx c' = ctx_tx c"
proof -
  have "local_tx c (exec E c' f)" for f
    by (rule local_txI) (use that in \<open>simp add: wp_simps put_db_def from_context_def\<close>)
  then show ?thesis
    by (auto simp: write_relationships_def split: prod.splits intro!: local_intro)
qed

text \<open>The batches of the services that hold one tuple.\<close>

lemma wp_write_one [store_spec]:
  "wp (write_relationships E c (builder_build
     (builder_with res rel sub new_relationship_builder))) w Q =
     ((fault E (tick w) \<longrightarrow> Q (Inl io_error) (next_tick w)) \<and>
      (\<not> fault E (tick w) \<longrightarrow> Q (Inr ()) (put_db c ((get_db c w)\<lparr>relations := insert_ignore
         [to_sql (new_relationship (res_type res) (res_id res) rel sub)]
         (relations (get_db c w))\<rparr>) (next_tick w))))"
  "wp (write_relationships E c (builder_build
     (builder_without res rel sub new_relationship_builder))) w Q =
     ((fault E (tick w) \<longrightarrow> Q (Inl io_error) (next_tick w)) \<and>
      (\<not> fault E (tick w) \<longrightarrow> Q (Inr ()) (put_db c ((get_db c w)\<lparr>relations := filter
         (\<lambda>r. r \<noteq> to_sql (new_relationship (res_type res) (res_id res) rel sub))
         (relations (get_db c w))\<rparr>) (next_tick w))))"
  by (simp_all add: wp_write_relationships builder_build_def builder_with_def builder_without_def
      new_relationship_builder_def written_def)

lemma written_deletes:
  "touched us = {} \<Longrightarrow> written us d = d\<lparr>relations := filter (\<lambda>r. r \<notin> deleted us) (relations d)\<rparr>"
  by (auto simp: written_def dest!: split_updates_sets split: prod.splits)

text \<open>The tuples of an assessment: its owner, and an organisation it is shared with.\<close>

definition owner_tuple :: "env \<Rightarrow> uuid \<Rightarrow> string \<Rightarrow> relation_row" where
  "owner_tuple E a u = \<lparr>r_resource = AssessmentResource, r_resource_id = uuid_str E a,
     r_relation = OwnerRelation, r_subject_namespace = UserSubject, r_subject_id = u\<rparr>"

definition viewer_tuple :: "env \<Rightarrow> uuid \<Rightarrow> string \<Rightarrow> relation_row" where
  "viewer_tuple E a p = \<lparr>r_resource = AssessmentResource, r_resource_id = uuid_str E a,
     r_relation = ViewerRelation, r_subject_namespace = OrgSubject, r_subject_id = p\<rparr>"

lemma to_sql_assessment_tuples:
  "to_sql (new_relationship (res_type (new_assessment_resource (uuid_str E a)))
     (res_id (new_assessment_resource (uuid_str E a))) OwnerRelation (new_user_subject u)) =
     owner_tuple E a u"
  "to_sql (new_relationship (res_type (new_assessment_resource (uuid_str E a)))
     (res_id (new_assessment_resource (uuid_str E a))) ViewerRelation (new_org_subject p)) =
     viewer_tuple E a p"
  by (simp_all add: new_relationship_def to_sql_def new_assessment_resource_def
      new_user_subject_def new_org_subject_def owner_tuple_def viewer_tuple_def)

end
