(* ===== verification/AccountsService.thy ===== *)
theory AccountsService
  imports PartnerStore AuthzStore
begin

text \<open>
  \<open>internal/service/accounts.go\<close>: identities, groups and members. The IAM service is the
  argument of the environment; \<open>IsKind\<close>, \<open>GetIdentity\<close> and the operations follow the order of
  the file.
\<close>

record admin_group_member =
  agm_username :: string
  agm_email :: string

record admin_group =
  ag_name :: string
  ag_members :: "admin_group_member list"

abbreviation KindRegular :: string where "KindRegular \<equiv> ''regular''"
abbreviation KindCustomer :: string where "KindCustomer \<equiv> ''customer''"
abbreviation KindPartner :: string where "KindPartner \<equiv> ''partner''"
abbreviation KindAdmin :: string where "KindAdmin \<equiv> ''admin''"

record identity =
  id_username :: string
  id_kind :: string
  id_group_id :: "string option"
  id_partner_id :: "string option"

record account_identity =
  acc_name :: string
  acc_type :: string

subsection \<open>Identity\<close>

definition get_account_identity :: "env \<Rightarrow> string \<Rightarrow> account_identity go" where
  "get_account_identity E a = (case iam_account E a of
     Inl e \<Rightarrow> raise (Wrapf (''failed to get account info for account %q: %w'', [a]) e)
   | Inr (n, t) \<Rightarrow> ret \<lparr>acc_name = n, acc_type = t\<rparr>)"

definition customer_identity :: "string \<Rightarrow> string \<Rightarrow> identity" where
  "customer_identity u p =
     \<lparr>id_username = u, id_kind = KindCustomer, id_group_id = None, id_partner_id = Some p\<rparr>"

definition regular_identity :: "string \<Rightarrow> identity" where
  "regular_identity u =
     \<lparr>id_username = u, id_kind = KindRegular, id_group_id = None, id_partner_id = None\<rparr>"

definition member_identity :: "(uuid \<Rightarrow> string) \<Rightarrow> string \<Rightarrow> member \<times> group option \<Rightarrow> identity" where
  "member_identity us u m = (case snd m of
     None \<Rightarrow> regular_identity u
   | Some g \<Rightarrow>
       if g_kind g = ''partner''
       then \<lparr>id_username = m_username (fst m), id_kind = KindPartner,
             id_group_id = Some (us (m_group_id (fst m))), id_partner_id = None\<rparr>
       else if g_kind g = ''admin''
       then \<lparr>id_username = m_username (fst m), id_kind = KindAdmin,
             id_group_id = Some (us (m_group_id (fst m))), id_partner_id = None\<rparr>
       else regular_identity u)"

definition get_identity :: "env \<Rightarrow> gocontext \<Rightarrow> string \<Rightarrow> identity go" where
  "get_identity E c u =
     bind (list_partner_customers E c
            (Some (partner_by_status RequestStatusAccepted (partner_by_username u new_query_filter))))
       (\<lambda>partners. case partners of
          p # _ \<Rightarrow> ret (customer_identity u (pc_partner_id (fst p)))
        | [] \<Rightarrow>
            attempt (get_member E c u)
              (\<lambda>e. if \<not> errors_is e StoreRecordNotFound then raise e else ret (regular_identity u))
              (\<lambda>m. ret (member_identity (uuid_str E) u m)))"

definition is_kind :: "env \<Rightarrow> gocontext \<Rightarrow> string \<Rightarrow> string \<Rightarrow> bool go" where
  "is_kind E c u k = bind (get_identity E c u) (\<lambda>i. ret (id_kind i = k))"

subsection \<open>Groups\<close>

definition accounts_list_groups ::
    "env \<Rightarrow> gocontext \<Rightarrow> group query_filter option \<Rightarrow> (group \<times> member list) list go" where
  "accounts_list_groups E c qf = list_groups E c qf"

definition accounts_get_group :: "env \<Rightarrow> gocontext \<Rightarrow> uuid \<Rightarrow> (group \<times> member list) go" where
  "accounts_get_group E c i =
     map_err (\<lambda>e. if errors_is e StoreRecordNotFound
                  then new_err_resource_not_found (uuid_str E) i ''group'' else e)
       (get_group E c i)"

definition group_duplicate :: "group \<Rightarrow> error" where
  "group_duplicate g = new_err_duplicate_key ''group'' (g_company g @ ''/'' @ g_name g)"

definition accounts_create_group :: "env \<Rightarrow> gocontext \<Rightarrow> group \<Rightarrow> group go" where
  "accounts_create_group E c g =
     map_err (\<lambda>e. if errors_is e StoreDuplicateKey then group_duplicate g else e)
       (create_group E c g)"

definition accounts_update_group :: "env \<Rightarrow> gocontext \<Rightarrow> group \<Rightarrow> group go" where
  "accounts_update_group E c g =
     map_err (\<lambda>e. if errors_is e StoreRecordNotFound
                  then new_err_resource_not_found (uuid_str E) (g_id g) ''group''
                  else if errors_is e StoreDuplicateKey then group_duplicate g else e)
       (update_group E c g)"

definition accounts_delete_group :: "env \<Rightarrow> gocontext \<Rightarrow> uuid \<Rightarrow> unit go" where
  "accounts_delete_group E c i = delete_group E c i"

subsection \<open>Members\<close>

definition accounts_get_member :: "env \<Rightarrow> gocontext \<Rightarrow> string \<Rightarrow> (member \<times> group option) go" where
  "accounts_get_member E c u =
     map_err (\<lambda>e. if errors_is e StoreRecordNotFound then new_err_member_not_found u else e)
       (get_member E c u)"

definition accounts_list_group_members ::
    "env \<Rightarrow> gocontext \<Rightarrow> uuid \<Rightarrow> (member \<times> group option) list go" where
  "accounts_list_group_members E c i =
     bind (accounts_get_group E c i) (\<lambda>_.
       list_members E c (Some (member_by_group_id i new_query_filter)))"

text \<open>The part of \<open>CreateMember\<close> that runs in its transaction.\<close>

definition create_member_body :: "env \<Rightarrow> member \<Rightarrow> gocontext \<Rightarrow> member go" where
  "create_member_body E m c =
     bind (list_partner_customers E c
            (Some (partner_by_active_status (partner_by_username (m_username m) new_query_filter))))
       (\<lambda>active. bind (reject_if (active \<noteq> []) (new_err_active_request_exists (m_username m))) (\<lambda>_.
     bind (map_err (\<lambda>e. if errors_is e StoreDuplicateKey
                        then new_err_duplicate_key ''member'' (m_username m) else e)
             (create_member E c m)) (\<lambda>created.
     bind (map_err (Wrapf (''failed to write member authz relation: %w'', []))
             (write_relationships E c (builder_build
                (builder_with (new_org_resource (uuid_str E (m_group_id m))) MemberRelation
                   (new_user_subject (m_username m)) new_relationship_builder)))) (\<lambda>_.
     ret created))))"

definition accounts_create_member :: "env \<Rightarrow> gocontext \<Rightarrow> member \<Rightarrow> member go" where
  "accounts_create_member E c m0 =
     (case iam_user_org E (m_username m0) of
        Inl e \<Rightarrow> raise (Wrapf (''failed to resolve user from IAM: %w'', []) e)
      | Inr org \<Rightarrow>
          (let m = m0\<lparr>m_org_id := org\<rparr> in
           bind (accounts_get_group E c (m_group_id m)) (\<lambda>_.
           attempt (get_member E c (m_username m))
             (\<lambda>e. if \<not> errors_is e StoreRecordNotFound
                  then raise (Wrapf (''failed to check existing member: %w'', []) e)
                  else tx_scope E c (create_member_body E m))
             (\<lambda>existing.
                if m_group_id (fst existing) \<noteq> m_group_id m
                then raise (new_err_member_exists_in_another_group (m_username m))
                else raise (new_err_duplicate_key ''member'' (m_username m))))))"

definition accounts_update_group_member ::
    "env \<Rightarrow> gocontext \<Rightarrow> uuid \<Rightarrow> string \<Rightarrow> member \<Rightarrow> member go" where
  "accounts_update_group_member E c gid u m =
     bind (accounts_get_group E c gid) (\<lambda>_.
     bind (accounts_get_member E c u) (\<lambda>existing.
     bind (reject_if (m_group_id (fst existing) \<noteq> gid)
             (new_err_membership_mismatch (uuid_str E) u gid)) (\<lambda>_.
     map_err (\<lambda>e. if errors_is e StoreRecordNotFound then new_err_member_not_found u else e)
       (update_member E c (m\<lparr>m_id := m_id (fst existing), m_username := m_username (fst existing),
          m_group_id := m_group_id (fst existing), m_created_at := m_created_at (fst existing)\<rparr>)))))"

definition remove_group_member_body :: "env \<Rightarrow> uuid \<Rightarrow> string \<Rightarrow> gocontext \<Rightarrow> unit go" where
  "remove_group_member_body E gid u c =
     bind (accounts_get_group E c gid) (\<lambda>_.
     bind (accounts_get_member E c u) (\<lambda>m.
     bind (reject_if (m_group_id (fst m) \<noteq> gid) (new_err_membership_mismatch (uuid_str E) u gid)) (\<lambda>_.
     bind (delete_member E c (m_id (fst m))) (\<lambda>_.
     map_err (Wrapf (''failed to remove member authz relation: %w'', []))
       (write_relationships E c (builder_build
          (builder_without (new_org_resource (uuid_str E gid)) MemberRelation
             (new_user_subject u) new_relationship_builder)))))))"

definition accounts_remove_group_member :: "env \<Rightarrow> gocontext \<Rightarrow> uuid \<Rightarrow> string \<Rightarrow> unit go" where
  "accounts_remove_group_member E c gid u = tx_scope E c (remove_group_member_body E gid u)"

subsection \<open>Bootstrap of the admin group\<close>

fun delete_groups :: "env \<Rightarrow> gocontext \<Rightarrow> (group \<times> member list) list \<Rightarrow> unit go" where
  "delete_groups E c [] = ret ()"
| "delete_groups E c (g # gs) =
     bind (map_err (Wrapf (''deleting existing admin group %s: %w'', [uuid_str E (g_id (fst g))]))
             (delete_group E c (g_id (fst g)))) (\<lambda>_.
       delete_groups E c gs)"

definition new_member :: "string \<Rightarrow> string \<Rightarrow> uuid \<Rightarrow> member" where
  "new_member u e i = \<lparr>m_id = nil_uuid, m_created_at = zero_time, m_updated_at = None,
     m_username = u, m_email = e, m_group_id = i, m_org_id = []\<rparr>"

fun add_admin_members :: "env \<Rightarrow> gocontext \<Rightarrow> uuid \<Rightarrow> admin_group_member list \<Rightarrow> unit go" where
  "add_admin_members E c gid [] = ret ()"
| "add_admin_members E c gid (m # ms) =
     attempt (get_member E c (agm_username m))
       (\<lambda>_. bind (map_err (Wrapf (''adding admin member %s: %w'', [agm_username m]))
                    (create_member E c (new_member (agm_username m) (agm_email m) gid))) (\<lambda>_.
              add_admin_members E c gid ms))
       (\<lambda>_. add_admin_members E c gid ms)"

definition admin_group_row :: "uuid \<Rightarrow> string \<Rightarrow> group" where
  "admin_group_row i name = \<lparr>g_id = i, g_created_at = zero_time, g_updated_at = None,
     g_name = name, g_description = [], g_kind = ''admin'', g_icon = [], g_company = name,
     g_parent_id = None\<rparr>"

definition initialize_body :: "env \<Rightarrow> admin_group \<Rightarrow> gocontext \<Rightarrow> unit go" where
  "initialize_body E ag c =
     bind (map_err (Wrapf (''looking up admin group: %w'', []))
            (list_groups E c (Some (group_by_kind ''admin''
               (group_by_name (ag_name ag) new_query_filter))))) (\<lambda>gs.
     bind (delete_groups E c gs) (\<lambda>_.
     bind (uuid_new E) (\<lambda>i.
     bind (map_err (Wrapf (''creating admin group: %w'', []))
            (create_group E c (admin_group_row i (ag_name ag)))) (\<lambda>g.
     add_admin_members E c (g_id g) (ag_members ag)))))"

definition accounts_initialize :: "env \<Rightarrow> gocontext \<Rightarrow> admin_group \<Rightarrow> unit go" where
  "accounts_initialize E c0 ag =
     bind (map_err (Wrapf (''starting transaction: %w'', [])) (new_transaction_context E c0)) (\<lambda>c.
       defer_rollback_on_error E c
         (bind (initialize_body E ag c) (\<lambda>_.
          bind (map_err (Wrapf (''committing transaction: %w'', [])) (commit E c)) (\<lambda>_. ret ()))))"

subsection \<open>What \<open>GetIdentity\<close> observes\<close>

text \<open>The accepted requests of a user, the kind they and the membership give the user.\<close>

definition accepted_requests :: "db \<Rightarrow> string \<Rightarrow> partner_customer list" where
  "accepted_requests d u = filter (\<lambda>p. pc_username p = u \<and> pc_request_status p = RequestStatusAccepted)
     (partners_customers d)"

definition role_of :: "db \<Rightarrow> string \<Rightarrow> string" where
  "role_of d u = (case find_member d u of
     None \<Rightarrow> KindRegular
   | Some m \<Rightarrow> (case find_group d (m_group_id m) of
       None \<Rightarrow> KindRegular
     | Some g \<Rightarrow> if g_kind g = ''partner'' then KindPartner
                 else if g_kind g = ''admin'' then KindAdmin else KindRegular))"

definition kind_of :: "db \<Rightarrow> string \<Rightarrow> string" where
  "kind_of d u = (if accepted_requests d u \<noteq> [] then KindCustomer else role_of d u)"

definition is_identity :: "(uuid \<Rightarrow> string) \<Rightarrow> db \<Rightarrow> string \<Rightarrow> identity \<Rightarrow> bool" where
  "is_identity us d u i \<longleftrightarrow>
     id_username i = u \<and> id_kind i = kind_of d u \<and>
     (kind_of d u = KindCustomer \<longrightarrow>
        id_group_id i = None \<and>
        (\<exists>p \<in> set (accepted_requests d u). id_partner_id i = Some (pc_partner_id p))) \<and>
     (kind_of d u \<noteq> KindCustomer \<longrightarrow> id_partner_id i = None) \<and>
     (kind_of d u = KindRegular \<longrightarrow> id_group_id i = None) \<and>
     (kind_of d u \<in> {KindPartner, KindAdmin} \<longrightarrow>
        (\<exists>m. find_member d u = Some m \<and> id_group_id i = Some (us (m_group_id m))))"

lemma role_of_cases:
  "role_of d u \<in> {KindRegular, KindPartner, KindAdmin}"
  by (auto simp: role_of_def split: option.splits)

lemma kind_of_customer [simp]: "kind_of d u = KindCustomer \<longleftrightarrow> accepted_requests d u \<noteq> []"
  using role_of_cases [of d u] by (auto simp: kind_of_def)

lemma is_identity_customer:
  "p \<in> set (accepted_requests d u) \<Longrightarrow> is_identity us d u (customer_identity u (pc_partner_id p))"
  by (auto simp: is_identity_def customer_identity_def kind_of_def)

lemma is_identity_member:
  assumes "accepted_requests d u = []" "find_member d u = Some m"
  shows "is_identity us d u (member_identity us u (m, find_group d (m_group_id m)))"
  using assms find_memberD [OF assms(2)]
  by (auto simp: is_identity_def member_identity_def regular_identity_def kind_of_def role_of_def
      split: option.splits)

lemma is_identity_regular:
  "accepted_requests d u = [] \<Longrightarrow> find_member d u = None \<Longrightarrow> is_identity us d u (regular_identity u)"
  by (auto simp: is_identity_def regular_identity_def kind_of_def role_of_def)

lemma readonly_get_identity [readonly_intro]: "readonly (get_identity E c u)"
  unfolding get_identity_def
  by (intro readonly_intro) (auto split: list.splits intro!: readonly_intro)

lemma accepted_requests_eq:
  "{p \<in> set (partners_customers d). pc_username p = u \<and> pc_request_status p = RequestStatusAccepted} =
     set (accepted_requests d u)"
  by (auto simp: accepted_requests_def)

lemma observes_get_identity:
  "observes c (get_identity E c u)
     (\<lambda>d r. case r of Inl e \<Rightarrow> faulty E | Inr i \<Rightarrow> is_identity (uuid_str E) d u i)"
proof (rule observesI [OF readonly_get_identity])
  fix w
  let ?qf = "Some (partner_by_status RequestStatusAccepted (partner_by_username u new_query_filter))"
  let ?d = "get_db c w"
  let ?rows = "find_rows E (tick w) (satisfies ?qf) (partners_customers ?d)"
  have rows: "set ?rows = set (accepted_requests ?d u)"
    by (auto simp: accepted_requests_def)
  show "wp (get_identity E c u) w (\<lambda>r w'.
          case r of Inl e \<Rightarrow> faulty E | Inr i \<Rightarrow> is_identity (uuid_str E) (get_db c w) u i)"
  proof (cases ?rows)
    case Nil
    with rows have "accepted_requests ?d u = []" by simp
    with Nil show ?thesis
      by (auto simp: get_identity_def wp_bind wp_list_partner_customers wp_attempt wp_get_member
          wp_ret wp_raise is_identity_regular is_identity_member)
  next
    case (Cons p ps)
    with rows have "p \<in> set (accepted_requests ?d u)" by (metis list.set_intros(1))
    with Cons show ?thesis
      by (auto simp: get_identity_def wp_bind wp_list_partner_customers wp_ret is_identity_customer)
  qed
qed

lemma wp_get_identity:
  assumes "\<And>e w'. committed w' = committed w \<Longrightarrow> open_tx w' = open_tx w \<Longrightarrow> faulty E \<Longrightarrow> Q (Inl e) w'"
    and "\<And>i w'. committed w' = committed w \<Longrightarrow> open_tx w' = open_tx w \<Longrightarrow>
      is_identity (uuid_str E) (get_db c w) u i \<Longrightarrow> Q (Inr i) w'"
  shows "wp (get_identity E c u) w Q"
  by (rule observes_wp [OF observes_get_identity]) (auto intro: assms split: sum.splits)

subsection \<open>The transactions of the service\<close>

lemma local_get_identity [local_intro]: "local_tx c (get_identity E c' u)"
  by (simp add: local_readonly readonly_intro)

lemma local_accounts_lookups [local_intro]:
  "local_tx c (accounts_get_group E c' i)" "local_tx c (accounts_get_member E c' u)"
  by (simp_all add: accounts_get_group_def accounts_get_member_def local_intro)

interpretation create_member_unit:
  unit_of_work E "request_context u" "create_member_body E m" for E u m
  by unfold_locales (simp_all add: create_member_body_def local_intro)

interpretation remove_group_member_unit:
  unit_of_work E "request_context u" "remove_group_member_body E gid name" for E u gid name
  by unfold_locales (simp_all add: remove_group_member_body_def local_intro)

end
