(* ===== verification/AuthzAccounts.thy ===== *)
theory AuthzAccounts
  imports AccountsService
begin

text \<open>
  \<open>internal/service/authz_accounts.go\<close>: the accounts service as its clients reach it, behind the
  check that the caller is an administrator, and its atomic specification.
\<close>

definition require_admin :: "env \<Rightarrow> gocontext \<Rightarrow> string \<Rightarrow> unit go" where
  "require_admin E c res =
     bind (must_have_user c) (\<lambda>u.
     bind (map_err (Wrapf (''authz: failed to get identity: %w'', []))
            (get_identity E c (u_username u))) (\<lambda>i.
     reject_if (id_kind i \<noteq> KindAdmin) (new_err_forbidden res (u_username u))))"

definition authz_initialize :: "env \<Rightarrow> gocontext \<Rightarrow> admin_group \<Rightarrow> unit go" where
  "authz_initialize E c ag = accounts_initialize E c ag"

definition authz_get_identity :: "env \<Rightarrow> gocontext \<Rightarrow> string \<Rightarrow> identity go" where
  "authz_get_identity E c u = get_identity E c u"

definition authz_get_account_identity :: "env \<Rightarrow> string \<Rightarrow> account_identity go" where
  "authz_get_account_identity E a = get_account_identity E a"

definition authz_list_groups ::
    "env \<Rightarrow> gocontext \<Rightarrow> group query_filter option \<Rightarrow> (group \<times> member list) list go" where
  "authz_list_groups E c qf = bind (require_admin E c ''groups'') (\<lambda>_. accounts_list_groups E c qf)"

definition authz_get_group :: "env \<Rightarrow> gocontext \<Rightarrow> uuid \<Rightarrow> (group \<times> member list) go" where
  "authz_get_group E c i =
     bind (must_have_user c) (\<lambda>u.
     bind (map_err (Wrapf (''authz: failed to get identity: %w'', []))
            (get_identity E c (u_username u))) (\<lambda>ident.
     bind (reject_if (\<not> (id_kind ident = KindAdmin \<or>
               id_kind ident = KindCustomer \<and> id_partner_id ident = Some (uuid_str E i)))
             (new_err_forbidden ''groups'' (u_username u))) (\<lambda>_.
     accounts_get_group E c i)))"

definition authz_create_group :: "env \<Rightarrow> gocontext \<Rightarrow> group \<Rightarrow> group go" where
  "authz_create_group E c g = bind (require_admin E c ''groups'') (\<lambda>_. accounts_create_group E c g)"

definition authz_update_group :: "env \<Rightarrow> gocontext \<Rightarrow> group \<Rightarrow> group go" where
  "authz_update_group E c g = bind (require_admin E c ''groups'') (\<lambda>_. accounts_update_group E c g)"

definition authz_delete_group :: "env \<Rightarrow> gocontext \<Rightarrow> uuid \<Rightarrow> unit go" where
  "authz_delete_group E c i = bind (require_admin E c ''groups'') (\<lambda>_. accounts_delete_group E c i)"

definition authz_get_member :: "env \<Rightarrow> gocontext \<Rightarrow> string \<Rightarrow> (member \<times> group option) go" where
  "authz_get_member E c u = bind (require_admin E c ''members'') (\<lambda>_. accounts_get_member E c u)"

definition authz_list_group_members ::
    "env \<Rightarrow> gocontext \<Rightarrow> uuid \<Rightarrow> (member \<times> group option) list go" where
  "authz_list_group_members E c i =
     bind (require_admin E c ''members'') (\<lambda>_. accounts_list_group_members E c i)"

definition authz_create_member :: "env \<Rightarrow> gocontext \<Rightarrow> member \<Rightarrow> member go" where
  "authz_create_member E c m = bind (require_admin E c ''members'') (\<lambda>_. accounts_create_member E c m)"

definition authz_update_group_member ::
    "env \<Rightarrow> gocontext \<Rightarrow> uuid \<Rightarrow> string \<Rightarrow> member \<Rightarrow> member go" where
  "authz_update_group_member E c gid u m =
     bind (require_admin E c ''members'') (\<lambda>_. accounts_update_group_member E c gid u m)"

definition authz_remove_group_member :: "env \<Rightarrow> gocontext \<Rightarrow> uuid \<Rightarrow> string \<Rightarrow> unit go" where
  "authz_remove_group_member E c gid u =
     bind (require_admin E c ''members'') (\<lambda>_. accounts_remove_group_member E c gid u)"

subsection \<open>The guard\<close>

lemma readonly_require_admin [readonly_intro]: "readonly (require_admin E c res)"
  by (simp add: require_admin_def readonly_intro)

lemma observes_require_admin:
  "observes (request_context u) (require_admin E (request_context u) res)
     (\<lambda>d r. case r of
        Inl e \<Rightarrow> faulty E \<or> kind_of d (u_username u) \<noteq> KindAdmin \<and>
                 e = new_err_forbidden res (u_username u)
      | Inr _ \<Rightarrow> kind_of d (u_username u) = KindAdmin)"
  by (rule observesI [OF readonly_require_admin], unfold require_admin_def wp_bind
      must_have_user_request wp_map_err wp_ret wp_reject_if, simp)
     (rule wp_get_identity, auto simp: wp_reject_if is_identity_def get_db_cong)

subsection \<open>The atomic specification of each operation\<close>

definition create_group_spec :: "group \<Rightarrow> db \<Rightarrow> error + group \<times> db \<Rightarrow> bool" where
  "create_group_spec g d out \<longleftrightarrow> (\<exists>now. out = executes (insert_group (stamp_group now g))
     (\<lambda>e. if e = GormDuplicatedKey then group_duplicate g else e) (stamp_group now g) d)"

definition update_group_spec :: "env \<Rightarrow> group \<Rightarrow> db \<Rightarrow> error + group \<times> db \<Rightarrow> bool" where
  "update_group_spec E g d out \<longleftrightarrow>
     (if find_group d (g_id g) = None
      then out = Inl (new_err_resource_not_found (uuid_str E) (g_id g) ''group'')
      else (\<exists>now. let g' = g\<lparr>g_updated_at := Some now\<rparr> in
        out = executes (model_update (g_id g) (update_group_columns g'))
          (\<lambda>e. if e = GormDuplicatedKey then group_duplicate g else e) g' d))"

definition delete_group_spec :: "env \<Rightarrow> uuid \<Rightarrow> db \<Rightarrow> error + unit \<times> db \<Rightarrow> bool" where
  "delete_group_spec E i d out \<longleftrightarrow> out = executes (delete_group_row (uuid_str E) i) (\<lambda>e. e) () d"

definition member_tuple :: "env \<Rightarrow> uuid \<Rightarrow> string \<Rightarrow> relation_row" where
  "member_tuple E gid u = \<lparr>r_resource = OrgResource, r_resource_id = uuid_str E gid,
     r_relation = MemberRelation, r_subject_namespace = UserSubject, r_subject_id = u\<rparr>"

definition add_member :: "env \<Rightarrow> member \<Rightarrow> db \<Rightarrow> error + db" where
  "add_member E m d = (case insert_member m d of
     Inl e \<Rightarrow> Inl e
   | Inr d' \<Rightarrow> touch_relations [member_tuple E (m_group_id m) (m_username m)] d')"

definition create_member_spec :: "env \<Rightarrow> member \<Rightarrow> db \<Rightarrow> error + member \<times> db \<Rightarrow> bool" where
  "create_member_spec E m0 d out \<longleftrightarrow>
     (case iam_user_org E (m_username m0) of
        Inl e \<Rightarrow> out = Inl (Wrapf (''failed to resolve user from IAM: %w'', []) e)
      | Inr org \<Rightarrow>
        (let m = m0\<lparr>m_org_id := org\<rparr>; u = m_username m in
         if find_group d (m_group_id m) = None
         then out = Inl (new_err_resource_not_found (uuid_str E) (m_group_id m) ''group'')
         else case find_member d u of
           Some ex \<Rightarrow> out = Inl (if m_group_id ex \<noteq> m_group_id m
             then new_err_member_exists_in_another_group u else new_err_duplicate_key ''member'' u)
         | None \<Rightarrow>
             if \<exists>p \<in> set (partners_customers d). pc_username p = u \<and> active_status (pc_request_status p)
             then out = Inl (new_err_active_request_exists u)
             else \<exists>i now. (let m' = stamp_member now (m\<lparr>m_id := if m_id m = nil_uuid then i else m_id m\<rparr>) in
               out = executes (add_member E m')
                 (\<lambda>e. if e = GormDuplicatedKey then new_err_duplicate_key ''member'' u else e) m' d)))"

definition update_group_member_spec ::
    "env \<Rightarrow> uuid \<Rightarrow> string \<Rightarrow> member \<Rightarrow> db \<Rightarrow> error + member \<times> db \<Rightarrow> bool" where
  "update_group_member_spec E gid u m d out \<longleftrightarrow>
     (if find_group d gid = None
      then out = Inl (new_err_resource_not_found (uuid_str E) gid ''group'')
      else case find_member d u of
        None \<Rightarrow> out = Inl (new_err_member_not_found u)
      | Some ex \<Rightarrow>
          if m_group_id ex \<noteq> gid then out = Inl (new_err_membership_mismatch (uuid_str E) u gid)
          else \<exists>now. let m' = m\<lparr>m_id := m_id ex, m_username := m_username ex,
                   m_group_id := m_group_id ex, m_created_at := m_created_at ex,
                   m_updated_at := Some now\<rparr>
               in out = executes (model_update (m_id ex) (update_member_columns m')) (\<lambda>e. e) m' d)"

definition drop_member :: "env \<Rightarrow> member \<Rightarrow> db \<Rightarrow> db" where
  "drop_member E m d =
     d\<lparr>members := filter (\<lambda>r. m_id r \<noteq> m_id m) (members d),
       relations := filter (\<lambda>r. r \<noteq> member_tuple E (m_group_id m) (m_username m)) (relations d)\<rparr>"

definition remove_group_member_spec ::
    "env \<Rightarrow> uuid \<Rightarrow> string \<Rightarrow> db \<Rightarrow> error + unit \<times> db \<Rightarrow> bool" where
  "remove_group_member_spec E gid u d out \<longleftrightarrow>
     (if find_group d gid = None
      then out = Inl (new_err_resource_not_found (uuid_str E) gid ''group'')
      else case find_member d u of
        None \<Rightarrow> out = Inl (new_err_member_not_found u)
      | Some m \<Rightarrow>
          if m_group_id m \<noteq> gid then out = Inl (new_err_membership_mismatch (uuid_str E) u gid)
          else out = Inr ((), drop_member E m d))"

subsection \<open>The operations refine it\<close>

lemmas account_wp = wp_bind wp_attempt wp_map_err wp_ret wp_raise wp_reject_if wp_time_now
  wp_uuid_new wp_exec wp_gorm_first wp_get_group wp_get_member

lemma create_group_refines:
  "\<not> ctx_tx c \<Longrightarrow> refines E (accounts_create_group E c g) (create_group_spec g)"
  by (rule refinesI)
     (auto simp: accounts_create_group_def create_group_def account_wp create_group_spec_def
        stmt_errors intro!: exI executes_Inl executes_Inr)

lemma update_group_refines:
  "\<not> ctx_tx c \<Longrightarrow> refines E (accounts_update_group E c g) (update_group_spec E g)"
  by (rule refinesI)
     (auto simp: accounts_update_group_def update_group_def Let_def account_wp update_group_spec_def
        stmt_errors stmt_error_model_update intro!: exI executes_Inl executes_Inr)

lemma delete_group_refines:
  "\<not> ctx_tx c \<Longrightarrow> refines E (accounts_delete_group E c i) (delete_group_spec E i)"
  by (rule refinesI)
     (auto simp: accounts_delete_group_def delete_group_def account_wp delete_group_spec_def
        stmt_errors intro!: executes_Inl executes_Inr)

lemma update_group_member_refines:
  "\<not> ctx_tx c \<Longrightarrow>
   refines E (accounts_update_group_member E c gid u m) (update_group_member_spec E gid u m)"
  by (rule refinesI)
     (auto simp: accounts_update_group_member_def accounts_get_group_def accounts_get_member_def
        update_member_def Let_def account_wp update_group_member_spec_def
        stmt_errors stmt_error_model_update intro!: exI executes_Inl executes_Inr
        dest!: find_memberD simp: filter_empty_conv)

lemma to_sql_member_tuple:
  "to_sql (new_relationship (res_type (new_org_resource (uuid_str E gid)))
     (res_id (new_org_resource (uuid_str E gid))) MemberRelation (new_user_subject u)) =
     member_tuple E gid u"
  by (simp add: new_relationship_def to_sql_def new_org_resource_def new_user_subject_def
      member_tuple_def)

lemma find_rows_nonempty: "find_rows E t P rs \<noteq> [] \<longleftrightarrow> (\<exists>r \<in> set rs. P r)"
  by (simp add: find_rows_Nil)

lemma stamp_member_simps [simp]:
  "m_group_id (stamp_member now m) = m_group_id m" "m_username (stamp_member now m) = m_username m"
  "m_id (stamp_member now m) = m_id m"
  by (simp_all add: stamp_member_def)

lemma add_member_Inl: "insert_member m d = Inl e \<Longrightarrow> add_member E m d = Inl e"
  and add_member_Inr: "insert_member m d = Inr d1 \<Longrightarrow>
    d' = d1\<lparr>relations := insert_ignore [member_tuple E (m_group_id m) (m_username m)] (relations d1)\<rparr> \<Longrightarrow>
    add_member E m d = Inr d'"
  by (simp_all add: add_member_def touch_relations_def)

lemma create_member_refines:
  "refines E (accounts_create_member E (request_context u) m) (create_member_spec E m)"
proof (rule refinesI)
  fix w :: world
  have "wp (tx_scope E (request_context u) (create_member_body E m')) w'
     (\<lambda>r w''. outcome E (create_member_spec E m) (committed w) r (committed w''))"
    if w': "committed w' = committed w" and iam: "iam_user_org E (m_username m) = Inr org"
      and m': "m' = m\<lparr>m_org_id := org\<rparr>" and g: "find_group (committed w) (m_group_id m') \<noteq> None"
      and "find_member (committed w) (m_username m') = None" for w' :: world and m' org
  proof -
    note spec = create_member_spec_def iam Let_def
    show ?thesis
      unfolding w' [symmetric]
      by (rule create_member_unit.scope_rule, simp, insert that)
         (auto simp: create_member_body_def create_member_def account_wp wp_list_partner_customers
           wp_write_one to_sql_member_tuple stmt_errors find_rows_nonempty spec
          intro!: exI executes_Inl executes_Inr add_member_Inl add_member_Inr)
  qed
  then show "wp (accounts_create_member E (request_context u) m) w
     (\<lambda>r w'. outcome E (create_member_spec E m) (committed w) r (committed w'))"
    by (auto simp: accounts_create_member_def Let_def account_wp accounts_get_group_def
         create_member_spec_def split: sum.splits option.splits)
qed

lemma remove_group_member_refines:
  "refines E (accounts_remove_group_member E (request_context u) gid name)
     (remove_group_member_spec E gid name)"
  unfolding accounts_remove_group_member_def
  by (rule refinesI, rule remove_group_member_unit.scope_rule, simp)
     (auto simp: remove_group_member_body_def delete_member_def delete_member_row_def account_wp
       accounts_get_group_def accounts_get_member_def remove_group_member_spec_def wp_write_one
       to_sql_member_tuple drop_member_def dest: find_memberD)

subsection \<open>Behind the guard\<close>

definition admin_only :: "user \<Rightarrow> string \<Rightarrow> (db \<Rightarrow> error + 'a \<times> db \<Rightarrow> bool) \<Rightarrow>
    db \<Rightarrow> error + 'a \<times> db \<Rightarrow> bool" where
  "admin_only u res = guarded (\<lambda>d. kind_of d (u_username u) = KindAdmin)
     (new_err_forbidden res (u_username u))"

lemma refines_admin:
  "refines E m S \<Longrightarrow>
   refines E (bind (require_admin E (request_context u) res) (\<lambda>_. m)) (admin_only u res S)"
  unfolding admin_only_def
  by (rule refines_guard [OF observes_require_admin]) simp_all

lemma authz_accounts_refine:
  "refines E (authz_create_group E (request_context u) g) (admin_only u ''groups'' (create_group_spec g))"
  "refines E (authz_update_group E (request_context u) g) (admin_only u ''groups'' (update_group_spec E g))"
  "refines E (authz_delete_group E (request_context u) i) (admin_only u ''groups'' (delete_group_spec E i))"
  "refines E (authz_create_member E (request_context u) m)
     (admin_only u ''members'' (create_member_spec E m))"
  "refines E (authz_update_group_member E (request_context u) gid name m)
     (admin_only u ''members'' (update_group_member_spec E gid name m))"
  "refines E (authz_remove_group_member E (request_context u) gid name)
     (admin_only u ''members'' (remove_group_member_spec E gid name))"
  by (simp_all add: refines_admin authz_create_group_def authz_update_group_def
      authz_delete_group_def authz_create_member_def authz_update_group_member_def
      authz_remove_group_member_def create_group_refines update_group_refines
      delete_group_refines create_member_refines update_group_member_refines
      remove_group_member_refines)

subsection \<open>Bootstrap\<close>

definition background_context :: gocontext where
  "background_context = \<lparr>ctx_user = None, ctx_tx = False, ctx_owner = False\<rparr>"

lemma background_context_simps [simp]: "\<not> ctx_tx background_context"
  by (simp add: background_context_def)

fun groups_deleted :: "env \<Rightarrow> group list \<Rightarrow> db \<Rightarrow> error + db" where
  "groups_deleted E [] d = Inr d"
| "groups_deleted E (g # gs) d = (case delete_group_row (uuid_str E) (g_id g) d of
     Inl e \<Rightarrow> Inl (Wrapf (''deleting existing admin group %s: %w'', [uuid_str E (g_id g)]) e)
   | Inr d' \<Rightarrow> groups_deleted E gs d')"

fun admins_added :: "uuid \<Rightarrow> admin_group_member list \<Rightarrow> db \<Rightarrow> error + db \<Rightarrow> bool" where
  "admins_added gid [] d out = (out = Inr d)"
| "admins_added gid (m # ms) d out =
     (if find_member d (agm_username m) \<noteq> None then admins_added gid ms d out
      else \<exists>i now. case insert_member (stamp_member now
                ((new_member (agm_username m) (agm_email m) gid)\<lparr>m_id := i\<rparr>)) d of
            Inl e \<Rightarrow> out = Inl (Wrapf (''adding admin member %s: %w'', [agm_username m]) (gorm_duplicated e))
          | Inr d' \<Rightarrow> admins_added gid ms d' out)"

definition admin_groups_named :: "string \<Rightarrow> db \<Rightarrow> group list" where
  "admin_groups_named name d =
     filter (\<lambda>g. g_kind g = ''admin'' \<and> ilike (''%'' @ name @ ''%'') (g_name g)) (groups d)"

definition initialize_spec :: "env \<Rightarrow> admin_group \<Rightarrow> db \<Rightarrow> error + unit \<times> db \<Rightarrow> bool" where
  "initialize_spec E ag d out \<longleftrightarrow>
     (\<exists>gs i now. mset gs = mset (admin_groups_named (ag_name ag) d) \<and>
        (case groups_deleted E gs d of
           Inl e \<Rightarrow> out = Inl e
         | Inr d1 \<Rightarrow>
             (case insert_group (stamp_group now (admin_group_row i (ag_name ag))) d1 of
                Inl e \<Rightarrow> out = Inl (Wrapf (''creating admin group: %w'', []) (gorm_duplicated e))
              | Inr d2 \<Rightarrow> (\<exists>res. admins_added i (ag_members ag) d2 res \<and>
                  out = (case res of Inl e \<Rightarrow> Inl e | Inr d3 \<Rightarrow> Inr ((), d3))))))"

lemma wp_delete_groups:
  assumes "ctx_tx c" "open_tx w = Some d"
  shows "wp (delete_groups E c gs) w (\<lambda>r w'. committed w' = committed w \<and>
     (case r of Inl e \<Rightarrow> faulty E \<or> groups_deleted E (map fst gs) d = Inl e
      | Inr _ \<Rightarrow> \<exists>d'. open_tx w' = Some d' \<and> groups_deleted E (map fst gs) d = Inr d'))"
  using assms
proof (induction gs arbitrary: w d)
  case Nil
  then show ?case by (simp add: wp_ret)
next
  case (Cons g gs)
  have "wp (delete_groups E c gs) (w2 :: world) (\<lambda>r w'. committed w' = committed w \<and>
     (case r of Inl e \<Rightarrow> faulty E \<or> groups_deleted E (map fst (g # gs)) d = Inl e
      | Inr _ \<Rightarrow> \<exists>d'. open_tx w' = Some d' \<and> groups_deleted E (map fst (g # gs)) d = Inr d'))"
    if "committed w2 = committed w" "open_tx w2 = Some d2"
      "delete_group_row (uuid_str E) (g_id (fst g)) d = Inr d2" for w2 d2
    using that wp_mono [OF Cons.IH [OF Cons.prems(1) that(2)]]
    by (simp cong: sum.case_cong)
  with Cons.prems show ?case
    by (auto simp: account_wp delete_group_def stmt_errors split: sum.splits)
qed

lemma insert_member_taken:
  "find_member d (m_username m) \<noteq> None \<Longrightarrow> insert_member m d = Inl GormDuplicatedKey"
  by (auto simp: insert_member_def find_member_None image_iff)

lemma new_member_simps [simp]:
  "m_id (new_member n e i) = nil_uuid" "m_username (new_member n e i) = n"
  "m_group_id (new_member n e i) = i"
  by (simp_all add: new_member_def)

lemma wp_add_admin_members:
  assumes "ctx_tx c" "open_tx w = Some d"
  shows "wp (add_admin_members E c gid ms) w (\<lambda>r w'. committed w' = committed w \<and>
     (case r of Inl e \<Rightarrow> faulty E \<or> admins_added gid ms d (Inl e)
      | Inr _ \<Rightarrow> \<exists>d'. open_tx w' = Some d' \<and> admins_added gid ms d (Inr d')))"
  using assms
proof (induction ms arbitrary: w d)
  case Nil
  then show ?case by (simp add: wp_ret)
next
  case (Cons m ms)
  let ?Q = "\<lambda>r w'. committed w' = committed w \<and>
     (case r of Inl e \<Rightarrow> faulty E \<or> admins_added gid (m # ms) d (Inl e)
      | Inr _ \<Rightarrow> \<exists>d'. open_tx w' = Some d' \<and> admins_added gid (m # ms) d (Inr d'))"
  have skip: "wp (add_admin_members E c gid ms) w2 ?Q"
    if "committed w2 = committed w" "open_tx w2 = Some d" "find_member d (agm_username m) \<noteq> None"
    for w2 :: world
    using that wp_mono [OF Cons.IH [OF Cons.prems(1) that(2)]] by (simp cong: sum.case_cong)
  have add: "wp (add_admin_members E c gid ms) w2 ?Q"
    if "committed w2 = committed w" "open_tx w2 = Some d2" "find_member d (agm_username m) = None"
      "insert_member (stamp_member now
         ((new_member (agm_username m) (agm_email m) gid)\<lparr>m_id := i\<rparr>)) d = Inr d2"
    for w2 :: world and d2 now i
  proof (rule wp_mono [OF Cons.IH [OF Cons.prems(1) that(2)]])
    fix r and w' :: world
    have step: "admins_added gid ms d2 out \<Longrightarrow> admins_added gid (m # ms) d out" for out
      using that(3,4) by (auto intro!: exI [of _ i] exI [of _ now])
    show "committed w' = committed w2 \<and> (case r of
         Inl e \<Rightarrow> faulty E \<or> admins_added gid ms d2 (Inl e)
       | Inr _ \<Rightarrow> \<exists>d'. open_tx w' = Some d' \<and> admins_added gid ms d2 (Inr d')) \<Longrightarrow> ?Q r w'"
      using step that(1) by (fastforce split: sum.splits)
  qed
  have fail: "admins_added gid (m # ms) d
       (Inl (Wrapf (''adding admin member %s: %w'', [agm_username m]) (gorm_duplicated e)))"
    if "find_member d (agm_username m) = None" "insert_member (stamp_member now
         ((new_member (agm_username m) (agm_email m) gid)\<lparr>m_id := i\<rparr>)) d = Inl e" for e i now
    using that by (auto intro!: exI [of _ i] exI [of _ now])
  have create: "wp (bind (map_err (Wrapf (''adding admin member %s: %w'', [agm_username m]))
       (create_member E c (new_member (agm_username m) (agm_email m) gid))) (\<lambda>_.
       add_admin_members E c gid ms)) w2 ?Q"
    if "committed w2 = committed w" "open_tx w2 = Some d"
      "faulty E \<or> find_member d (agm_username m) = None" for w2 :: world
  proof (cases "find_member d (agm_username m) = None")
    case True
    then show ?thesis
      using Cons.prems that(1,2)
      by (auto simp: account_wp create_member_def simp del: admins_added.simps
          intro!: add fail)
  next
    case False
    with that Cons.prems show ?thesis
      by (auto simp: account_wp create_member_def insert_member_taken)
  qed
  have "wp (get_member E c (agm_username m)) w (\<lambda>r w'.
      committed w' = committed w \<and> open_tx w' = Some d \<and>
      (isl r \<longrightarrow> faulty E \<or> find_member d (agm_username m) = None) \<and>
      (\<not> isl r \<longrightarrow> find_member d (agm_username m) \<noteq> None))"
    using Cons.prems by (simp add: wp_get_member)
  then show ?case
    unfolding add_admin_members.simps(2) wp_attempt
    by (rule wp_mono) (use skip create in \<open>auto simp: isl_def\<close>)
qed

lemma stamp_group_id [simp]: "g_id (stamp_group now g) = g_id g"
  by (simp add: stamp_group_def)

lemma admin_group_row_id [simp]: "g_id (admin_group_row i n) = i"
  by (simp add: admin_group_row_def)

text \<open>The bootstrap commits all of it or nothing.\<close>

lemma mset_find_admin_groups:
  "mset (map fst (preload_members E t d (sort_key k (find_rows E t
     (satisfies (Some (group_by_kind ''admin'' (group_by_name n new_query_filter)))) (groups d))))) =
   mset (admin_groups_named n d)"
  by (simp add: admin_groups_named_def conj_commute)

lemma initialize_refines:
  "refines E (accounts_initialize E background_context ag) (initialize_spec E ag)"
proof (rule refinesI)
  fix w :: world
  let ?c = "tx_context background_context"
  let ?d = "committed w"
  define done_ok where "done_ok d' \<longleftrightarrow> initialize_spec E ag ?d (Inr ((), d'))" for d'
  define failed where "failed e \<longleftrightarrow> faulty E \<or> initialize_spec E ag ?d (Inl e)" for e
  have faulty_failed: "failed e" if "faulty E" for e
    using that by (simp add: failed_def)
  have body: "wp (initialize_body E ag ?c) wi (\<lambda>r w'. committed w' = ?d \<and>
      (case r of Inl e \<Rightarrow> failed e | Inr _ \<Rightarrow> \<exists>d'. open_tx w' = Some d' \<and> done_ok d'))"
    if wi: "committed wi = ?d" "open_tx wi = Some ?d" for wi :: world
  proof -
    define gs where "gs = preload_members E (tick wi) ?d (sort_key (\<lambda>g. - g_created_at g)
      (find_rows E (tick wi) (satisfies (Some (group_by_kind ''admin''
         (group_by_name (ag_name ag) new_query_filter)))) (groups ?d)))"
    have gs: "mset (map fst gs) = mset (admin_groups_named (ag_name ag) ?d)"
      unfolding gs_def by (rule mset_find_admin_groups)
    have members: "wp (add_admin_members E ?c i (ag_members ag)) w3 (\<lambda>r w'. committed w' = ?d \<and>
        (case r of Inl e \<Rightarrow> failed e | Inr _ \<Rightarrow> \<exists>d'. open_tx w' = Some d' \<and> done_ok d'))"
      if "committed w3 = ?d" "open_tx w3 = Some d2"
        "groups_deleted E (map fst gs) ?d = Inr d1"
        "insert_group (stamp_group now (admin_group_row i (ag_name ag))) d1 = Inr d2"
      for w3 :: world and d1 d2 i now
    proof (rule wp_mono [OF wp_add_admin_members [OF _ that(2)]])
      have ok: "initialize_spec E ag ?d (case res of Inl e \<Rightarrow> Inl e | Inr d3 \<Rightarrow> Inr ((), d3))"
        if "admins_added i (ag_members ag) d2 res" for res
        unfolding initialize_spec_def
        by (rule exI [of _ "map fst gs"], rule exI [of _ i], rule exI [of _ now])
           (use gs that \<open>groups_deleted E _ _ = _\<close> \<open>insert_group _ _ = _\<close> in auto)
      fix r and w' :: world
      show "committed w' = committed w3 \<and> (case r of
           Inl e \<Rightarrow> faulty E \<or> admins_added i (ag_members ag) d2 (Inl e)
         | Inr _ \<Rightarrow> \<exists>d'. open_tx w' = Some d' \<and> admins_added i (ag_members ag) d2 (Inr d')) \<Longrightarrow>
         committed w' = ?d \<and>
         (case r of Inl e \<Rightarrow> failed e | Inr _ \<Rightarrow> \<exists>d'. open_tx w' = Some d' \<and> done_ok d')"
        using that(1) ok by (fastforce simp: failed_def done_ok_def split: sum.splits)
    qed simp
    let ?Q = "\<lambda>r w'. committed w' = ?d \<and>
      (case r of Inl e \<Rightarrow> failed e | Inr _ \<Rightarrow> \<exists>d'. open_tx w' = Some d' \<and> done_ok d')"
    have clash: "failed (Wrapf (''creating admin group: %w'', []) (gorm_duplicated e))"
      if "groups_deleted E (map fst gs) ?d = Inr d1"
        "insert_group (stamp_group now (admin_group_row i (ag_name ag))) d1 = Inl e" for d1 e i now
      unfolding failed_def initialize_spec_def using gs that
      by (auto intro!: exI [of _ "map fst gs"] exI [of _ i] exI [of _ now])
    have create: "wp (bind (uuid_new E) (\<lambda>i. bind (map_err (Wrapf (''creating admin group: %w'', []))
        (create_group E ?c (admin_group_row i (ag_name ag)))) (\<lambda>g.
        add_admin_members E ?c (g_id g) (ag_members ag)))) w1 ?Q"
      if "committed w1 = ?d" "open_tx w1 = Some d1" "groups_deleted E (map fst gs) ?d = Inr d1"
      for w1 :: world and d1
      using that by (auto simp: account_wp create_group_def failed_def [of "Wrapf _ io_error"]
          intro!: members clash)
    have delete: "wp (bind (delete_groups E ?c gs) (\<lambda>_. bind (uuid_new E) (\<lambda>i.
        bind (map_err (Wrapf (''creating admin group: %w'', []))
          (create_group E ?c (admin_group_row i (ag_name ag)))) (\<lambda>g.
        add_admin_members E ?c (g_id g) (ag_members ag))))) w1 ?Q"
      if "committed w1 = ?d" "open_tx w1 = Some ?d" for w1 :: world
    proof -
      have gone: "failed e" if "groups_deleted E (map fst gs) ?d = Inl e" for e
        unfolding failed_def initialize_spec_def using gs that
        by (auto intro!: exI [of _ "map fst gs"])
      show ?thesis
        unfolding wp_bind [of "delete_groups E ?c gs"]
      proof (rule wp_mono [OF wp_delete_groups [OF _ that(2)]])
        fix r and w' :: world
        assume "committed w' = committed w1 \<and> (case r of
             Inl e \<Rightarrow> faulty E \<or> groups_deleted E (map fst gs) ?d = Inl e
           | Inr _ \<Rightarrow> \<exists>d'. open_tx w' = Some d' \<and> groups_deleted E (map fst gs) ?d = Inr d')"
        then show "(\<forall>e. r = Inl e \<longrightarrow> ?Q (Inl e) w') \<and>
            (\<forall>a. r = Inr a \<longrightarrow> wp (bind (uuid_new E) (\<lambda>i.
               bind (map_err (Wrapf (''creating admin group: %w'', []))
                 (create_group E ?c (admin_group_row i (ag_name ag)))) (\<lambda>g.
               add_admin_members E ?c (g_id g) (ag_members ag)))) w' ?Q)"
          using that(1) gone create by (cases r) (auto intro: faulty_failed)
      qed simp
    qed
    show ?thesis
      unfolding initialize_body_def using wi delete
      by (simp add: wp_bind [of "map_err _ (list_groups _ _ _)"] wp_map_err wp_list_groups
          gs_def [symmetric] failed_def [of "Wrapf _ io_error"])
  qed
  have commits: "wp (bind (initialize_body E ag ?c) (\<lambda>_.
      bind (map_err (Wrapf (''committing transaction: %w'', [])) (commit E ?c)) (\<lambda>_. ret ()))) wi
      (\<lambda>r w'. case r of Inl e \<Rightarrow> committed w' = ?d \<and> failed e | Inr _ \<Rightarrow> done_ok (committed w'))"
    if wi: "committed wi = ?d" "open_tx wi = Some ?d" for wi :: world
    unfolding wp_bind
    by (rule wp_mono [OF body [OF wi]])
       (auto simp: wp_map_err wp_commit_owner wp_ret failed_def split: sum.splits)
  show "wp (accounts_initialize E background_context ag) w
     (\<lambda>r w'. outcome E (initialize_spec E ag) ?d r (committed w'))"
    unfolding accounts_initialize_def
    by (subst wp_bind, unfold wp_map_err wp_new_transaction_context wp_defer_rollback_on_error)
       (auto intro!: wp_mono [OF commits] simp: failed_def done_ok_def)
qed

end
