(* ===== verification/AssessmentStore.thy ===== *)
theory AssessmentStore
  imports AccountsStore
begin

text \<open>
  \<open>internal/store/assessment.go\<close>, the mappers of \<open>internal/store/mappers\<close> and the reads of
  \<open>internal/store/source.go\<close> and \<open>internal/store/source_subset_inventory.go\<close> that the assessment
  service makes. The JSON text of an inventory goes through the codec of the environment.
\<close>

subsection \<open>Decoding inventories\<close>

definition get_inventory_version :: "env \<Rightarrow> string \<Rightarrow> nat" where
  "get_inventory_version E raw = (case json_keys E raw of
     Inl _ \<Rightarrow> InventoryVersionV1
   | Inr keys \<Rightarrow> if ''clusters'' \<in> set keys then InventoryVersionV2
                else if ''vcenter_id'' \<in> set keys then InventoryVersionV2
                else InventoryVersionV1)"

definition unmarshal_inventory :: "env \<Rightarrow> string \<Rightarrow> nat \<Rightarrow> error + inventory" where
  "unmarshal_inventory E raw version =
     (if raw = [] then Inr (zero_inventory\<lparr>inv_clusters := Some []\<rparr>)
      else if version = InventoryVersionV1
      then (case json_unmarshal_data E raw of
              Inl e \<Rightarrow> Inl (Wrapf (''failed to unmarshal v1 inventory: %w'', []) e)
            | Inr dat \<Rightarrow>
                Inr (zero_inventory\<lparr>inv_vcenter := Some dat, inv_clusters := Some [],
                       inv_vcenter_id := (case dt_vcenter dat of None \<Rightarrow> [] | Some v \<Rightarrow> vc_id v)\<rparr>))
      else (case json_unmarshal E raw of
              Inl e \<Rightarrow> Inl (Wrapf (''failed to unmarshal v2 inventory: %w'', []) e)
            | Inr i \<Rightarrow> Inr (if inv_clusters i = None then i\<lparr>inv_clusters := Some []\<rparr> else i)))"

definition assessment_inventory_from_store :: "env \<Rightarrow> inventory_row \<Rightarrow> error + assessment_inventory" where
  "assessment_inventory_from_store E r = (case unmarshal_inventory E (ai_inventory r) (ai_version r) of
     Inl e \<Rightarrow> Inl e
   | Inr i \<Rightarrow> Inr \<lparr>asi_id = ai_id r, asi_created_at = ai_created_at r, asi_name = ai_name r,
       asi_is_subset = ai_is_subset r, asi_vcenter_id = ai_vcenter_id r,
       asi_vms_count = ai_vms_count r, asi_hosts_count = ai_hosts_count r,
       asi_networks_count = ai_networks_count r, asi_datastores_count = ai_datastores_count r,
       asi_version = ai_version r, asi_inventory = i, asi_assessment_id = ai_assessment_id r\<rparr>)"

text \<open>The loop that separates the first main inventory from the subsets.\<close>

fun split_inventories ::
    "env \<Rightarrow> inventory_row list \<Rightarrow> assessment_inventory option \<Rightarrow> assessment_inventory list \<Rightarrow>
     error + assessment_inventory \<times> assessment_inventory list" where
  "split_inventories E [] main subsets =
     Inr (case main of None \<Rightarrow> zero_assessment_inventory | Some m \<Rightarrow> m, subsets)"
| "split_inventories E (r # rs) main subsets =
     (case assessment_inventory_from_store E r of
        Inl e \<Rightarrow> Inl (Wrapf (''failed to convert inventory %q: %w'', [ai_name r]) e)
      | Inr i \<Rightarrow>
          if asi_is_subset i then split_inventories E rs main (subsets @ [i])
          else split_inventories E rs (case main of None \<Rightarrow> Some i | Some m \<Rightarrow> Some m) subsets)"

definition assessment_inventories_from_store ::
    "env \<Rightarrow> inventory_row list \<Rightarrow> error + assessment_inventory \<times> assessment_inventory list" where
  "assessment_inventories_from_store E rs = split_inventories E rs None []"

definition assessment_from_store ::
    "env \<Rightarrow> assessment_row \<Rightarrow> inventory_row list \<Rightarrow> error + assessment" where
  "assessment_from_store E a rs = (case assessment_inventories_from_store E rs of
     Inl e \<Rightarrow> Inl e
   | Inr (main, subsets) \<Rightarrow> Inr \<lparr>as_id = a_id a, as_created_at = a_created_at a,
       as_updated_at = a_updated_at a, as_name = a_name a, as_org_id = a_org_id a,
       as_username = a_username a, as_owner_first_name = a_owner_first_name a,
       as_owner_last_name = a_owner_last_name a, as_source_type = a_source_type a,
       as_source_id = a_source_id a, as_main_inventory = main, as_subset_inventories = subsets,
       as_permissions = [], as_sharing = None\<rparr>)"

definition assessment_summary_from_store :: "assessment_row \<Rightarrow> inventory_row list \<Rightarrow> assessment_summary" where
  "assessment_summary_from_store a rs =
     (let s = \<lparr>sum_id = a_id a, sum_created_at = a_created_at a, sum_name = a_name a,
               sum_org_id = a_org_id a, sum_username = a_username a,
               sum_owner_first_name = a_owner_first_name a,
               sum_owner_last_name = a_owner_last_name a, sum_source_type = a_source_type a,
               sum_source_id = a_source_id a, sum_vms_count = 0, sum_hosts_count = 0,
               sum_networks_count = 0, sum_datastores_count = 0, sum_permissions = [],
               sum_sharing = None\<rparr>
      in case rs of
           [] \<Rightarrow> s
         | i # _ \<Rightarrow> s\<lparr>sum_vms_count := ai_vms_count i, sum_hosts_count := ai_hosts_count i,
                      sum_networks_count := ai_networks_count i,
                      sum_datastores_count := ai_datastores_count i\<rparr>)"

definition permissions_from_store :: "string list \<Rightarrow> string list" where
  "permissions_from_store ps = map (\<lambda>p. p) ps"

subsection \<open>Encoding inventories\<close>

definition assessment_inventory_to_store :: "env \<Rightarrow> assessment_inventory \<Rightarrow> error + inventory_row" where
  "assessment_inventory_to_store E i =
     (case (if asi_version i = InventoryVersionV1
            then json_marshal_data E (inv_vcenter (asi_inventory i))
            else json_marshal E (asi_inventory i)) of
        Inl e \<Rightarrow> Inl (Wrapf (''failed to marshal inventory: %w'', []) e)
      | Inr raw \<Rightarrow> Inr \<lparr>ai_id = asi_id i, ai_created_at = asi_created_at i, ai_name = asi_name i,
          ai_is_subset = asi_is_subset i, ai_vcenter_id = asi_vcenter_id i,
          ai_vms_count = asi_vms_count i, ai_hosts_count = asi_hosts_count i,
          ai_networks_count = asi_networks_count i, ai_datastores_count = asi_datastores_count i,
          ai_version = asi_version i, ai_inventory = raw, ai_assessment_id = asi_assessment_id i\<rparr>)"

fun assessment_inventories_to_store ::
    "env \<Rightarrow> assessment_inventory list \<Rightarrow> error + inventory_row list" where
  "assessment_inventories_to_store E [] = Inr []"
| "assessment_inventories_to_store E (i # is) = (case assessment_inventory_to_store E i of
     Inl e \<Rightarrow> Inl (Wrapf (''failed to convert inventory %q: %w'', [asi_name i]) e)
   | Inr r \<Rightarrow> (case assessment_inventories_to_store E is of Inl e \<Rightarrow> Inl e | Inr rs \<Rightarrow> Inr (r # rs)))"

definition assessment_to_store ::
    "env \<Rightarrow> assessment \<Rightarrow> error + assessment_row \<times> inventory_row list" where
  "assessment_to_store E a =
     (case assessment_inventories_to_store E (as_main_inventory a # as_subset_inventories a) of
        Inl e \<Rightarrow> Inl (Wrapf (''failed to convert inventories to store: %w'', []) e)
      | Inr rs \<Rightarrow> Inr (\<lparr>a_id = as_id a, a_created_at = as_created_at a, a_updated_at = as_updated_at a,
          a_name = as_name a, a_org_id = as_org_id a, a_username = as_username a,
          a_owner_first_name = as_owner_first_name a, a_owner_last_name = as_owner_last_name a,
          a_source_type = as_source_type a, a_source_id = as_source_id a\<rparr>, rs))"

subsection \<open>The store\<close>

definition find_assessment :: "db \<Rightarrow> uuid \<Rightarrow> assessment_row option" where
  "find_assessment d i = first_by a_id (filter (\<lambda>a. a_id a = i) (assessments d))"

text \<open>The inventories of an assessment in the order of the query: latest first, or any.\<close>

definition preload_inventories :: "env \<Rightarrow> nat \<Rightarrow> db \<Rightarrow> uuid \<Rightarrow> inventory_row list" where
  "preload_inventories E t d i = sort_key (\<lambda>r. - ai_created_at r)
     (find_rows E t (\<lambda>r. ai_assessment_id r = i) (assessment_inventories d))"

definition list_assessments ::
    "env \<Rightarrow> gocontext \<Rightarrow> assessment_row query_filter option \<Rightarrow> assessment_summary list go" where
  "list_assessments E c qf = query E c (\<lambda>t d. Inr (map
     (\<lambda>a. assessment_summary_from_store a
        (find_rows E t (\<lambda>r. ai_assessment_id r = a_id a \<and> \<not> ai_is_subset r) (assessment_inventories d)))
     (sort_key (\<lambda>a. - a_created_at a) (find_rows E t (satisfies qf) (assessments d)))))"

definition from_result :: "(error \<Rightarrow> error) \<Rightarrow> error + 'a \<Rightarrow> 'a go" where
  "from_result f r = (case r of Inl e \<Rightarrow> raise (f e) | Inr a \<Rightarrow> ret a)"

definition get_assessment :: "env \<Rightarrow> gocontext \<Rightarrow> uuid \<Rightarrow> assessment go" where
  "get_assessment E c i =
     bind (map_err gorm_not_found (gorm_first E c (\<lambda>d. find_assessment d i)
            (\<lambda>t d a. (a, preload_inventories E t d (a_id a))))) (\<lambda>(a, rs).
     from_result (Wrapf (''failed to convert assessment: %w'', [])) (assessment_from_store E a rs))"

definition stamp_inventory :: "time \<Rightarrow> inventory_row \<Rightarrow> inventory_row" where
  "stamp_inventory now r =
     r\<lparr>ai_created_at := if ai_created_at r = zero_time then now else ai_created_at r,
       ai_version := if ai_version r = 0 then InventoryVersionV1 else ai_version r\<rparr>"

definition stamp_assessment :: "time \<Rightarrow> assessment_row \<Rightarrow> assessment_row" where
  "stamp_assessment now a =
     a\<lparr>a_created_at := if a_created_at a = zero_time then now else a_created_at a,
       a_updated_at := if a_updated_at a = None then Some now else a_updated_at a\<rparr>"

definition create_assessment :: "env \<Rightarrow> gocontext \<Rightarrow> assessment \<Rightarrow> assessment go" where
  "create_assessment E c a =
     bind (from_result (Wrapf (''failed to convert assessment for storage: %w'', []))
            (assessment_to_store E a)) (\<lambda>(row, rs).
     bind (time_now E) (\<lambda>now.
     bind (map_err gorm_duplicated (exec E c
            (insert_assessment (stamp_assessment now row) (map (stamp_inventory now) rs)))) (\<lambda>_.
     get_assessment E c (as_id a))))"

definition update_assessment ::
    "env \<Rightarrow> gocontext \<Rightarrow> uuid \<Rightarrow> string option \<Rightarrow> assessment_inventory list \<Rightarrow> assessment go" where
  "update_assessment E c i name invs =
     bind (map_err gorm_not_found (gorm_first E c (\<lambda>d. find_assessment d i) (\<lambda>_ _ a. a))) (\<lambda>a0.
     let a = (case name of None \<Rightarrow> a0 | Some n \<Rightarrow> a0\<lparr>a_name := n\<rparr>) in
     bind (from_result (Wrapf (''failed to convert inventories to store: %w'', []))
            (assessment_inventories_to_store E invs)) (\<lambda>stored.
     bind (if stored \<noteq> []
           then bind (time_now E) (\<lambda>now.
             exec E c (insert_inventory_rows (map (stamp_inventory now) stored)))
           else ret ()) (\<lambda>_.
     bind (time_now E) (\<lambda>now.
     bind (exec E c (model_update (a_id a)
            (update_assessment_columns (a_id a) (a_name a) (Some now)))) (\<lambda>_.
     from_result (Wrapf (''failed to convert assessment: %w'', []))
       (assessment_from_store E (a\<lparr>a_updated_at := Some now\<rparr>) []))))))"

definition upsert_assessment_inventories ::
    "env \<Rightarrow> gocontext \<Rightarrow> assessment_inventory list \<Rightarrow> unit go" where
  "upsert_assessment_inventories E c invs =
     bind (from_result (Wrapf (''failed to convert inventories to store: %w'', []))
            (assessment_inventories_to_store E invs)) (\<lambda>stored.
     bind (time_now E) (\<lambda>now.
     exec E c (upsert_inventory_rows (map (stamp_inventory now) stored))))"

definition delete_assessment :: "env \<Rightarrow> gocontext \<Rightarrow> uuid \<Rightarrow> unit go" where
  "delete_assessment E c i =
     attempt (exec E c (delete_assessment_row i))
       (\<lambda>e. if \<not> errors_is e GormRecordNotFound then raise e else ret ()) ret"

subsection \<open>Sources\<close>

definition get_source :: "env \<Rightarrow> gocontext \<Rightarrow> uuid \<Rightarrow> source_row go" where
  "get_source E c i = map_err gorm_not_found
     (gorm_first E c (\<lambda>d. first_by s_id (filter (primary_key i \<circ> s_id) (sources d))) (\<lambda>_ _ s. s))"

definition list_source_subsets ::
    "env \<Rightarrow> gocontext \<Rightarrow> subset_row query_filter option \<Rightarrow> subset_row list go" where
  "list_source_subsets E c qf = query E c (\<lambda>t d. Inr (sort_key ss_id
     (find_rows E t (satisfies qf) (source_subset_inventories d))))"

subsection \<open>What each operation does\<close>

lemma readonly_from_result [readonly_intro]: "readonly (from_result f r)"
  by (cases r) (simp_all add: from_result_def readonly_intro)

lemma readonly_case_prod [readonly_intro]:
  "(\<And>a b. readonly (f a b)) \<Longrightarrow> readonly (case x of (a, b) \<Rightarrow> f a b)"
  by (cases x) simp

lemma readonly_assessments [readonly_intro]:
  "readonly (list_assessments E c qf)" "readonly (get_assessment E c i)"
  "readonly (get_source E c i)" "readonly (list_source_subsets E c sf)"
  by (simp_all add: list_assessments_def get_assessment_def get_source_def list_source_subsets_def
      readonly_intro)

lemma local_assessment_reads [local_intro]:
  "local_tx c (list_assessments E c' qf)" "local_tx c (get_assessment E c' i)"
  "local_tx c (get_source E c' i)" "local_tx c (list_source_subsets E c' sf)"
  "local_tx c (from_result f r)"
  by (simp_all add: local_readonly readonly_intro)

lemma local_case_prod [local_intro]:
  "(\<And>a b. local_tx c (f a b)) \<Longrightarrow> local_tx c (case x of (a, b) \<Rightarrow> f a b)"
  by (cases x) simp

lemma local_assessment_writes [local_intro]:
  assumes "ctx_tx c' = ctx_tx c"
  shows "local_tx c (create_assessment E c' a)" "local_tx c (update_assessment E c' i n invs)"
    "local_tx c (delete_assessment E c' i)" "local_tx c (upsert_assessment_inventories E c' invs)"
proof -
  note intros = local_intro assms local_readonly [OF readonly_query]
  show "local_tx c (create_assessment E c' a)"
    by (simp add: create_assessment_def intros)
  show "local_tx c (update_assessment E c' i n invs)"
    by (simp add: update_assessment_def Let_def intros)
  show "local_tx c (delete_assessment E c' i)"
    by (simp add: delete_assessment_def intros)
  show "local_tx c (upsert_assessment_inventories E c' invs)"
    by (simp add: upsert_assessment_inventories_def intros)
qed

lemma wp_from_result:
  "wp (from_result f r) w Q = (case r of Inl e \<Rightarrow> Q (Inl (f e)) w | Inr a \<Rightarrow> Q (Inr a) w)"
  by (simp add: from_result_def wp_raise wp_ret split: sum.splits)

lemma sum_id_from_store [simp]:
  "sum_id (assessment_summary_from_store a rs) = a_id a"
  "sum_username (assessment_summary_from_store a rs) = a_username a"
  "sum_owner_first_name (assessment_summary_from_store a rs) = a_owner_first_name a"
  "sum_owner_last_name (assessment_summary_from_store a rs) = a_owner_last_name a"
  "sum_name (assessment_summary_from_store a rs) = a_name a"
  by (simp_all add: assessment_summary_from_store_def Let_def split: list.splits)

lemma find_assessmentD: "find_assessment d i = Some a \<Longrightarrow> a \<in> set (assessments d) \<and> a_id a = i"
  by (auto simp: find_assessment_def dest: first_by_filterD)

lemma find_assessment_None: "find_assessment d i = None \<longleftrightarrow> i \<notin> a_id ` set (assessments d)"
  by (auto simp: find_assessment_def filter_empty_conv)

lemma observes_list_assessments:
  "observes c (list_assessments E c qf) (\<lambda>d r. case r of
     Inl e \<Rightarrow> faulty E
   | Inr as \<Rightarrow> set (map (\<lambda>s. (sum_id s, sum_username s)) as) =
       {(a_id a, a_username a) | a. a \<in> set (assessments d) \<and> satisfies qf a})"
  by (rule observesI) (auto simp: readonly_intro list_assessments_def wp_query)

text \<open>An assessment cannot be read when the codec rejects one of its inventories.\<close>

definition inventories_of :: "db \<Rightarrow> uuid \<Rightarrow> inventory_row list" where
  "inventories_of d i = filter (\<lambda>r. ai_assessment_id r = i) (assessment_inventories d)"

definition undecodable :: "env \<Rightarrow> db \<Rightarrow> uuid \<Rightarrow> bool" where
  "undecodable E d i \<longleftrightarrow> (\<exists>r \<in> set (inventories_of d i). isl (assessment_inventory_from_store E r))"

lemma isl_split_inventories:
  "isl (split_inventories E rs m s) \<longleftrightarrow> (\<exists>r \<in> set rs. isl (assessment_inventory_from_store E r))"
  by (induction E rs m s rule: split_inventories.induct) (auto split: sum.splits)

lemma set_preload_inventories [simp]: "set (preload_inventories E t d i) = set (inventories_of d i)"
  by (auto simp: preload_inventories_def inventories_of_def)

lemma isl_assessment_from_store:
  "isl (assessment_from_store E a rs) \<longleftrightarrow> (\<exists>r \<in> set rs. isl (assessment_inventory_from_store E r))"
  using isl_split_inventories [of E rs None "[]"]
  by (auto simp: assessment_from_store_def assessment_inventories_from_store_def split: sum.splits)

definition describes :: "assessment \<Rightarrow> assessment_row \<Rightarrow> bool" where
  "describes a row \<longleftrightarrow> as_id a = a_id row \<and> as_username a = a_username row \<and>
     as_name a = a_name row \<and> as_org_id a = a_org_id row \<and> as_source_id a = a_source_id row \<and>
     as_source_type a = a_source_type row \<and> as_owner_first_name a = a_owner_first_name row \<and>
     as_owner_last_name a = a_owner_last_name row"

definition found_assessment :: "env \<Rightarrow> uuid \<Rightarrow> db \<Rightarrow> error + assessment \<Rightarrow> bool" where
  "found_assessment E i d r \<longleftrightarrow> (case r of
     Inl e \<Rightarrow> find_assessment d i = None \<and> e = StoreRecordNotFound \<or>
       find_assessment d i \<noteq> None \<and> undecodable E d i \<and>
       (\<exists>e'. e = Wrapf (''failed to convert assessment: %w'', []) e')
   | Inr a \<Rightarrow> (\<exists>row. find_assessment d i = Some row \<and> \<not> undecodable E d i \<and> describes a row))"

lemma describes_from_store: "assessment_from_store E row rs = Inr a \<Longrightarrow> describes a row"
  by (auto simp: assessment_from_store_def describes_def split: sum.splits)

lemma observes_get_assessment:
  "observes c (get_assessment E c i) (\<lambda>d r. isl r \<and> faulty E \<or> found_assessment E i d r)"
proof (rule observesI)
  show "readonly (get_assessment E c i)"
    by (simp add: readonly_intro)
  fix w :: world
  let ?d = "get_db c w"
  have bad: "found_assessment E i ?d (Inl (Wrapf (''failed to convert assessment: %w'', []) e))"
    if "find_assessment ?d i = Some row"
      "assessment_from_store E row (preload_inventories E t ?d (a_id row)) = Inl e" for row t e
    using that find_assessmentD [OF that(1)]
      isl_assessment_from_store [of E row "preload_inventories E t ?d (a_id row)"]
    by (auto simp: found_assessment_def undecodable_def)
  have good: "found_assessment E i ?d (Inr a)"
    if "find_assessment ?d i = Some row"
      "assessment_from_store E row (preload_inventories E t ?d (a_id row)) = Inr a" for row t a
    using that find_assessmentD [OF that(1)]
      isl_assessment_from_store [of E row "preload_inventories E t ?d (a_id row)"]
    by (auto simp: found_assessment_def undecodable_def describes_from_store)
  have none: "found_assessment E i ?d (Inl StoreRecordNotFound)" if "find_assessment ?d i = None"
    using that by (simp add: found_assessment_def)
  show "wp (get_assessment E c i) w (\<lambda>r w'. isl r \<and> faulty E \<or> found_assessment E i ?d r)"
    unfolding get_assessment_def wp_bind wp_map_err wp_gorm_first
    by (auto simp: wp_from_result split: sum.splits intro: bad good none)
qed

end
