(* ===== verification/PartnerService.thy ===== *)
theory PartnerService
  imports AccountsService AssessmentStore
begin

text \<open>
  \<open>internal/service/partner.go\<close>: partner requests, their acceptance, and the end of a
  customer relationship, which revokes the assessments shared with the partner.
\<close>

record request =
  rq_status :: string
  rq_reason :: string

text \<open>A request structure with the four columns \<open>Update\<close> writes.\<close>

definition request_update ::
    "uuid \<Rightarrow> string \<Rightarrow> string option \<Rightarrow> time option \<Rightarrow> time option \<Rightarrow> partner_customer" where
  "request_update i st reason acc term =
     \<lparr>pc_id = i, pc_username = [], pc_username_org_id = [], pc_partner_id = [],
      pc_request_status = st, pc_name = [], pc_contact_name = [], pc_contact_phone = [],
      pc_email = [], pc_location = [], pc_reason = reason, pc_accepted_at = acc,
      pc_terminated_at = term, pc_created_at = zero_time\<rparr>"

definition viewer_updates ::
    "env \<Rightarrow> assessment_summary list \<Rightarrow> string \<Rightarrow> relationship_builder" where
  "viewer_updates E as p = fold (\<lambda>a. builder_without
     (new_assessment_resource (uuid_str E (sum_id a))) ViewerRelation (new_org_subject p)) as
     new_relationship_builder"

definition revoke_shared_assessments :: "env \<Rightarrow> gocontext \<Rightarrow> string \<Rightarrow> string \<Rightarrow> unit go" where
  "revoke_shared_assessments E c u p =
     bind (map_err (Wrapf (''failed to list assessments for user %s: %w'', [u]))
            (list_assessments E c (Some (assessment_with_username u new_query_filter)))) (\<lambda>as.
     if as = [] then ret ()
     else write_relationships E c (builder_build (viewer_updates E as p)))"

subsection \<open>Regular users\<close>

definition partner_list_partners :: "env \<Rightarrow> gocontext \<Rightarrow> (group \<times> member list) list go" where
  "partner_list_partners E c = list_groups E c (Some (group_by_kind ''partner'' new_query_filter))"

definition partner_list_requests :: "env \<Rightarrow> gocontext \<Rightarrow> user \<Rightarrow> partner_request list go" where
  "partner_list_requests E c u =
     bind (get_identity E c (u_username u)) (\<lambda>i.
       case id_group_id i of
         Some g \<Rightarrow> if id_kind i = KindPartner
           then list_partner_customers E c (Some (partner_by_partner_id g new_query_filter))
           else list_partner_customers E c (Some (partner_by_username (u_username u) new_query_filter))
       | None \<Rightarrow> list_partner_customers E c (Some (partner_by_username (u_username u) new_query_filter)))"

definition pending_request :: "uuid \<Rightarrow> user \<Rightarrow> string \<Rightarrow> partner_customer \<Rightarrow> partner_customer" where
  "pending_request i u p pc =
     pc\<lparr>pc_id := i, pc_username := u_username u, pc_username_org_id := u_organization u,
        pc_partner_id := p, pc_request_status := RequestStatusPending\<rparr>"

definition partner_create_request ::
    "env \<Rightarrow> gocontext \<Rightarrow> user \<Rightarrow> string \<Rightarrow> partner_customer \<Rightarrow> partner_request go" where
  "partner_create_request E c u p pc =
     bind (list_partner_customers E c
            (Some (partner_by_username (u_username u) new_query_filter))) (\<lambda>existing.
     bind (reject_if (\<exists>e \<in> set existing. pc_request_status (fst e) = RequestStatusPending \<or>
                        pc_request_status (fst e) = RequestStatusAccepted)
            (new_err_active_request_exists (u_username u))) (\<lambda>_.
     case uuid_parse E p of
       None \<Rightarrow> raise (new_err_resource_not_found_by_str p ''partner'')
     | Some gid \<Rightarrow>
        bind (map_err (\<lambda>e. if errors_is e StoreRecordNotFound
                           then new_err_resource_not_found_by_str p ''partner'' else e)
               (get_group E c gid)) (\<lambda>g.
        bind (reject_if (g_kind (fst g) \<noteq> ''partner'')
               (new_err_resource_not_found_by_str p ''partner'')) (\<lambda>_.
        bind (uuid_new E) (\<lambda>i.
        map_err (\<lambda>e. if errors_is e StoreDuplicateKey
                     then new_err_active_request_exists (u_username u) else e)
          (create_partner_customer E c (pending_request i u p pc)))))))"

definition partner_cancel_request :: "env \<Rightarrow> gocontext \<Rightarrow> user \<Rightarrow> uuid \<Rightarrow> unit go" where
  "partner_cancel_request E c u i =
     bind (map_err (\<lambda>e. if errors_is e StoreRecordNotFound
                        then new_err_resource_not_found (uuid_str E) i ''partner request'' else e)
            (get_partner_customer E c (Some (partner_by_id i new_query_filter)))) (\<lambda>pc.
     bind (reject_if (pc_username (fst pc) \<noteq> u_username u)
            (new_err_resource_not_found (uuid_str E) i ''partner request'')) (\<lambda>_.
     bind (reject_if (pc_request_status (fst pc) \<noteq> RequestStatusPending)
            (new_err_invalid_request ''only pending requests can be cancelled'')) (\<lambda>_.
     bind (time_now E) (\<lambda>now.
     bind (update_partner_customer_row E c
            (request_update i RequestStatusCancelled None None (Some now))) (\<lambda>_. ret ())))))"

subsection \<open>Customers\<close>

definition accepted_with :: "string \<Rightarrow> string \<Rightarrow> partner_customer query_filter" where
  "accepted_with u p = partner_by_status RequestStatusAccepted
     (partner_by_partner_id p (partner_by_username u new_query_filter))"

definition partner_get_partner ::
    "env \<Rightarrow> gocontext \<Rightarrow> user \<Rightarrow> string \<Rightarrow> (group \<times> member list) go" where
  "partner_get_partner E c u p =
     bind (map_err (\<lambda>e. if errors_is e StoreRecordNotFound
                        then new_err_resource_not_found_by_str p ''partner'' else e)
            (get_partner_customer E c (Some (accepted_with (u_username u) p)))) (\<lambda>pc.
     case uuid_parse E (pc_partner_id (fst pc)) of
       None \<Rightarrow> raise (new_err_resource_not_found_by_str p ''partner'')
     | Some gid \<Rightarrow>
        map_err (\<lambda>e. if errors_is e StoreRecordNotFound
                     then new_err_resource_not_found_by_str p ''partner'' else e)
          (get_group E c gid))"

text \<open>The transaction that ends a relationship, of \<open>LeavePartner\<close> and of \<open>RemoveCustomer\<close>.\<close>

definition end_relationship_body :: "env \<Rightarrow> uuid \<Rightarrow> string \<Rightarrow> string \<Rightarrow> gocontext \<Rightarrow> unit go" where
  "end_relationship_body E i u p c =
     bind (time_now E) (\<lambda>now.
     bind (update_partner_customer_row E c
            (request_update i RequestStatusCancelled None None (Some now))) (\<lambda>_.
     revoke_shared_assessments E c u p))"

definition partner_leave_partner :: "env \<Rightarrow> gocontext \<Rightarrow> user \<Rightarrow> string \<Rightarrow> unit go" where
  "partner_leave_partner E c u p =
     bind (map_err (\<lambda>e. if errors_is e StoreRecordNotFound
                        then new_err_resource_not_found_by_str p ''partner'' else e)
            (get_partner_customer E c (Some (accepted_with (u_username u) p)))) (\<lambda>pc.
     tx_scope E c (end_relationship_body E (pc_id (fst pc)) (u_username u) p))"

subsection \<open>Partners\<close>

definition group_id_or_panic :: "identity \<Rightarrow> string go" where
  "group_id_or_panic i = (case id_group_id i of
     None \<Rightarrow> raise (Panic ''nil pointer dereference'') | Some g \<Rightarrow> ret g)"

definition partner_list_customers :: "env \<Rightarrow> gocontext \<Rightarrow> user \<Rightarrow> partner_request list go" where
  "partner_list_customers E c u =
     bind (get_identity E c (u_username u)) (\<lambda>i.
     bind (group_id_or_panic i) (\<lambda>g.
     list_partner_customers E c (Some (partner_by_status RequestStatusAccepted
       (partner_by_partner_id g new_query_filter)))))"

definition request_reason :: "request \<Rightarrow> string option" where
  "request_reason req = (if rq_reason req \<noteq> [] then Some (rq_reason req) else None)"

definition partner_update_request ::
    "env \<Rightarrow> gocontext \<Rightarrow> user \<Rightarrow> uuid \<Rightarrow> request \<Rightarrow> partner_request go" where
  "partner_update_request E c u i req =
     bind (map_err (\<lambda>e. if errors_is e StoreRecordNotFound
                        then new_err_resource_not_found (uuid_str E) i ''partner request'' else e)
            (get_partner_customer E c (Some (partner_by_id i new_query_filter)))) (\<lambda>pc.
     bind (reject_if (rq_status req = RequestStatusRejected \<and> rq_reason req = [])
            (new_err_invalid_request ''reason is required when rejecting a request'')) (\<lambda>_.
     bind (reject_if (pc_request_status (fst pc) \<noteq> RequestStatusPending)
            (new_err_invalid_request ''only pending requests can be updated'')) (\<lambda>_.
     bind (if rq_status req = RequestStatusAccepted
           then bind (time_now E) (\<lambda>now. ret (Some now)) else ret None) (\<lambda>acc.
     update_partner_customer_row E c (request_update (pc_id (fst pc)) (rq_status req)
       (request_reason req) acc None)))))"

definition partner_remove_customer :: "env \<Rightarrow> gocontext \<Rightarrow> user \<Rightarrow> string \<Rightarrow> unit go" where
  "partner_remove_customer E c u name =
     bind (get_identity E c (u_username u)) (\<lambda>i.
     bind (group_id_or_panic i) (\<lambda>g.
     bind (map_err (\<lambda>e. if errors_is e StoreRecordNotFound
                        then new_err_resource_not_found_by_str name ''partner customer'' else e)
            (get_partner_customer E c (Some (accepted_with name g)))) (\<lambda>pc.
     tx_scope E c (end_relationship_body E (pc_id (fst pc)) name (pc_partner_id (fst pc))))))"

subsection \<open>The transaction of the service\<close>

lemma local_revoke [local_intro]:
  "ctx_tx c' = ctx_tx c \<Longrightarrow> local_tx c (revoke_shared_assessments E c' u p)"
  by (simp add: revoke_shared_assessments_def local_intro)

interpretation end_relationship_unit:
  unit_of_work E "request_context u" "end_relationship_body E i name p" for E u i name p
  by unfold_locales (simp_all add: end_relationship_body_def local_intro)

end
