(* ===== verification/AuthzPartner.thy ===== *)
theory AuthzPartner
  imports AuthzAccounts PartnerService
begin

text \<open>
  \<open>internal/service/authz_partner.go\<close>: the partner service behind the checks on the kind of the
  caller, and the atomic specification of its operations.
\<close>

definition authz_list_partners :: "env \<Rightarrow> gocontext \<Rightarrow> (group \<times> member list) list go" where
  "authz_list_partners E c = partner_list_partners E c"

definition authz_list_requests :: "env \<Rightarrow> gocontext \<Rightarrow> user \<Rightarrow> partner_request list go" where
  "authz_list_requests E c u = partner_list_requests E c u"

definition authz_create_request ::
    "env \<Rightarrow> gocontext \<Rightarrow> user \<Rightarrow> string \<Rightarrow> partner_customer \<Rightarrow> partner_request go" where
  "authz_create_request E c u p pc =
     bind (get_identity E c (u_username u)) (\<lambda>i.
     bind (reject_if (id_kind i \<noteq> KindRegular)
            (new_err_forbidden ''partner request'' (u_username u))) (\<lambda>_.
     partner_create_request E c u p pc))"

definition authz_cancel_request :: "env \<Rightarrow> gocontext \<Rightarrow> user \<Rightarrow> uuid \<Rightarrow> unit go" where
  "authz_cancel_request E c u i = partner_cancel_request E c u i"

definition authz_get_partner ::
    "env \<Rightarrow> gocontext \<Rightarrow> user \<Rightarrow> string \<Rightarrow> (group \<times> member list) go" where
  "authz_get_partner E c u p =
     bind (get_identity E c (u_username u)) (\<lambda>i.
     bind (reject_if (id_kind i \<noteq> KindCustomer) (new_err_forbidden ''partner'' p)) (\<lambda>_.
     partner_get_partner E c u p))"

definition authz_leave_partner :: "env \<Rightarrow> gocontext \<Rightarrow> user \<Rightarrow> string \<Rightarrow> unit go" where
  "authz_leave_partner E c u p =
     bind (get_identity E c (u_username u)) (\<lambda>i.
     bind (reject_if (id_kind i \<noteq> KindCustomer) (new_err_forbidden ''partner'' p)) (\<lambda>_.
     partner_leave_partner E c u p))"

definition authz_list_customers :: "env \<Rightarrow> gocontext \<Rightarrow> user \<Rightarrow> partner_request list go" where
  "authz_list_customers E c u =
     bind (get_identity E c (u_username u)) (\<lambda>i.
     bind (reject_if (id_kind i \<noteq> KindPartner \<or> id_group_id i = None)
            (new_err_forbidden ''customers'' (u_username u))) (\<lambda>_.
     partner_list_customers E c u))"

definition authz_update_request ::
    "env \<Rightarrow> gocontext \<Rightarrow> user \<Rightarrow> uuid \<Rightarrow> request \<Rightarrow> partner_request go" where
  "authz_update_request E c u i req =
     bind (get_identity E c (u_username u)) (\<lambda>ident.
     bind (reject_if (id_kind ident \<noteq> KindPartner \<or> id_group_id ident = None)
            (new_err_forbidden ''only partners can update requests'' (uuid_str E i))) (\<lambda>_.
     bind (map_err (\<lambda>e. if errors_is e StoreRecordNotFound
                        then new_err_resource_not_found (uuid_str E) i ''partner request'' else e)
            (get_partner_customer E c (Some (partner_by_id i new_query_filter)))) (\<lambda>pc.
     bind (reject_if (Some (pc_partner_id (fst pc)) \<noteq> id_group_id ident)
            (new_err_forbidden ''partner request'' (uuid_str E i))) (\<lambda>_.
     partner_update_request E c u i req))))"

definition authz_remove_customer :: "env \<Rightarrow> gocontext \<Rightarrow> user \<Rightarrow> string \<Rightarrow> unit go" where
  "authz_remove_customer E c u name =
     bind (get_identity E c (u_username u)) (\<lambda>ident.
     bind (reject_if (id_kind ident \<noteq> KindPartner \<or> id_group_id ident = None)
            (new_err_forbidden ''customer'' name)) (\<lambda>_.
     bind (map_err (\<lambda>e. if errors_is e StoreRecordNotFound
                        then new_err_resource_not_found_by_str name ''partner customer'' else e)
            (get_partner_customer E c (Some (partner_by_status RequestStatusAccepted
               (partner_by_username name new_query_filter))))) (\<lambda>pc.
     bind (reject_if (Some (pc_partner_id (fst pc)) \<noteq> id_group_id ident)
            (new_err_forbidden ''customer'' name)) (\<lambda>_.
     partner_remove_customer E c u name))))"

subsection \<open>Ending a request, revoking what was shared\<close>

definition end_request :: "uuid \<Rightarrow> time \<Rightarrow> db \<Rightarrow> error + db" where
  "end_request i now = update_request_row (request_update i RequestStatusCancelled None None (Some now))"

definition revoked :: "env \<Rightarrow> string \<Rightarrow> string \<Rightarrow> db \<Rightarrow> db" where
  "revoked E u p d = d\<lparr>relations := filter (\<lambda>r.
     \<not> (\<exists>a \<in> set (assessments d). a_username a = u \<and> r = viewer_tuple E (a_id a) p)) (relations d)\<rparr>"

definition ended :: "env \<Rightarrow> uuid \<Rightarrow> string \<Rightarrow> string \<Rightarrow> time \<Rightarrow> db \<Rightarrow> error + db" where
  "ended E i u p now d = (case end_request i now d of
     Inl e \<Rightarrow> Inl e | Inr d' \<Rightarrow> Inr (revoked E u p d'))"

text \<open>A row stays where it is when the four columns of it change.\<close>

definition set_request ::
    "uuid \<Rightarrow> string \<Rightarrow> string option \<Rightarrow> time option \<Rightarrow> time option \<Rightarrow> db \<Rightarrow> db" where
  "set_request i st reason acc term d = d\<lparr>partners_customers := map (\<lambda>r. if pc_id r = i
     then r\<lparr>pc_request_status := st, pc_reason := reason, pc_accepted_at := acc,
            pc_terminated_at := term\<rparr> else r) (partners_customers d)\<rparr>"

lemma sort_key_constant: "(\<And>x. x \<in> set xs \<Longrightarrow> k x = c) \<Longrightarrow> sort_key k xs = xs"
  by (induction xs) (auto simp: insort_is_Cons)

lemma find_request_eq:
  "find_request d i = (case filter (\<lambda>r. pc_id r = i) (partners_customers d) of
     [] \<Rightarrow> None | r # _ \<Rightarrow> Some r)"
proof -
  have "sort_key pc_id (filter (\<lambda>r. pc_id r = i) rs) = filter (\<lambda>r. pc_id r = i) rs"
    for rs :: "partner_customer list"
    by (rule sort_key_constant) simp
  then show ?thesis by (simp add: find_request_def first_by_def)
qed

lemma filter_set_request:
  "filter (\<lambda>r. pc_id r = i) (map (\<lambda>r. if pc_id r = i then r\<lparr>pc_request_status := st,
     pc_reason := reason, pc_accepted_at := acc, pc_terminated_at := term\<rparr> else r) rs) =
   map (\<lambda>r. r\<lparr>pc_request_status := st, pc_reason := reason, pc_accepted_at := acc,
     pc_terminated_at := term\<rparr>) (filter (\<lambda>r. pc_id r = i) rs)"
  by (induction rs) auto

lemma find_request_set:
  "find_request (set_request i st reason acc term d) i = map_option (\<lambda>r. r\<lparr>pc_request_status := st,
     pc_reason := reason, pc_accepted_at := acc, pc_terminated_at := term\<rparr>) (find_request d i)"
  by (simp add: find_request_eq set_request_def filter_set_request split: list.splits)

lemma find_request_None: "find_request d i = None \<longleftrightarrow> i \<notin> pc_id ` set (partners_customers d)"
  by (auto simp: find_request_def filter_empty_conv)

lemma find_requestD: "find_request d i = Some p \<Longrightarrow> p \<in> set (partners_customers d) \<and> pc_id p = i"
  by (auto simp: find_request_def dest: first_by_filterD)

lemma update_request_row_Inr:
  "update_request_row (request_update i st reason acc term) d = Inr d' \<Longrightarrow>
     d' = set_request i st reason acc term d \<and> i \<noteq> nil_uuid \<and> request_status_enum st"
  by (auto simp: update_request_row_def request_update_def model_update_def
      update_partner_customer_def set_request_def split: if_splits)

lemma update_request_row_found:
  "update_request_row (request_update i st reason acc term) d = Inr d' \<Longrightarrow>
     find_request d i = Some p \<Longrightarrow> find_request d' i \<noteq> None"
  by (auto dest!: update_request_row_Inr simp: find_request_set)

lemma request_update_id [simp]: "pc_id (request_update i st reason acc term) = i"
  by (simp add: request_update_def)

lemma touched_without:
  "touched (fold (\<lambda>a. builder_without (f a) rel sub) as b) = touched b"
  "deleted (fold (\<lambda>a. builder_without (f a) rel sub) as b) = deleted b \<union>
     (\<lambda>a. to_sql (new_relationship (res_type (f a)) (res_id (f a)) rel sub)) ` set as"
  by (induction as arbitrary: b) (auto simp: builder_without_def)

lemma viewer_updates_sets:
  "touched (viewer_updates E as p) = {}"
  "deleted (viewer_updates E as p) = (\<lambda>i. viewer_tuple E i p) ` sum_id ` set as"
  by (auto simp: viewer_updates_def touched_without new_relationship_builder_def
      new_relationship_def to_sql_def new_assessment_resource_def new_org_subject_def viewer_tuple_def)

lemma viewer_updates_nonempty: "as \<noteq> [] \<Longrightarrow> viewer_updates E as p \<noteq> []"
  using viewer_updates_sets(2) [of E as p] by auto

lemma wp_revoke:
  assumes "\<And>e w'. same_rows w w' \<Longrightarrow> faulty E \<Longrightarrow> Q (Inl e) w'"
    and "\<And>w'. same_rows (put_db c (revoked E u p (get_db c w)) w) w' \<Longrightarrow> Q (Inr ()) w'"
  shows "wp (revoke_shared_assessments E c u p) w Q"
  unfolding revoke_shared_assessments_def
proof (rule wp_bind_observed [OF observes_map_err [OF observes_list_assessments]])
  let ?R = "\<lambda>d r. case r of Inl e \<Rightarrow> faulty E
    | Inr as \<Rightarrow> set (map (\<lambda>s. (sum_id s, sum_username s)) as) =
        {(a_id a, a_username a) | a. a \<in> set (assessments d) \<and>
           satisfies (Some (assessment_with_username u new_query_filter)) a}"
  show "?R d r \<Longrightarrow> ?R d r" for d :: db and r :: "error + assessment_summary list" .
  fix as :: "assessment_summary list" and w' :: world
  assume same: "same_rows w w'" and as: "?R (get_db c w) (Inr as)"
  note db = same_rows_get_db [OF same]
  have ids: "sum_id ` set as = {a_id a | a. a \<in> set (assessments (get_db c w)) \<and> a_username a = u}"
  proof -
    from as have "fst ` set (map (\<lambda>s. (sum_id s, sum_username s)) as) =
        fst ` {(a_id a, a_username a) | a. a \<in> set (assessments (get_db c w)) \<and> a_username a = u}"
      by simp
    then show ?thesis by (simp add: image_image) force
  qed
  have rev: "revoked E u p (get_db c w) = (get_db c w)\<lparr>relations := filter
      (\<lambda>r. r \<notin> deleted (viewer_updates E as p)) (relations (get_db c w))\<rparr>"
  proof -
    have "(\<exists>a \<in> set (assessments (get_db c w)). a_username a = u \<and> r = viewer_tuple E (a_id a) p) \<longleftrightarrow>
        r \<in> deleted (viewer_updates E as p)" for r
      by (auto simp: viewer_updates_sets ids)
    then show ?thesis by (simp only: revoked_def)
  qed
  show "wp (if as = [] then ret () else write_relationships E c (builder_build (viewer_updates E as p))) w' Q"
  proof (cases "as = []")
    case True
    with assms(2) same rev show ?thesis
      by (simp add: wp_ret viewer_updates_sets)
  next
    case False
    then show ?thesis
      using same db assms rev
      by (auto simp: wp_write_relationships viewer_updates_sets(1) viewer_updates_nonempty
          builder_build_def written_deletes same_rows_put_db)
  qed
qed (auto intro: assms(1))

subsection \<open>The atomic specification of each operation\<close>

definition find_accepted :: "db \<Rightarrow> string \<Rightarrow> string \<Rightarrow> partner_customer option" where
  "find_accepted d u p = first_by pc_id (filter (satisfies (Some (accepted_with u p))) (partners_customers d))"

definition new_request :: "uuid \<Rightarrow> time \<Rightarrow> user \<Rightarrow> string \<Rightarrow> partner_customer \<Rightarrow> partner_customer" where
  "new_request i now u p pc = stamp_request now (pending_request i u p pc)"

definition has_active_request :: "db \<Rightarrow> string \<Rightarrow> bool" where
  "has_active_request d u \<longleftrightarrow>
     (\<exists>r \<in> set (partners_customers d). pc_username r = u \<and> active_status (pc_request_status r))"

definition create_request_spec ::
    "env \<Rightarrow> user \<Rightarrow> string \<Rightarrow> partner_customer \<Rightarrow> db \<Rightarrow> error + partner_request \<times> db \<Rightarrow> bool" where
  "create_request_spec E u p pc d out \<longleftrightarrow>
     (if has_active_request d (u_username u)
      then out = Inl (new_err_active_request_exists (u_username u))
      else case uuid_parse E p of
        None \<Rightarrow> out = Inl (new_err_resource_not_found_by_str p ''partner'')
      | Some gid \<Rightarrow> (case find_group d gid of
          None \<Rightarrow> out = Inl (new_err_resource_not_found_by_str p ''partner'')
        | Some g \<Rightarrow>
            if g_kind g \<noteq> ''partner'' then out = Inl (new_err_resource_not_found_by_str p ''partner'')
            else (\<exists>i now partner. out =
              executes (insert_partner_customer (uuid_str E) (new_request i now u p pc))
                (\<lambda>e. if e = GormDuplicatedKey
                     then new_err_active_request_exists (u_username u) else e)
                (new_request i now u p pc, partner) d)))"

definition cancel_request_spec ::
    "env \<Rightarrow> user \<Rightarrow> uuid \<Rightarrow> db \<Rightarrow> error + unit \<times> db \<Rightarrow> bool" where
  "cancel_request_spec E u i d out \<longleftrightarrow> (case find_request d i of
     None \<Rightarrow> out = Inl (new_err_resource_not_found (uuid_str E) i ''partner request'')
   | Some p \<Rightarrow>
       if pc_username p \<noteq> u_username u
       then out = Inl (new_err_resource_not_found (uuid_str E) i ''partner request'')
       else if pc_request_status p \<noteq> RequestStatusPending
       then out = Inl (new_err_invalid_request ''only pending requests can be cancelled'')
       else \<exists>now. out = executes (end_request i now) (\<lambda>e. e) () d)"

definition leave_partner_spec ::
    "env \<Rightarrow> user \<Rightarrow> string \<Rightarrow> db \<Rightarrow> error + unit \<times> db \<Rightarrow> bool" where
  "leave_partner_spec E u p d out \<longleftrightarrow> (case find_accepted d (u_username u) p of
     None \<Rightarrow> out = Inl (new_err_resource_not_found_by_str p ''partner'')
   | Some r \<Rightarrow> \<exists>now. out = executes (ended E (pc_id r) (u_username u) p now) (\<lambda>e. e) () d)"

definition update_request_spec ::
    "env \<Rightarrow> user \<Rightarrow> uuid \<Rightarrow> request \<Rightarrow> db \<Rightarrow> error + partner_request \<times> db \<Rightarrow> bool" where
  "update_request_spec E u i req d out \<longleftrightarrow> (case find_request d i of
     None \<Rightarrow> out = Inl (new_err_resource_not_found (uuid_str E) i ''partner request'')
   | Some p \<Rightarrow>
       if rq_status req = RequestStatusRejected \<and> rq_reason req = []
       then out = Inl (new_err_invalid_request ''reason is required when rejecting a request'')
       else if pc_request_status p \<noteq> RequestStatusPending
       then out = Inl (new_err_invalid_request ''only pending requests can be updated'')
       else \<exists>now r d'.
         (let stmt = update_request_row (request_update i (rq_status req) (request_reason req)
                (if rq_status req = RequestStatusAccepted then Some now else None) None) d
          in (\<exists>e. stmt = Inl e \<and> out = Inl e) \<or>
             (stmt = Inr d' \<and> find_request d' i = Some (fst r) \<and> out = Inr (r, d'))))"

definition remove_customer_spec ::
    "env \<Rightarrow> string \<Rightarrow> string \<Rightarrow> db \<Rightarrow> error + unit \<times> db \<Rightarrow> bool" where
  "remove_customer_spec E g name d out \<longleftrightarrow> (case find_accepted d name g of
     None \<Rightarrow> out = Inl (new_err_resource_not_found_by_str name ''partner customer'')
   | Some r \<Rightarrow> \<exists>now. out = executes (ended E (pc_id r) name g now) (\<lambda>e. e) () d)"

subsection \<open>The operations refine it\<close>

lemma satisfies_by_id [simp]: "satisfies (Some (partner_by_id i new_query_filter)) = (\<lambda>r. pc_id r = i)"
  by (rule ext) simp

lemma find_acceptedD:
  "find_accepted d u p = Some r \<Longrightarrow> r \<in> set (partners_customers d) \<and> pc_username r = u \<and>
     pc_partner_id r = p \<and> pc_request_status r = RequestStatusAccepted"
  by (auto simp: find_accepted_def accepted_with_def dest!: first_by_filterD)

lemma wp_get_request:
  "wp (get_partner_customer E c (Some (partner_by_id i new_query_filter))) w Q =
     ((fault E (tick w) \<longrightarrow> Q (Inl io_error) (next_tick w)) \<and>
      (\<not> fault E (tick w) \<longrightarrow>
        (find_request (get_db c w) i = None \<longrightarrow> Q (Inl StoreRecordNotFound) (next_tick w)) \<and>
        (\<forall>p. find_request (get_db c w) i = Some p \<longrightarrow> pc_id p = i \<longrightarrow>
           Q (Inr (p, snd (preload_partner E (tick w) False (get_db c w) p))) (next_tick w))))"
  by (auto simp: wp_get_partner_customer find_request_None find_request_def [symmetric]
      preload_partner_def dest: find_requestD)

lemma wp_get_accepted:
  "wp (get_partner_customer E c (Some (accepted_with u p))) w Q =
     ((fault E (tick w) \<longrightarrow> Q (Inl io_error) (next_tick w)) \<and>
      (\<not> fault E (tick w) \<longrightarrow>
        (find_accepted (get_db c w) u p = None \<longrightarrow> Q (Inl StoreRecordNotFound) (next_tick w)) \<and>
        (\<forall>r. find_accepted (get_db c w) u p = Some r \<longrightarrow>
           Q (Inr (r, snd (preload_partner E (tick w) False (get_db c w) r))) (next_tick w))))"
  by (auto simp: wp_get_partner_customer find_accepted_def filter_empty_conv preload_partner_def)

lemma cancel_request_refines:
  "\<not> ctx_tx c \<Longrightarrow> refines E (partner_cancel_request E c u i) (cancel_request_spec E u i)"
  by (rule refinesI)
     (auto simp: partner_cancel_request_def account_wp wp_get_request cancel_request_spec_def
        same_rows_def end_request_def dest: update_request_row_found
        intro!: wp_update_partner_customer_row exI executes_Inl executes_Inr)

lemma active_iff: "active_status s \<longleftrightarrow> s = RequestStatusPending \<or> s = RequestStatusAccepted"
  by (simp add: active_status_def)

lemma create_request_refines:
  assumes c: "\<not> ctx_tx c"
  shows "refines E (partner_create_request E c u p pc) (create_request_spec E u p pc)"
proof (rule refinesI)
  fix w :: world
  let ?post = "\<lambda>r w'. outcome E (create_request_spec E u p pc) (committed w) r (committed w')"
  have create: "wp (bind (uuid_new E) (\<lambda>i. map_err (\<lambda>e. if errors_is e StoreDuplicateKey
       then new_err_active_request_exists (u_username u) else e)
       (create_partner_customer E c (pending_request i u p pc)))) w' ?post"
    if "committed w' = committed w" "\<not> has_active_request (committed w) (u_username u)"
      "uuid_parse E p = Some gid" "find_group (committed w) gid = Some g" "g_kind g = ''partner''"
    for w' :: world and gid g
    using c that unfolding create_request_spec_def
    by (auto simp: wp_bind wp_uuid_new wp_map_err same_rows_def stmt_errors new_request_def
        intro!: wp_create_partner_customer exI executes_Inl executes_Inr)
  have found: "wp (case uuid_parse E p of
       None \<Rightarrow> raise (new_err_resource_not_found_by_str p ''partner'')
     | Some gid \<Rightarrow>
        bind (map_err (\<lambda>e. if errors_is e StoreRecordNotFound
                           then new_err_resource_not_found_by_str p ''partner'' else e)
               (get_group E c gid)) (\<lambda>g.
        bind (reject_if (g_kind (fst g) \<noteq> ''partner'')
               (new_err_resource_not_found_by_str p ''partner'')) (\<lambda>_.
        bind (uuid_new E) (\<lambda>i.
        map_err (\<lambda>e. if errors_is e StoreDuplicateKey
                     then new_err_active_request_exists (u_username u) else e)
          (create_partner_customer E c (pending_request i u p pc)))))) w' ?post"
    if "committed w' = committed w" "\<not> has_active_request (committed w) (u_username u)"
    for w' :: world
    using c that create
    by (cases "uuid_parse E p")
       (auto simp: wp_raise create_request_spec_def wp_bind [of "map_err _ (get_group _ _ _)"]
          wp_bind [of "reject_if _ _"] wp_map_err wp_get_group wp_reject_if)
  show "wp (partner_create_request E c u p pc) w ?post"
    using c found unfolding partner_create_request_def
    by (auto simp: wp_bind [of "list_partner_customers _ _ _"] wp_list_partner_customers
        wp_bind [of "reject_if _ _"] wp_reject_if create_request_spec_def has_active_request_def
        active_iff)
qed

lemma ended_Inl: "end_request i now d = Inl e \<Longrightarrow> ended E i u p now d = Inl e"
  and ended_Inr: "end_request i now d = Inr d' \<Longrightarrow> ended E i u p now d = Inr (revoked E u p d')"
  by (simp_all add: ended_def)

lemma end_relationship_runs:
  assumes "i \<in> pc_id ` set (partners_customers (committed w))"
    and fails: "\<And>e. faulty E \<Longrightarrow> P (Inl e) (committed w)"
    and "\<And>now e. ended E i name p now (committed w) = Inl e \<Longrightarrow> P (Inl e) (committed w)"
    and "\<And>now d. ended E i name p now (committed w) = Inr d \<Longrightarrow> P (Inr ()) d"
  shows "wp (tx_scope E (request_context u) (end_relationship_body E i name p)) w
    (\<lambda>r w'. P r (committed w'))"
proof (rule end_relationship_unit.scope_rule [where P = P])
  have found: "find_request (committed w) i \<noteq> None"
    using assms(1) by (simp add: find_request_None)
  fix wi :: world
  assume wi: "committed wi = committed w" "open_tx wi = Some (committed w)"
  have ok: "P (Inr ()) d" if "end_request i now (committed w) = Inr d1" "d = revoked E name p d1"
    for now d1 d using assms(4) ended_Inr that by metis
  have err: "P (Inl e) (committed w)" if "end_request i now (committed w) = Inl e"
    for now e using assms(3) ended_Inl that by metis
  show "wp (end_relationship_body E i name p (tx_context (request_context u))) wi
     (\<lambda>r wf. (\<forall>e. r = Inl e \<longrightarrow> P (Inl e) (committed w)) \<and>
       (\<forall>a d. r = Inr a \<longrightarrow> open_tx wf = Some d \<longrightarrow> P (Inr a) d))"
    unfolding end_relationship_body_def wp_bind wp_time_now using wi found fails
    by (auto simp: same_rows_def intro!: wp_update_partner_customer_row wp_revoke
        intro: err [unfolded end_request_def] ok [unfolded end_request_def]
        dest: update_request_row_found)
qed (simp add: fails)

lemma leave_partner_refines:
  "refines E (partner_leave_partner E (request_context u) u' p) (leave_partner_spec E u' p)"
  unfolding partner_leave_partner_def
  by (rule refinesI)
     (auto simp: wp_bind wp_map_err wp_get_accepted leave_partner_spec_def
        intro!: end_relationship_runs exI executes_Inl executes_Inr dest: find_acceptedD)

lemma update_request_refines:
  "\<not> ctx_tx c \<Longrightarrow> refines E (partner_update_request E c u i req) (update_request_spec E u i req)"
  by (rule refinesI)
     (auto simp: partner_update_request_def account_wp wp_get_request update_request_spec_def Let_def
        same_rows_def dest: update_request_row_found
        intro!: wp_update_partner_customer_row)

subsection \<open>Behind the guards\<close>

definition partner_group :: "(uuid \<Rightarrow> string) \<Rightarrow> db \<Rightarrow> string \<Rightarrow> string option" where
  "partner_group us d u = (if kind_of d u = KindPartner
     then map_option (\<lambda>m. us (m_group_id m)) (find_member d u) else None)"

lemma is_identity_partner_group:
  "is_identity us d u i \<Longrightarrow>
     (id_kind i \<noteq> KindPartner \<or> id_group_id i = None \<longleftrightarrow> partner_group us d u = None) \<and>
     (partner_group us d u = Some g \<longrightarrow> id_group_id i = Some g)"
  by (auto simp: is_identity_def partner_group_def)

lemma refines_identity_guard:
  assumes guard: "\<And>d i. is_identity (uuid_str E) d name i \<Longrightarrow> f i \<longleftrightarrow> \<not> P d"
    and c: "\<not> ctx_tx c" and m: "refines E m S"
  shows "refines E (bind (get_identity E c name) (\<lambda>i. bind (reject_if (f i) e) (\<lambda>_. m)))
    (guarded P e S)"
proof -
  have obs: "observes c (bind (get_identity E c name) (\<lambda>i. reject_if (f i) e))
      (\<lambda>d r. case r of Inl e' \<Rightarrow> faulty E \<or> \<not> P d \<and> e' = e | Inr _ \<Rightarrow> P d)"
  proof (rule observesI)
    show "readonly (bind (get_identity E c name) (\<lambda>i. reject_if (f i) e))"
      by (simp add: readonly_intro)
    show "wp (bind (get_identity E c name) (\<lambda>i. reject_if (f i) e)) w
        (\<lambda>r w'. case r of Inl e' \<Rightarrow> faulty E \<or> \<not> P (get_db c w) \<and> e' = e | Inr _ \<Rightarrow> P (get_db c w))" for w
      unfolding wp_bind by (rule wp_get_identity) (auto simp: wp_reject_if guard)
  qed
  have assoc: "bind (get_identity E c name) (\<lambda>i. bind (reject_if (f i) e) (\<lambda>_. m)) =
      bind (bind (get_identity E c name) (\<lambda>i. reject_if (f i) e)) (\<lambda>_. m)"
    by (rule ext) (simp add: bind_eq split: prod.splits sum.splits)
  show ?thesis
    unfolding assoc by (rule refines_guard [OF obs c m])
qed

lemma authz_create_request_refines:
  "refines E (authz_create_request E (request_context u) u p pc)
     (guarded (\<lambda>d. kind_of d (u_username u) = KindRegular)
        (new_err_forbidden ''partner request'' (u_username u)) (create_request_spec E u p pc))"
  unfolding authz_create_request_def
  by (rule refines_identity_guard [OF _ _ create_request_refines]) (auto simp: is_identity_def)

lemma authz_leave_partner_refines:
  "refines E (authz_leave_partner E (request_context u) u p)
     (guarded (\<lambda>d. kind_of d (u_username u) = KindCustomer)
        (new_err_forbidden ''partner'' p) (leave_partner_spec E u p))"
  unfolding authz_leave_partner_def
  by (rule refines_identity_guard [OF _ _ leave_partner_refines]) (auto simp: is_identity_def)

definition authz_update_request_spec ::
    "env \<Rightarrow> user \<Rightarrow> uuid \<Rightarrow> request \<Rightarrow> db \<Rightarrow> error + partner_request \<times> db \<Rightarrow> bool" where
  "authz_update_request_spec E u i req d out \<longleftrightarrow>
     (case partner_group (uuid_str E) d (u_username u) of
        None \<Rightarrow> out = Inl (new_err_forbidden ''only partners can update requests'' (uuid_str E i))
      | Some g \<Rightarrow> (case find_request d i of
          None \<Rightarrow> out = Inl (new_err_resource_not_found (uuid_str E) i ''partner request'')
        | Some p \<Rightarrow>
            if pc_partner_id p \<noteq> g then out = Inl (new_err_forbidden ''partner request'' (uuid_str E i))
            else update_request_spec E u i req d out))"

definition authz_remove_customer_spec ::
    "env \<Rightarrow> user \<Rightarrow> string \<Rightarrow> db \<Rightarrow> error + unit \<times> db \<Rightarrow> bool" where
  "authz_remove_customer_spec E u name d out \<longleftrightarrow>
     (case partner_group (uuid_str E) d (u_username u) of
        None \<Rightarrow> out = Inl (new_err_forbidden ''customer'' name)
      | Some g \<Rightarrow> (case first_by pc_id (accepted_requests d name) of
          None \<Rightarrow> out = Inl (new_err_resource_not_found_by_str name ''partner customer'')
        | Some p \<Rightarrow>
            if pc_partner_id p \<noteq> g then out = Inl (new_err_forbidden ''customer'' name)
            else remove_customer_spec E g name d out))"

lemma wp_get_any_accepted:
  "wp (get_partner_customer E c (Some (partner_by_status RequestStatusAccepted
      (partner_by_username u new_query_filter)))) w Q =
     ((fault E (tick w) \<longrightarrow> Q (Inl io_error) (next_tick w)) \<and>
      (\<not> fault E (tick w) \<longrightarrow>
        (first_by pc_id (accepted_requests (get_db c w) u) = None \<longrightarrow>
           Q (Inl StoreRecordNotFound) (next_tick w)) \<and>
        (\<forall>r. first_by pc_id (accepted_requests (get_db c w) u) = Some r \<longrightarrow>
           Q (Inr (r, snd (preload_partner E (tick w) False (get_db c w) r))) (next_tick w))))"
proof -
  have "filter (satisfies (Some (partner_by_status RequestStatusAccepted
      (partner_by_username u new_query_filter)))) rs =
    filter (\<lambda>p. pc_username p = u \<and> pc_request_status p = RequestStatusAccepted) rs" for rs
    by (rule filter_cong) simp_all
  then show ?thesis
    by (auto simp: wp_get_partner_customer accepted_requests_def filter_empty_conv preload_partner_def)
qed

lemma authz_update_request_refines:
  "refines E (authz_update_request E (request_context u) u i req) (authz_update_request_spec E u i req)"
proof (rule refinesI)
  fix w :: world
  have inner: "wp (partner_update_request E (request_context u) u i req) w'
     (\<lambda>r w'. outcome E (authz_update_request_spec E u i req) (committed w) r (committed w'))"
    if "committed w' = committed w" "find_request (committed w) i = Some p"
      "partner_group (uuid_str E) (committed w) (u_username u) = Some (pc_partner_id p)"
    for w' :: world and p
    by (rule refines_at [OF update_request_refines])
       (use that in \<open>simp_all add: authz_update_request_spec_def\<close>)
  show "wp (authz_update_request E (request_context u) u i req) w
     (\<lambda>r w'. outcome E (authz_update_request_spec E u i req) (committed w) r (committed w'))"
    unfolding authz_update_request_def wp_bind [of "get_identity _ _ _"]
    by (rule wp_get_identity)
       (use inner is_identity_partner_group [of "uuid_str E" "committed w" "u_username u"] in
        \<open>auto simp: wp_bind [of "reject_if _ _"] wp_bind [of "map_err _ _"] wp_reject_if wp_map_err
           wp_get_request authz_update_request_spec_def split: option.splits\<close>)
qed

lemma remove_customer_runs:
  assumes w: "committed w = d" and g: "partner_group (uuid_str E) d (u_username u) = Some g"
  shows "wp (partner_remove_customer E (request_context u) u name) w
    (\<lambda>r w'. outcome E (remove_customer_spec E g name) d r (committed w'))"
  unfolding partner_remove_customer_def wp_bind [of "get_identity _ _ _"]
proof (rule wp_get_identity, goal_cases)
  case (2 i w')
  then have "id_group_id i = Some g"
    using is_identity_partner_group g w by auto
  then have gid: "group_id_or_panic i = ret g"
    by (simp add: group_id_or_panic_def)
  show ?case
    using 2 w
    by (auto simp: gid wp_bind [of "map_err _ _"] wp_map_err wp_get_accepted remove_customer_spec_def
        intro!: end_relationship_runs exI executes_Inl executes_Inr dest: find_acceptedD)
qed (use w in simp)

lemma authz_remove_customer_refines:
  "refines E (authz_remove_customer E (request_context u) u name) (authz_remove_customer_spec E u name)"
proof (rule refinesI)
  fix w :: world
  have inner: "wp (partner_remove_customer E (request_context u) u name) w'
     (\<lambda>r w'. outcome E (authz_remove_customer_spec E u name) (committed w) r (committed w'))"
    if "committed w' = committed w" "first_by pc_id (accepted_requests (committed w) name) = Some p"
      "partner_group (uuid_str E) (committed w) (u_username u) = Some (pc_partner_id p)"
    for w' :: world and p
    by (rule wp_mono [OF remove_customer_runs [OF that(1,3)]])
       (use that in \<open>auto simp: outcome_def authz_remove_customer_spec_def split: sum.splits\<close>)
  show "wp (authz_remove_customer E (request_context u) u name) w
     (\<lambda>r w'. outcome E (authz_remove_customer_spec E u name) (committed w) r (committed w'))"
    unfolding authz_remove_customer_def wp_bind [of "get_identity _ _ _"]
    by (rule wp_get_identity)
       (use inner is_identity_partner_group [of "uuid_str E" "committed w" "u_username u"] in
        \<open>auto simp: wp_bind [of "reject_if _ _"] wp_bind [of "map_err _ _"] wp_reject_if wp_map_err
           wp_get_any_accepted authz_remove_customer_spec_def split: option.splits\<close>)
qed

end
