(* ===== verification/AssessmentService.thy ===== *)
theory AssessmentService
  imports AccountsService AssessmentStore
begin

text \<open>
  \<open>internal/service/assessment.go\<close>: assessments and their sharing with a partner. The interface
  \<open>AssessmentServicer\<close> is a record of functions, which the authorization layer wraps. Logging is
  left out; \<open>AggregateInventories\<close>, which only the job worker calls, is in the theory \<open>InventoryAggregation\<close>.
\<close>

abbreviation SourceTypeAgent :: string where "SourceTypeAgent \<equiv> ''agent''"
abbreviation SourceTypeInventory :: string where "SourceTypeInventory \<equiv> ''inventory''"
abbreviation SourceTypeRvtools :: string where "SourceTypeRvtools \<equiv> ''rvtools''"

record assessment_filter =
  af_source :: string
  af_source_id :: string
  af_name_like :: string
  af_ids :: "uuid list"
  af_limit :: goint
  af_offset :: goint

definition new_assessment_filter :: assessment_filter where
  "new_assessment_filter = \<lparr>af_source = [], af_source_id = [], af_name_like = [], af_ids = [],
     af_limit = 0, af_offset = 0\<rparr>"

record assessment_create_form =
  cf_id :: uuid
  cf_source_type :: string
  cf_name :: string
  cf_org_id :: string
  cf_username :: string
  cf_owner_first_name :: "string option"
  cf_owner_last_name :: "string option"
  cf_source_id :: "uuid option"
  cf_main_inventory :: assessment_inventory
  cf_subset_inventories :: "assessment_inventory list"

definition form_to_model :: "assessment_create_form \<Rightarrow> assessment" where
  "form_to_model f = \<lparr>as_id = cf_id f, as_created_at = zero_time, as_updated_at = None,
     as_name = cf_name f, as_org_id = cf_org_id f, as_username = cf_username f,
     as_owner_first_name = cf_owner_first_name f, as_owner_last_name = cf_owner_last_name f,
     as_source_type = cf_source_type f, as_source_id = cf_source_id f,
     as_main_inventory = cf_main_inventory f, as_subset_inventories = cf_subset_inventories f,
     as_permissions = [], as_sharing = None\<rparr>"

definition assessment_inventory_from_json ::
    "env \<Rightarrow> uuid \<Rightarrow> uuid \<Rightarrow> string \<Rightarrow> bool \<Rightarrow> string \<Rightarrow> error + assessment_inventory" where
  "assessment_inventory_from_json E i aid name is_subset raw =
     (let version = get_inventory_version E raw
      in case unmarshal_inventory E raw version of
           Inl e \<Rightarrow> Inl e
         | Inr v \<Rightarrow> Inr (new_assessment_inventory i aid name version is_subset v))"

subsection \<open>Reading\<close>

definition filter_to_store :: "env \<Rightarrow> assessment_filter \<Rightarrow> assessment_row query_filter" where
  "filter_to_store E f =
     (let q = new_query_filter;
          q = (if af_ids f \<noteq> [] then assessment_with_ids (af_ids f) q else q);
          q = (if af_source f \<noteq> [] then assessment_with_source_type (af_source f) q else q);
          q = (if af_source_id f \<noteq> [] then assessment_with_source_id (uuid_str E) (af_source_id f) q else q)
      in if af_name_like f \<noteq> [] then assessment_with_name_like (af_name_like f) q else q)"

definition service_list_assessments ::
    "env \<Rightarrow> gocontext \<Rightarrow> assessment_filter \<Rightarrow> assessment_summary list go" where
  "service_list_assessments E c f =
     bind (must_have_user c) (\<lambda>_.
     map_err (Wrapf (''failed to list assessments: %w'', []))
       (list_assessments E c (Some (filter_to_store E f))))"

definition assessment_lookup_error :: "env \<Rightarrow> uuid \<Rightarrow> error \<Rightarrow> error" where
  "assessment_lookup_error E i e =
     (if errors_is e StoreRecordNotFound then new_err_assessment_not_found (uuid_str E) i
      else Wrapf (''failed to get assessment: %w'', []) e)"

definition service_get_assessment :: "env \<Rightarrow> gocontext \<Rightarrow> uuid \<Rightarrow> assessment go" where
  "service_get_assessment E c i = map_err (assessment_lookup_error E i) (get_assessment E c i)"

subsection \<open>Creating\<close>

fun read_subsets :: "env \<Rightarrow> uuid \<Rightarrow> subset_row list \<Rightarrow> assessment_inventory list go" where
  "read_subsets E aid [] = ret []"
| "read_subsets E aid (ss # rest) =
     bind (uuid_new E) (\<lambda>i.
     bind (from_result (Wrapf (''failed to read subset inventory %q: %w'', [ss_name ss]))
            (assessment_inventory_from_json E i aid (ss_name ss) True (ss_inventory ss))) (\<lambda>v.
     bind (read_subsets E aid rest) (\<lambda>vs. ret (v # vs))))"

text \<open>The agent branch: the inventories are copied from a source of the same owner.\<close>

definition read_source_inventories ::
    "env \<Rightarrow> gocontext \<Rightarrow> assessment \<Rightarrow> uuid \<Rightarrow> string \<Rightarrow> assessment go" where
  "read_source_inventories E c a sid raw =
     bind (uuid_new E) (\<lambda>i.
     bind (from_result (Wrapf (''failed to read source inventory: %w'', []))
            (assessment_inventory_from_json E i (as_id a) (as_name a) False raw)) (\<lambda>main.
     bind (reject_if (asi_vms_count main = 0) new_err_inventory_has_no_vms) (\<lambda>_.
     bind (map_err (Wrapf (''failed to fetch source subset inventories: %w'', []))
            (list_source_subsets E c (Some (subset_by_source_id sid new_query_filter)))) (\<lambda>sss.
     bind (read_subsets E (as_id a) sss) (\<lambda>subsets.
     ret (a\<lparr>as_main_inventory := main, as_subset_inventories := subsets\<rparr>))))))"

definition assessment_from_source :: "env \<Rightarrow> gocontext \<Rightarrow> assessment \<Rightarrow> assessment go" where
  "assessment_from_source E c a =
     (case as_source_id a of
        None \<Rightarrow> raise (Panic ''nil pointer dereference'')
      | Some sid \<Rightarrow>
          bind (get_source E c sid) (\<lambda>s.
          bind (reject_if (s_org_id s \<noteq> as_org_id a \<or> s_username s \<noteq> as_username a)
                 (new_err_assessment_creation_forbidden (uuid_str E) (s_id s))) (\<lambda>_.
          case s_inventory s of
            None \<Rightarrow> raise (new_err_source_has_no_inventory (uuid_str E) (s_id s))
          | Some raw \<Rightarrow> read_source_inventories E c a sid raw)))"

definition prepare_assessment :: "env \<Rightarrow> gocontext \<Rightarrow> assessment_create_form \<Rightarrow> assessment go" where
  "prepare_assessment E c f =
     (let a = form_to_model f in
      if cf_source_type f = SourceTypeRvtools \<or> cf_source_type f = SourceTypeInventory then ret a
      else if cf_source_type f = ''agent'' then assessment_from_source E c a
      else raise (OtherError (''assessment must have either inventories or a source ID'', [])))"

definition create_assessment_body :: "env \<Rightarrow> assessment \<Rightarrow> gocontext \<Rightarrow> assessment go" where
  "create_assessment_body E a c =
     map_err (\<lambda>e. if errors_is e StoreDuplicateKey then new_err_assessment_duplicate_name (as_name a)
                  else Wrapf (''failed to create assessment: %w'', []) e)
       (create_assessment E c a)"

definition service_create_assessment ::
    "env \<Rightarrow> gocontext \<Rightarrow> assessment_create_form \<Rightarrow> assessment go" where
  "service_create_assessment E c f =
     bind (prepare_assessment E c f) (\<lambda>a. tx_scope E c (create_assessment_body E a))"

subsection \<open>Updating and deleting\<close>

definition refreshed_inventory ::
    "env \<Rightarrow> assessment \<Rightarrow> source_row \<Rightarrow> assessment_inventory list go" where
  "refreshed_inventory E a s = (case s_inventory s of
     None \<Rightarrow> ret []
   | Some raw \<Rightarrow>
       bind (uuid_new E) (\<lambda>i.
       bind (from_result (Wrapf (''failed to read source inventory: %w'', []))
              (assessment_inventory_from_json E i (as_id a) (as_name a) True raw)) (\<lambda>v.
       ret [v])))"

definition update_assessment_body ::
    "env \<Rightarrow> uuid \<Rightarrow> string option \<Rightarrow> gocontext \<Rightarrow> assessment go" where
  "update_assessment_body E i name c =
     bind (map_err (assessment_lookup_error E i) (get_assessment E c i)) (\<lambda>a.
     case as_source_id a of
       Some sid \<Rightarrow>
         bind (get_source E c sid) (\<lambda>s.
         bind (refreshed_inventory E a s) (\<lambda>invs.
         map_err (Wrapf (''failed to update assessment: %w'', []))
           (update_assessment E c i name invs)))
     | None \<Rightarrow>
         map_err (Wrapf (''failed to update assessment: %w'', []))
           (update_assessment E c i name []))"

text \<open>The updated assessment is read again after the commit, under the same deferred rollback.\<close>

definition service_update_assessment ::
    "env \<Rightarrow> gocontext \<Rightarrow> uuid \<Rightarrow> string option \<Rightarrow> assessment go" where
  "service_update_assessment E c0 i name =
     bind (new_transaction_context E c0) (\<lambda>c.
     defer_rollback E c
       (bind (update_assessment_body E i name c) (\<lambda>_.
        bind (commit E c) (\<lambda>_.
        service_get_assessment E c i))))"

definition service_delete_assessment :: "env \<Rightarrow> gocontext \<Rightarrow> uuid \<Rightarrow> unit go" where
  "service_delete_assessment E c i =
     bind (map_err (assessment_lookup_error E i) (get_assessment E c i)) (\<lambda>_.
     map_err (Wrapf (''failed to delete assessment: %w'', [])) (delete_assessment E c i))"

subsection \<open>Sharing\<close>

definition share_lookup_error :: "env \<Rightarrow> uuid \<Rightarrow> error \<Rightarrow> error" where
  "share_lookup_error E i e =
     (if errors_is e StoreRecordNotFound then new_err_assessment_not_found (uuid_str E) i else e)"

text \<open>\<open>ShareAssessment\<close> and \<open>UnshareAssessment\<close> differ in the update they build.\<close>

definition sharing_body ::
    "env \<Rightarrow> user \<Rightarrow> uuid \<Rightarrow> errmsg \<Rightarrow> (string \<Rightarrow> relationship_update list) \<Rightarrow> gocontext \<Rightarrow> unit go" where
  "sharing_body E u i message updates c =
     bind (map_err (share_lookup_error E i) (get_assessment E c i)) (\<lambda>_.
     bind (get_identity E c (u_username u)) (\<lambda>ident.
     case id_partner_id ident of
       None \<Rightarrow> raise (new_err_not_a_customer (u_username u))
     | Some p \<Rightarrow>
         bind (reject_if (id_kind ident \<noteq> KindCustomer) (new_err_not_a_customer (u_username u))) (\<lambda>_.
         map_err (Wrapf message) (write_relationships E c (updates p)))))"

definition share_updates :: "env \<Rightarrow> uuid \<Rightarrow> string \<Rightarrow> relationship_update list" where
  "share_updates E i p = builder_build (builder_with (new_assessment_resource (uuid_str E i))
     ViewerRelation (new_org_subject p) new_relationship_builder)"

definition unshare_updates :: "env \<Rightarrow> uuid \<Rightarrow> string \<Rightarrow> relationship_update list" where
  "unshare_updates E i p = builder_build (builder_without (new_assessment_resource (uuid_str E i))
     ViewerRelation (new_org_subject p) new_relationship_builder)"

definition service_share_assessment :: "env \<Rightarrow> gocontext \<Rightarrow> uuid \<Rightarrow> unit go" where
  "service_share_assessment E c i =
     bind (must_have_user c) (\<lambda>u.
     tx_scope E c (sharing_body E u i (''failed to share assessment: %w'', []) (share_updates E i)))"

definition service_unshare_assessment :: "env \<Rightarrow> gocontext \<Rightarrow> uuid \<Rightarrow> unit go" where
  "service_unshare_assessment E c i =
     bind (must_have_user c) (\<lambda>u.
     tx_scope E c (sharing_body E u i (''failed to unshare assessment: %w'', []) (unshare_updates E i)))"

subsection \<open>The interface\<close>

record assessment_servicer =
  srv_list :: "gocontext \<Rightarrow> assessment_filter \<Rightarrow> assessment_summary list go"
  srv_get :: "gocontext \<Rightarrow> uuid \<Rightarrow> assessment go"
  srv_create :: "gocontext \<Rightarrow> assessment_create_form \<Rightarrow> assessment go"
  srv_update :: "gocontext \<Rightarrow> uuid \<Rightarrow> string option \<Rightarrow> assessment go"
  srv_delete :: "gocontext \<Rightarrow> uuid \<Rightarrow> unit go"
  srv_share :: "gocontext \<Rightarrow> uuid \<Rightarrow> unit go"
  srv_unshare :: "gocontext \<Rightarrow> uuid \<Rightarrow> unit go"

definition new_assessment_service :: "env \<Rightarrow> assessment_servicer" where
  "new_assessment_service E = \<lparr>srv_list = service_list_assessments E,
     srv_get = service_get_assessment E, srv_create = service_create_assessment E,
     srv_update = service_update_assessment E, srv_delete = service_delete_assessment E,
     srv_share = service_share_assessment E, srv_unshare = service_unshare_assessment E\<rparr>"

subsection \<open>The transactions of the service\<close>

lemma local_service_reads [local_intro]:
  "local_tx c (service_get_assessment E c' i)" "local_tx c (service_list_assessments E c' f)"
  by (simp_all add: service_get_assessment_def service_list_assessments_def local_intro)

lemma readonly_service_reads [readonly_intro]:
  "readonly (service_get_assessment E c i)" "readonly (service_list_assessments E c f)"
  by (simp_all add: service_get_assessment_def service_list_assessments_def readonly_intro)

lemma local_sharing_body [local_intro]:
  "ctx_tx c' = ctx_tx c \<Longrightarrow> local_tx c (sharing_body E u i message updates c')"
  unfolding sharing_body_def
  by (intro local_intro) (auto split: option.splits intro!: local_intro)

lemma local_create_body [local_intro]:
  "ctx_tx c' = ctx_tx c \<Longrightarrow> local_tx c (create_assessment_body E a c')"
  by (simp add: create_assessment_body_def local_intro)

lemma local_refreshed [local_intro]: "local_tx c (refreshed_inventory E a s)"
  by (auto simp: refreshed_inventory_def split: option.splits intro!: local_intro)

lemma local_update_body [local_intro]:
  "ctx_tx c' = ctx_tx c \<Longrightarrow> local_tx c (update_assessment_body E i name c')"
  unfolding update_assessment_body_def
  by (intro local_intro) (auto split: option.splits intro!: local_intro)

interpretation create_assessment_unit:
  unit_of_work E "request_context u" "create_assessment_body E a" for E u a
  by unfold_locales (simp_all add: local_intro)

interpretation sharing_unit:
  unit_of_work E "request_context u" "sharing_body E u' i message updates" for E u u' i message updates
  by unfold_locales (simp_all add: local_intro)

subsection \<open>Sharing refines its specification\<close>

definition lookup_spec :: "env \<Rightarrow> (error \<Rightarrow> error) \<Rightarrow> uuid \<Rightarrow>
    (db \<Rightarrow> error + 'a \<times> db \<Rightarrow> bool) \<Rightarrow> db \<Rightarrow> error + 'a \<times> db \<Rightarrow> bool" where
  "lookup_spec E err i K d out \<longleftrightarrow>
     (if find_assessment d i = None then out = Inl (err StoreRecordNotFound)
      else if undecodable E d i
      then \<exists>e. out = Inl (err (Wrapf (''failed to convert assessment: %w'', []) e))
      else K d out)"

definition sharing_spec ::
    "env \<Rightarrow> user \<Rightarrow> uuid \<Rightarrow> (string \<Rightarrow> db \<Rightarrow> db) \<Rightarrow> db \<Rightarrow> error + unit \<times> db \<Rightarrow> bool" where
  "sharing_spec E u i change = lookup_spec E (share_lookup_error E i) i (\<lambda>d out.
     if kind_of d (u_username u) \<noteq> KindCustomer then out = Inl (new_err_not_a_customer (u_username u))
     else \<exists>p \<in> set (accepted_requests d (u_username u)). out = Inr ((), change (pc_partner_id p) d))"

definition share_with :: "env \<Rightarrow> uuid \<Rightarrow> string \<Rightarrow> db \<Rightarrow> db" where
  "share_with E i p d = d\<lparr>relations := insert_ignore [viewer_tuple E i p] (relations d)\<rparr>"

definition unshare_with :: "env \<Rightarrow> uuid \<Rightarrow> string \<Rightarrow> db \<Rightarrow> db" where
  "unshare_with E i p d = d\<lparr>relations := filter (\<lambda>r. r \<noteq> viewer_tuple E i p) (relations d)\<rparr>"

lemma wp_share_updates:
  "wp (write_relationships E c (share_updates E i p)) w Q =
     ((fault E (tick w) \<longrightarrow> Q (Inl io_error) (next_tick w)) \<and>
      (\<not> fault E (tick w) \<longrightarrow> Q (Inr ()) (put_db c (share_with E i p (get_db c w)) (next_tick w))))"
  "wp (write_relationships E c (unshare_updates E i p)) w Q =
     ((fault E (tick w) \<longrightarrow> Q (Inl io_error) (next_tick w)) \<and>
      (\<not> fault E (tick w) \<longrightarrow> Q (Inr ()) (put_db c (unshare_with E i p (get_db c w)) (next_tick w))))"
  unfolding share_updates_def unshare_updates_def wp_write_one to_sql_assessment_tuples
  by (simp_all only: share_with_def unshare_with_def)

lemma wp_get_assessment:
  assumes "\<And>r w'. same_rows w w' \<Longrightarrow> isl r \<and> faulty E \<or> found_assessment E i (get_db c w) r \<Longrightarrow> Q r w'"
  shows "wp (get_assessment E c i) w Q"
  by (rule observes_wp [OF observes_get_assessment]) (auto simp: same_rows_def intro: assms)

lemma wp_bind_lookup:
  assumes "\<And>e w'. same_rows w w' \<Longrightarrow> faulty E \<or> found_assessment E i (get_db c w) (Inl e) \<Longrightarrow>
      Q (Inl (err e)) w'"
    and "\<And>a w'. same_rows w w' \<Longrightarrow> found_assessment E i (get_db c w) (Inr a) \<Longrightarrow> wp (k a) w' Q"
  shows "wp (bind (map_err err (get_assessment E c i)) k) w Q"
  unfolding wp_bind wp_map_err
proof (rule wp_get_assessment)
  fix r and w' :: world
  assume "same_rows w w'" "isl r \<and> faulty E \<or> found_assessment E i (get_db c w) r"
  then show "(\<forall>e. r = Inl e \<longrightarrow>
        (\<forall>ea. Inl (err e) = Inl ea \<longrightarrow> Q (Inl ea) w') \<and> (\<forall>a. Inl (err e) = Inr a \<longrightarrow> wp (k a) w' Q)) \<and>
      (\<forall>a. r = Inr a \<longrightarrow>
        (\<forall>e. Inr a = Inl e \<longrightarrow> Q (Inl e) w') \<and> (\<forall>aa. Inr a = Inr aa \<longrightarrow> wp (k aa) w' Q))"
    by (cases r) (auto intro: assms)
qed

lemma sharing_refines:
  assumes writes: "\<And>c p w Q. wp (write_relationships E c (updates p)) w Q =
     ((fault E (tick w) \<longrightarrow> Q (Inl io_error) (next_tick w)) \<and>
      (\<not> fault E (tick w) \<longrightarrow> Q (Inr ()) (put_db c (change p (get_db c w)) (next_tick w))))"
  shows "refines E (tx_scope E (request_context u) (sharing_body E u' i message updates))
    (sharing_spec E u' i change)"
proof (rule refinesI, rule sharing_unit.scope_rule)
  fix w wi :: world
  let ?c = "tx_context (request_context u)" and ?d = "committed w"
  define S where "S = sharing_spec E u' i change ?d"
  have S: "outcome E (sharing_spec E u' i change) ?d (Inl e) ?d \<longleftrightarrow> faulty E \<or> S (Inl e)"
    "outcome E (sharing_spec E u' i change) ?d (Inr a) d \<longleftrightarrow> S (Inr (a, d))" for e a d
    by (simp_all add: S_def)
  have lookup: "S (Inl (share_lookup_error E i e))" if "found_assessment E i ?d (Inl e)" for e
    using that by (auto simp: S_def sharing_spec_def lookup_spec_def found_assessment_def)
  assume wi: "committed wi = ?d" "open_tx wi = Some ?d"
  let ?Q = "\<lambda>r wf. (\<forall>e. r = Inl e \<longrightarrow> faulty E \<or> S (Inl e)) \<and>
      (\<forall>a d. r = Inr a \<longrightarrow> open_tx wf = Some d \<longrightarrow> S (Inr (a, d)))"
  have identity: "wp (bind (get_identity E ?c (u_username u')) (\<lambda>ident. case id_partner_id ident of
       None \<Rightarrow> raise (new_err_not_a_customer (u_username u'))
     | Some p \<Rightarrow>
         bind (reject_if (id_kind ident \<noteq> KindCustomer) (new_err_not_a_customer (u_username u'))) (\<lambda>_.
         map_err (Wrapf message) (write_relationships E ?c (updates p))))) w2 ?Q"
    if "same_rows wi w2" "find_assessment ?d i \<noteq> None" "\<not> undecodable E ?d i" for w2 :: world
    unfolding wp_bind [of "get_identity _ _ _"]
    by (rule wp_get_identity)
       (use that wi in \<open>auto simp: wp_raise wp_bind wp_reject_if wp_map_err writes same_rows_def
          is_identity_def S_def sharing_spec_def lookup_spec_def split: option.splits\<close>)
  show "wp (sharing_body E u' i message updates ?c) wi (\<lambda>r wf.
      (\<forall>e. r = Inl e \<longrightarrow> outcome E (sharing_spec E u' i change) ?d (Inl e) ?d) \<and>
      (\<forall>a d. r = Inr a \<longrightarrow> open_tx wf = Some d \<longrightarrow>
         outcome E (sharing_spec E u' i change) ?d (Inr a) d))"
    unfolding sharing_body_def S
    by (rule wp_bind_lookup) (use wi lookup identity in \<open>auto simp: found_assessment_def\<close>)
qed simp

lemma service_share_refines:
  "refines E (service_share_assessment E (request_context u) i) (sharing_spec E u i (share_with E i))"
  "refines E (service_unshare_assessment E (request_context u) i) (sharing_spec E u i (unshare_with E i))"
  unfolding service_share_assessment_def service_unshare_assessment_def must_have_user_request bind_ret
  by (rule sharing_refines, rule wp_share_updates)+

end
