(* ===== verification/AssessmentSpec.thy ===== *)
theory AssessmentSpec
  imports AssessmentService
begin

text \<open>
  What \<open>AssessmentServicer\<close> promises. The atomic specification of each operation of
  \<open>internal/service/assessment.go\<close>, the locale \<open>assessment_servicer_laws\<close> that states it of any
  implementation of the interface, and the interpretation on the service itself.
\<close>

subsection \<open>Operations that join a transaction\<close>

text \<open>
  Inside an open transaction \<open>m\<close> performs \<open>S\<close>: the committed rows do not change, and the rows of
  the transaction change as \<open>S\<close> says when it succeeds. The scope of the transaction turns this
  into the refinement of \<open>S\<close>; a scope that joins an outer transaction keeps it.
\<close>

definition performs :: "env \<Rightarrow> 'a go \<Rightarrow> (db \<Rightarrow> error + 'a \<times> db \<Rightarrow> bool) \<Rightarrow> bool" where
  "performs E m S \<longleftrightarrow> (\<forall>w d. open_tx w = Some d \<longrightarrow> wp m w (\<lambda>r w'. committed w' = committed w \<and>
     (\<exists>d'. open_tx w' = Some d' \<and> (case r of
        Inl e \<Rightarrow> faulty E \<or> S d (Inl e)
      | Inr a \<Rightarrow> S d (Inr (a, d'))))))"

lemma performsI:
  "(\<And>w d. open_tx w = Some d \<Longrightarrow> wp m w (\<lambda>r w'. committed w' = committed w \<and>
     (\<exists>d'. open_tx w' = Some d' \<and> (case r of
        Inl e \<Rightarrow> faulty E \<or> S d (Inl e)
      | Inr a \<Rightarrow> S d (Inr (a, d')))))) \<Longrightarrow> performs E m S"
  by (simp add: performs_def)

lemma wp_performs:
  assumes "performs E m S" "open_tx w = Some d"
    and "\<And>e w' d'. committed w' = committed w \<Longrightarrow> open_tx w' = Some d' \<Longrightarrow> faulty E \<or> S d (Inl e) \<Longrightarrow>
      Q (Inl e) w'"
    and "\<And>a w' d'. committed w' = committed w \<Longrightarrow> open_tx w' = Some d' \<Longrightarrow> S d (Inr (a, d')) \<Longrightarrow>
      Q (Inr a) w'"
  shows "wp m w Q"
proof (rule wp_mono)
  show "wp m w (\<lambda>r w'. committed w' = committed w \<and> (\<exists>d'. open_tx w' = Some d' \<and> (case r of
        Inl e \<Rightarrow> faulty E \<or> S d (Inl e) | Inr a \<Rightarrow> S d (Inr (a, d')))))"
    using assms(1,2) by (simp add: performs_def)
  show "committed w' = committed w \<and> (\<exists>d'. open_tx w' = Some d' \<and> (case r of
        Inl e \<Rightarrow> faulty E \<or> S d (Inl e) | Inr a \<Rightarrow> S d (Inr (a, d')))) \<Longrightarrow> Q r w'" for r w'
    by (cases r) (use assms(3,4) in auto)
qed

lemma performs_local: "performs E m S \<Longrightarrow> local_tx c m"
  by (rule local_txI) (erule wp_performs, auto)

lemma scope_performs:
  assumes "\<not> ctx_tx c" "performs E (body (tx_context c)) S"
  shows "refines E (tx_scope E c body) S"
proof (rule refinesI)
  fix w :: world
  have unit: "unit_of_work c body"
    using assms by unfold_locales (auto intro: performs_local)
  show "wp (tx_scope E c body) w (\<lambda>r w'. outcome E S (committed w) r (committed w'))"
    by (rule unit_of_work.scope_rule [OF unit]) (auto intro!: wp_performs [OF assms(2)])
qed

lemma joined_scope_performs:
  assumes "ctx_tx c" "performs E (body (c\<lparr>ctx_owner := False\<rparr>)) S"
  shows "performs E (tx_scope E c body) S"
proof (rule performsI)
  fix w :: world and d
  assume d: "open_tx w = Some d"
  show "wp (tx_scope E c body) w (\<lambda>r w'. committed w' = committed w \<and>
     (\<exists>d'. open_tx w' = Some d' \<and> (case r of
        Inl e \<Rightarrow> faulty E \<or> S d (Inl e) | Inr a \<Rightarrow> S d (Inr (a, d')))))"
    using assms(1)
    by (simp add: tx_scope_def wp_bind wp_new_transaction_context wp_defer_rollback
        wp_commit_joined wp_ret rollback_def)
       (rule wp_performs [OF assms(2) d], auto simp: ret_def)
qed

lemma observed_performs:
  assumes "observes c m (\<lambda>d r. isl r \<and> faulty E \<or> R d r)" "ctx_tx c"
    and "\<And>d e. R d (Inl e) \<Longrightarrow> S d (Inl e)"
    and "\<And>d a. R d (Inr a) \<Longrightarrow> S d (Inr (a, d))"
  shows "performs E m S"
  by (rule performsI, rule observes_wp [OF assms(1)])
     (use assms(2-) in \<open>auto split: sum.splits\<close>)

subsection \<open>Looking up\<close>

definition looked_up :: "env \<Rightarrow> uuid \<Rightarrow> db \<Rightarrow> error + assessment \<Rightarrow> bool" where
  "looked_up E i d r \<longleftrightarrow> (case r of
     Inl e \<Rightarrow> (\<exists>e0. found_assessment E i d (Inl e0) \<and> e = assessment_lookup_error E i e0)
   | Inr a \<Rightarrow> found_assessment E i d (Inr a))"

lemma looked_up_missing:
  "find_assessment d i = None \<Longrightarrow>
     looked_up E i d r \<longleftrightarrow> r = Inl (new_err_assessment_not_found (uuid_str E) i)"
  by (auto simp: looked_up_def found_assessment_def assessment_lookup_error_def split: sum.splits)

lemma observes_service_get:
  "observes c (service_get_assessment E c i) (\<lambda>d r. isl r \<and> faulty E \<or> looked_up E i d r)"
  unfolding service_get_assessment_def
  by (rule observes_map_err [OF observes_get_assessment]) (auto simp: looked_up_def)

definition find_source :: "db \<Rightarrow> uuid \<Rightarrow> source_row option" where
  "find_source d i = first_by s_id (filter (primary_key i \<circ> s_id) (sources d))"

lemma observes_get_source:
  "observes c (get_source E c i) (\<lambda>d r. isl r \<and> faulty E \<or>
     r = (case find_source d i of None \<Rightarrow> Inl StoreRecordNotFound | Some s \<Rightarrow> Inr s))"
  by (rule observesI)
     (auto simp: readonly_intro get_source_def wp_map_err wp_gorm_first find_source_def
        split: option.splits)

lemma observes_subsets:
  "observes c (list_source_subsets E c (Some (subset_by_source_id i new_query_filter))) (\<lambda>d r.
     isl r \<and> faulty E \<or> (\<exists>sss. r = Inr sss \<and>
       mset sss = mset (filter (\<lambda>ss. ss_source_id ss = i) (source_subset_inventories d))))"
  by (rule observesI)
     (auto simp: readonly_intro list_source_subsets_def wp_query)

subsection \<open>Deleting\<close>

definition without_assessment :: "uuid \<Rightarrow> db \<Rightarrow> db" where
  "without_assessment i d = d\<lparr>assessments := filter (\<lambda>r. a_id r \<noteq> i) (assessments d),
     assessment_inventories := filter (\<lambda>r. ai_assessment_id r \<noteq> i) (assessment_inventories d),
     cluster_sizing_inputs := filter (\<lambda>r. si_assessment_id r \<noteq> i) (cluster_sizing_inputs d)\<rparr>"

definition delete_assessment_spec :: "env \<Rightarrow> uuid \<Rightarrow> db \<Rightarrow> error + unit \<times> db \<Rightarrow> bool" where
  "delete_assessment_spec E i = lookup_spec E (assessment_lookup_error E i) i
     (\<lambda>d out. out = Inr ((), without_assessment i d))"

lemma service_delete_performs:
  assumes c: "ctx_tx c"
  shows "performs E (service_delete_assessment E c i) (delete_assessment_spec E i)"
  unfolding service_delete_assessment_def
proof (rule performsI, rule wp_bind_lookup)
  fix w w' :: world and d
  assume d: "open_tx w = Some d" and same: "same_rows w w'"
  {
    fix e
    assume "faulty E \<or> found_assessment E i (get_db c w) (Inl e)"
    then show "committed w' = committed w \<and> (\<exists>d'. open_tx w' = Some d' \<and>
        (case Inl (assessment_lookup_error E i e) :: error + unit of
           Inl e \<Rightarrow> faulty E \<or> delete_assessment_spec E i d (Inl e)
         | Inr a \<Rightarrow> delete_assessment_spec E i d (Inr (a, d'))))"
      using d same c
      by (auto simp: same_rows_def delete_assessment_spec_def lookup_spec_def found_assessment_def)
  next
    fix a
    assume "found_assessment E i (get_db c w) (Inr a)"
    then have ok: "delete_assessment_spec E i d (Inr ((), without_assessment i d))"
      using d c by (auto simp: delete_assessment_spec_def lookup_spec_def found_assessment_def)
    show "wp (map_err (Wrapf (''failed to delete assessment: %w'', [])) (delete_assessment E c i)) w'
       (\<lambda>r w'. committed w' = committed w \<and> (\<exists>d'. open_tx w' = Some d' \<and> (case r of
          Inl e \<Rightarrow> faulty E \<or> delete_assessment_spec E i d (Inl e)
        | Inr a \<Rightarrow> delete_assessment_spec E i d (Inr (a, d')))))"
      using d same c ok
      by (auto simp: delete_assessment_def delete_assessment_row_def wp_map_err wp_attempt wp_exec
          wp_raise wp_ret same_rows_def without_assessment_def [symmetric])
  }
qed

subsection \<open>Creating\<close>

definition decoded_subsets ::
    "env \<Rightarrow> uuid \<Rightarrow> subset_row list \<Rightarrow> error + assessment_inventory list \<Rightarrow> bool" where
  "decoded_subsets E aid sss r \<longleftrightarrow> (case r of
     Inl e \<Rightarrow> (\<exists>ss \<in> set sss. \<exists>i e'.
       assessment_inventory_from_json E i aid (ss_name ss) True (ss_inventory ss) = Inl e' \<and>
       e = Wrapf (''failed to read subset inventory %q: %w'', [ss_name ss]) e')
   | Inr vs \<Rightarrow> list_all2 (\<lambda>ss v. \<exists>i.
       assessment_inventory_from_json E i aid (ss_name ss) True (ss_inventory ss) = Inr v) sss vs)"

lemma wp_read_subsets:
  "wp (read_subsets E aid sss) w (\<lambda>r w'. same_rows w w' \<and> decoded_subsets E aid sss r)"
proof (induction sss arbitrary: w)
  case Nil
  then show ?case by (simp add: wp_ret decoded_subsets_def)
next
  case (Cons ss sss)
  have tail: "wp (read_subsets E aid sss) w2 (\<lambda>r w'. same_rows w w' \<and> decoded_subsets E aid sss r)"
    if "same_rows w w2" for w2
    by (rule wp_mono [OF Cons.IH]) (use that in \<open>auto simp: same_rows_def\<close>)
  show ?case
    by (auto simp: wp_bind wp_uuid_new wp_from_result wp_ret split: sum.splits
        intro!: wp_mono [OF tail])
       (auto simp: decoded_subsets_def split: sum.splits)
qed

text \<open>The inventories of a source: its own, which must hold virtual machines, and its subsets.\<close>

definition source_inventories ::
    "env \<Rightarrow> assessment_create_form \<Rightarrow> uuid \<Rightarrow> string \<Rightarrow> db \<Rightarrow> error + assessment \<Rightarrow> bool" where
  "source_inventories E f sid raw d r \<longleftrightarrow>
     (\<exists>i. case assessment_inventory_from_json E i (cf_id f) (cf_name f) False raw of
        Inl e \<Rightarrow> r = Inl (Wrapf (''failed to read source inventory: %w'', []) e)
      | Inr main \<Rightarrow>
          if asi_vms_count main = 0 then r = Inl new_err_inventory_has_no_vms
          else (\<exists>sss subsets. mset sss =
              mset (filter (\<lambda>ss. ss_source_id ss = sid) (source_subset_inventories d)) \<and>
            decoded_subsets E (cf_id f) sss subsets \<and>
            r = (case subsets of Inl e \<Rightarrow> Inl e
               | Inr vs \<Rightarrow> Inr ((form_to_model f)\<lparr>as_main_inventory := main,
                               as_subset_inventories := vs\<rparr>))))"

definition prepared :: "env \<Rightarrow> assessment_create_form \<Rightarrow> db \<Rightarrow> error + assessment \<Rightarrow> bool" where
  "prepared E f d r \<longleftrightarrow>
     (if cf_source_type f = SourceTypeRvtools \<or> cf_source_type f = SourceTypeInventory
      then r = Inr (form_to_model f)
      else if cf_source_type f \<noteq> SourceTypeAgent
      then r = Inl (OtherError (''assessment must have either inventories or a source ID'', []))
      else case cf_source_id f of
        None \<Rightarrow> r = Inl (Panic ''nil pointer dereference'')
      | Some sid \<Rightarrow> (case find_source d sid of
          None \<Rightarrow> r = Inl StoreRecordNotFound
        | Some s \<Rightarrow>
            if s_org_id s \<noteq> cf_org_id f \<or> s_username s \<noteq> cf_username f
            then r = Inl (new_err_assessment_creation_forbidden (uuid_str E) (s_id s))
            else case s_inventory s of
              None \<Rightarrow> r = Inl (new_err_source_has_no_inventory (uuid_str E) (s_id s))
            | Some raw \<Rightarrow> source_inventories E f sid raw d r))"

lemma form_to_model_simps [simp]:
  "as_id (form_to_model f) = cf_id f" "as_name (form_to_model f) = cf_name f"
  "as_org_id (form_to_model f) = cf_org_id f" "as_username (form_to_model f) = cf_username f"
  "as_source_id (form_to_model f) = cf_source_id f"
  "as_source_type (form_to_model f) = cf_source_type f"
  by (simp_all add: form_to_model_def)

lemma find_sourceD: "find_source d i = Some s \<Longrightarrow> s \<in> set (sources d) \<and> (i = nil_uuid \<or> s_id s = i)"
  by (auto simp: find_source_def primary_key_def dest: first_by_filterD)

lemma wp_bind_subsets:
  assumes "\<And>e w'. same_rows w w' \<Longrightarrow> faulty E \<Longrightarrow> Q (Inl (err e)) w'"
    and "\<And>sss w'. same_rows w w' \<Longrightarrow> mset sss = mset (filter (\<lambda>ss. ss_source_id ss = i)
      (source_subset_inventories (get_db c w))) \<Longrightarrow> wp (k sss) w' Q"
  shows "wp (bind (map_err err (list_source_subsets E c
    (Some (subset_by_source_id i new_query_filter)))) k) w Q"
  unfolding wp_bind wp_map_err
  by (rule observes_wp [OF observes_subsets])
     (auto simp: same_rows_def intro!: assms)

lemma wp_source_inventories:
  "wp (read_source_inventories E c (form_to_model f) sid raw) w
     (\<lambda>r w'. same_rows w w' \<and> (isl r \<and> faulty E \<or> source_inventories E f sid raw (get_db c w) r))"
proof -
  let ?Q = "\<lambda>r w'. same_rows w w' \<and>
    (isl r \<and> faulty E \<or> source_inventories E f sid raw (get_db c w) r)"
  have subsets: "wp (bind (map_err (Wrapf (''failed to fetch source subset inventories: %w'', []))
         (list_source_subsets E c (Some (subset_by_source_id sid new_query_filter)))) (\<lambda>sss.
       bind (read_subsets E (cf_id f) sss) (\<lambda>subsets.
       ret ((form_to_model f)\<lparr>as_main_inventory := main, as_subset_inventories := subsets\<rparr>)))) w2 ?Q"
    if w2: "same_rows w w2" and main: "asi_vms_count main \<noteq> 0"
      "assessment_inventory_from_json E i (cf_id f) (cf_name f) False raw = Inr main" for w2 i main
  proof (rule wp_bind_subsets)
    fix sss and w3 :: world
    assume w3: "same_rows w2 w3" and sss: "mset sss = mset (filter (\<lambda>ss. ss_source_id ss = sid)
      (source_subset_inventories (get_db c w2)))"
    have "source_inventories E f sid raw (get_db c w) (case r of Inl e \<Rightarrow> Inl e | Inr vs \<Rightarrow>
        Inr ((form_to_model f)\<lparr>as_main_inventory := main, as_subset_inventories := vs\<rparr>))"
      if "decoded_subsets E (cf_id f) sss r" for r
      unfolding source_inventories_def
      by (rule exI [of _ i])
         (use main sss that same_rows_get_db [OF w2] in \<open>auto intro!: exI [of _ sss] exI [of _ r]\<close>)
    then show "wp (bind (read_subsets E (cf_id f) sss) (\<lambda>subsets.
        ret ((form_to_model f)\<lparr>as_main_inventory := main, as_subset_inventories := subsets\<rparr>))) w3 ?Q"
      unfolding wp_bind wp_ret
      by (intro wp_mono [OF wp_read_subsets])
         (use w2(1) w3 in \<open>fastforce simp: same_rows_def split: sum.splits\<close>)
  qed (use w2 in \<open>simp add: same_rows_def\<close>)
  have early: "source_inventories E f sid raw d (Inl (Wrapf (''failed to read source inventory: %w'', []) e))"
    if "assessment_inventory_from_json E i (cf_id f) (cf_name f) False raw = Inl e" for i e d
    unfolding source_inventories_def by (rule exI [of _ i]) (simp add: that)
  have empty: "source_inventories E f sid raw d (Inl new_err_inventory_has_no_vms)"
    if "assessment_inventory_from_json E i (cf_id f) (cf_name f) False raw = Inr main"
      "asi_vms_count main = 0" for i main d
    unfolding source_inventories_def by (rule exI [of _ i]) (simp add: that)
  show ?thesis
    by (auto simp: read_source_inventories_def wp_bind [of "reject_if _ _"] wp_reject_if
        wp_bind [of "uuid_new _"] wp_uuid_new
        wp_bind [of "from_result _ _"] wp_from_result split: sum.splits
        intro!: subsets early empty)
qed

lemma wp_from_source:
  assumes "cf_source_type f = SourceTypeAgent"
  shows "wp (assessment_from_source E c (form_to_model f)) w
     (\<lambda>r w'. same_rows w w' \<and> (isl r \<and> faulty E \<or> prepared E f (get_db c w) r))"
proof (cases "cf_source_id f")
  case None
  with assms show ?thesis
    by (simp add: assessment_from_source_def wp_raise prepared_def)
next
  case (Some sid)
  have inventories: "wp (read_source_inventories E c (form_to_model f) sid raw) w'
     (\<lambda>r w''. committed w'' = committed w \<and> open_tx w'' = open_tx w \<and>
        (isl r \<and> faulty E \<or> source_inventories E f sid raw (get_db c w) r))"
    if "committed w' = committed w" "open_tx w' = open_tx w" for w' raw
    by (rule wp_mono [OF wp_source_inventories])
       (use that get_db_cong [OF that] in \<open>auto simp: same_rows_def\<close>)
  from assms Some show ?thesis
    unfolding assessment_from_source_def
    by (simp add: wp_bind [of "get_source _ _ _"])
       (rule observes_wp [OF observes_get_source],
        auto simp: wp_bind [of "reject_if _ _"] wp_reject_if wp_raise same_rows_def prepared_def
          split: option.splits dest: find_sourceD intro!: inventories)
qed

lemma wp_prepare:
  "wp (prepare_assessment E c f) w
     (\<lambda>r w'. same_rows w w' \<and> (isl r \<and> faulty E \<or> prepared E f (get_db c w) r))"
proof (cases "cf_source_type f = SourceTypeAgent")
  case True
  then show ?thesis
    by (simp add: prepare_assessment_def Let_def wp_from_source)
next
  case False
  then show ?thesis
    by (auto simp: prepare_assessment_def Let_def wp_ret wp_raise prepared_def)
qed

lemma observes_prepare:
  "observes c (prepare_assessment E c f) (\<lambda>d r. isl r \<and> faulty E \<or> prepared E f d r)"
  using wp_prepare by (simp add: observes_def same_rows_def conj_assoc)

text \<open>The row of a prepared assessment is inserted with its inventories, then read back.\<close>

definition creation_error :: "assessment \<Rightarrow> error \<Rightarrow> error" where
  "creation_error a e =
     (if errors_is e StoreDuplicateKey then new_err_assessment_duplicate_name (as_name a)
      else Wrapf (''failed to create assessment: %w'', []) e)"

definition created :: "env \<Rightarrow> assessment \<Rightarrow> db \<Rightarrow> error + assessment \<times> db \<Rightarrow> bool" where
  "created E a d out \<longleftrightarrow> (case assessment_to_store E a of
     Inl e \<Rightarrow> out = Inl (creation_error a (Wrapf (''failed to convert assessment for storage: %w'', []) e))
   | Inr (row, rs) \<Rightarrow> (\<exists>now.
       case insert_assessment (stamp_assessment now row) (map (stamp_inventory now) rs) d of
         Inl e \<Rightarrow> out = Inl (creation_error a (gorm_duplicated e))
       | Inr d' \<Rightarrow> (case out of
           Inl e \<Rightarrow> undecodable E d' (as_id a)
         | Inr (a', d'') \<Rightarrow> d'' = d' \<and> describes a' (stamp_assessment now row))))"

definition create_assessment_spec ::
    "env \<Rightarrow> assessment_create_form \<Rightarrow> db \<Rightarrow> error + assessment \<times> db \<Rightarrow> bool" where
  "create_assessment_spec E f d out \<longleftrightarrow>
     (\<exists>r. prepared E f d r \<and> (case r of Inl e \<Rightarrow> out = Inl e | Inr a \<Rightarrow> created E a d out))"

lemma stamp_assessment_id [simp]: "a_id (stamp_assessment now row) = a_id row"
  by (simp add: stamp_assessment_def)

lemma assessment_to_store_id: "assessment_to_store E a = Inr (row, rs) \<Longrightarrow> a_id row = as_id a"
  by (auto simp: assessment_to_store_def split: sum.splits)

lemma find_inserted_assessment:
  "insert_assessment row rs d = Inr d' \<Longrightarrow> find_assessment d' (a_id row) = Some row"
  by (auto simp: insert_assessment_def find_assessment_def filter_empty_conv split: if_splits)

lemma service_create_body_performs:
  assumes c: "ctx_tx c"
  shows "performs E (create_assessment_body E a c) (created E a)"
proof (rule performsI)
  fix w :: world and d
  assume d: "open_tx w = Some d"
  define F where "F = creation_error a"
  define Q where "Q r w' \<longleftrightarrow> committed w' = committed w \<and> (\<exists>d'. open_tx w' = Some d' \<and> (case r of
      Inl e \<Rightarrow> faulty E \<or> created E a d (Inl (F e)) | Inr b \<Rightarrow> created E a d (Inr (b, d'))))"
    for r and w' :: world
  have Q_Inl: "Q (Inl e) w'" if "committed w' = committed w" "open_tx w' = Some d'"
    "faulty E \<or> created E a d (Inl (F e))" for e d' and w' :: world
    using that by (simp add: Q_def)
  have again: "wp (get_assessment E c (as_id a)) w' Q"
    if "committed w' = committed w" "open_tx w' = Some d'" "assessment_to_store E a = Inr (row, rs)"
      "insert_assessment (stamp_assessment now row) (map (stamp_inventory now) rs) d = Inr d'"
    for w' :: world and d' row rs now
  proof (rule wp_get_assessment)
    fix r and w'' :: world
    assume same: "same_rows w' w''" and r: "isl r \<and> faulty E \<or> found_assessment E (as_id a) (get_db c w') r"
    have "find_assessment d' (as_id a) = Some (stamp_assessment now row)"
      using find_inserted_assessment [OF that(4)] assessment_to_store_id [OF that(3)] by simp
    with c r that(2) have "case r of
        Inl e \<Rightarrow> faulty E \<or> undecodable E d' (as_id a)
      | Inr b \<Rightarrow> describes b (stamp_assessment now row)"
      by (auto simp: found_assessment_def split: sum.splits)
    with same that show "Q r w''"
      by (auto simp: Q_def same_rows_def created_def split: sum.splits intro!: exI [of _ now])
  qed
  have unstored: "created E a d (Inl (F (Wrapf (''failed to convert assessment for storage: %w'', []) e)))"
    if "assessment_to_store E a = Inl e" for e
    using that by (simp add: created_def F_def)
  have clash: "created E a d (Inl (F (gorm_duplicated e)))"
    if "assessment_to_store E a = Inr (row, rs)"
      "insert_assessment (stamp_assessment now row) (map (stamp_inventory now) rs) d = Inl e"
    for e row rs now
    using that by (auto simp: created_def F_def intro!: exI [of _ now])
  have "wp (create_assessment E c a) w Q"
    unfolding create_assessment_def using c d
    by (auto simp: wp_bind wp_from_result wp_time_now wp_map_err wp_exec
        intro!: again Q_Inl unstored clash split: sum.splits)
  then show "wp (create_assessment_body E a c) w (\<lambda>r w'. committed w' = committed w \<and>
      (\<exists>d'. open_tx w' = Some d' \<and> (case r of
        Inl e \<Rightarrow> faulty E \<or> created E a d (Inl e) | Inr b \<Rightarrow> created E a d (Inr (b, d')))))"
    unfolding create_assessment_body_def wp_map_err
    by (rule wp_mono) (auto simp: Q_def F_def creation_error_def split: sum.splits)
qed

lemma service_create_performs:
  assumes c: "ctx_tx c"
  shows "performs E (service_create_assessment E c f) (create_assessment_spec E f)"
proof (rule performsI)
  fix w :: world and d
  assume d: "open_tx w = Some d"
  let ?Q = "\<lambda>r w'. committed w' = committed w \<and> (\<exists>d'. open_tx w' = Some d' \<and> (case r of
      Inl e \<Rightarrow> faulty E \<or> create_assessment_spec E f d (Inl e)
    | Inr b \<Rightarrow> create_assessment_spec E f d (Inr (b, d'))))"
  have create: "wp (tx_scope E c (create_assessment_body E a)) w' ?Q"
    if "committed w' = committed w" "open_tx w' = Some d" "prepared E f d (Inr a)" for w' :: world and a
  proof (rule wp_performs [OF joined_scope_performs [OF c service_create_body_performs] that(2)])
    have "create_assessment_spec E f d out" if "created E a d out" for out
      using that \<open>prepared E f d (Inr a)\<close> by (auto simp: create_assessment_spec_def)
    then show "committed w'' = committed w' \<Longrightarrow> open_tx w'' = Some d' \<Longrightarrow>
          faulty E \<or> created E a d (Inl e) \<Longrightarrow> ?Q (Inl e) w''"
      and "committed w'' = committed w' \<Longrightarrow> open_tx w'' = Some d' \<Longrightarrow>
          created E a d (Inr (b, d')) \<Longrightarrow> ?Q (Inr b) w''" for w'' :: world and d' e b
      using that(1) by auto
  qed (use c in simp)
  have stop: "create_assessment_spec E f d (Inl e)" if "prepared E f d (Inl e)" for e
    using that by (auto simp: create_assessment_spec_def)
  show "wp (service_create_assessment E c f) w ?Q"
    unfolding service_create_assessment_def
  proof (rule wp_bind_observed [OF observes_prepare])
    fix e and w' :: world
    assume "same_rows w w'" "isl (Inl e :: error + assessment) \<and> faulty E \<or> prepared E f (get_db c w) (Inl e)"
    with c d stop show "?Q (Inl e) w'" by (auto simp: same_rows_def)
  next
    fix a and w' :: world
    assume "same_rows w w'" "isl (Inr a :: error + assessment) \<and> faulty E \<or> prepared E f (get_db c w) (Inr a)"
    with c d show "wp (tx_scope E c (create_assessment_body E a)) w' ?Q"
      by (intro create) (auto simp: same_rows_def)
  qed
qed

subsection \<open>Updating\<close>

text \<open>
  The rows an update writes: when the assessment has a source with an inventory, a new inventory
  row that is marked as a subset; and the name and the time of the assessment's row.
\<close>

definition refreshed :: "env \<Rightarrow> assessment_row \<Rightarrow> db \<Rightarrow> assessment_inventory list \<Rightarrow> bool" where
  "refreshed E row d invs \<longleftrightarrow> (case a_source_id row of
     None \<Rightarrow> invs = []
   | Some sid \<Rightarrow> (\<exists>s. find_source d sid = Some s \<and> (case s_inventory s of
       None \<Rightarrow> invs = []
     | Some raw \<Rightarrow> \<exists>i v. assessment_inventory_from_json E i (a_id row) (a_name row) True raw = Inr v \<and>
         invs = [v])))"

definition assessment_updated :: "env \<Rightarrow> uuid \<Rightarrow> string option \<Rightarrow> db \<Rightarrow> db \<Rightarrow> bool" where
  "assessment_updated E i name d d' \<longleftrightarrow>
     (\<exists>row invs stored d1 now now'. find_assessment d i = Some row \<and> refreshed E row d invs \<and>
        assessment_inventories_to_store E invs = Inr stored \<and>
        (if stored = [] then d1 = d
         else insert_inventory_rows (map (stamp_inventory now) stored) d = Inr d1) \<and>
        i \<noteq> nil_uuid \<and>
        update_assessment_columns i (case name of None \<Rightarrow> a_name row | Some n \<Rightarrow> n) (Some now') d1 = Inr d')"

lemma from_json_is_subset:
  "assessment_inventory_from_json E i aid name b raw = Inr v \<Longrightarrow> asi_is_subset v = b \<and> asi_assessment_id v = aid"
  by (auto simp: assessment_inventory_from_json_def new_assessment_inventory_def Let_def
      split: sum.splits option.splits)

lemma to_store_is_subset:
  "assessment_inventory_to_store E v = Inr r \<Longrightarrow>
     ai_is_subset r = asi_is_subset v \<and> ai_assessment_id r = asi_assessment_id v"
  by (auto simp: assessment_inventory_to_store_def split: sum.splits)

lemma refreshed_is_subset:
  "refreshed E row d invs \<Longrightarrow> assessment_inventories_to_store E invs = Inr stored \<Longrightarrow>
     \<forall>r \<in> set stored. ai_is_subset r \<and> ai_assessment_id r = a_id row"
  by (auto simp: refreshed_def split: option.splits sum.splits
      dest!: from_json_is_subset to_store_is_subset)

lemma wp_refreshed_inventory:
  "wp (refreshed_inventory E a s) w (\<lambda>r w'. same_rows w w' \<and> (\<forall>invs. r = Inr invs \<longrightarrow>
     (case s_inventory s of
        None \<Rightarrow> invs = []
      | Some raw \<Rightarrow> \<exists>i v. assessment_inventory_from_json E i (as_id a) (as_name a) True raw = Inr v \<and>
          invs = [v])))"
  by (auto simp: refreshed_inventory_def wp_ret wp_bind wp_uuid_new wp_from_result
      split: option.splits sum.splits)

lemma wp_update_assessment:
  assumes d: "ctx_tx c" "open_tx w = Some d" and row: "find_assessment d i = Some row"
    and invs: "refreshed E row d invs"
  shows "wp (update_assessment E c i name invs) w (\<lambda>r w'. committed w' = committed w \<and>
     (\<exists>d'. open_tx w' = Some d' \<and> (\<not> isl r \<longrightarrow> assessment_updated E i name d d')))"
proof -
  have i: "a_id row = i" using find_assessmentD [OF row] by simp
  have updated: "assessment_updated E i name d d'"
    if "assessment_inventories_to_store E invs = Inr stored"
      "if stored = [] then d1 = d else insert_inventory_rows (map (stamp_inventory now) stored) d = Inr d1"
      "model_update i (update_assessment_columns i (case name of None \<Rightarrow> a_name row | Some n \<Rightarrow> n)
         (Some now')) d1 = Inr d'" for stored d1 d' now now'
    using row invs that unfolding assessment_updated_def model_update_def
    by (metis (no_types, lifting) Inl_Inr_False)
  have fields: "a_id (case name of None \<Rightarrow> row | Some n \<Rightarrow> row\<lparr>a_name := n\<rparr>) = i"
    "a_name (case name of None \<Rightarrow> row | Some n \<Rightarrow> row\<lparr>a_name := n\<rparr>) =
       (case name of None \<Rightarrow> a_name row | Some n \<Rightarrow> n)"
    using i by (simp_all split: option.split)
  define U where "U = assessment_updated E i name d"
  note updated = updated [folded U_def]
  show ?thesis
    unfolding update_assessment_def U_def [symmetric] using d row
    by (auto simp: wp_bind wp_map_err wp_gorm_first wp_from_result wp_time_now wp_exec wp_ret Let_def
        fields intro: updated split: sum.splits)
qed

lemma wp_update_body:
  assumes d: "ctx_tx c" "open_tx w = Some d"
  shows "wp (update_assessment_body E i name c) w (\<lambda>r w'. committed w' = committed w \<and>
     (\<exists>d'. open_tx w' = Some d' \<and> (case r of
        Inl e \<Rightarrow> find_assessment d i = None \<longrightarrow> faulty E \<or> e = new_err_assessment_not_found (uuid_str E) i
      | Inr a \<Rightarrow> assessment_updated E i name d d')))"
  unfolding update_assessment_body_def
proof (rule wp_bind_lookup)
  fix e and w' :: world
  assume "same_rows w w'" "faulty E \<or> found_assessment E i (get_db c w) (Inl e)"
  with d show "committed w' = committed w \<and> (\<exists>d'. open_tx w' = Some d' \<and>
     (case Inl (assessment_lookup_error E i e) :: error + assessment of
        Inl e \<Rightarrow> find_assessment d i = None \<longrightarrow> faulty E \<or> e = new_err_assessment_not_found (uuid_str E) i
      | Inr a \<Rightarrow> assessment_updated E i name d d'))"
    by (auto simp: same_rows_def found_assessment_def assessment_lookup_error_def)
next
  fix a and w' :: world
  assume same: "same_rows w w'" and "found_assessment E i (get_db c w) (Inr a)"
  then obtain row where row: "find_assessment d i = Some row" and a: "describes a row"
    using d by (auto simp: found_assessment_def)
  let ?Q = "\<lambda>r w''. committed w'' = committed w \<and>
     (\<exists>d'. open_tx w'' = Some d' \<and> (\<not> isl r \<longrightarrow> assessment_updated E i name d d'))"
  have w': "committed w' = committed w" "open_tx w' = Some d"
    using same d by (simp_all add: same_rows_def)
  have persist: "wp (map_err (Wrapf (''failed to update assessment: %w'', []))
       (update_assessment E c i name invs)) w2 ?Q"
    if "committed w2 = committed w" "open_tx w2 = Some d" "refreshed E row d invs" for w2 invs
    unfolding wp_map_err
    by (rule wp_mono [OF wp_update_assessment [OF d(1) that(2) row that(3)]]) (use that(1) in auto)
  have source: "wp (bind (get_source E c sid) (\<lambda>s. bind (refreshed_inventory E a s) (\<lambda>invs.
       map_err (Wrapf (''failed to update assessment: %w'', []))
         (update_assessment E c i name invs)))) w' ?Q"
    if "a_source_id row = Some sid" for sid
  proof (rule wp_bind_observed [OF observes_get_source])
    fix s and w2 :: world
    assume w2: "same_rows w' w2" and
      "isl (Inr s :: error + source_row) \<and> faulty E \<or> Inr s = (case find_source (get_db c w') sid of
         None \<Rightarrow> Inl StoreRecordNotFound | Some s \<Rightarrow> Inr s)"
    then have s: "find_source d sid = Some s"
      using d w' by (auto split: option.splits)
    show "wp (bind (refreshed_inventory E a s) (\<lambda>invs. map_err (Wrapf (''failed to update assessment: %w'', []))
         (update_assessment E c i name invs))) w2 ?Q"
      unfolding wp_bind
      by (rule wp_mono [OF wp_refreshed_inventory])
         (use w2 w' a s that in \<open>auto simp: same_rows_def refreshed_def describes_def
            split: option.splits intro!: persist\<close>)
  qed (use w' in \<open>auto simp: same_rows_def\<close>)
  have "wp (case as_source_id a of
      Some sid \<Rightarrow> bind (get_source E c sid) (\<lambda>s. bind (refreshed_inventory E a s) (\<lambda>invs.
         map_err (Wrapf (''failed to update assessment: %w'', [])) (update_assessment E c i name invs)))
    | None \<Rightarrow> map_err (Wrapf (''failed to update assessment: %w'', []))
         (update_assessment E c i name [])) w' ?Q"
    using a w' by (auto simp: describes_def refreshed_def split: option.splits intro!: source persist)
  then show "wp (case as_source_id a of
      Some sid \<Rightarrow> bind (get_source E c sid) (\<lambda>s. bind (refreshed_inventory E a s) (\<lambda>invs.
         map_err (Wrapf (''failed to update assessment: %w'', [])) (update_assessment E c i name invs)))
    | None \<Rightarrow> map_err (Wrapf (''failed to update assessment: %w'', []))
         (update_assessment E c i name [])) w' (\<lambda>r w'. committed w' = committed w \<and>
     (\<exists>d'. open_tx w' = Some d' \<and> (case r of
        Inl e \<Rightarrow> find_assessment d i = None \<longrightarrow> faulty E \<or> e = new_err_assessment_not_found (uuid_str E) i
      | Inr a \<Rightarrow> assessment_updated E i name d d')))"
    by (rule wp_mono) (use row in \<open>auto split: sum.splits\<close>)
qed

text \<open>
  The outcome of an update: nothing changed and an error, or the rows changed and the row read
  again. An error after the commit is possible: the final read may fail, and it does when an
  inventory of the assessment, the new one included, does not decode.
\<close>

definition update_outcome ::
    "env \<Rightarrow> uuid \<Rightarrow> string option \<Rightarrow> db \<Rightarrow> error + assessment \<Rightarrow> db \<Rightarrow> bool" where
  "update_outcome E i name d r d' \<longleftrightarrow>
     d' = d \<and> (\<exists>e. r = Inl e \<and> (find_assessment d i = None \<longrightarrow>
        faulty E \<or> e = new_err_assessment_not_found (uuid_str E) i)) \<or>
     assessment_updated E i name d d' \<and> (case r of
        Inl e \<Rightarrow> faulty E \<or> undecodable E d' i
      | Inr a \<Rightarrow> \<exists>row. find_assessment d' i = Some row \<and> describes a row)"

lemma update_columns_ids:
  assumes "update_assessment_columns i n t d = Inr d'"
  shows "a_id ` set (assessments d') = a_id ` set (assessments d)"
proof -
  have "map a_id (assessments d') = map a_id (assessments d)"
    using assms by (auto simp: update_assessment_columns_def split: if_splits)
  then show ?thesis by (metis set_map)
qed

lemma insert_inventory_rows_assessments:
  "insert_inventory_rows rs d = Inr d' \<Longrightarrow> assessments d' = assessments d"
  by (auto simp: insert_inventory_rows_def split: if_splits)

lemma assessment_updated_ids:
  assumes "assessment_updated E i name d d'"
  shows "i \<in> a_id ` set (assessments d)" "a_id ` set (assessments d') = a_id ` set (assessments d)"
proof -
  obtain row stored d1 n now now' where row: "find_assessment d i = Some row"
    and ins: "if stored = [] then d1 = d
      else insert_inventory_rows (map (stamp_inventory now) stored) d = Inr d1"
    and upd: "update_assessment_columns i n (Some now') d1 = Inr d'"
    using assms unfolding assessment_updated_def by blast
  show "i \<in> a_id ` set (assessments d)"
    using find_assessmentD [OF row] by blast
  have "assessments d1 = assessments d"
    using ins insert_inventory_rows_assessments by (simp split: if_splits)
  with update_columns_ids [OF upd] show "a_id ` set (assessments d') = a_id ` set (assessments d)"
    by simp
qed

lemma assessment_updated_found:
  "assessment_updated E i name d d' \<Longrightarrow> find_assessment d' i \<noteq> None"
  using assessment_updated_ids find_assessment_None by metis

lemma looked_up_found:
  "find_assessment d i \<noteq> None \<Longrightarrow> looked_up E i d r \<Longrightarrow> (case r of
     Inl e \<Rightarrow> undecodable E d i
   | Inr a \<Rightarrow> \<exists>row. find_assessment d i = Some row \<and> describes a row)"
  by (auto simp: looked_up_def found_assessment_def split: sum.splits)

lemma service_update_wp:
  assumes c: "\<not> ctx_tx c"
  shows "wp (service_update_assessment E c i name) w
    (\<lambda>r w'. update_outcome E i name (committed w) r (committed w'))"
proof -
  let ?d = "committed w" and ?c = "tx_context c"
  define Out where "Out = update_outcome E i name ?d"
  have reread: "wp (service_get_assessment E ?c i) w' (\<lambda>r w''. Out r (committed w''))"
    if "open_tx w' = None" "assessment_updated E i name ?d (committed w')" for w' :: world
  proof (rule observes_wp [OF observes_service_get])
    fix r and w'' :: world
    have "get_db ?c w' = committed w'"
      using that(1) by (simp add: get_db_def from_context_def)
    moreover assume "committed w'' = committed w'" "isl r \<and> faulty E \<or> looked_up E i (get_db ?c w') r"
    ultimately show "Out r (committed w'')"
      using that(2) looked_up_found [OF assessment_updated_found [OF that(2)], of E r]
      by (auto simp: Out_def update_outcome_def isl_def split: sum.splits)
  qed
  have fails: "Out (Inl e) ?d"
    if "faulty E \<or> (find_assessment ?d i = None \<longrightarrow> e = new_err_assessment_not_found (uuid_str E) i)" for e
    using that by (auto simp: Out_def update_outcome_def)
  have body: "wp (bind (update_assessment_body E i name ?c) (\<lambda>_. bind (commit E ?c) (\<lambda>_.
       service_get_assessment E ?c i))) wi (\<lambda>r w'. Out r (committed w'))"
    if wi: "committed wi = ?d" "open_tx wi = Some ?d" for wi :: world
    unfolding wp_bind
    by (rule wp_mono [OF wp_update_body [OF _ wi(2)]])
       (use wi in \<open>auto simp: wp_commit_owner intro!: reread fails split: sum.splits\<close>)
  show ?thesis
    unfolding service_update_assessment_def Out_def [symmetric] using c
    by (auto simp: wp_bind [of "new_transaction_context _ _"] wp_new_transaction_context
        wp_defer_rollback intro!: body fails)
qed

subsection \<open>The contract of the interface\<close>

text \<open>
  What a caller of \<open>AssessmentServicer\<close> relies on. The reads are a contract of their own: a
  wrapper of the interface keeps the laws of the writes and changes what a caller may read.
\<close>

locale assessment_reader =
  fixes E :: env
    and S :: assessment_servicer
  assumes list_law: "ctx_user c = Some u \<Longrightarrow> observes c (srv_list S c f) (\<lambda>d r. case r of
      Inl e \<Rightarrow> faulty E
    | Inr as \<Rightarrow> set (map (\<lambda>s. (sum_id s, sum_username s)) as) =
        {(a_id a, a_username a) | a. a \<in> set (assessments d) \<and> satisfies (Some (filter_to_store E f)) a})"
    and get_law: "observes c (srv_get S c i) (\<lambda>d r. isl r \<and> faulty E \<or> looked_up E i d r)"

locale assessment_writer = assessment_reader +
  assumes create_law: "ctx_tx c \<Longrightarrow> performs E (srv_create S c f) (create_assessment_spec E f)"
    and delete_law: "ctx_tx c \<Longrightarrow> performs E (srv_delete S c i) (delete_assessment_spec E i)"
    and update_law: "\<not> ctx_tx c \<Longrightarrow>
      wp (srv_update S c i name) w (\<lambda>r w'. update_outcome E i name (committed w) r (committed w'))"
    and share_law: "refines E (srv_share S (request_context u) i) (sharing_spec E u i (share_with E i))"
    and unshare_law:
      "refines E (srv_unshare S (request_context u) i) (sharing_spec E u i (unshare_with E i))"

lemma observes_service_list:
  "ctx_user c = Some u \<Longrightarrow> observes c (service_list_assessments E c f) (\<lambda>d r. case r of
     Inl e \<Rightarrow> faulty E
   | Inr as \<Rightarrow> set (map (\<lambda>s. (sum_id s, sum_username s)) as) =
       {(a_id a, a_username a) | a. a \<in> set (assessments d) \<and> satisfies (Some (filter_to_store E f)) a})"
  by (simp add: service_list_assessments_def)
     (rule observes_map_err [OF observes_list_assessments], simp_all)

lemma new_assessment_service_simps [simp]:
  "srv_list (new_assessment_service E) = service_list_assessments E"
  "srv_get (new_assessment_service E) = service_get_assessment E"
  "srv_create (new_assessment_service E) = service_create_assessment E"
  "srv_update (new_assessment_service E) = service_update_assessment E"
  "srv_delete (new_assessment_service E) = service_delete_assessment E"
  "srv_share (new_assessment_service E) = service_share_assessment E"
  "srv_unshare (new_assessment_service E) = service_unshare_assessment E"
  by (simp_all add: new_assessment_service_def)

interpretation assessment_srv: assessment_writer E "new_assessment_service E" for E
  by unfold_locales
     (simp_all add: observes_service_list observes_service_get service_create_performs
       service_delete_performs service_update_wp service_share_refines)

end
