(* ===== verification/AuthzAssessment.thy ===== *)
theory AuthzAssessment
  imports AuthzPartner AssessmentSpec
begin

text \<open>
  \<open>internal/service/authz_assessment.go\<close>: the assessment service behind the permissions the
  relationship tuples give the caller. The wrapped service is an argument, an
  \<^typ>\<open>assessment_servicer\<close>.
\<close>

definition authz_permissions_error :: "error \<Rightarrow> error" where
  "authz_permissions_error = Wrapf (''authz: failed to get permissions: %w'', [])"

text \<open>The permissions a caller of each kind keeps on an assessment of their own.\<close>

definition owner_permissions :: "string \<Rightarrow> string list \<Rightarrow> string list" where
  "owner_permissions kind ps = filter (\<lambda>s.
     \<not> (if kind = KindRegular \<or> kind = KindPartner then s = SharePermission \<or> s = EditPermission
        else s = EditPermission)) ps"

fun sharing_subjects ::
    "env \<Rightarrow> gocontext \<Rightarrow> relationship list \<Rightarrow> sharing_subject list go" where
  "sharing_subjects E c [] = ret []"
| "sharing_subjects E c (r # rs) =
     (if rel_relation r = OwnerRelation then sharing_subjects E c rs
      else
        bind (if sub_kind (rel_subject r) = OrgSubject
              then (case uuid_parse E (sub_id (rel_subject r)) of
                      None \<Rightarrow> raise (OtherError (''invalid UUID'', []))
                    | Some gid \<Rightarrow>
                        bind (get_group E c gid) (\<lambda>g. ret \<lparr>ssub_type = ''group'',
                          ssub_id = sub_id (rel_subject r), ssub_name = g_name (fst g)\<rparr>))
              else ret \<lparr>ssub_type = sub_kind (rel_subject r), ssub_id = sub_id (rel_subject r),
                        ssub_name = sub_id (rel_subject r)\<rparr>) (\<lambda>s.
        bind (sharing_subjects E c rs) (\<lambda>ss. ret (s # ss))))"

definition build_owner_sharing :: "env \<Rightarrow> gocontext \<Rightarrow> relationship list \<Rightarrow> sharing go" where
  "build_owner_sharing E c rels =
     bind (sharing_subjects E c rels) (\<lambda>shared.
     ret \<lparr>sh_is_shared = shared \<noteq> [], sh_shared_with = shared, sh_shared_by = None\<rparr>)"

definition build_viewer_sharing :: "string \<Rightarrow> string \<Rightarrow> sharing" where
  "build_viewer_sharing owner_name owner =
     \<lparr>sh_is_shared = True, sh_shared_with = [],
      sh_shared_by = Some \<lparr>ssub_type = ''username'', ssub_id = owner, ssub_name = owner_name\<rparr>\<rparr>"

definition full_owner_name :: "string option \<Rightarrow> string option \<Rightarrow> string" where
  "full_owner_name first_name last_name = (case (first_name, last_name) of
     (Some f, Some l) \<Rightarrow> f @ '' '' @ l | _ \<Rightarrow> [])"

subsection \<open>Listing\<close>

fun parse_resources ::
    "env \<Rightarrow> resource list \<Rightarrow> uuid list \<Rightarrow> (string \<Rightarrow> string list) \<Rightarrow>
     uuid list \<times> (string \<Rightarrow> string list)" where
  "parse_resources E [] ids perms = (ids, perms)"
| "parse_resources E (r # rs) ids perms = (case uuid_parse E (res_id r) of
     None \<Rightarrow> parse_resources E rs ids perms
   | Some i \<Rightarrow> parse_resources E rs (ids @ [i])
       (perms(res_id r := permissions_from_store (res_permissions r))))"

fun decorate_summaries ::
    "env \<Rightarrow> gocontext \<Rightarrow> user \<Rightarrow> identity \<Rightarrow> (string \<Rightarrow> relationship list) \<Rightarrow>
     assessment_summary list \<Rightarrow> assessment_summary list go" where
  "decorate_summaries E c u ident rels [] = ret []"
| "decorate_summaries E c u ident rels (a # as) =
     bind (if sum_username a = u_username u
           then bind (build_owner_sharing E c (rels (uuid_str E (sum_id a)))) (\<lambda>s.
             ret (a\<lparr>sum_sharing := Some s,
                    sum_permissions := owner_permissions (id_kind ident) (sum_permissions a)\<rparr>))
           else ret (a\<lparr>sum_sharing := Some (build_viewer_sharing
             (full_owner_name (sum_owner_first_name a) (sum_owner_last_name a)) (sum_username a))\<rparr>)) (\<lambda>a'.
     bind (decorate_summaries E c u ident rels as) (\<lambda>as'. ret (a' # as')))"

definition authz_list_assessments ::
    "env \<Rightarrow> assessment_servicer \<Rightarrow> gocontext \<Rightarrow> assessment_filter \<Rightarrow> assessment_summary list go" where
  "authz_list_assessments E S c _ =
     bind (must_have_user c) (\<lambda>u.
     bind (get_identity E c (u_username u)) (\<lambda>ident.
     bind (map_err (Wrapf (''authz: failed to list resources: %w'', []))
            (list_resources E c (u_username u) AssessmentResource)) (\<lambda>resources.
     if resources = [] then ret []
     else (case parse_resources E resources [] (\<lambda>_. []) of (ids, perms) \<Rightarrow>
       bind (srv_list S c (new_assessment_filter\<lparr>af_ids := ids\<rparr>)) (\<lambda>as0.
       let as = map (\<lambda>a. a\<lparr>sum_permissions := perms (uuid_str E (sum_id a))\<rparr>) as0;
           owned = map (\<lambda>a. uuid_str E (sum_id a)) (filter (\<lambda>a. sum_username a = u_username u) as)
       in bind (if owned \<noteq> []
                then map_err (Wrapf (''authz: failed to list relationships: %w'', []))
                       (list_bulk_relationship E c owned)
                else ret (\<lambda>_. [])) (\<lambda>rels.
          decorate_summaries E c u ident rels as))))))"

subsection \<open>Reading one\<close>

definition authz_get_assessment ::
    "env \<Rightarrow> assessment_servicer \<Rightarrow> gocontext \<Rightarrow> uuid \<Rightarrow> assessment go" where
  "authz_get_assessment E S c i =
     bind (must_have_user c) (\<lambda>u.
     bind (srv_get S c i) (\<lambda>a.
     bind (map_err authz_permissions_error
            (get_permissions E c (u_username u) (new_assessment_resource (uuid_str E i)))) (\<lambda>res.
     let permissions = permissions_from_store (res_permissions res) in
     bind (reject_if (\<not> permission_in ReadPermission permissions)
            (new_err_forbidden ''assessment'' (uuid_str E i))) (\<lambda>_.
     if as_username a = u_username u
     then bind (map_err (Wrapf (''authz: failed to list relationships: %w'', []))
                 (list_relationships E c (new_assessment_resource (uuid_str E i)))) (\<lambda>rels.
          bind (build_owner_sharing E c rels) (\<lambda>sh.
          bind (get_identity E c (u_username u)) (\<lambda>ident.
          ret (a\<lparr>as_permissions := owner_permissions (id_kind ident) permissions,
                 as_sharing := Some sh\<rparr>))))
     else ret (a\<lparr>as_permissions := permissions,
                 as_sharing := Some (build_viewer_sharing
                   (full_owner_name (as_owner_first_name a) (as_owner_last_name a))
                   (as_username a))\<rparr>)))))"

subsection \<open>Writing\<close>

definition owner_updates :: "env \<Rightarrow> uuid \<Rightarrow> string \<Rightarrow> relationship_update list" where
  "owner_updates E i u = builder_build (builder_with (new_assessment_resource (uuid_str E i))
     OwnerRelation (new_user_subject u) new_relationship_builder)"

definition authz_create_body ::
    "env \<Rightarrow> assessment_servicer \<Rightarrow> user \<Rightarrow> assessment_create_form \<Rightarrow> gocontext \<Rightarrow> assessment go" where
  "authz_create_body E S u f c =
     bind (srv_create S c f) (\<lambda>a.
     bind (map_err (Wrapf (''authz: failed to write owner relation: %w'', []))
            (write_relationships E c (owner_updates E (as_id a) (u_username u)))) (\<lambda>_.
     ret a))"

definition authz_create_assessment ::
    "env \<Rightarrow> assessment_servicer \<Rightarrow> gocontext \<Rightarrow> assessment_create_form \<Rightarrow> assessment go" where
  "authz_create_assessment E S c f =
     bind (must_have_user c) (\<lambda>u. tx_scope E c (authz_create_body E S u f))"

text \<open>The prefix of the four operations on an existing assessment.\<close>

definition check_permission ::
    "env \<Rightarrow> assessment_servicer \<Rightarrow> gocontext \<Rightarrow> uuid \<Rightarrow> string \<Rightarrow> unit go" where
  "check_permission E S c i p =
     bind (must_have_user c) (\<lambda>u.
     bind (srv_get S c i) (\<lambda>_.
     bind (map_err authz_permissions_error
            (get_permissions E c (u_username u) (new_assessment_resource (uuid_str E i)))) (\<lambda>res.
     reject_if (\<not> permission_in p (res_permissions res))
       (new_err_forbidden ''assessment'' (uuid_str E i)))))"

definition authz_update_assessment ::
    "env \<Rightarrow> assessment_servicer \<Rightarrow> gocontext \<Rightarrow> uuid \<Rightarrow> string option \<Rightarrow> assessment go" where
  "authz_update_assessment E S c i name =
     bind (check_permission E S c i EditPermission) (\<lambda>_. srv_update S c i name)"

definition authz_delete_body ::
    "env \<Rightarrow> assessment_servicer \<Rightarrow> uuid \<Rightarrow> gocontext \<Rightarrow> unit go" where
  "authz_delete_body E S i c =
     bind (srv_delete S c i) (\<lambda>_.
     map_err (Wrapf (''authz: failed to delete relations: %w'', []))
       (delete_relationships E c (new_assessment_resource (uuid_str E i))))"

definition authz_delete_assessment ::
    "env \<Rightarrow> assessment_servicer \<Rightarrow> gocontext \<Rightarrow> uuid \<Rightarrow> unit go" where
  "authz_delete_assessment E S c i =
     bind (check_permission E S c i DeletePermission) (\<lambda>_. tx_scope E c (authz_delete_body E S i))"

definition authz_share_assessment ::
    "env \<Rightarrow> assessment_servicer \<Rightarrow> gocontext \<Rightarrow> uuid \<Rightarrow> unit go" where
  "authz_share_assessment E S c i =
     bind (check_permission E S c i SharePermission) (\<lambda>_. srv_share S c i)"

definition authz_unshare_assessment ::
    "env \<Rightarrow> assessment_servicer \<Rightarrow> gocontext \<Rightarrow> uuid \<Rightarrow> unit go" where
  "authz_unshare_assessment E S c i =
     bind (check_permission E S c i SharePermission) (\<lambda>_. srv_unshare S c i)"

subsection \<open>The specification\<close>

text \<open>
  An operation that needs a permission: the assessment must exist, must be readable, and the
  caller must hold the permission; otherwise nothing changes.
\<close>

definition permitted :: "env \<Rightarrow> user \<Rightarrow> uuid \<Rightarrow> string \<Rightarrow> db \<Rightarrow> bool" where
  "permitted E u i p d \<longleftrightarrow> permits d (u_username u) AssessmentResource (uuid_str E i) p"

definition permission_refused :: "env \<Rightarrow> user \<Rightarrow> uuid \<Rightarrow> string \<Rightarrow> db \<Rightarrow> error \<Rightarrow> bool" where
  "permission_refused E u i p d e \<longleftrightarrow>
     (if find_assessment d i = None then e = new_err_assessment_not_found (uuid_str E) i
      else undecodable E d i \<or>
        \<not> permitted E u i p d \<and> e = new_err_forbidden ''assessment'' (uuid_str E i))"

definition permission_granted :: "env \<Rightarrow> user \<Rightarrow> uuid \<Rightarrow> string \<Rightarrow> db \<Rightarrow> bool" where
  "permission_granted E u i p d \<longleftrightarrow>
     find_assessment d i \<noteq> None \<and> \<not> undecodable E d i \<and> permitted E u i p d"

definition with_permission ::
    "env \<Rightarrow> user \<Rightarrow> uuid \<Rightarrow> string \<Rightarrow> (db \<Rightarrow> error + 'a \<times> db \<Rightarrow> bool) \<Rightarrow>
     db \<Rightarrow> error + 'a \<times> db \<Rightarrow> bool" where
  "with_permission E u i p K d out \<longleftrightarrow>
     (if permission_granted E u i p d then K d out
      else \<exists>e. out = Inl e \<and> permission_refused E u i p d e)"

definition erased :: "env \<Rightarrow> uuid \<Rightarrow> db \<Rightarrow> db" where
  "erased E i d = (without_assessment i d)\<lparr>relations :=
     filter (\<lambda>r. \<not> of_resource (new_assessment_resource (uuid_str E i)) r) (relations d)\<rparr>"

definition authz_delete_spec :: "env \<Rightarrow> uuid \<Rightarrow> db \<Rightarrow> error + unit \<times> db \<Rightarrow> bool" where
  "authz_delete_spec E i d out \<longleftrightarrow> (\<exists>r. delete_assessment_spec E i d r \<and>
     out = (case r of Inl e \<Rightarrow> Inl e | Inr _ \<Rightarrow> Inr ((), erased E i d)))"

definition owned_by :: "env \<Rightarrow> uuid \<Rightarrow> user \<Rightarrow> db \<Rightarrow> db" where
  "owned_by E i u d = d\<lparr>relations := insert_ignore [owner_tuple E i (u_username u)] (relations d)\<rparr>"

definition authz_create_spec ::
    "env \<Rightarrow> user \<Rightarrow> assessment_create_form \<Rightarrow> db \<Rightarrow> error + assessment \<times> db \<Rightarrow> bool" where
  "authz_create_spec E u f d out \<longleftrightarrow> (\<exists>r. create_assessment_spec E f d r \<and>
     out = (case r of Inl e \<Rightarrow> Inl e | Inr (a, d') \<Rightarrow> Inr (a, owned_by E (as_id a) u d')))"

definition authz_update_outcome ::
    "env \<Rightarrow> user \<Rightarrow> uuid \<Rightarrow> string option \<Rightarrow> db \<Rightarrow> error + assessment \<Rightarrow> db \<Rightarrow> bool" where
  "authz_update_outcome E u i name d r d' \<longleftrightarrow>
     (if permission_granted E u i EditPermission d
      then update_outcome E i name d r d' \<or> d' = d \<and> isl r \<and> faulty E
      else d' = d \<and> (\<exists>e. r = Inl e \<and> (faulty E \<or> permission_refused E u i EditPermission d e)))"

subsection \<open>The wrapper refines it, whatever implements the interface\<close>

context assessment_reader
begin

lemma observes_permission:
  "observes (request_context u) (check_permission E S (request_context u) i p) (\<lambda>d r. case r of
     Inl e \<Rightarrow> faulty E \<or> permission_refused E u i p d e
   | Inr _ \<Rightarrow> permission_granted E u i p d)"
proof -
  let ?c = "request_context u"
  let ?R = "\<lambda>d r. case r of Inl e \<Rightarrow> faulty E \<or> permission_refused E u i p d e
    | Inr _ \<Rightarrow> permission_granted E u i p d"
  have "wp (check_permission E S ?c i p) w
    (\<lambda>r w'. committed w' = committed w \<and> open_tx w' = open_tx w \<and> ?R (get_db ?c w) r)" for w
    unfolding check_permission_def must_have_user_request bind_ret
  proof (rule wp_bind_observed [OF get_law])
    fix e and w' :: world
    assume "same_rows w w'" "isl (Inl e :: error + assessment) \<and> faulty E \<or> looked_up E i (get_db ?c w) (Inl e)"
    then show "committed w' = committed w \<and> open_tx w' = open_tx w \<and> ?R (get_db ?c w) (Inl e)"
      by (auto simp: same_rows_def looked_up_def found_assessment_def assessment_lookup_error_def
          permission_refused_def)
  next
    fix a and w' :: world
    assume "same_rows w w'" "isl (Inr a :: error + assessment) \<and> faulty E \<or> looked_up E i (get_db ?c w) (Inr a)"
    then show "wp (bind (map_err authz_permissions_error (get_permissions E ?c (u_username u)
         (new_assessment_resource (uuid_str E i)))) (\<lambda>res. reject_if (\<not> permission_in p (res_permissions res))
         (new_err_forbidden ''assessment'' (uuid_str E i)))) w'
       (\<lambda>r w'. committed w' = committed w \<and> open_tx w' = open_tx w \<and> ?R (get_db ?c w) r)"
      by (auto simp: wp_bind wp_map_err wp_get_permissions wp_reject_if same_rows_def looked_up_def
          found_assessment_def permission_refused_def permission_granted_def permitted_def
          new_assessment_resource_def)
  qed
  then show ?thesis unfolding observes_def by blast
qed

lemma refines_permission:
  assumes m: "refines E m K"
  shows "refines E (bind (check_permission E S (request_context u) i p) (\<lambda>_. m))
    (with_permission E u i p K)"
proof (rule refinesI, rule wp_bind_observed [OF observes_permission])
  fix w w' :: world and e
  assume "same_rows w w'" "case Inl e :: error + unit of
     Inl e \<Rightarrow> faulty E \<or> permission_refused E u i p (get_db (request_context u) w) e
   | Inr _ \<Rightarrow> permission_granted E u i p (get_db (request_context u) w)"
  then show "outcome E (with_permission E u i p K) (committed w) (Inl e) (committed w')"
    by (auto simp: same_rows_def with_permission_def permission_granted_def permission_refused_def)
next
  fix w w' :: world and a
  assume "same_rows w w'" "case Inr a :: error + unit of
     Inl e \<Rightarrow> faulty E \<or> permission_refused E u i p (get_db (request_context u) w) e
   | Inr _ \<Rightarrow> permission_granted E u i p (get_db (request_context u) w)"
  then show "wp m w' (\<lambda>r w'. outcome E (with_permission E u i p K) (committed w) r (committed w'))"
    by (intro refines_at [OF m]) (auto simp: same_rows_def with_permission_def)
qed

end

context assessment_writer
begin

lemma authz_sharing_refines:
  "refines E (authz_share_assessment E S (request_context u) i)
     (with_permission E u i SharePermission (sharing_spec E u i (share_with E i)))"
  "refines E (authz_unshare_assessment E S (request_context u) i)
     (with_permission E u i SharePermission (sharing_spec E u i (unshare_with E i)))"
  unfolding authz_share_assessment_def authz_unshare_assessment_def
  by (rule refines_permission, rule share_law unshare_law)+

lemma delete_body_performs:
  assumes c: "ctx_tx c"
  shows "performs E (authz_delete_body E S i c) (authz_delete_spec E i)"
proof (rule performsI)
  fix w :: world and d
  assume d: "open_tx w = Some d"
  have gone: "d' = without_assessment i d" if "delete_assessment_spec E i d (Inr ((), d'))" for d'
    using that by (auto simp: delete_assessment_spec_def lookup_spec_def split: if_splits)
  have ok: "authz_delete_spec E i d (Inr ((), d'\<lparr>relations :=
      filter (\<lambda>r. \<not> of_resource (new_assessment_resource (uuid_str E i)) r) (relations d')\<rparr>))"
    if "delete_assessment_spec E i d (Inr ((), d'))" for d'
    unfolding authz_delete_spec_def
    by (rule exI [of _ "Inr ((), d')"]) (use that gone [OF that] in \<open>simp add: erased_def without_assessment_def\<close>)
  have fails: "authz_delete_spec E i d (Inl e)" if "delete_assessment_spec E i d (Inl e)" for e
    using that by (auto simp: authz_delete_spec_def)
  show "wp (authz_delete_body E S i c) w (\<lambda>r w'. committed w' = committed w \<and>
     (\<exists>d'. open_tx w' = Some d' \<and> (case r of
        Inl e \<Rightarrow> faulty E \<or> authz_delete_spec E i d (Inl e)
      | Inr a \<Rightarrow> authz_delete_spec E i d (Inr (a, d')))))"
    unfolding authz_delete_body_def wp_bind
    by (rule wp_performs [OF delete_law [OF c] d])
       (use c in \<open>auto simp: wp_map_err delete_relationships_def wp_exec delete_relations_where_def
          intro: ok fails\<close>)
qed

lemma authz_delete_refines:
  "refines E (authz_delete_assessment E S (request_context u) i)
     (with_permission E u i DeletePermission (authz_delete_spec E i))"
  unfolding authz_delete_assessment_def
  by (rule refines_permission, rule scope_performs) (simp_all add: delete_body_performs)

lemma create_body_performs:
  assumes c: "ctx_tx c"
  shows "performs E (authz_create_body E S u f c) (authz_create_spec E u f)"
proof (rule performsI)
  fix w :: world and d
  assume d: "open_tx w = Some d"
  show "wp (authz_create_body E S u f c) w (\<lambda>r w'. committed w' = committed w \<and>
     (\<exists>d'. open_tx w' = Some d' \<and> (case r of
        Inl e \<Rightarrow> faulty E \<or> authz_create_spec E u f d (Inl e)
      | Inr a \<Rightarrow> authz_create_spec E u f d (Inr (a, d')))))"
    unfolding authz_create_body_def wp_bind [of "srv_create _ _ _"]
    by (rule wp_performs [OF create_law [OF c] d])
       (use c in \<open>auto simp: wp_bind wp_ret wp_map_err owner_updates_def wp_write_one
          to_sql_assessment_tuples authz_create_spec_def owned_by_def intro: exI [of _ "Inl _"]\<close>)
qed

lemma authz_create_refines:
  "refines E (authz_create_assessment E S (request_context u) f) (authz_create_spec E u f)"
  unfolding authz_create_assessment_def must_have_user_request bind_ret
  by (rule scope_performs) (simp_all add: create_body_performs)

lemma authz_update_wp:
  "wp (authz_update_assessment E S (request_context u) i name) w
     (\<lambda>r w'. authz_update_outcome E u i name (committed w) r (committed w'))"
  unfolding authz_update_assessment_def
proof (rule wp_bind_observed [OF observes_permission])
  fix w' :: world and e
  assume "same_rows w w'" "case Inl e :: error + unit of
     Inl e \<Rightarrow> faulty E \<or> permission_refused E u i EditPermission (get_db (request_context u) w) e
   | Inr _ \<Rightarrow> permission_granted E u i EditPermission (get_db (request_context u) w)"
  then show "authz_update_outcome E u i name (committed w) (Inl e) (committed w')"
    by (auto simp: same_rows_def authz_update_outcome_def permission_granted_def permission_refused_def)
next
  fix w' :: world and a
  assume "same_rows w w'" "case Inr a :: error + unit of
     Inl e \<Rightarrow> faulty E \<or> permission_refused E u i EditPermission (get_db (request_context u) w) e
   | Inr _ \<Rightarrow> permission_granted E u i EditPermission (get_db (request_context u) w)"
  then show "wp (srv_update S (request_context u) i name) w'
      (\<lambda>r w'. authz_update_outcome E u i name (committed w) r (committed w'))"
    by (intro wp_mono [OF update_law]) (auto simp: same_rows_def authz_update_outcome_def)
qed

end

subsection \<open>What a read shows\<close>

text \<open>
  A subject an assessment is shared with, as the owner sees it. There is none when the subject is
  an organisation that no group stands for.
\<close>

definition shared_subject :: "env \<Rightarrow> db \<Rightarrow> relationship \<Rightarrow> sharing_subject option" where
  "shared_subject E d r =
     (if sub_kind (rel_subject r) = OrgSubject
      then (case uuid_parse E (sub_id (rel_subject r)) of
              None \<Rightarrow> None
            | Some gid \<Rightarrow> map_option (\<lambda>g. \<lparr>ssub_type = ''group'', ssub_id = sub_id (rel_subject r),
                ssub_name = g_name g\<rparr>) (find_group d gid))
      else Some \<lparr>ssub_type = sub_kind (rel_subject r), ssub_id = sub_id (rel_subject r),
                 ssub_name = sub_id (rel_subject r)\<rparr>)"

definition shared_by_rows :: "env \<Rightarrow> db \<Rightarrow> relationship list \<Rightarrow> error + sharing_subject list \<Rightarrow> bool" where
  "shared_by_rows E d rels r \<longleftrightarrow> (case r of
     Inl e \<Rightarrow> faulty E \<or> (\<exists>rel \<in> set rels. rel_relation rel \<noteq> OwnerRelation \<and> shared_subject E d rel = None)
   | Inr ss \<Rightarrow> map (shared_subject E d) (filter (\<lambda>rel. rel_relation rel \<noteq> OwnerRelation) rels) = map Some ss)"

lemma shared_by_rows_simps [simp]:
  "shared_by_rows E d [] (Inr ss) \<longleftrightarrow> ss = []"
  "rel_relation rel = OwnerRelation \<Longrightarrow> shared_by_rows E d rels r \<Longrightarrow> shared_by_rows E d (rel # rels) r"
  "rel_relation rel \<noteq> OwnerRelation \<Longrightarrow> shared_subject E d rel = Some s \<Longrightarrow> shared_by_rows E d rels (Inr ss) \<Longrightarrow>
     shared_by_rows E d (rel # rels) (Inr (s # ss))"
  "shared_by_rows E d rels (Inl e) \<Longrightarrow> shared_by_rows E d (rel # rels) (Inl e)"
  "rel_relation rel \<noteq> OwnerRelation \<Longrightarrow> shared_subject E d rel = None \<Longrightarrow>
     shared_by_rows E d (rel # rels) (Inl e)"
  by (auto simp: shared_by_rows_def split: sum.splits)

lemma wp_sharing_subjects:
  "wp (sharing_subjects E c rels) w
     (\<lambda>r w'. same_rows w w' \<and> shared_by_rows E (get_db c w) rels r)"
proof (induction rels arbitrary: w)
  case Nil
  then show ?case by (simp add: wp_ret)
next
  case (Cons rel rels)
  let ?d = "get_db c w"
  show ?case
  proof (cases "rel_relation rel = OwnerRelation")
    case True
    then show ?thesis
      using wp_mono [OF Cons.IH] by simp
  next
    case False
    define Q where "Q r w' \<longleftrightarrow> same_rows w w' \<and> shared_by_rows E ?d (rel # rels) r" for r w'
    have rest: "wp (bind (sharing_subjects E c rels) (\<lambda>ss. ret (s # ss))) w' Q"
      if "same_rows w w'" "shared_subject E ?d rel = Some s" for w' s
      unfolding wp_bind wp_ret
      by (rule wp_mono [OF Cons.IH])
         (use False that same_rows_get_db [OF that(1)] in \<open>auto simp: Q_def same_rows_def\<close>)
    have stop: "Q (Inl e) w'" if "same_rows w w'" "faulty E \<or> shared_subject E ?d rel = None" for e w'
      using that False by (auto simp: Q_def shared_by_rows_def)
    have "wp (sharing_subjects E c (rel # rels)) w Q"
      using False
      by (auto simp: wp_bind [of "get_group _ _ _"] wp_bind [of "bind (get_group _ _ _) _"]
          wp_bind [of "raise _"] wp_get_group wp_ret wp_raise shared_subject_def split: option.splits intro!: rest stop)
    then show ?thesis by (simp add: Q_def [abs_def])
  qed
qed

definition withheld :: "string \<Rightarrow> string set" where
  "withheld kind = (if kind = KindRegular \<or> kind = KindPartner
     then {SharePermission, EditPermission} else {EditPermission})"

lemma permissions_from_store_eq [simp]: "permissions_from_store ps = ps"
  by (simp add: permissions_from_store_def)

lemma set_owner_permissions: "set (owner_permissions kind ps) = set ps - withheld kind"
  by (auto simp: owner_permissions_def withheld_def)

text \<open>The tuples of an assessment that name whom it is shared with.\<close>

definition sharing_rows :: "env \<Rightarrow> db \<Rightarrow> uuid \<Rightarrow> relation_row set" where
  "sharing_rows E d i = {r \<in> set (relations d).
     of_resource (new_assessment_resource (uuid_str E i)) r \<and> r_relation r \<noteq> OwnerRelation}"

definition dangling :: "env \<Rightarrow> db \<Rightarrow> uuid \<Rightarrow> bool" where
  "dangling E d i \<longleftrightarrow> (\<exists>r \<in> sharing_rows E d i. shared_subject E d (to_relationship r) = None)"

definition owner_view :: "env \<Rightarrow> db \<Rightarrow> uuid \<Rightarrow> sharing \<Rightarrow> bool" where
  "owner_view E d i sh \<longleftrightarrow> sh_shared_by sh = None \<and> (sh_is_shared sh \<longleftrightarrow> sh_shared_with sh \<noteq> []) \<and>
     Some ` set (sh_shared_with sh) = (\<lambda>r. shared_subject E d (to_relationship r)) ` sharing_rows E d i"

definition assessment_view :: "env \<Rightarrow> user \<Rightarrow> uuid \<Rightarrow> db \<Rightarrow> error + assessment \<Rightarrow> bool" where
  "assessment_view E u i d r \<longleftrightarrow> (case r of
     Inl e \<Rightarrow> faulty E \<or> permission_refused E u i ReadPermission d e \<or>
       (\<exists>row. find_assessment d i = Some row \<and> a_username row = u_username u \<and> dangling E d i)
   | Inr a \<Rightarrow> permission_granted E u i ReadPermission d \<and>
       (\<exists>row sh. find_assessment d i = Some row \<and> describes a row \<and> as_sharing a = Some sh \<and>
         (if a_username row = u_username u
          then owner_view E d i sh \<and>
               set (as_permissions a) = {p. permitted E u i p d} - withheld (kind_of d (u_username u))
          else sh = build_viewer_sharing
                 (full_owner_name (a_owner_first_name row) (a_owner_last_name row)) (a_username row) \<and>
               set (as_permissions a) = {p. permitted E u i p d})))"

lemma wp_build_owner_sharing:
  assumes "\<And>e w'. same_rows w w' \<Longrightarrow> faulty E \<or> dangling E (get_db c w) i \<Longrightarrow> Q (Inl e) w'"
    and "\<And>sh w'. same_rows w w' \<Longrightarrow> owner_view E (get_db c w) i sh \<Longrightarrow> Q (Inr sh) w'"
    and rels: "set rels = to_relationship ` {r \<in> set (relations (get_db c w)).
      of_resource (new_assessment_resource (uuid_str E i)) r}"
  shows "wp (build_owner_sharing E c rels) w Q"
  unfolding build_owner_sharing_def wp_bind wp_ret
proof (rule wp_mono [OF wp_sharing_subjects], intro conjI allI impI; elim conjE)
  let ?d = "get_db c w"
  have rows: "{rel \<in> set rels. rel_relation rel \<noteq> OwnerRelation} = to_relationship ` sharing_rows E ?d i"
    unfolding rels sharing_rows_def by (auto simp: to_relationship_def)
  {
    fix r and w' :: world and e
    assume same: "same_rows w w'" and "shared_by_rows E ?d rels r" "r = Inl e"
    then have "faulty E \<or> (\<exists>rel \<in> {rel \<in> set rels. rel_relation rel \<noteq> OwnerRelation}.
        shared_subject E ?d rel = None)"
      by (auto simp: shared_by_rows_def)
    then have "faulty E \<or> dangling E ?d i"
      unfolding rows by (simp add: dangling_def)
    with same show "Q (Inl e) w'" by (intro assms(1))
  next
    fix r and w' :: world and ss
    assume same: "same_rows w w'" and "shared_by_rows E ?d rels r" "r = Inr ss"
    then have "map Some ss = map (shared_subject E ?d) (filter (\<lambda>rel. rel_relation rel \<noteq> OwnerRelation) rels)"
      by (simp add: shared_by_rows_def)
    then have "set (map Some ss) =
        set (map (shared_subject E ?d) (filter (\<lambda>rel. rel_relation rel \<noteq> OwnerRelation) rels))"
      by (rule arg_cong)
    then have "Some ` set ss = shared_subject E ?d ` {rel \<in> set rels. rel_relation rel \<noteq> OwnerRelation}"
      by simp
    then have "owner_view E ?d i \<lparr>sh_is_shared = ss \<noteq> [], sh_shared_with = ss, sh_shared_by = None\<rparr>"
      unfolding rows by (simp add: owner_view_def image_image)
    with same show "Q (Inr \<lparr>sh_is_shared = ss \<noteq> [], sh_shared_with = ss, sh_shared_by = None\<rparr>) w'"
      by (intro assms(2))
  }
qed

context assessment_reader
begin

lemma observes_authz_get:
  "observes (request_context u) (authz_get_assessment E S (request_context u) i)
     (assessment_view E u i)"
proof -
  let ?c = "request_context u"
  define V where "V w r w' \<longleftrightarrow> same_rows w w' \<and> assessment_view E u i (get_db ?c w) r"
    for w r and w' :: world
  have early: "V w (Inl e) w'"
    if "same_rows w w'" "faulty E \<or> permission_refused E u i ReadPermission (get_db ?c w) e" for w e w'
    using that by (auto simp: V_def assessment_view_def)
  have owner: "wp (bind (map_err (Wrapf (''authz: failed to list relationships: %w'', []))
        (list_relationships E ?c (new_assessment_resource (uuid_str E i)))) (\<lambda>rels.
      bind (build_owner_sharing E ?c rels) (\<lambda>sh.
      bind (get_identity E ?c (u_username u)) (\<lambda>ident.
      ret (a\<lparr>as_permissions := owner_permissions (id_kind ident) ps, as_sharing := Some sh\<rparr>))))) w' (V w)"
    if w': "same_rows w w'" and granted: "permission_granted E u i ReadPermission (get_db ?c w)"
      and row: "find_assessment (get_db ?c w) i = Some row" "describes a row" "a_username row = u_username u"
      and ps: "set ps = {p. permitted E u i p (get_db ?c w)}" for w w' row a ps
  proof -
    have db: "get_db ?c w' = get_db ?c w" by (rule same_rows_get_db [OF w'])
    have final: "V w (Inr (a\<lparr>as_permissions := owner_permissions (id_kind ident) ps, as_sharing := Some sh\<rparr>)) w3"
      if "same_rows w w3" "owner_view E (get_db ?c w) i sh"
        "is_identity (uuid_str E) (get_db ?c w) (u_username u) ident" for ident sh w3
      using that row granted ps
      by (auto simp: V_def assessment_view_def describes_def is_identity_def set_owner_permissions)
    have identity: "wp (bind (get_identity E ?c (u_username u)) (\<lambda>ident.
        ret (a\<lparr>as_permissions := owner_permissions (id_kind ident) ps, as_sharing := Some sh\<rparr>))) w2 (V w)"
      if w2: "same_rows w w2" and sh: "owner_view E (get_db ?c w) i sh" for w2 sh
      unfolding wp_bind wp_ret
      by (rule wp_get_identity)
         (use w2 sh same_rows_get_db [OF w2] in \<open>auto simp: same_rows_def intro!: early final\<close>)
    have sharing: "wp (bind (build_owner_sharing E ?c rels) (\<lambda>sh.
        bind (get_identity E ?c (u_username u)) (\<lambda>ident.
        ret (a\<lparr>as_permissions := owner_permissions (id_kind ident) ps, as_sharing := Some sh\<rparr>)))) w2 (V w)"
      if w2: "same_rows w w2" and rels: "set rels = to_relationship ` {r \<in> set (relations (get_db ?c w)).
        of_resource (new_assessment_resource (uuid_str E i)) r}" for w2 rels
      unfolding wp_bind [of "build_owner_sharing _ _ _"]
      by (rule wp_build_owner_sharing [where i = i])
         (use w2 rels row same_rows_get_db [OF w2] in
           \<open>auto simp: same_rows_def V_def assessment_view_def intro!: identity\<close>)
    show ?thesis
      using w' db
      by (auto simp: wp_bind [of "map_err _ _"] wp_map_err list_relationships_def wp_query
          intro!: early sharing)
  qed
  have "wp (authz_get_assessment E S ?c i) w (V w)" for w
    unfolding authz_get_assessment_def must_have_user_request bind_ret
  proof (rule wp_bind_observed [OF get_law])
    fix e and w' :: world
    assume "same_rows w w'" "isl (Inl e :: error + assessment) \<and> faulty E \<or> looked_up E i (get_db ?c w) (Inl e)"
    then show "V w (Inl e) w'"
      by (intro early) (auto simp: looked_up_def found_assessment_def assessment_lookup_error_def
          permission_refused_def)
  next
    fix a and w' :: world
    assume w': "same_rows w w'"
      and "isl (Inr a :: error + assessment) \<and> faulty E \<or> looked_up E i (get_db ?c w) (Inr a)"
    then obtain row where row: "find_assessment (get_db ?c w) i = Some row" "describes a row"
      "\<not> undecodable E (get_db ?c w) i"
      by (auto simp: looked_up_def found_assessment_def)
    show "wp (bind (map_err authz_permissions_error (get_permissions E ?c (u_username u)
           (new_assessment_resource (uuid_str E i)))) (\<lambda>res.
        let permissions = permissions_from_store (res_permissions res) in
        bind (reject_if (\<not> permission_in ReadPermission permissions)
            (new_err_forbidden ''assessment'' (uuid_str E i))) (\<lambda>_.
        if as_username a = u_username u
        then bind (map_err (Wrapf (''authz: failed to list relationships: %w'', []))
                 (list_relationships E ?c (new_assessment_resource (uuid_str E i)))) (\<lambda>rels.
          bind (build_owner_sharing E ?c rels) (\<lambda>sh.
          bind (get_identity E ?c (u_username u)) (\<lambda>ident.
          ret (a\<lparr>as_permissions := owner_permissions (id_kind ident) permissions,
                 as_sharing := Some sh\<rparr>))))
        else ret (a\<lparr>as_permissions := permissions,
                 as_sharing := Some (build_viewer_sharing
                   (full_owner_name (as_owner_first_name a) (as_owner_last_name a))
                   (as_username a))\<rparr>)))) w' (V w)"
    proof -
      define res where "res = permissions_value E (tick w') (get_db ?c w') (u_username u)
        (new_assessment_resource (uuid_str E i))"
      have db: "get_db ?c w' = get_db ?c w" by (rule same_rows_get_db [OF w'])
      have ps: "set (res_permissions res) = {p. permitted E u i p (get_db ?c w)}"
        by (simp only: res_def set_permissions_value db) (simp add: permitted_def new_assessment_resource_def)
      then have granted: "permission_in ReadPermission (res_permissions res) \<longleftrightarrow>
          permission_granted E u i ReadPermission (get_db ?c w)"
        using row by (simp add: permission_in_def permission_granted_def)
      have refused: "permission_refused E u i ReadPermission (get_db ?c w)
          (new_err_forbidden ''assessment'' (uuid_str E i))"
        if "\<not> permission_granted E u i ReadPermission (get_db ?c w)"
        using that row by (simp add: permission_refused_def permission_granted_def)
      have viewer: "V w (Inr (a\<lparr>as_permissions := res_permissions res, as_sharing := Some (build_viewer_sharing
           (full_owner_name (as_owner_first_name a) (as_owner_last_name a)) (a_username row))\<rparr>)) w2"
        if "same_rows w w2" "a_username row \<noteq> u_username u"
          "permission_granted E u i ReadPermission (get_db ?c w)" for w2
        using that row ps by (auto simp: V_def assessment_view_def describes_def)
      have name: "as_username a = a_username row"
        using row(2) by (simp add: describes_def)
      have shown: "wp (bind (map_err (Wrapf (''authz: failed to list relationships: %w'', []))
          (list_relationships E ?c (new_assessment_resource (uuid_str E i)))) (\<lambda>rels.
        bind (build_owner_sharing E ?c rels) (\<lambda>sh.
        bind (get_identity E ?c (u_username u)) (\<lambda>ident.
        ret (a\<lparr>as_permissions := owner_permissions (id_kind ident) (res_permissions res),
               as_sharing := Some sh\<rparr>))))) (next_tick w') (V w)"
        if "a_username row = u_username u" "permission_granted E u i ReadPermission (committed w)"
        by (rule owner [OF _ _ row(1,2) _ ps]) (use w' that in simp_all)
      show ?thesis
        unfolding wp_bind [of "map_err authz_permissions_error _"] wp_map_err wp_get_permissions
          Let_def permissions_from_store_eq wp_bind [of "reject_if _ _"] wp_reject_if
          res_def [symmetric]
        using w' name granted refused by (auto simp: wp_ret intro!: early viewer shown)
    qed
  qed
  then show ?thesis
    by (simp add: observes_def V_def [abs_def] same_rows_def conj_assoc)
qed

end

end
