(* ===== verification/AccessControl.thy ===== *)
theory AccessControl
  imports AuthzAssessment
begin

text \<open>
  The requests of the API as one transition system. A step runs a request against the committed
  rows; \<open>reachable\<close> closes this over any sequence of requests of any users. \<open>well_kept\<close> and
  \<open>well_linked\<close> are the invariants that make the relationship tuples mean what the rows of the
  other tables say. Requests run one after the other.
\<close>

subsection \<open>Requests\<close>

datatype api_call =
    CreateGroupCall group
  | UpdateGroupCall group
  | DeleteGroupCall uuid
  | CreateMemberCall member
  | UpdateMemberCall uuid string member
  | RemoveMemberCall uuid string
  | CreateRequestCall string partner_customer
  | CancelRequestCall uuid
  | LeavePartnerCall string
  | UpdateRequestCall uuid request
  | RemoveCustomerCall string
  | CreateAssessmentCall assessment_create_form
  | UpdateAssessmentCall uuid "string option"
  | DeleteAssessmentCall uuid
  | ShareAssessmentCall uuid
  | UnshareAssessmentCall uuid

definition discard :: "'a go \<Rightarrow> unit go" where
  "discard m = bind m (\<lambda>_. ret ())"

abbreviation assessment_api :: "env \<Rightarrow> assessment_servicer" where
  "assessment_api E \<equiv> new_assessment_service E"

fun serve :: "env \<Rightarrow> user \<Rightarrow> api_call \<Rightarrow> unit go" where
  "serve E u (CreateGroupCall g) = discard (authz_create_group E (request_context u) g)"
| "serve E u (UpdateGroupCall g) = discard (authz_update_group E (request_context u) g)"
| "serve E u (DeleteGroupCall i) = authz_delete_group E (request_context u) i"
| "serve E u (CreateMemberCall m) = discard (authz_create_member E (request_context u) m)"
| "serve E u (UpdateMemberCall gid name m) =
     discard (authz_update_group_member E (request_context u) gid name m)"
| "serve E u (RemoveMemberCall gid name) = authz_remove_group_member E (request_context u) gid name"
| "serve E u (CreateRequestCall p pc) = discard (authz_create_request E (request_context u) u p pc)"
| "serve E u (CancelRequestCall i) = authz_cancel_request E (request_context u) u i"
| "serve E u (LeavePartnerCall p) = authz_leave_partner E (request_context u) u p"
| "serve E u (UpdateRequestCall i req) = discard (authz_update_request E (request_context u) u i req)"
| "serve E u (RemoveCustomerCall name) = authz_remove_customer E (request_context u) u name"
| "serve E u (CreateAssessmentCall f) =
     discard (authz_create_assessment E (assessment_api E) (request_context u) f)"
| "serve E u (UpdateAssessmentCall i name) =
     discard (authz_update_assessment E (assessment_api E) (request_context u) i name)"
| "serve E u (DeleteAssessmentCall i) =
     authz_delete_assessment E (assessment_api E) (request_context u) i"
| "serve E u (ShareAssessmentCall i) =
     authz_share_assessment E (assessment_api E) (request_context u) i"
| "serve E u (UnshareAssessmentCall i) =
     authz_unshare_assessment E (assessment_api E) (request_context u) i"

text \<open>How the committed rows change when a request has an effect.\<close>

definition succeeds :: "(db \<Rightarrow> error + 'a \<times> db \<Rightarrow> bool) \<Rightarrow> db \<Rightarrow> db \<Rightarrow> bool" where
  "succeeds S d d' \<longleftrightarrow> (\<exists>a. S d (Inr (a, d')))"

fun effect :: "env \<Rightarrow> user \<Rightarrow> api_call \<Rightarrow> db \<Rightarrow> db \<Rightarrow> bool" where
  "effect E u (CreateGroupCall g) = succeeds (admin_only u ''groups'' (create_group_spec g))"
| "effect E u (UpdateGroupCall g) = succeeds (admin_only u ''groups'' (update_group_spec E g))"
| "effect E u (DeleteGroupCall i) = succeeds (admin_only u ''groups'' (delete_group_spec E i))"
| "effect E u (CreateMemberCall m) = succeeds (admin_only u ''members'' (create_member_spec E m))"
| "effect E u (UpdateMemberCall gid name m) =
     succeeds (admin_only u ''members'' (update_group_member_spec E gid name m))"
| "effect E u (RemoveMemberCall gid name) =
     succeeds (admin_only u ''members'' (remove_group_member_spec E gid name))"
| "effect E u (CreateRequestCall p pc) =
     succeeds (guarded (\<lambda>d. kind_of d (u_username u) = KindRegular)
        (new_err_forbidden ''partner request'' (u_username u)) (create_request_spec E u p pc))"
| "effect E u (CancelRequestCall i) = succeeds (cancel_request_spec E u i)"
| "effect E u (LeavePartnerCall p) =
     succeeds (guarded (\<lambda>d. kind_of d (u_username u) = KindCustomer)
        (new_err_forbidden ''partner'' p) (leave_partner_spec E u p))"
| "effect E u (UpdateRequestCall i req) = succeeds (authz_update_request_spec E u i req)"
| "effect E u (RemoveCustomerCall name) = succeeds (authz_remove_customer_spec E u name)"
| "effect E u (CreateAssessmentCall f) = succeeds (authz_create_spec E u f)"
| "effect E u (UpdateAssessmentCall i name) = (\<lambda>d d'.
     permission_granted E u i EditPermission d \<and> assessment_updated E i name d d')"
| "effect E u (DeleteAssessmentCall i) =
     succeeds (with_permission E u i DeletePermission (authz_delete_spec E i))"
| "effect E u (ShareAssessmentCall i) =
     succeeds (with_permission E u i SharePermission (sharing_spec E u i (share_with E i)))"
| "effect E u (UnshareAssessmentCall i) =
     succeeds (with_permission E u i SharePermission (sharing_spec E u i (unshare_with E i)))"

definition keeps_or :: "(db \<Rightarrow> db \<Rightarrow> bool) \<Rightarrow> unit go \<Rightarrow> bool" where
  "keeps_or R m \<longleftrightarrow> (\<forall>w. wp m w (\<lambda>r w'. committed w' = committed w \<and> isl r \<or> R (committed w) (committed w')))"

lemma refines_keeps: "refines E m S \<Longrightarrow> keeps_or (succeeds S) m"
  unfolding keeps_or_def refines_def succeeds_def
  by (fastforce simp: wp_run outcome_def isl_def split: sum.splits)

lemma discard_keeps: "refines E m S \<Longrightarrow> keeps_or (succeeds S) (discard m)"
  unfolding keeps_or_def refines_def succeeds_def discard_def wp_bind wp_ret
  by (fastforce simp: wp_run outcome_def isl_def split: sum.splits)

lemma serve_keeps: "keeps_or (effect E u call) (serve E u call)"
proof (cases call)
  case (UpdateAssessmentCall i name)
  have "wp (authz_update_assessment E (assessment_api E) (request_context u) i name) w
     (\<lambda>r w'. authz_update_outcome E u i name (committed w) r (committed w'))" for w
    by (rule assessment_srv.authz_update_wp)
  then have "wp (discard (authz_update_assessment E (assessment_api E) (request_context u) i name)) w
     (\<lambda>r w'. committed w' = committed w \<and> isl r \<or>
        effect E u (UpdateAssessmentCall i name) (committed w) (committed w'))" for w
    unfolding discard_def wp_bind wp_ret
    by (rule wp_mono) (auto simp: authz_update_outcome_def update_outcome_def split: if_splits)
  with UpdateAssessmentCall show ?thesis by (simp add: keeps_or_def)
qed (simp_all only: serve.simps effect.simps authz_cancel_request_def,
     (rule discard_keeps refines_keeps,
      (rule authz_accounts_refine authz_create_request_refines authz_leave_partner_refines
         authz_update_request_refines authz_remove_customer_refines
         assessment_srv.authz_create_refines assessment_srv.authz_delete_refines
         assessment_srv.authz_sharing_refines
       | (rule cancel_request_refines, simp)))+)

subsection \<open>Reachable rows\<close>

inductive api_step :: "env \<Rightarrow> user \<Rightarrow> api_call \<Rightarrow> db \<Rightarrow> error + unit \<Rightarrow> db \<Rightarrow> bool" for E where
  Serve: "serve E u call w = (r, w') \<Longrightarrow> api_step E u call (committed w) r (committed w')"

inductive_cases api_stepE: "api_step E u call d r d'"
inductive_simps api_step_iff: "api_step E u call d r d'"

text \<open>A failed request changes nothing, or it is an update of an assessment.\<close>

lemma api_step_effect:
  assumes "api_step E u call d r d'"
  shows "d' = d \<and> isl r \<or> effect E u call d d'"
  using assms
proof (rule api_stepE)
  fix w w'
  assume run: "d = committed w" "d' = committed w'" "serve E u call w = (r, w')"
  have "wp (serve E u call) w (\<lambda>r w'. committed w' = committed w \<and> isl r \<or>
      effect E u call (committed w) (committed w'))"
    using serve_keeps unfolding keeps_or_def by blast
  from wpD [OF this run(3)] show ?thesis
    using run by simp
qed

inductive reachable :: "env \<Rightarrow> (user \<Rightarrow> api_call \<Rightarrow> bool) \<Rightarrow> db \<Rightarrow> db \<Rightarrow> bool" for E P d0 where
  Initially: "reachable E P d0 d0"
| Later: "reachable E P d0 d \<Longrightarrow> P u call \<Longrightarrow> api_step E u call d r d' \<Longrightarrow> reachable E P d0 d'"

lemma reachable_invariant:
  assumes "reachable E P d0 d" "I d0"
    and "\<And>u call d d'. P u call \<Longrightarrow> I d \<Longrightarrow> effect E u call d d' \<Longrightarrow> I d'"
  shows "I d"
  using assms(1)
proof (induction rule: reachable.induct)
  case Initially
  then show ?case by (rule assms(2))
next
  case (Later d u call r d')
  with assms(3) api_step_effect show ?case by metis
qed

lemma reachable_mono:
  assumes "reachable E P d0 d" "\<And>u call. P u call \<Longrightarrow> Q u call"
  shows "reachable E Q d0 d"
  using assms(1) by induction (auto intro: reachable.intros assms(2))

subsection \<open>The invariants\<close>

definition uuid_codec :: "env \<Rightarrow> bool" where
  "uuid_codec E \<longleftrightarrow> (\<forall>i. uuid_parse E (uuid_str E i) = Some i \<and> uuid_str E i \<noteq> [])"

lemma uuid_str_inj: "uuid_codec E \<Longrightarrow> uuid_str E i = uuid_str E j \<longleftrightarrow> i = j"
  unfolding uuid_codec_def by (metis option.inject)

definition owner_tuples :: "env \<Rightarrow> db \<Rightarrow> relation_row set" where
  "owner_tuples E d = (\<lambda>a. owner_tuple E (a_id a) (a_username a)) ` set (assessments d)"

definition member_tuples :: "env \<Rightarrow> db \<Rightarrow> relation_row set" where
  "member_tuples E d = (\<lambda>m. member_tuple E (m_group_id m) (m_username m)) ` set (members d)"

definition shared_tuples :: "env \<Rightarrow> db \<Rightarrow> relation_row set" where
  "shared_tuples E d = {viewer_tuple E (a_id a) (pc_partner_id p) | a p.
     a \<in> set (assessments d) \<and> p \<in> set (accepted_requests d (a_username a))}"

definition tuples_of :: "string \<Rightarrow> db \<Rightarrow> relation_row set" where
  "tuples_of rel d = {r \<in> set (relations d). r_relation r = rel}"

definition well_keyed :: "db \<Rightarrow> bool" where
  "well_keyed d \<longleftrightarrow> distinct (map a_id (assessments d)) \<and> distinct (map m_id (members d)) \<and>
     distinct (map m_username (members d)) \<and> distinct (map pc_id (partners_customers d))"

text \<open>Every member is in a partner or an admin group, and has no active request.\<close>

definition roles_exclusive :: "db \<Rightarrow> bool" where
  "roles_exclusive d \<longleftrightarrow> g_kind ` set (groups d) \<subseteq> {''partner'', ''admin''} \<and>
     (\<forall>m \<in> set (members d). m_group_id m \<in> g_id ` set (groups d) \<and>
        \<not> has_active_request d (m_username m))"

definition well_kept :: "env \<Rightarrow> db \<Rightarrow> bool" where
  "well_kept E d \<longleftrightarrow> well_keyed d \<and> roles_exclusive d \<and> tuples_of OwnerRelation d = owner_tuples E d"

definition well_linked :: "env \<Rightarrow> db \<Rightarrow> bool" where
  "well_linked E d \<longleftrightarrow> tuples_of MemberRelation d = member_tuples E d \<and>
     tuples_of ViewerRelation d \<subseteq> shared_tuples E d"

text \<open>
  What the handlers guarantee of a request: a new group is of a kind the API offers, and the
  creator of an assessment is its owner.
\<close>

fun valid_call :: "user \<Rightarrow> api_call \<Rightarrow> bool" where
  "valid_call u (CreateGroupCall g) \<longleftrightarrow> g_kind g \<in> {''partner'', ''admin''}"
| "valid_call u (CreateAssessmentCall f) \<longleftrightarrow> cf_username f = u_username u"
| "valid_call u _ \<longleftrightarrow> True"

fun keeps_groups :: "user \<Rightarrow> api_call \<Rightarrow> bool" where
  "keeps_groups u (DeleteGroupCall i) \<longleftrightarrow> False"
| "keeps_groups u call \<longleftrightarrow> valid_call u call"

subsection \<open>The account requests keep the invariants\<close>

lemmas invariant_defs = well_kept_def well_linked_def well_keyed_def roles_exclusive_def
  tuples_of_def owner_tuples_def member_tuples_def shared_tuples_def

lemmas succeeds_simps = succeeds_def admin_only_def guarded_def executes_def model_update_def

lemma has_active_request_cong:
  "partners_customers d' = partners_customers d \<Longrightarrow> has_active_request d' u = has_active_request d u"
  "partners_customers d' = partners_customers d \<Longrightarrow> accepted_requests d' u = accepted_requests d u"
  by (simp_all add: has_active_request_def accepted_requests_def)

lemma groups_change:
  assumes "g_kind ` set gs \<subseteq> {''partner'', ''admin''}" "g_id ` set (groups d) \<subseteq> g_id ` set gs"
  shows "well_kept E d \<Longrightarrow> well_kept E (d\<lparr>groups := gs\<rparr>)"
    "well_linked E (d\<lparr>groups := gs\<rparr>) = well_linked E d"
  using assms by (auto simp: invariant_defs has_active_request_def accepted_requests_def)

lemma stamp_group_kind [simp]: "g_kind (stamp_group now g) = g_kind g"
  by (simp add: stamp_group_def)

lemma create_group_effect:
  "effect E u (CreateGroupCall g) d d' \<Longrightarrow> \<exists>now. d' = d\<lparr>groups := groups d @ [stamp_group now g]\<rparr>"
  by (auto simp: succeeds_simps create_group_spec_def insert_group_def split: if_splits sum.splits)

lemma update_group_effect:
  "effect E u (UpdateGroupCall g) d d' \<Longrightarrow> \<exists>f. d' = d\<lparr>groups := map f (groups d)\<rparr> \<and>
     (\<forall>r. g_id (f r) = g_id r \<and> g_kind (f r) = g_kind r)"
  by (auto simp: succeeds_simps update_group_spec_def update_group_columns_def Let_def
      split: if_splits sum.splits)

lemma delete_group_effect:
  "effect E u (DeleteGroupCall i) d d' \<Longrightarrow>
     d' = d\<lparr>groups := filter (\<lambda>r. g_id r \<noteq> i) (groups d),
            members := filter (\<lambda>r. m_group_id r \<noteq> i) (members d),
            partners_customers := filter (\<lambda>r. pc_partner_id r \<noteq> uuid_str E i) (partners_customers d)\<rparr>"
  by (auto simp: succeeds_simps delete_group_spec_def delete_group_row_def split: if_splits sum.splits)

lemma group_calls_keep:
  assumes "well_kept E d"
  shows "g_kind g \<in> {''partner'', ''admin''} \<Longrightarrow> effect E u (CreateGroupCall g) d d' \<Longrightarrow>
      well_kept E d' \<and> well_linked E d' = well_linked E d"
    "effect E u (UpdateGroupCall g) d d' \<Longrightarrow> well_kept E d' \<and> well_linked E d' = well_linked E d"
    "effect E u (DeleteGroupCall i) d d' \<Longrightarrow> well_kept E d'"
proof -
  have kinds: "g_kind ` set (groups d) \<subseteq> {''partner'', ''admin''}"
    using assms by (simp add: well_kept_def roles_exclusive_def)
  have change: "well_kept E (d\<lparr>groups := gs\<rparr>) \<and> well_linked E (d\<lparr>groups := gs\<rparr>) = well_linked E d"
    if "g_kind ` set gs \<subseteq> {''partner'', ''admin''}" "g_id ` set (groups d) \<subseteq> g_id ` set gs" for gs
    using groups_change [OF that] assms by simp
  show "g_kind g \<in> {''partner'', ''admin''} \<Longrightarrow> effect E u (CreateGroupCall g) d d' \<Longrightarrow>
      well_kept E d' \<and> well_linked E d' = well_linked E d"
    by (drule create_group_effect, elim exE, hypsubst, rule change) (use kinds in auto)
  show "effect E u (UpdateGroupCall g) d d' \<Longrightarrow> well_kept E d' \<and> well_linked E d' = well_linked E d"
    by (drule update_group_effect, elim exE conjE, hypsubst, rule change)
       (use kinds in \<open>auto simp: image_image\<close>)
  show "effect E u (DeleteGroupCall i) d d' \<Longrightarrow> well_kept E d'"
    by (drule delete_group_effect)
       (use assms in \<open>auto simp: invariant_defs has_active_request_def intro: distinct_map_filter\<close>)
qed

lemma add_member_effect:
  "add_member E m d = Inr d' \<Longrightarrow>
     d' = d\<lparr>members := members d @ [m],
       relations := insert_ignore [member_tuple E (m_group_id m) (m_username m)] (relations d)\<rparr> \<and>
     m_id m \<notin> m_id ` set (members d) \<and> m_username m \<notin> m_username ` set (members d) \<and>
     m_group_id m \<in> g_id ` set (groups d)"
  by (auto simp: add_member_def insert_member_def touch_relations_def split: if_splits sum.splits)

lemma executes_value: "Inr (a', d') = executes f err a d \<Longrightarrow> f d = Inr d'"
  by (simp add: executes_def split: sum.splits)

lemma create_member_spec_value:
  assumes "create_member_spec E m d (Inr (a, d'))"
  shows "\<exists>m'. add_member E m' d = Inr d' \<and> \<not> has_active_request d (m_username m')"
proof (cases "iam_user_org E (m_username m)")
  case (Inl e)
  with assms show ?thesis by (simp add: create_member_spec_def)
next
  case (Inr org)
  have "find_member d (m_username m) = None"
    using assms Inr by (auto simp: create_member_spec_def Let_def split: if_splits option.splits)
  then have "\<not> has_active_request d (m_username m)"
    and "\<exists>i now. add_member E (stamp_member now (m\<lparr>m_org_id := org,
           m_id := if m_id m = nil_uuid then i else m_id m\<rparr>)) d = Inr d'"
    using assms Inr by (auto simp: create_member_spec_def Let_def has_active_request_def
        split: if_splits dest!: executes_value)
  then show ?thesis
    by (elim exE) (rule exI, erule conjI, simp)
qed

lemma create_member_effect:
  "effect E u (CreateMemberCall m) d d' \<Longrightarrow>
     \<exists>m'. add_member E m' d = Inr d' \<and> \<not> has_active_request d (m_username m')"
  by (auto simp: succeeds_def admin_only_def guarded_def split: if_splits intro: create_member_spec_value)

lemma distinct_map_eq: "distinct (map f xs) \<Longrightarrow> x \<in> set xs \<Longrightarrow> y \<in> set xs \<Longrightarrow> f x = f y \<longleftrightarrow> x = y"
  by (auto simp: distinct_map inj_on_def)

lemma update_member_columns_map:
  assumes "update_member_columns m d = Inr d'"
  shows "\<exists>f. d' = d\<lparr>members := map f (members d)\<rparr> \<and> (\<forall>r. m_id (f r) = m_id r \<and>
    (if m_id r = m_id m
     then m_username (f r) \<in> {m_username r, m_username m} \<and> m_group_id (f r) \<in> {m_group_id r, m_group_id m}
     else f r = r))"
proof -
  define f where "f r = (if m_id r = m_id m then
      r\<lparr>m_created_at := if m_created_at m = zero_time then m_created_at r else m_created_at m,
        m_updated_at := if m_updated_at m = None then m_updated_at r else m_updated_at m,
        m_username := if m_username m = [] then m_username r else m_username m,
        m_email := if m_email m = [] then m_email r else m_email m,
        m_group_id := if m_group_id m = nil_uuid then m_group_id r else m_group_id m,
        m_org_id := if m_org_id m = [] then m_org_id r else m_org_id m\<rparr> else r)" for r :: member
  have "d' = d\<lparr>members := map f (members d)\<rparr>"
    using assms by (simp add: update_member_columns_def Let_def f_def [abs_def] split: if_splits)
  then show ?thesis
    by (intro exI [of _ f]) (simp add: f_def)
qed

lemma update_member_effect:
  assumes "effect E u (UpdateMemberCall gid name m) d d'" "well_keyed d"
  shows "\<exists>f. d' = d\<lparr>members := map f (members d)\<rparr> \<and> (\<forall>r \<in> set (members d).
    m_id (f r) = m_id r \<and> m_username (f r) = m_username r \<and> m_group_id (f r) = m_group_id r)"
proof -
  obtain ex now where ex: "find_member d name = Some ex" and upd: "update_member_columns
      (m\<lparr>m_id := m_id ex, m_username := m_username ex, m_group_id := m_group_id ex,
         m_created_at := m_created_at ex, m_updated_at := Some now\<rparr>) d = Inr d'"
    using assms(1)
    by (auto simp: succeeds_simps update_group_member_spec_def Let_def split: if_splits sum.splits option.splits)
  moreover have only: "r = ex" if "r \<in> set (members d)" "m_id r = m_id ex" for r
    using that find_memberD [OF ex] assms(2) distinct_map_eq by (fastforce simp: well_keyed_def)
  from update_member_columns_map [OF upd] obtain f where f: "d' = d\<lparr>members := map f (members d)\<rparr>"
    "\<forall>r. m_id (f r) = m_id r \<and> (if m_id r = m_id ex
       then m_username (f r) \<in> {m_username r, m_username ex} \<and> m_group_id (f r) \<in> {m_group_id r, m_group_id ex}
       else f r = r)"
    by (auto cong: if_cong)
  then have "\<forall>r \<in> set (members d). m_id (f r) = m_id r \<and> m_username (f r) = m_username r \<and>
      m_group_id (f r) = m_group_id r"
    using only by (metis empty_iff insert_iff)
  with f(1) show ?thesis by blast
qed

lemma remove_member_effect:
  "effect E u (RemoveMemberCall gid name) d d' \<Longrightarrow>
     \<exists>m \<in> set (members d). d' = drop_member E m d"
  by (auto simp: succeeds_simps remove_group_member_spec_def dest!: find_memberD
      split: if_splits sum.splits option.splits)

lemma tuple_relation [simp]:
  "r_relation (owner_tuple E a n) = OwnerRelation" "r_relation (viewer_tuple E a p) = ViewerRelation"
  "r_relation (member_tuple E gid n) = MemberRelation"
  by (simp_all add: owner_tuple_def viewer_tuple_def member_tuple_def)

lemma tuple_distinct [simp]:
  "owner_tuple E a n \<noteq> viewer_tuple E b p" "viewer_tuple E b p \<noteq> owner_tuple E a n"
  "owner_tuple E a n \<noteq> member_tuple E i k" "member_tuple E i k \<noteq> owner_tuple E a n"
  "viewer_tuple E b p \<noteq> member_tuple E i k" "member_tuple E i k \<noteq> viewer_tuple E b p"
  by (simp_all add: owner_tuple_def viewer_tuple_def member_tuple_def)

lemma member_tuple_eq:
  "uuid_codec E \<Longrightarrow> member_tuple E i n = member_tuple E j k \<longleftrightarrow> i = j \<and> n = k"
  by (simp add: member_tuple_def uuid_str_inj)

lemma tuples_of_insert:
  "set (relations d') = insert t (set (relations d)) \<Longrightarrow>
     tuples_of rel d' = (if r_relation t = rel then insert t (tuples_of rel d) else tuples_of rel d)"
  by (auto simp: tuples_of_def)

lemma member_calls_keep:
  assumes kept: "well_kept E d" and codec: "uuid_codec E"
  shows "effect E u (CreateMemberCall m) d d' \<Longrightarrow>
      well_kept E d' \<and> (well_linked E d \<longrightarrow> well_linked E d')"
    "effect E u (UpdateMemberCall gid name m) d d' \<Longrightarrow>
      well_kept E d' \<and> (well_linked E d \<longrightarrow> well_linked E d')"
    "effect E u (RemoveMemberCall gid name) d d' \<Longrightarrow>
      well_kept E d' \<and> (well_linked E d \<longrightarrow> well_linked E d')"
proof -
  have keyed: "well_keyed d" using kept by (simp add: well_kept_def)
  show "effect E u (CreateMemberCall m) d d' \<Longrightarrow>
      well_kept E d' \<and> (well_linked E d \<longrightarrow> well_linked E d')"
    by (drule create_member_effect, elim exE conjE, drule add_member_effect, elim conjE)
       (use kept in \<open>auto simp: invariant_defs has_active_request_def accepted_requests_def\<close>)
  show "effect E u (UpdateMemberCall gid name m) d d' \<Longrightarrow>
      well_kept E d' \<and> (well_linked E d \<longrightarrow> well_linked E d')"
    by (drule update_member_effect [OF _ keyed], elim exE conjE)
       (use kept in \<open>auto simp: invariant_defs has_active_request_def accepted_requests_def comp_def
          image_image cong: map_cong image_cong\<close>)
  have removed: "well_kept E (drop_member E r d) \<and> (well_linked E d \<longrightarrow> well_linked E (drop_member E r d))"
    if r: "r \<in> set (members d)" for r
  proof -
    have same: "q \<in> set (members d) \<Longrightarrow> m_id q = m_id r \<longleftrightarrow> q = r"
      "q \<in> set (members d) \<Longrightarrow> m_username q = m_username r \<longleftrightarrow> q = r" for q
      using r keyed distinct_map_eq [of m_id "members d"] distinct_map_eq [of m_username "members d"]
      by (auto simp: well_keyed_def)
    have "tuples_of MemberRelation (drop_member E r d) = member_tuples E (drop_member E r d)"
      if "tuples_of MemberRelation d = member_tuples E d"
    proof -
      have "tuples_of MemberRelation (drop_member E r d) =
          tuples_of MemberRelation d - {member_tuple E (m_group_id r) (m_username r)}"
        by (auto simp: tuples_of_def drop_member_def)
      also have "\<dots> = member_tuples E (drop_member E r d)"
        unfolding that using codec same by (auto simp: member_tuples_def drop_member_def member_tuple_eq)
      finally show ?thesis .
    qed
    moreover have "tuples_of ViewerRelation (drop_member E r d) = tuples_of ViewerRelation d"
      "tuples_of OwnerRelation (drop_member E r d) = tuples_of OwnerRelation d"
      by (auto simp: tuples_of_def drop_member_def member_tuple_def)
    ultimately show ?thesis
      using kept by (auto simp: well_kept_def well_linked_def well_keyed_def roles_exclusive_def
          owner_tuples_def shared_tuples_def has_active_request_def accepted_requests_def
          drop_member_def intro: distinct_map_filter)
  qed
  show "effect E u (RemoveMemberCall gid name) d d' \<Longrightarrow>
      well_kept E d' \<and> (well_linked E d \<longrightarrow> well_linked E d')"
    by (drule remove_member_effect) (use removed in auto)
qed

subsection \<open>The partner requests keep them\<close>

definition accepted_pairs :: "db \<Rightarrow> (string \<times> string) set" where
  "accepted_pairs d = {(pc_username p, pc_partner_id p) | p.
     p \<in> set (partners_customers d) \<and> pc_request_status p = RequestStatusAccepted}"

lemma shared_tuples_pairs:
  "shared_tuples E d = {viewer_tuple E (a_id a) q | a q.
     a \<in> set (assessments d) \<and> (a_username a, q) \<in> accepted_pairs d}"
  by (auto simp: shared_tuples_def accepted_pairs_def accepted_requests_def) metis+

lemma set_request_tables [simp]:
  "groups (set_request i st reason acc term d) = groups d"
  "members (set_request i st reason acc term d) = members d"
  "relations (set_request i st reason acc term d) = relations d"
  "assessments (set_request i st reason acc term d) = assessments d"
  "map pc_id (partners_customers (set_request i st reason acc term d)) = map pc_id (partners_customers d)"
  by (auto simp: set_request_def)

lemma request_is:
  "well_keyed d \<Longrightarrow> p \<in> set (partners_customers d) \<Longrightarrow> q \<in> set (partners_customers d) \<Longrightarrow>
     pc_id q = pc_id p \<longleftrightarrow> q = p"
  using distinct_map_eq [of pc_id "partners_customers d" q p] by (simp add: well_keyed_def)

lemma set_request_active:
  assumes "well_keyed d" "p \<in> set (partners_customers d)" "active_status (pc_request_status p)"
    "has_active_request (set_request (pc_id p) st reason acc term d) n"
  shows "has_active_request d n"
  using assms by (auto simp: has_active_request_def set_request_def request_is split: if_splits)

lemma set_request_pairs:
  assumes "well_keyed d" "p \<in> set (partners_customers d)"
  shows "accepted_pairs d - {(pc_username p, pc_partner_id p)}
      \<subseteq> accepted_pairs (set_request (pc_id p) st reason acc term d)"
    "pc_request_status p \<noteq> RequestStatusAccepted \<Longrightarrow>
      accepted_pairs d \<subseteq> accepted_pairs (set_request (pc_id p) st reason acc term d)"
  using assms by (auto simp: accepted_pairs_def set_request_def request_is)

lemma set_request_keeps:
  assumes "well_kept E d" "p \<in> set (partners_customers d)" "active_status (pc_request_status p)"
  shows "well_kept E (set_request (pc_id p) st reason acc term d)"
  using assms set_request_active [of d p st reason acc "term"]
  by (auto simp: well_kept_def well_keyed_def roles_exclusive_def tuples_of_def owner_tuples_def)

lemma set_request_links:
  assumes "well_keyed d" "p \<in> set (partners_customers d)" "pc_request_status p \<noteq> RequestStatusAccepted"
    "well_linked E d"
  shows "well_linked E (set_request (pc_id p) st reason acc term d)"
  using assms(4) set_request_pairs(2) [OF assms(1-3), of st reason acc "term"]
  by (auto simp: well_linked_def tuples_of_def member_tuples_def shared_tuples_pairs) blast

lemma cancel_request_value:
  assumes "cancel_request_spec E u i d (Inr (a, d'))"
  shows "\<exists>p now. find_request d i = Some p \<and> pc_username p = u_username u \<and>
    pc_request_status p = RequestStatusPending \<and> d' = set_request i RequestStatusCancelled None None (Some now) d"
  using assms
  by (cases "find_request d i")
     (auto simp: cancel_request_spec_def end_request_def split: if_splits
        dest!: executes_value update_request_row_Inr)

lemma update_request_value:
  assumes "update_request_spec E u i req d (Inr (a, d'))"
  shows "\<exists>p acc. find_request d i = Some p \<and> pc_request_status p = RequestStatusPending \<and>
    d' = set_request i (rq_status req) (request_reason req) acc None d"
  using assms
  by (cases "find_request d i")
     (auto simp: update_request_spec_def Let_def split: if_splits dest!: update_request_row_Inr)

lemma authz_update_request_value:
  "authz_update_request_spec E u i req d (Inr (a, d')) \<Longrightarrow> update_request_spec E u i req d (Inr (a, d'))"
  by (cases "partner_group (uuid_str E) d (u_username u)"; cases "find_request d i")
     (auto simp: authz_update_request_spec_def split: if_splits)

lemma request_calls_keep:
  assumes kept: "well_kept E d"
  shows "effect E u (CancelRequestCall i) d d' \<Longrightarrow>
      well_kept E d' \<and> (well_linked E d \<longrightarrow> well_linked E d')"
    "effect E u (UpdateRequestCall i req) d d' \<Longrightarrow>
      well_kept E d' \<and> (well_linked E d \<longrightarrow> well_linked E d')"
proof -
  have keyed: "well_keyed d" using kept by (simp add: well_kept_def)
  have pending: "well_kept E (set_request i st reason acc term d) \<and>
      (well_linked E d \<longrightarrow> well_linked E (set_request i st reason acc term d))"
    if "find_request d i = Some p" "pc_request_status p = RequestStatusPending" for p st reason acc "term"
    using find_requestD [OF that(1)] that set_request_keeps [OF kept, of p]
      set_request_links [OF keyed, of p] by (auto simp: active_status_def)
  show "effect E u (CancelRequestCall i) d d' \<Longrightarrow>
      well_kept E d' \<and> (well_linked E d \<longrightarrow> well_linked E d')"
    by (auto simp: succeeds_def dest!: cancel_request_value dest: pending)
  show "effect E u (UpdateRequestCall i req) d d' \<Longrightarrow>
      well_kept E d' \<and> (well_linked E d \<longrightarrow> well_linked E d')"
    by (auto simp: succeeds_def dest!: authz_update_request_value update_request_value dest: pending)
qed

lemma create_request_value:
  assumes "create_request_spec E u p pc d (Inr (a, d'))"
  shows "\<exists>i now. d' = d\<lparr>partners_customers := partners_customers d @ [new_request i now u p pc]\<rparr> \<and>
    i \<notin> pc_id ` set (partners_customers d)"
proof -
  have "\<exists>i now. insert_partner_customer (uuid_str E) (new_request i now u p pc) d = Inr d'"
    using assms by (auto simp: create_request_spec_def split: if_splits option.splits dest!: executes_value)
  then show ?thesis
    by (auto simp: insert_partner_customer_def new_request_def stamp_request_def pending_request_def
        split: if_splits)
qed

lemma new_request_simps [simp]:
  "pc_id (new_request i now u p pc) = i" "pc_username (new_request i now u p pc) = u_username u"
  "pc_request_status (new_request i now u p pc) = RequestStatusPending"
  by (simp_all add: new_request_def stamp_request_def pending_request_def)

lemma regular_not_member:
  assumes "roles_exclusive d" "kind_of d n = KindRegular" "m \<in> set (members d)"
  shows "m_username m \<noteq> n"
proof
  assume n: "m_username m = n"
  then obtain ex where ex: "find_member d n = Some ex"
    using assms(3) by (cases "find_member d n") (auto simp: find_member_None)
  then have "m_group_id ex \<in> g_id ` set (groups d)"
    using assms(1) find_memberD by (auto simp: roles_exclusive_def)
  then obtain g where g: "find_group d (m_group_id ex) = Some g"
    by (cases "find_group d (m_group_id ex)") (auto simp: find_group_def filter_empty_conv)
  then have "g_kind g \<in> {''partner'', ''admin''}"
    using assms(1) find_groupD [OF g] by (auto simp: roles_exclusive_def)
  with ex g assms(2) show False
    by (auto simp: kind_of_def role_of_def split: if_splits)
qed

lemma create_request_keeps:
  assumes kept: "well_kept E d" and "effect E u (CreateRequestCall p pc) d d'"
  shows "well_kept E d' \<and> (well_linked E d \<longrightarrow> well_linked E d')"
proof -
  have regular: "kind_of d (u_username u) = KindRegular"
    and "\<exists>a. create_request_spec E u p pc d (Inr (a, d'))"
    using assms(2) by (auto simp: succeeds_def guarded_def split: if_splits simp del: kind_of_customer)
  then obtain i now where d': "d' = d\<lparr>partners_customers := partners_customers d @ [new_request i now u p pc]\<rparr>"
    and i: "i \<notin> pc_id ` set (partners_customers d)"
    using create_request_value by blast
  have "\<forall>m \<in> set (members d). m_username m \<noteq> u_username u"
    using regular_not_member [OF _ regular] kept by (simp add: well_kept_def)
  then show ?thesis
    using kept i unfolding d'
    by (auto simp: invariant_defs has_active_request_def accepted_requests_def)
qed

text \<open>Ending a relationship: the request is cancelled and what was shared under it is revoked.\<close>

lemma ended_value:
  "ended E i n p now d = Inr d' \<Longrightarrow>
     d' = revoked E n p (set_request i RequestStatusCancelled None None (Some now) d)"
  by (auto simp: ended_def end_request_def split: sum.splits dest!: update_request_row_Inr)

lemma revoked_tables [simp]:
  "groups (revoked E n p d) = groups d" "members (revoked E n p d) = members d"
  "partners_customers (revoked E n p d) = partners_customers d"
  "assessments (revoked E n p d) = assessments d"
  by (simp_all add: revoked_def)

lemma tuples_of_revoked:
  "tuples_of OwnerRelation (revoked E n p d) = tuples_of OwnerRelation d"
  "tuples_of MemberRelation (revoked E n p d) = tuples_of MemberRelation d"
  "tuples_of ViewerRelation (revoked E n p d) = tuples_of ViewerRelation d -
     {viewer_tuple E (a_id a) p | a. a \<in> set (assessments d) \<and> a_username a = n}"
  by (auto simp: tuples_of_def revoked_def)

lemma ending_keeps:
  assumes kept: "well_kept E d" and r: "r \<in> set (partners_customers d)"
    and accepted: "pc_request_status r = RequestStatusAccepted"
    and d': "d' = revoked E (pc_username r) (pc_partner_id r)
      (set_request (pc_id r) RequestStatusCancelled None None (Some now) d)"
  shows "well_kept E d' \<and> (well_linked E d \<longrightarrow> well_linked E d')"
proof -
  let ?d1 = "set_request (pc_id r) RequestStatusCancelled None None (Some now) d"
  have keyed: "well_keyed d" using kept by (simp add: well_kept_def)
  have kept1: "well_kept E ?d1"
    by (rule set_request_keeps [OF kept r]) (simp add: accepted active_status_def)
  then have "well_kept E d'"
    by (simp add: d' well_kept_def tuples_of_revoked well_keyed_def roles_exclusive_def
        owner_tuples_def has_active_request_def)
  moreover have "well_linked E d'" if linked: "well_linked E d"
  proof -
    have "tuples_of ViewerRelation d' \<subseteq> shared_tuples E d'"
    proof
      fix t
      assume "t \<in> tuples_of ViewerRelation d'"
      moreover have "tuples_of ViewerRelation d' = tuples_of ViewerRelation d -
          {viewer_tuple E (a_id a) (pc_partner_id r) | a. a \<in> set (assessments d) \<and> a_username a = pc_username r}"
        by (simp add: d' tuples_of_revoked) (simp add: tuples_of_def)
      ultimately have "t \<in> shared_tuples E d" and revoked: "\<not> (\<exists>a \<in> set (assessments d).
          a_username a = pc_username r \<and> t = viewer_tuple E (a_id a) (pc_partner_id r))"
        using linked by (auto simp: well_linked_def)
      then obtain a q where t: "t = viewer_tuple E (a_id a) q" "a \<in> set (assessments d)"
        and q: "(a_username a, q) \<in> accepted_pairs d"
        by (auto simp: shared_tuples_pairs)
      then have "(a_username a, q) \<in> accepted_pairs ?d1"
        using set_request_pairs(1) [OF keyed r] revoked by fast
      then have "(a_username a, q) \<in> accepted_pairs d'"
        by (simp add: d' accepted_pairs_def)
      with t show "t \<in> shared_tuples E d'"
        by (auto simp: shared_tuples_pairs d')
    qed
    with linked show ?thesis
      by (simp add: well_linked_def d' tuples_of_revoked member_tuples_def) (simp add: tuples_of_def)
  qed
  ultimately show ?thesis by simp
qed

lemma leave_partner_value:
  assumes "leave_partner_spec E u p d (Inr (a, d'))"
  shows "\<exists>r now. find_accepted d (u_username u) p = Some r \<and>
    d' = revoked E (u_username u) p (set_request (pc_id r) RequestStatusCancelled None None (Some now) d)"
  using assms by (cases "find_accepted d (u_username u) p")
    (auto simp: leave_partner_spec_def dest!: executes_value ended_value)

lemma remove_customer_value:
  assumes "remove_customer_spec E g name d (Inr (a, d'))"
  shows "\<exists>r now. find_accepted d name g = Some r \<and>
    d' = revoked E name g (set_request (pc_id r) RequestStatusCancelled None None (Some now) d)"
  using assms by (cases "find_accepted d name g")
    (auto simp: remove_customer_spec_def dest!: executes_value ended_value)

lemma authz_remove_customer_value:
  "authz_remove_customer_spec E u name d (Inr (a, d')) \<Longrightarrow>
     \<exists>g. partner_group (uuid_str E) d (u_username u) = Some g \<and>
       remove_customer_spec E g name d (Inr (a, d'))"
  by (cases "partner_group (uuid_str E) d (u_username u)";
      cases "first_by pc_id (accepted_requests d name)")
     (auto simp: authz_remove_customer_spec_def split: if_splits)

lemma ending_calls_keep:
  assumes "well_kept E d"
  shows "effect E u (LeavePartnerCall p) d d' \<Longrightarrow>
      well_kept E d' \<and> (well_linked E d \<longrightarrow> well_linked E d')"
    "effect E u (RemoveCustomerCall name) d d' \<Longrightarrow>
      well_kept E d' \<and> (well_linked E d \<longrightarrow> well_linked E d')"
proof -
  have ending: "well_kept E d' \<and> (well_linked E d \<longrightarrow> well_linked E d')"
    if "find_accepted d n q = Some r"
      "d' = revoked E n q (set_request (pc_id r) RequestStatusCancelled None None (Some now) d)"
    for n q r now d'
    using ending_keeps [OF assms, of r d' now] find_acceptedD [OF that(1)] that(2) by auto
  show "effect E u (LeavePartnerCall p) d d' \<Longrightarrow>
      well_kept E d' \<and> (well_linked E d \<longrightarrow> well_linked E d')"
    by (auto simp: succeeds_def guarded_def split: if_splits dest!: leave_partner_value dest: ending)
  show "effect E u (RemoveCustomerCall name) d d' \<Longrightarrow>
      well_kept E d' \<and> (well_linked E d \<longrightarrow> well_linked E d')"
    by (auto simp: succeeds_def dest!: authz_remove_customer_value remove_customer_value dest: ending)
qed

subsection \<open>The assessment requests keep them\<close>

lemma case_sum_iff:
  "(case r of Inl e \<Rightarrow> P e | Inr a \<Rightarrow> Q a) \<longleftrightarrow> (\<exists>e. r = Inl e \<and> P e) \<or> (\<exists>a. r = Inr a \<and> Q a)"
  "Inr x = (case r of Inl e \<Rightarrow> Inl (g e) | Inr a \<Rightarrow> h a) \<longleftrightarrow> (\<exists>a. r = Inr a \<and> Inr x = h a)"
  by (cases r; simp)+

lemma prepared_fields:
  "prepared E f d (Inr a) \<Longrightarrow> as_id a = cf_id f \<and> as_username a = cf_username f"
  by (auto simp: prepared_def source_inventories_def case_sum_iff split: if_splits option.splits)

lemma created_value:
  assumes "created E a0 d (Inr (a, d'))"
  shows "\<exists>row rs. insert_assessment row rs d = Inr d' \<and> a_id row = as_id a0 \<and>
    a_username row = as_username a0 \<and> as_id a = as_id a0"
proof -
  obtain row rs now where "assessment_to_store E a0 = Inr (row, rs)"
    and ins: "insert_assessment (stamp_assessment now row) (map (stamp_inventory now) rs) d = Inr d'"
    and "describes a (stamp_assessment now row)"
    using assms by (auto simp: created_def case_sum_iff)
  then have "a_id (stamp_assessment now row) = as_id a0" "a_username (stamp_assessment now row) = as_username a0"
    "as_id a = as_id a0"
    by (auto simp: assessment_to_store_def describes_def stamp_assessment_def split: sum.splits)
  with ins show ?thesis by blast
qed

lemma create_assessment_effect:
  assumes "effect E u (CreateAssessmentCall f) d d'"
  shows "\<exists>row rs d1. insert_assessment row rs d = Inr d1 \<and> a_username row = cf_username f \<and>
    d' = owned_by E (a_id row) u d1"
proof -
  obtain a d1 a0 where d': "d' = owned_by E (as_id a) u d1" and "prepared E f d (Inr a0)"
    and "created E a0 d (Inr (a, d1))"
    using assms by (auto simp: succeeds_def authz_create_spec_def create_assessment_spec_def case_sum_iff)
  with created_value prepared_fields show ?thesis by metis
qed

definition assessment_owners :: "db \<Rightarrow> (uuid \<times> string) set" where
  "assessment_owners d = (\<lambda>a. (a_id a, a_username a)) ` set (assessments d)"

lemma shared_tuples_owners:
  "shared_tuples E d = {viewer_tuple E i q | i n q. (i, n) \<in> assessment_owners d \<and> (n, q) \<in> accepted_pairs d}"
  by (auto simp: shared_tuples_pairs assessment_owners_def)

lemma owner_tuples_owners: "owner_tuples E d = (\<lambda>(i, n). owner_tuple E i n) ` assessment_owners d"
  by (auto simp: owner_tuples_def assessment_owners_def)

lemma shared_tuples_mono:
  assumes "assessment_owners d \<subseteq> assessment_owners d'" "accepted_pairs d \<subseteq> accepted_pairs d'"
  shows "shared_tuples E d \<subseteq> shared_tuples E d'"
  using assms unfolding shared_tuples_owners by fast

lemma accepted_pairs_cong: "partners_customers d' = partners_customers d \<Longrightarrow> accepted_pairs d' = accepted_pairs d"
  by (simp add: accepted_pairs_def)

lemma relations_change:
  "well_kept E (d\<lparr>relations := rs\<rparr>) \<longleftrightarrow> well_keyed d \<and> roles_exclusive d \<and>
     {r \<in> set rs. r_relation r = OwnerRelation} = owner_tuples E d"
  "well_linked E (d\<lparr>relations := rs\<rparr>) \<longleftrightarrow>
     {r \<in> set rs. r_relation r = MemberRelation} = member_tuples E d \<and>
     {r \<in> set rs. r_relation r = ViewerRelation} \<subseteq> shared_tuples E d"
  by (simp_all add: well_kept_def well_linked_def well_keyed_def roles_exclusive_def has_active_request_def
      tuples_of_def owner_tuples_def member_tuples_def shared_tuples_def accepted_requests_def)

lemma create_assessment_keeps:
  assumes kept: "well_kept E d" and owner: "cf_username f = u_username u"
    and "effect E u (CreateAssessmentCall f) d d'"
  shows "well_kept E d' \<and> (well_linked E d \<longrightarrow> well_linked E d')"
proof -
  obtain row rs d1 where ins: "insert_assessment row rs d = Inr d1" and row: "a_username row = u_username u"
    and d': "d' = owned_by E (a_id row) u d1"
    using create_assessment_effect [OF assms(3)] owner by auto
  have fresh: "a_id row \<notin> a_id ` set (assessments d)" and assessments: "assessments d' = assessments d @ [row]"
    and rest: "groups d' = groups d" "members d' = members d" "partners_customers d' = partners_customers d"
    and rels: "set (relations d') = insert (owner_tuple E (a_id row) (u_username u)) (set (relations d))"
    using ins by (auto simp: d' owned_by_def insert_assessment_def split: if_splits)
  then have "shared_tuples E d \<subseteq> shared_tuples E d'"
    by (intro shared_tuples_mono) (auto simp: assessment_owners_def accepted_pairs_def)
  moreover have "owner_tuples E d' = insert (owner_tuple E (a_id row) (u_username u)) (owner_tuples E d)"
    using row by (simp add: owner_tuples_def assessments)
  ultimately show ?thesis
    using kept fresh rest
    by (auto simp: well_kept_def well_linked_def well_keyed_def roles_exclusive_def assessments
        has_active_request_def tuples_of_insert [OF rels] member_tuples_def)
qed

lemma update_columns_map:
  assumes "update_assessment_columns i n t d = Inr d'"
  shows "\<exists>f. d' = d\<lparr>assessments := map f (assessments d)\<rparr> \<and>
    (\<forall>r. a_id (f r) = a_id r \<and> a_username (f r) = a_username r)"
proof -
  define f where "f r = (if a_id r = i then r\<lparr>a_name := if n = [] then a_name r else n, a_updated_at := t\<rparr>
    else r)" for r :: assessment_row
  have "d' = d\<lparr>assessments := map f (assessments d)\<rparr>"
    using assms by (auto simp: update_assessment_columns_def f_def [abs_def] split: if_splits)
  then show ?thesis
    by (intro exI [of _ f]) (simp add: f_def)
qed

lemma update_assessment_keeps:
  assumes kept: "well_kept E d" and "effect E u (UpdateAssessmentCall i name) d d'"
  shows "well_kept E d' \<and> (well_linked E d \<longrightarrow> well_linked E d')"
proof -
  obtain stored d1 n now now' where ins: "if stored = [] then d1 = d
      else insert_inventory_rows (map (stamp_inventory now) stored) d = Inr d1"
    and upd: "update_assessment_columns i n (Some now') d1 = Inr d'"
    using assms(2) unfolding effect.simps assessment_updated_def by blast
  have d1: "groups d1 = groups d" "members d1 = members d" "relations d1 = relations d"
    "partners_customers d1 = partners_customers d" "assessments d1 = assessments d"
    using ins by (auto simp: insert_inventory_rows_def split: if_splits)
  obtain f where d': "d' = d1\<lparr>assessments := map f (assessments d1)\<rparr>"
    and f: "a_id (f r) = a_id r" "a_username (f r) = a_username r" for r
    using update_columns_map [OF upd] by blast
  have "assessment_owners d' = assessment_owners d" "accepted_pairs d' = accepted_pairs d"
    by (simp_all add: assessment_owners_def d' d1 f image_image accepted_pairs_def)
  then have "owner_tuples E d' = owner_tuples E d" "shared_tuples E d' = shared_tuples E d"
    by (simp_all add: owner_tuples_owners shared_tuples_owners)
  then show ?thesis
    using kept by (auto simp: well_kept_def well_linked_def well_keyed_def roles_exclusive_def
        has_active_request_def tuples_of_def member_tuples_def d' d1 f comp_def)
qed

lemma owner_tuple_eq:
  "uuid_codec E \<Longrightarrow> owner_tuple E a n = owner_tuple E b k \<longleftrightarrow> a = b \<and> n = k"
  "uuid_codec E \<Longrightarrow> viewer_tuple E a p = viewer_tuple E b q \<longleftrightarrow> a = b \<and> p = q"
  by (simp_all add: owner_tuple_def viewer_tuple_def uuid_str_inj)

lemma of_resource_tuple [simp]:
  assumes "uuid_codec E"
  shows "of_resource (new_assessment_resource (uuid_str E i)) (owner_tuple E a n) \<longleftrightarrow> a = i"
    "of_resource (new_assessment_resource (uuid_str E i)) (viewer_tuple E a p) \<longleftrightarrow> a = i"
    "\<not> of_resource (new_assessment_resource (uuid_str E i)) (member_tuple E gid n)"
  using assms
  by (auto simp: of_resource_def new_assessment_resource_def owner_tuple_def viewer_tuple_def
      member_tuple_def uuid_str_inj uuid_codec_def)

lemma delete_assessment_effect:
  "effect E u (DeleteAssessmentCall i) d d' \<Longrightarrow> d' = erased E i d"
  by (auto simp: succeeds_def with_permission_def authz_delete_spec_def case_sum_iff
      split: if_splits)

lemma delete_assessment_keeps:
  assumes kept: "well_kept E d" and codec: "uuid_codec E" and "effect E u (DeleteAssessmentCall i) d d'"
  shows "well_kept E d' \<and> (well_linked E d \<longrightarrow> well_linked E d')"
proof -
  let ?of = "of_resource (new_assessment_resource (uuid_str E i))"
  have d': "d' = erased E i d" by (rule delete_assessment_effect [OF assms(3)])
  have tables: "groups d' = groups d" "members d' = members d" "partners_customers d' = partners_customers d"
    "assessments d' = filter (\<lambda>r. a_id r \<noteq> i) (assessments d)"
    by (simp_all add: d' erased_def without_assessment_def)
  have tuples: "tuples_of rel d' = tuples_of rel d - {r. ?of r}" for rel
    by (auto simp: tuples_of_def d' erased_def)
  have owners: "assessment_owners d' = {x \<in> assessment_owners d. fst x \<noteq> i}"
  proof -
    have owners_list: "assessment_owners e = set (map (\<lambda>a. (a_id a, a_username a)) (assessments e))" for e
      by (simp add: assessment_owners_def)
    have "{x \<in> assessment_owners d. fst x \<noteq> i} =
        set (filter (\<lambda>x. fst x \<noteq> i) (map (\<lambda>a. (a_id a, a_username a)) (assessments d)))"
      by (simp only: owners_list set_filter)
    also have "\<dots> = assessment_owners d'"
      by (simp only: owners_list tables filter_map comp_def fst_conv)
    finally show ?thesis by (rule sym)
  qed
  have owner: "owner_tuples E d' = owner_tuples E d - {r. ?of r}"
  proof -
    have of: "?of (owner_tuple E j n) \<longleftrightarrow> j = i" for j n
      by (rule of_resource_tuple(1) [OF codec])
    have "owner_tuples E d' = {owner_tuple E j n | j n. (j, n) \<in> assessment_owners d \<and> j \<noteq> i}"
      unfolding owner_tuples_owners owners by (rule set_eqI) (simp add: image_iff Bex_def conj_commute conj_left_commute)
    also have "\<dots> = {owner_tuple E j n | j n. (j, n) \<in> assessment_owners d \<and> \<not> ?of (owner_tuple E j n)}"
      by (simp only: of)
    also have "\<dots> = owner_tuples E d - {r. ?of r}"
      unfolding owner_tuples_owners by auto
    finally show ?thesis .
  qed
  have shared: "shared_tuples E d - {r. ?of r} \<subseteq> shared_tuples E d'"
  proof
    fix t
    assume "t \<in> shared_tuples E d - {r. ?of r}"
    then obtain j n q where "t = viewer_tuple E j q" "(j, n) \<in> assessment_owners d"
      "(n, q) \<in> accepted_pairs d" "j \<noteq> i"
      using of_resource_tuple(2) [OF codec] by (auto simp: shared_tuples_owners)
    then show "t \<in> shared_tuples E d'"
      by (auto simp: shared_tuples_owners owners accepted_pairs_cong [OF tables(3)])
  qed
  have member: "member_tuples E d' = member_tuples E d" "r \<in> member_tuples E d \<Longrightarrow> \<not> ?of r" for r
    using of_resource_tuple(3) [OF codec] by (auto simp: member_tuples_def tables)
  have "well_keyed d'" "roles_exclusive d'"
    using kept by (auto simp: well_kept_def well_keyed_def roles_exclusive_def tables
        has_active_request_def intro: distinct_map_filter)
  then have "well_kept E d'"
    using kept by (simp add: well_kept_def tuples owner)
  moreover have "well_linked E d'" if "well_linked E d"
    using that shared member unfolding well_linked_def tuples by blast
  ultimately show ?thesis by simp
qed

text \<open>Only the owner of an assessment shares it, and only with a partner who accepted the owner.\<close>

lemma well_kept_owner:
  assumes kept: "well_kept E d" and codec: "uuid_codec E"
    and perm: "permits d n AssessmentResource (uuid_str E i) p" "p \<noteq> ReadPermission"
  shows "\<exists>a \<in> set (assessments d). a_id a = i \<and> a_username a = n"
proof -
  obtain r where "r \<in> set (relations d)" "r_relation r = OwnerRelation" "r_resource_id r = uuid_str E i"
    and r: "direct_row n AssessmentResource r \<or> indirect_row d n AssessmentResource r"
    using perm by (auto simp: permits_def related_def relation_permissions_iff)
  then have "r \<in> owner_tuples E d"
    using kept by (auto simp: well_kept_def tuples_of_def)
  then show ?thesis
    using r \<open>r_resource_id r = uuid_str E i\<close> codec
    by (auto simp: owner_tuples_def owner_tuple_def direct_row_def indirect_row_def uuid_str_inj)
qed

lemma sharing_effect:
  assumes "succeeds (with_permission E u i SharePermission (sharing_spec E u i change)) d d'"
  shows "permission_granted E u i SharePermission d \<and>
    (\<exists>p \<in> set (accepted_requests d (u_username u)). d' = change (pc_partner_id p) d)"
  using assms
  by (auto simp: succeeds_def with_permission_def sharing_spec_def lookup_spec_def
      split: if_splits)

lemma sharing_calls_keep:
  assumes kept: "well_kept E d" and codec: "uuid_codec E"
  shows "effect E u (ShareAssessmentCall i) d d' \<Longrightarrow>
      well_kept E d' \<and> (well_linked E d \<longrightarrow> well_linked E d')"
    "effect E u (UnshareAssessmentCall i) d d' \<Longrightarrow>
      well_kept E d' \<and> (well_linked E d \<longrightarrow> well_linked E d')"
proof -
  have distinct: "viewer_tuple E i p \<notin> owner_tuples E d" "viewer_tuple E i p \<notin> member_tuples E d" for p
    by (auto simp: owner_tuples_def member_tuples_def)
  show "well_kept E d' \<and> (well_linked E d \<longrightarrow> well_linked E d')"
    if change: "effect E u (ShareAssessmentCall i) d d'"
  proof -
    obtain p where granted: "permission_granted E u i SharePermission d"
      and p: "p \<in> set (accepted_requests d (u_username u))" and d': "d' = share_with E i (pc_partner_id p) d"
      using sharing_effect [of E u i "share_with E i" d d'] change by auto
    obtain a where "a \<in> set (assessments d)" "a_id a = i" "a_username a = u_username u"
      using well_kept_owner [OF kept codec, of "u_username u" i SharePermission] granted
      by (auto simp: permission_granted_def permitted_def)
    then have "viewer_tuple E i (pc_partner_id p) \<in> shared_tuples E d"
      using p unfolding shared_tuples_def by (intro CollectI exI [of _ a] exI [of _ p]) simp
    moreover have "{r \<in> set (insert_ignore [viewer_tuple E i (pc_partner_id p)] (relations d)). r_relation r = rel} =
        (if rel = ViewerRelation then insert (viewer_tuple E i (pc_partner_id p)) (tuples_of rel d)
         else tuples_of rel d)" for rel
      by (auto simp: tuples_of_def)
    ultimately show ?thesis
      using kept unfolding d' share_with_def relations_change by (simp add: well_kept_def well_linked_def)
  qed
  show "well_kept E d' \<and> (well_linked E d \<longrightarrow> well_linked E d')"
    if change: "effect E u (UnshareAssessmentCall i) d d'"
  proof -
    have "\<exists>p :: partner_customer. d' = unshare_with E i (pc_partner_id p) d"
      using sharing_effect [OF change [unfolded effect.simps]] by blast
    then obtain p :: partner_customer where d': "d' = unshare_with E i (pc_partner_id p) d" ..
    have "{r \<in> set (filter (\<lambda>r. r \<noteq> viewer_tuple E i (pc_partner_id p)) (relations d)). r_relation r = rel} =
        tuples_of rel d - {viewer_tuple E i (pc_partner_id p)}" for rel
      by (auto simp: tuples_of_def)
    then show ?thesis
      using kept distinct [of "pc_partner_id p"] unfolding d' unshare_with_def relations_change
      by (auto simp: well_kept_def well_linked_def)
  qed
qed

subsection \<open>All requests keep them\<close>

lemma effect_invariants:
  assumes codec: "uuid_codec E" and valid: "valid_call u call" and kept: "well_kept E d"
    and effect: "effect E u call d d'"
  shows "well_kept E d' \<and> (keeps_groups u call \<longrightarrow> well_linked E d \<longrightarrow> well_linked E d')"
proof (cases call)
  case (CreateGroupCall g)
  with valid effect show ?thesis
    using group_calls_keep(1) [OF kept, of g u d'] by (simp del: effect.simps)
next
  case (UpdateGroupCall g)
  with effect show ?thesis
    using group_calls_keep(2) [OF kept, of u g d'] by (simp del: effect.simps)
next
  case (DeleteGroupCall i)
  with effect show ?thesis
    using group_calls_keep(3) [OF kept, of u i d'] by (simp del: effect.simps)
next
  case (CreateMemberCall m)
  with effect show ?thesis
    using member_calls_keep(1) [OF kept codec, of u m d'] by (simp del: effect.simps)
next
  case (UpdateMemberCall gid name m)
  with effect show ?thesis
    using member_calls_keep(2) [OF kept codec, of u gid name m d'] by (simp del: effect.simps)
next
  case (RemoveMemberCall gid name)
  with effect show ?thesis
    using member_calls_keep(3) [OF kept codec, of u gid name d'] by (simp del: effect.simps)
next
  case (CreateRequestCall p pc)
  with effect show ?thesis
    using create_request_keeps [OF kept, of u p pc d'] by (simp del: effect.simps)
next
  case (CancelRequestCall i)
  with effect show ?thesis
    using request_calls_keep(1) [OF kept, of u i d'] by (simp del: effect.simps)
next
  case (LeavePartnerCall p)
  with effect show ?thesis
    using ending_calls_keep(1) [OF kept, of u p d'] by (simp del: effect.simps)
next
  case (UpdateRequestCall i req)
  with effect show ?thesis
    using request_calls_keep(2) [OF kept, of u i req d'] by (simp del: effect.simps)
next
  case (RemoveCustomerCall name)
  with effect show ?thesis
    using ending_calls_keep(2) [OF kept, of u name d'] by (simp del: effect.simps)
next
  case (CreateAssessmentCall f)
  with valid effect show ?thesis
    using create_assessment_keeps [OF kept, of f u d'] by (simp del: effect.simps)
next
  case (UpdateAssessmentCall i name)
  with effect show ?thesis
    using update_assessment_keeps [OF kept, of u i name d'] by (simp del: effect.simps)
next
  case (DeleteAssessmentCall i)
  with effect show ?thesis
    using delete_assessment_keeps [OF kept codec, of u i d'] by (simp del: effect.simps)
next
  case (ShareAssessmentCall i)
  with effect show ?thesis
    using sharing_calls_keep(1) [OF kept codec, of u i d'] by (simp del: effect.simps)
next
  case (UnshareAssessmentCall i)
  with effect show ?thesis
    using sharing_calls_keep(2) [OF kept codec, of u i d'] by (simp del: effect.simps)
qed

lemma keeps_groups_valid: "keeps_groups u call \<Longrightarrow> valid_call u call"
  by (cases call) simp_all

lemma reachable_well_kept:
  "uuid_codec E \<Longrightarrow> well_kept E d0 \<Longrightarrow> reachable E valid_call d0 d \<Longrightarrow> well_kept E d"
  by (erule reachable_invariant) (auto dest: effect_invariants)

lemma reachable_well_linked:
  assumes "uuid_codec E" "well_kept E d0" "well_linked E d0" "reachable E keeps_groups d0 d"
  shows "well_kept E d \<and> well_linked E d"
  using assms(4)
  by (rule reachable_invariant)
     (use assms(1-3) effect_invariants keeps_groups_valid in blast)+

end
