(* ===== verification/Scenario.thy ===== *)
theory Scenario
  imports AccessControl
begin

text \<open>
  A concrete deployment for the witnesses: an environment without failures, a partner group with
  one member, a customer of the partner who owns an assessment, and an administrator.
\<close>

definition demo_uuid_str :: "uuid \<Rightarrow> string" where
  "demo_uuid_str i = replicate (Suc (unat i)) (CHR ''x'')"

definition demo_uuid_parse :: "string \<Rightarrow> uuid option" where
  "demo_uuid_parse s = (if s = [] then None else Some (of_nat (length s - 1)))"

definition demo_env :: env where
  "demo_env = \<lparr>fault = (\<lambda>_. False), order = (\<lambda>_ n. [0..<n]), clock = (\<lambda>t. int t + 1),
     fresh = (\<lambda>t. 100 + of_nat t), uuid_str = demo_uuid_str, uuid_parse = demo_uuid_parse,
     iam_user_org = (\<lambda>_. Inr ''org''), iam_account = (\<lambda>_. Inr ([], [])),
     json_marshal = (\<lambda>_. Inr ''{}''), json_marshal_data = (\<lambda>_. Inr ''{}''),
     json_unmarshal = (\<lambda>_. Inr zero_inventory), json_unmarshal_data = (\<lambda>_. Inl (OtherError (''v1'', []))),
     json_keys = (\<lambda>_. Inr [''clusters''])\<rparr>"

definition faulty_env :: env where
  "faulty_env = demo_env\<lparr>fault := (\<lambda>_. True)\<rparr>"

definition demo_user :: "string \<Rightarrow> user" where
  "demo_user n = \<lparr>u_username = n, u_organization = ''org'', u_first_name = [], u_last_name = []\<rparr>"

definition demo_group :: "uuid \<Rightarrow> string \<Rightarrow> string \<Rightarrow> group" where
  "demo_group i n k = \<lparr>g_id = i, g_created_at = 1, g_updated_at = None, g_name = n, g_description = [],
     g_kind = k, g_icon = [], g_company = ''acme'', g_parent_id = None\<rparr>"

definition demo_member :: "uuid \<Rightarrow> string \<Rightarrow> uuid \<Rightarrow> member" where
  "demo_member i n g = \<lparr>m_id = i, m_created_at = 1, m_updated_at = None, m_username = n,
     m_email = n @ ''@acme.com'', m_group_id = g, m_org_id = ''org''\<rparr>"

definition demo_request :: "uuid \<Rightarrow> string \<Rightarrow> uuid \<Rightarrow> string \<Rightarrow> partner_customer" where
  "demo_request i n g st = \<lparr>pc_id = i, pc_username = n, pc_username_org_id = ''org'',
     pc_partner_id = demo_uuid_str g, pc_request_status = st, pc_name = n, pc_contact_name = n,
     pc_contact_phone = [], pc_email = [], pc_location = [], pc_reason = None,
     pc_accepted_at = Some 1, pc_terminated_at = None, pc_created_at = 1\<rparr>"

definition demo_assessment :: "uuid \<Rightarrow> string \<Rightarrow> assessment_row" where
  "demo_assessment i n = \<lparr>a_id = i, a_created_at = 1, a_updated_at = None, a_name = ''a'',
     a_org_id = ''org'', a_username = n, a_owner_first_name = None, a_owner_last_name = None,
     a_source_type = SourceTypeRvtools, a_source_id = None\<rparr>"

text \<open>\<open>ann\<close> administers; \<open>pat\<close> is a member of partner 1; \<open>cus\<close> is its customer and owns assessment 3.\<close>

definition demo_db :: db where
  "demo_db = empty_db\<lparr>
     groups := [demo_group 1 ''Partner'' ''partner'', demo_group 2 ''Admins'' ''admin''],
     members := [demo_member 1 ''pat'' 1, demo_member 2 ''ann'' 2],
     partners_customers := [demo_request 1 ''cus'' 1 RequestStatusAccepted],
     assessments := [demo_assessment 3 ''cus''],
     relations := [owner_tuple demo_env 3 ''cus'', member_tuple demo_env 1 ''pat'',
       member_tuple demo_env 2 ''ann'']\<rparr>"

definition demo_shared :: db where
  "demo_shared = committed (snd (serve demo_env (demo_user ''cus'') (ShareAssessmentCall 3) (start demo_db)))"

lemma demo_uuid_codec: "uuid_codec demo_env"
  by (simp add: uuid_codec_def demo_env_def demo_uuid_str_def demo_uuid_parse_def)

lemma shared_tuples_code [code]:
  "shared_tuples E d = (\<Union>a \<in> set (assessments d).
     (\<lambda>p. viewer_tuple E (a_id a) (pc_partner_id p)) ` set (accepted_requests d (a_username a)))"
  by (auto simp: shared_tuples_def)

lemma demo_invariants:
  "well_kept demo_env demo_db" "well_linked demo_env demo_db"
  by code_simp+

text \<open>One successful request, as a step of the transition system.\<close>

lemma serve_step:
  "serve E u call w = (r, w') \<Longrightarrow> P u call \<Longrightarrow> reachable E P (committed w) (committed w')"
  by (blast intro: reachable.intros api_step.intros)

lemma demo_share_succeeds:
  "fst (serve demo_env (demo_user ''cus'') (ShareAssessmentCall 3) (start demo_db)) = Inr ()"
  by code_simp

lemma reachable_demo_shared:
  "reachable demo_env keeps_groups demo_db demo_shared" "reachable demo_env valid_call demo_db demo_shared"
proof -
  let ?run = "serve demo_env (demo_user ''cus'') (ShareAssessmentCall 3) (start demo_db)"
  have run: "?run = (Inr (), snd ?run)"
    by (metis demo_share_succeeds prod.collapse)
  have start: "committed (start demo_db) = demo_db"
    by (simp add: start_def)
  show "reachable demo_env keeps_groups demo_db demo_shared" "reachable demo_env valid_call demo_db demo_shared"
    using serve_step [OF run, of keeps_groups] serve_step [OF run, of valid_call]
    by (simp_all add: start demo_shared_def)
qed

end
