(* ===== verification/SizerTypes.thy ===== *)
theory SizerTypes
  imports Execution Inventory "HOL-Library.Signed_Division"
begin

text \<open>
  The data of the cluster sizer: the request and the response of the external sizing service
  (\<open>internal/client/sizer.go\<close>), the forms of \<open>internal/service/mappers/inbound.go\<close> and
  \<open>standalone_sizer.go\<close>, and the constants and structures of \<open>internal/service/sizer.go\<close>.

  The numbers of the sizer are cores, gigabytes and counts; they are integers here, far from the
  limits of a 64-bit \<open>int\<close>, except where a \<open>float64\<close> is converted (\<open>int_of_float\<close>). An
  optional structure is an option.
\<close>

subsection \<open>The sizing service\<close>

record control_plane_reserved =
  cpr_cpu :: float64
  cpr_memory :: float64

record machine_set =
  ms_name :: string
  ms_cpu :: int
  ms_memory :: int
  ms_instance_name :: string
  ms_number_of_disks :: int
  ms_only_for :: "string list"
  ms_label :: string
  ms_allow_workload_scheduling :: "bool option"
  ms_control_plane_reserved :: "control_plane_reserved option"

record service_descriptor =
  sd_name :: string
  sd_required_cpu :: float64
  sd_required_memory :: float64
  sd_limit_cpu :: float64
  sd_limit_memory :: float64
  sd_zones :: int
  sd_runs_with :: "string list"
  sd_avoid :: "string list"

record workload =
  wl_name :: string
  wl_count :: int
  wl_uses_machines :: "string list"
  wl_services :: "service_descriptor list"

record sizer_request =
  sq_platform :: string
  sq_machine_sets :: "machine_set list"
  sq_workloads :: "workload list"
  sq_detailed :: bool

record resource_pair =
  rp_cpu :: float64
  rp_memory :: float64

record resource_consumption =
  rc_cpu :: float64
  rc_memory :: float64
  rc_limits :: "resource_pair option"
  rc_over_commit_ratio :: "resource_pair option"

record sizer_node =
  nd_node :: string
  nd_machine_set :: string
  nd_is_control_plane :: bool
  nd_services :: "string list"

record sizer_zone =
  zn_zone :: string
  zn_nodes :: "sizer_node list"

record sizer_data =
  dat_node_count :: int
  dat_zones :: int
  dat_total_cpu :: int
  dat_total_memory :: int
  dat_resource_consumption :: resource_consumption
  dat_advanced :: "sizer_zone list"

record sizer_response =
  sp_success :: bool
  sp_data :: sizer_data
  sp_error :: string

subsection \<open>Forms\<close>

record cluster_requirements_request =
  cr_cluster_id :: string
  cr_cluster_ids :: "string list option"
  cr_cpu_over_commit_ratio :: string
  cr_memory_over_commit_ratio :: string
  cr_worker_node_cpu :: int
  cr_worker_node_memory :: int
  cr_worker_node_threads :: "int option"
  cr_control_plane_schedulable :: "bool option"
  cr_control_plane_node_count :: "int option"
  cr_control_plane_cpu :: "int option"
  cr_control_plane_memory :: "int option"
  cr_hosted_control_plane :: "bool option"
  cr_compact_mode :: "bool option"

record standalone_request =
  st_total_vms :: int
  st_total_cpu :: int
  st_total_memory :: int
  st_cpu_over_commit_ratio :: string
  st_memory_over_commit_ratio :: string
  st_worker_node_cpu :: int
  st_worker_node_memory :: int
  st_worker_node_threads :: "int option"
  st_control_plane_schedulable :: "bool option"
  st_control_plane_node_count :: "int option"
  st_control_plane_cpu :: "int option"
  st_control_plane_memory :: "int option"
  st_hosted_control_plane :: "bool option"
  st_compact_mode :: "bool option"

record cluster_sizing_form =
  csf_total_nodes :: int
  csf_control_plane_nodes :: int
  csf_worker_nodes :: int
  csf_failover_nodes :: int
  csf_total_cpu :: int
  csf_total_memory :: int

record resource_consumption_form =
  rcf_cpu :: float64
  rcf_memory :: float64
  rcf_limits :: resource_pair
  rcf_over_commit_ratio :: resource_pair

subsection \<open>Structures of the service\<close>

record utilization_context =
  uc_cpu_multiplier :: float64
  uc_memory_multiplier :: float64
  uc_cpu_percent :: float64
  uc_memory_percent :: float64
  uc_confidence :: float64
  uc_has_data :: bool

record batched_service =
  bs_name :: string
  bs_required_cpu :: float64
  bs_required_memory :: float64
  bs_limit_cpu :: float64
  bs_limit_memory :: float64
  bs_vm_count :: int

record sizing_result =
  sr_total_nodes :: int
  sr_worker_nodes :: int
  sr_total_cpu :: int
  sr_total_memory :: int
  sr_effective_cpu :: float64
  sr_effective_memory :: float64
  sr_services :: "batched_service list"
  sr_resource_consumption :: resource_consumption

record transformed_response =
  tr_cluster_sizing :: cluster_sizing_form
  tr_resource_consumption :: resource_consumption_form

record cluster_requirements_params =
  cp_total_vms :: int
  cp_total_cpu :: int
  cp_total_memory :: int
  cp_worker_node_cpu :: int
  cp_worker_node_memory :: int
  cp_worker_node_threads :: "int option"
  cp_cpu_over_commit_ratio :: string
  cp_memory_over_commit_ratio :: string
  cp_control_plane_schedulable :: "bool option"
  cp_control_plane_cpu :: "int option"
  cp_control_plane_memory :: "int option"
  cp_control_plane_node_count :: int
  cp_hosted_control_plane :: bool
  cp_compact_mode :: bool

subsection \<open>Constants\<close>

definition TargetCapacityPercent :: rat where "TargetCapacityPercent = 80"

text \<open>A Go constant is exact; it is rounded where it becomes a \<open>float64\<close>.\<close>

definition CapacityMultiplier :: float64 where
  "CapacityMultiplier = round64 (TargetCapacityPercent / 100)"

definition DefaultPlatform :: string where "DefaultPlatform = ''BAREMETAL''"
definition MaxBatches :: int where "MaxBatches = 1000"
definition MinBatchCPU :: float64 where "MinBatchCPU = Finite 1"
definition MinBatchMemory :: float64 where "MinBatchMemory = Finite 2"
definition MaxNodeCount :: int where "MaxNodeCount = 100"
definition MaxVMsPerWorkerNode :: int where "MaxVMsPerWorkerNode = 200"
definition MachineSetNumberOfDisks :: int where "MachineSetNumberOfDisks = 24"
definition ControlPlaneReservedCPU :: rat where "ControlPlaneReservedCPU = 7 / 2"
definition ControlPlaneReservedMemory :: rat where "ControlPlaneReservedMemory = 1339 / 100"
definition MinFallbackNodeCPU :: int where "MinFallbackNodeCPU = 2"
definition MinFallbackNodeMemory :: int where "MinFallbackNodeMemory = 4"
definition MaxRecommendedNodeCPU :: int where "MaxRecommendedNodeCPU = 384"
definition MaxRecommendedNodeMemory :: int where "MaxRecommendedNodeMemory = 4096"
definition MinFailoverNodes :: int where "MinFailoverNodes = 2"
definition FailoverCapacityPercent :: float64 where "FailoverCapacityPercent = Finite 10"
definition defaultControlPlaneCPU :: int where "defaultControlPlaneCPU = 6"
definition defaultControlPlaneMemory :: int where "defaultControlPlaneMemory = 16"
definition defaultControlPlaneNodeCount :: int where "defaultControlPlaneNodeCount = 3"
definition defaultControlPlaneSchedulable :: bool where "defaultControlPlaneSchedulable = False"
definition defaultHostedControlPlane :: bool where "defaultHostedControlPlane = False"
definition defaultWorkerNodeThreads :: int where "defaultWorkerNodeThreads = 0"
definition MinConfidenceThreshold :: float64 where "MinConfidenceThreshold = Finite 50"

lemmas sizer_constants =
  MaxBatches_def MaxNodeCount_def MaxVMsPerWorkerNode_def MinFallbackNodeCPU_def
  MinFallbackNodeMemory_def MaxRecommendedNodeCPU_def MaxRecommendedNodeMemory_def
  MinFailoverNodes_def

text \<open>A formatted request error; a float argument is kept as its exact value.\<close>

definition invalid_request :: "errmsg \<Rightarrow> error" where
  "invalid_request m = ErrInvalidRequest m"

fun float_text :: "float64 \<Rightarrow> string" where
  "float_text (Finite x) = (case quotient_of x of (p, q) \<Rightarrow> itoa p @ ''/'' @ itoa q)"
| "float_text (Infinite b) = (if b then ''+Inf'' else ''-Inf'')"
| "float_text NaN = ''NaN''"

end
