(* ===== verification/SizerBatching.thy ===== *)
theory SizerBatching
  imports SizerTypes
begin

text \<open>
  The arithmetic of \<open>internal/service/sizer.go\<close>: the effective cores of a node, the batching of
  virtual machines into services, the avoid lists that bound the machines on a node, the
  failover nodes and the recommended node sizes. Floating point operations are those of
  \<open>Float64\<close>.
\<close>

subsection \<open>Over-commitment and effective cores\<close>

text \<open>A helper whose error is only ever wrapped or quoted returns the error's message.\<close>

definition get_cpu_over_commit_multiplier :: "string \<Rightarrow> errmsg + float64" where
  "get_cpu_over_commit_multiplier ratio =
     (case map_of [(''1:1'', 1), (''1:2'', 2), (''1:4'', 4), (''1:6'', 6), (''1:8'', 8)] ratio of
        None \<Rightarrow> Inl (''unknown CPU over-commit ratio %q'', [ratio])
      | Some m \<Rightarrow> Inr (Finite m))"

definition get_memory_over_commit_multiplier :: "string \<Rightarrow> errmsg + float64" where
  "get_memory_over_commit_multiplier ratio =
     (case map_of [(''1:1'', 1), (''1:2'', 2), (''1:4'', 4)] ratio of
        None \<Rightarrow> Inl (''unknown memory over-commit ratio %q'', [ratio])
      | Some m \<Rightarrow> Inr (Finite m))"

definition calculate_effective_cpu :: "int \<Rightarrow> int \<Rightarrow> float64" where
  "calculate_effective_cpu physical_cores threads =
     (if physical_cores \<le> 0 then Finite 0
      else if threads = 0 \<or> threads = physical_cores then float_of_int physical_cores
      else if threads < physical_cores then float_of_int physical_cores
      else let smt_threads = float_of_int (threads - physical_cores)
           in fadd (float_of_int physical_cores) (fmul smt_threads (Finite (1 / 2))))"

definition calculate_failover_nodes :: "int \<Rightarrow> int" where
  "calculate_failover_nodes worker_nodes =
     (if worker_nodes = 0 then 0
      else let percentage_based = int_of_float (fceil
                 (fdiv (fmul (float_of_int worker_nodes) FailoverCapacityPercent) (Finite 100)))
           in max MinFailoverNodes percentage_based)"

definition calculate_minimum_node_size ::
    "int \<Rightarrow> int \<Rightarrow> int \<Rightarrow> float64 \<Rightarrow> float64 \<Rightarrow> int \<times> int" where
  "calculate_minimum_node_size inventory_cpu inventory_memory max_count capacity_multiplier smt_multiplier =
     (if max_count \<le> 0 \<or> fle capacity_multiplier (Finite 0) \<or> fle smt_multiplier (Finite 0)
      then (MinFallbackNodeCPU, MinFallbackNodeMemory)
      else
        let denominator = fmul (float_of_int max_count) capacity_multiplier;
            min_effective_cpu = fdiv (float_of_int inventory_cpu) denominator;
            cpu = int_of_float (fceil (fdiv min_effective_cpu smt_multiplier));
            memory = int_of_float (fceil (fdiv (float_of_int inventory_memory) denominator));
            cpu = int_of_float (fmul (fceil (fdiv (float_of_int cpu) (Finite 2))) (Finite 2));
            memory = int_of_float (fmul (fceil (fdiv (float_of_int memory) (Finite 4))) (Finite 4));
            cpu = (if cpu < MinFallbackNodeCPU then MinFallbackNodeCPU else cpu);
            memory = (if memory < MinFallbackNodeMemory then MinFallbackNodeMemory else memory);
            cpu = (if cpu > MaxRecommendedNodeCPU then MaxRecommendedNodeCPU else cpu);
            memory = (if memory > MaxRecommendedNodeMemory then MaxRecommendedNodeMemory else memory)
        in (cpu, memory))"

definition format_node_size_error :: "int \<Rightarrow> int \<Rightarrow> int \<Rightarrow> int \<Rightarrow> int \<Rightarrow> int \<Rightarrow> error" where
  "format_node_size_error worker_cpu worker_memory inventory_cpu inventory_memory min_cpu min_memory =
     invalid_request
       (''worker node size (%d CPU / %d GB) is too small for this inventory (%d CPU / %d GB). Please use larger worker nodes (recommended: at least %d CPU / %d GB)'',
        map itoa [worker_cpu, worker_memory, inventory_cpu, inventory_memory, min_cpu, min_memory])"

subsection \<open>Batching\<close>

text \<open>The number of batches, before and after the minimum batch size is enforced.\<close>

definition batch_count ::
    "float64 \<Rightarrow> float64 \<Rightarrow> int \<Rightarrow> float64 \<Rightarrow> int \<Rightarrow> float64 \<Rightarrow> int" where
  "batch_count total_cpu total_memory total_vms worker_cpu worker_memory capacity_multiplier =
     (let target_cpu = fmul worker_cpu capacity_multiplier;
          target_memory = fmul (float_of_int worker_memory) capacity_multiplier;
          batches_cpu = int_of_float (fceil (fdiv total_cpu target_cpu));
          batches_memory = int_of_float (fceil (fdiv total_memory target_memory));
          min_batches = (if 0 < total_vms \<and> 0 < MaxVMsPerWorkerNode
            then int_of_float (fceil (fdiv (float_of_int total_vms) (float_of_int MaxVMsPerWorkerNode)))
            else 1);
          n = max (max batches_cpu batches_memory) min_batches;
          n = (if n < 1 then 1 else n)
      in if 0 < total_vms \<and> n > total_vms then total_vms else n)"

definition enforce_minimum_batch :: "float64 \<Rightarrow> float64 \<Rightarrow> int \<Rightarrow> int \<Rightarrow> int" where
  "enforce_minimum_batch total_cpu total_memory total_vms n =
     (if flt (fdiv total_cpu (float_of_int n)) MinBatchCPU \<or>
         flt (fdiv total_memory (float_of_int n)) MinBatchMemory
      then let from_cpu = int_of_float (fceil (fdiv total_cpu MinBatchCPU));
               from_memory = int_of_float (fceil (fdiv total_memory MinBatchMemory));
               min_batches = (if 0 < total_vms \<and> 0 < MaxVMsPerWorkerNode
                 then int_of_float (fceil (fdiv (float_of_int total_vms) (float_of_int MaxVMsPerWorkerNode)))
                 else 1);
               m = max (max from_cpu from_memory) min_batches
           in if m < 1 then 1 else m
      else n)"

definition batch_name :: "nat \<Rightarrow> string" where
  "batch_name i = ''vms-batch-'' @ itoa (int i + 1) @ ''-services''"

text \<open>Go's integer division and remainder truncate toward zero.\<close>

definition make_batch ::
    "int \<Rightarrow> int \<Rightarrow> float64 \<Rightarrow> float64 \<Rightarrow> float64 \<Rightarrow> float64 \<Rightarrow> nat \<Rightarrow> batched_service" where
  "make_batch total_vms n required_cpu required_memory limit_cpu limit_memory i =
     \<lparr>bs_name = batch_name i, bs_required_cpu = required_cpu, bs_required_memory = required_memory,
      bs_limit_cpu = limit_cpu, bs_limit_memory = limit_memory,
      bs_vm_count = (if int i < total_vms smod n then total_vms sdiv n + 1 else total_vms sdiv n)\<rparr>"

definition aggregate_vms_into_services ::
    "float64 \<Rightarrow> float64 \<Rightarrow> int \<Rightarrow> float64 \<Rightarrow> int \<Rightarrow> string \<Rightarrow> string \<Rightarrow> float64 \<Rightarrow>
     errmsg + batched_service list" where
  "aggregate_vms_into_services total_cpu total_memory total_vms worker_cpu worker_memory
       cpu_ratio memory_ratio capacity_multiplier =
     (if fle worker_cpu (Finite 0) \<or> worker_memory \<le> 0
      then Inl (''worker node size must be greater than zero: CPU=%.2f, Memory=%d'',
             [float_text worker_cpu, itoa worker_memory])
      else if total_vms = 0 then Inr []
      else
        let n = batch_count total_cpu total_memory total_vms worker_cpu worker_memory capacity_multiplier
        in if n > MaxBatches
           then Inl
             (''cluster has too many VMs (%d) to size within constraints (max %d VMs per node, max %d batches). This inventory exceeds the sizing limits'',
              map itoa [total_vms, MaxVMsPerWorkerNode, MaxBatches])
           else
             let n = enforce_minimum_batch total_cpu total_memory total_vms n;
                 limit_cpu = fdiv total_cpu (float_of_int n);
                 limit_memory = fdiv total_memory (float_of_int n)
             in case get_cpu_over_commit_multiplier cpu_ratio of Inl e \<Rightarrow> Inl e | Inr cm \<Rightarrow>
                (case get_memory_over_commit_multiplier memory_ratio of Inl e \<Rightarrow> Inl e | Inr mm \<Rightarrow>
                   Inr (map (make_batch total_vms n (fdiv limit_cpu cm) (fdiv limit_memory mm)
                              limit_cpu limit_memory) [0..<nat n])))"

subsection \<open>Avoid lists\<close>

definition max_vms_per_batch :: "batched_service list \<Rightarrow> int" where
  "max_vms_per_batch services =
     foldl (\<lambda>m s. if bs_vm_count s > m then bs_vm_count s else m) 0 services"

definition services_per_node :: "batched_service list \<Rightarrow> int" where
  "services_per_node services =
     (let n = MaxVMsPerWorkerNode sdiv max_vms_per_batch services;
          n = (if n < 1 then 1 else n)
      in if n > int (length services) then int (length services) else n)"

definition build_service_avoid_lists :: "batched_service list \<Rightarrow> string list list" where
  "build_service_avoid_lists services =
     (if services = [] then []
      else if max_vms_per_batch services = 0 then replicate (length services) []
      else let k = services_per_node services in
           map (\<lambda>i. map (\<lambda>j. bs_name (services ! j))
                      (filter (\<lambda>j. j \<noteq> i \<and> int j sdiv k \<noteq> int i sdiv k) [0..<length services]))
             [0..<length services])"

subsection \<open>What the arithmetic computes\<close>

lemma float_of_small [simp]:
  "float_of_int 2 = Finite 2" "float_of_int 100 = Finite 100" "float_of_int 200 = Finite 200"
  "float_of_int 1 = Finite 1"
  using float_of_int_exact [of 2] float_of_int_exact [of 100] float_of_int_exact [of 200]
    float_of_int_exact [of 1] by simp_all

lemma sdiv_nonneg: "0 \<le> a \<Longrightarrow> 0 < b \<Longrightarrow> a sdiv b = a div b" for a b :: int
  by (cases "a = 0") (simp_all add: signed_divide_int_def)

lemma smod_nonneg: "0 \<le> a \<Longrightarrow> 0 < b \<Longrightarrow> a smod b = a mod b" for a b :: int
  by (cases "a = 0") (simp_all add: signed_modulo_int_def signed_divide_int_def minus_div_mult_eq_mod)

lemma fmul_of_int: "\<bar>a\<bar> < 2 ^ 53 \<Longrightarrow> \<bar>b\<bar> < 2 ^ 53 \<Longrightarrow> \<bar>a * b\<bar> < 2 ^ 53 \<Longrightarrow>
  fmul (float_of_int a) (float_of_int b) = float_of_int (a * b)"
  by (simp add: flip: of_int_mult)

lemma failover_eq:
  assumes "0 \<le> w" "w < 2 ^ 49"
  shows "calculate_failover_nodes w = (if w = 0 then 0 else max 2 (- (- w div 10)))"
proof -
  have "fmul (float_of_int w) FailoverCapacityPercent = float_of_int (w * 10)"
    using fmul_of_int [of w 10] float_of_int_exact [of 10] assms
    by (simp add: FailoverCapacityPercent_def)
  then have "int_of_float (fceil (fdiv (fmul (float_of_int w) FailoverCapacityPercent) (Finite 100))) =
      - (- (w * 10) div 100)"
    using int_ceil_quotient [of "w * 10" 100] assms by simp
  also have "- (w * 10) div 100 = - w div 10"
    using div_mult_mult2 [of 10 "- w" 10] by simp
  finally show ?thesis
    by (simp add: calculate_failover_nodes_def Let_def MinFailoverNodes_def)
qed

text \<open>The sizes a request is told to use are even, a multiple of four, and within the limits.\<close>

lemma rounded_up_multiple:
  assumes "n = int_of_float (fmul (fceil x) (Finite (of_int k)))" "0 < n" "n < 2 ^ 52"
  shows "k dvd n"
proof (cases x)
  case (Finite q)
  then show ?thesis
    using small_product [of "\<lceil>q\<rceil>" k n] assms by simp
qed (use assms in \<open>auto split: if_splits\<close>)

lemma minimum_node_size_bounds:
  assumes "calculate_minimum_node_size cpu memory n cm smt = (c, m)"
  shows "2 \<le> c \<and> c \<le> 384 \<and> 2 dvd c \<and> 4 \<le> m \<and> m \<le> 4096 \<and> 4 dvd m"
proof (cases "n \<le> 0 \<or> fle cm (Finite 0) \<or> fle smt (Finite 0)")
  case False
  let ?d = "fmul (float_of_int n) cm"
  define c1 where "c1 = int_of_float (fmul (fceil (fdiv (float_of_int
    (int_of_float (fceil (fdiv (fdiv (float_of_int cpu) ?d) smt)))) (Finite 2))) (Finite 2))"
  define m1 where "m1 = int_of_float (fmul (fceil (fdiv (float_of_int
    (int_of_float (fceil (fdiv (float_of_int memory) ?d)))) (Finite 4))) (Finite 4))"
  have "c = (let x = (if c1 < 2 then 2 else c1) in if 384 < x then 384 else x)"
    "m = (let x = (if m1 < 4 then 4 else m1) in if 4096 < x then 4096 else x)"
    using assms False
    unfolding calculate_minimum_node_size_def sizer_constants Let_def c1_def m1_def
    by (simp_all only: if_False prod.inject)
  moreover have "2 dvd c1" if "2 \<le> c1" "c1 \<le> 384"
    using that rounded_up_multiple [of c1 _ 2] by (simp add: c1_def)
  moreover have "4 dvd m1" if "4 \<le> m1" "m1 \<le> 4096"
    using that rounded_up_multiple [of m1 _ 4] by (simp add: m1_def)
  ultimately show ?thesis
    by (auto simp: Let_def)
qed (use assms in \<open>auto simp: calculate_minimum_node_size_def sizer_constants\<close>)

subsection \<open>The batches\<close>

abbreviation vm_limit_batches :: "int \<Rightarrow> int" where
  "vm_limit_batches v \<equiv> - (- v div 200)"

lemma vm_limit_batches_float:
  "0 < v \<Longrightarrow> v < 2 ^ 53 \<Longrightarrow>
   int_of_float (fceil (fdiv (float_of_int v) (float_of_int MaxVMsPerWorkerNode))) = vm_limit_batches v"
  using int_ceil_quotient [of v 200] by (simp add: MaxVMsPerWorkerNode_def)

lemma batch_count_bounds:
  assumes "0 < v" "v < 2 ^ 53"
  shows "vm_limit_batches v \<le> batch_count c m v wc wm cm" "batch_count c m v wc wm cm \<le> v"
    "1 \<le> batch_count c m v wc wm cm"
proof -
  have "- v \<le> - v div 200"
    using assms zdiv_mono2_neg [of "- v" 1 200] by simp
  then show "vm_limit_batches v \<le> batch_count c m v wc wm cm" "batch_count c m v wc wm cm \<le> v"
    "1 \<le> batch_count c m v wc wm cm"
    using assms vm_limit_batches_float [OF assms]
    by (auto simp: batch_count_def Let_def MaxVMsPerWorkerNode_def)
qed

lemma enforce_minimum_bounds:
  assumes "0 < v" "v < 2 ^ 53" "vm_limit_batches v \<le> n" "1 \<le> n"
  shows "vm_limit_batches v \<le> enforce_minimum_batch c m v n" "1 \<le> enforce_minimum_batch c m v n"
  using assms vm_limit_batches_float [OF assms(1,2)]
  by (auto simp: enforce_minimum_batch_def Let_def MaxVMsPerWorkerNode_def)

lemma aggregate_batches:
  assumes "aggregate_vms_into_services c m v wc wm cr mr cm = Inr services" "0 < v" "v < 2 ^ 53"
  obtains n rc rm lc lm where "services = map (make_batch v n rc rm lc lm) [0..<nat n]"
    "vm_limit_batches v \<le> n" "1 \<le> n"
    "n = enforce_minimum_batch c m v (batch_count c m v wc wm cm)"
proof -
  let ?n = "enforce_minimum_batch c m v (batch_count c m v wc wm cm)"
  have "vm_limit_batches v \<le> ?n" "1 \<le> ?n"
    using enforce_minimum_bounds [OF assms(2,3) batch_count_bounds(1,3) [OF assms(2,3)]] by simp_all
  moreover obtain rc rm lc lm where "services = map (make_batch v ?n rc rm lc lm) [0..<nat ?n]"
    using assms by (auto simp: aggregate_vms_into_services_def Let_def split: if_splits sum.splits)
  ultimately show thesis using that by blast
qed

lemma sum_list_shares:
  assumes "0 \<le> v" "1 \<le> n"
  shows "(\<Sum>i\<leftarrow>[0..<nat n]. if int i < v mod n then v div n + 1 else v div n) = v"
proof -
  obtain r where r: "v mod n = int r" "r \<le> nat n"
    using assms by (metis int_nat_eq nat_le_iff order.strict_implies_order pos_mod_bound pos_mod_sign
        zero_less_one_class.zero_less_one order_less_le_trans int_nat_eq nat_0_le)
  have "(\<Sum>i\<leftarrow>[0..<nat n]. if int i < v mod n then v div n + 1 else v div n) =
      (\<Sum>i\<in>{0..<nat n}. v div n + (if i < r then 1 else 0))"
    unfolding interv_sum_list_conv_sum_set_nat by (intro sum.cong) (simp_all add: r(1))
  also have "\<dots> = n * (v div n) + int (card ({0..<nat n} \<inter> {i. i < r}))"
    using assms by (simp add: sum.distrib sum.If_cases)
  also have "{0..<nat n} \<inter> {i. i < r} = {0..<r}"
    using r(2) by auto
  also have "n * (v div n) + int (card {0..<r}) = v"
    using r(1) mult_div_mod_eq [of n v] by simp
  finally show ?thesis .
qed

lemma inj_batch_name: "batch_name i = batch_name j \<longleftrightarrow> i = j"
  by (auto simp: batch_name_def itoa_nat_eq)

lemma make_batch_simps [simp]:
  "bs_name (make_batch v n rc rm lc lm i) = batch_name i"
  "0 \<le> v \<Longrightarrow> 1 \<le> n \<Longrightarrow> bs_vm_count (make_batch v n rc rm lc lm i) =
     (if int i < v mod n then v div n + 1 else v div n)"
  by (simp_all add: make_batch_def sdiv_nonneg smod_nonneg)

lemma share_bound:
  fixes i :: int
  assumes "0 \<le> v" "1 \<le> n" "v \<le> k * n" "0 \<le> i"
  shows "(if i < v mod n then v div n + 1 else v div n) \<le> k"
proof (cases "v mod n = 0")
  case True
  have "v div n \<le> k * n div n"
    using assms by (intro zdiv_mono1) simp_all
  with True assms show ?thesis by simp
next
  case False
  have "v mod n < n" "0 \<le> v mod n" using assms by simp_all
  then have "v div n * n < k * n"
    using False assms(3) div_mult_mod_eq [of v n] by linarith
  then have "v div n < k" using assms(2) by simp
  then show ?thesis by simp
qed

lemma vm_limit_enough: "vm_limit_batches v \<le> n \<Longrightarrow> v \<le> 200 * n" for v n :: int
  using div_mult_mod_eq [of "- v" 200] pos_mod_bound [of 200 "- v"] pos_mod_sign [of 200 "- v"]
  by linarith

lemma aggregate_services:
  assumes "aggregate_vms_into_services c m v wc wm cr mr cm = Inr services" "0 < v" "v < 2 ^ 53"
  shows "sum_list (map bs_vm_count services) = v" "distinct (map bs_name services)"
    "\<forall>s \<in> set services. 0 \<le> bs_vm_count s \<and> bs_vm_count s \<le> MaxVMsPerWorkerNode"
proof -
  obtain n rc rm lc lm where n: "services = map (make_batch v n rc rm lc lm) [0..<nat n]"
    "vm_limit_batches v \<le> n" "1 \<le> n"
    using aggregate_batches [OF assms] by metis
  show "sum_list (map bs_vm_count services) = v"
    using sum_list_shares [of v n] assms(2) n by (simp add: comp_def)
  show "distinct (map bs_name services)"
    by (simp add: n(1) comp_def distinct_map inj_on_def inj_batch_name)
  show "\<forall>s \<in> set services. 0 \<le> bs_vm_count s \<and> bs_vm_count s \<le> MaxVMsPerWorkerNode"
    using share_bound [of v n 200] vm_limit_enough [OF n(2)] assms(2) n
    by (auto simp: MaxVMsPerWorkerNode_def pos_imp_zdiv_nonneg_iff)
qed

subsection \<open>The avoid lists\<close>

lemma max_vms_ge_start: "b \<le> foldl (\<lambda>m s. if bs_vm_count s > m then bs_vm_count s else m) b services"
proof (induction services arbitrary: b)
  case (Cons a services)
  have "b \<le> (if bs_vm_count a > b then bs_vm_count a else b)" by simp
  also note Cons
  finally show ?case by simp
qed simp

lemma max_vms_foldl:
  "s \<in> set services \<Longrightarrow>
   bs_vm_count s \<le> foldl (\<lambda>m s. if bs_vm_count s > m then bs_vm_count s else m) b services"
  for s :: batched_service
proof (induction services arbitrary: b)
  case (Cons a services)
  then show ?case
    using max_vms_ge_start [of "if bs_vm_count a > b then bs_vm_count a else b" services]
    by (auto split: if_splits)
qed simp

lemma max_vms_upper:
  "\<forall>s \<in> set services. bs_vm_count s \<le> k \<Longrightarrow> b \<le> k \<Longrightarrow>
   foldl (\<lambda>m s. if bs_vm_count s > m then bs_vm_count s else m) b services \<le> k"
  by (induction services arbitrary: b) auto

lemma max_vms_per_batch:
  assumes "\<forall>s \<in> set services. bs_vm_count s \<le> MaxVMsPerWorkerNode"
  shows "0 \<le> max_vms_per_batch services" "max_vms_per_batch services \<le> 200"
    "s \<in> set services \<Longrightarrow> bs_vm_count s \<le> max_vms_per_batch services"
  using max_vms_ge_start [of 0 services] max_vms_upper [of services 200 0] max_vms_foldl [of s services 0] assms
  by (simp_all add: max_vms_per_batch_def MaxVMsPerWorkerNode_def)

lemma services_per_node:
  assumes "\<forall>s \<in> set services. bs_vm_count s \<le> MaxVMsPerWorkerNode" "services \<noteq> []"
    "max_vms_per_batch services \<noteq> 0"
  shows "1 \<le> services_per_node services"
    "services_per_node services * max_vms_per_batch services \<le> 200"
proof -
  let ?m = "max_vms_per_batch services"
  have m: "0 < ?m" "?m \<le> 200"
    using max_vms_per_batch [OF assms(1)] assms(3) by simp_all
  have "0 < 200 div ?m"
    using m by (simp add: pos_imp_zdiv_pos_iff)
  then have one: "1 \<le> 200 div ?m" by simp
  have "(200 div ?m) * ?m \<le> 200"
    using m by (metis div_mult_mod_eq le_add_same_cancel1 pos_mod_sign)
  moreover have "services_per_node services \<le> 200 div ?m" "1 \<le> services_per_node services"
    using one assms(2) m by (auto simp: services_per_node_def Let_def sdiv_nonneg MaxVMsPerWorkerNode_def Suc_le_eq)
  ultimately show "1 \<le> services_per_node services" "services_per_node services * ?m \<le> 200"
    using m by (auto intro: order_trans [OF mult_right_mono])
qed

text \<open>Services with different names whose places are in one group are at most one group's size.\<close>

lemma card_group:
  assumes "finite I" "1 \<le> k" "\<And>i j. i \<in> I \<Longrightarrow> j \<in> I \<Longrightarrow> int i div k = int j div k"
  shows "int (card I) \<le> k"
proof (cases "I = {}")
  case False
  then obtain i where i: "i \<in> I" by blast
  let ?q = "int i div k"
  have "int ` I \<subseteq> {?q * k ..< ?q * k + k}"
  proof
    fix x assume "x \<in> int ` I"
    then have "x div k = ?q" using assms(3) i by blast
    then have "?q * k + x mod k = x" "0 \<le> x mod k" "x mod k < k"
      using assms(2) div_mult_mod_eq [of x k] by simp_all
    then show "x \<in> {?q * k ..< ?q * k + k}"
      unfolding atLeastLessThan_iff by linarith
  qed
  then have "card (int ` I) \<le> card {?q * k ..< ?q * k + k}"
    by (intro card_mono) simp_all
  then show ?thesis
    using assms(2) by (simp add: card_image)
qed (use assms(2) in simp)

definition avoiding :: "batched_service list \<Rightarrow> nat \<Rightarrow> nat \<Rightarrow> bool" where
  "avoiding services i j \<longleftrightarrow> bs_name (services ! j) \<in> set (build_service_avoid_lists services ! i)"

lemma avoid_groups:
  assumes "distinct (map bs_name services)" "i < length services" "j < length services" "i \<noteq> j"
    "max_vms_per_batch services \<noteq> 0" "1 \<le> services_per_node services"
  shows "avoiding services i j \<longleftrightarrow>
    int i div services_per_node services \<noteq> int j div services_per_node services"
  using assms nth_eq_iff_index_eq [OF assms(1)]
  by (auto simp: avoiding_def build_service_avoid_lists_def Let_def sdiv_nonneg)

lemma avoid_lists_sound:
  assumes "\<forall>s \<in> set services. 0 \<le> bs_vm_count s \<and> bs_vm_count s \<le> MaxVMsPerWorkerNode"
    and "distinct (map bs_name services)" "I \<subseteq> {0..<length services}"
    and "\<And>i j. i \<in> I \<Longrightarrow> j \<in> I \<Longrightarrow> i \<noteq> j \<Longrightarrow> \<not> avoiding services i j"
  shows "(\<Sum>i\<in>I. bs_vm_count (services ! i)) \<le> MaxVMsPerWorkerNode"
proof -
  let ?m = "max_vms_per_batch services" and ?k = "services_per_node services"
  have fin: "finite I" using assms(3) finite_subset by blast
  have count: "bs_vm_count (services ! i) \<le> ?m" if "i \<in> I" for i
    using max_vms_per_batch(3) [of services] assms(1,3) that by (auto intro!: max_vms_per_batch(3))
  have sum: "(\<Sum>i\<in>I. bs_vm_count (services ! i)) \<le> int (card I) * ?m"
    using sum_mono [of I "\<lambda>i. bs_vm_count (services ! i)" "\<lambda>_. ?m"] count by simp
  show ?thesis
  proof (cases "?m = 0 \<or> services = []")
    case False
    then have k: "1 \<le> ?k" "?k * ?m \<le> 200"
      using services_per_node [of services] assms(1) by auto
    have "int i div ?k = int j div ?k" if "i \<in> I" "j \<in> I" for i j
    proof (cases "i = j")
      case False
      have "i < length services" "j < length services" using that assms(3) by auto
      then show ?thesis
        using avoid_groups [OF assms(2) _ _ False] assms(4) [OF that False] k(1) \<open>\<not> (?m = 0 \<or> services = [])\<close>
        by blast
    qed simp
    then have "int (card I) \<le> ?k"
      by (rule card_group [OF fin k(1)])
    then have "int (card I) * ?m \<le> ?k * ?m"
      using max_vms_per_batch(1) assms(1) by (intro mult_right_mono) auto
    with sum k(2) show ?thesis by (simp add: MaxVMsPerWorkerNode_def)
  qed (use sum assms(3) in \<open>auto simp: MaxVMsPerWorkerNode_def\<close>)
qed

end
