(* ===== verification/SizerPayload.thy ===== *)
theory SizerPayload
  imports SizerBatching
begin

text \<open>
  The exchange with the sizing service: the request built from the batches, the transport
  (\<open>internal/client/sizer.go\<close>; the HTTP exchange and the JSON decoder are arguments), the checks
  of the response and its translation, and the messages for a workload that does not fit.
\<close>

subsection \<open>The request\<close>

definition reserved :: control_plane_reserved where
  "reserved = \<lparr>cpr_cpu = round64 ControlPlaneReservedCPU, cpr_memory = round64 ControlPlaneReservedMemory\<rparr>"

definition control_plane_machines :: "int \<Rightarrow> int \<Rightarrow> bool \<Rightarrow> machine_set" where
  "control_plane_machines cpu memory schedulable =
     \<lparr>ms_name = ''controlPlane'', ms_cpu = cpu, ms_memory = memory, ms_instance_name = ''control-plane'',
      ms_number_of_disks = MachineSetNumberOfDisks, ms_only_for = [], ms_label = ''Control Plane'',
      ms_allow_workload_scheduling = Some schedulable, ms_control_plane_reserved = Some reserved\<rparr>"

definition worker_machines :: "float64 \<Rightarrow> int \<Rightarrow> machine_set" where
  "worker_machines cpu memory =
     \<lparr>ms_name = ''worker'', ms_cpu = int_of_float (fround cpu), ms_memory = memory,
      ms_instance_name = ''bare-metal-worker'', ms_number_of_disks = MachineSetNumberOfDisks,
      ms_only_for = [], ms_label = ''Worker'', ms_allow_workload_scheduling = None,
      ms_control_plane_reserved = None\<rparr>"

definition control_plane_services :: "int \<Rightarrow> workload" where
  "control_plane_services replicas =
     \<lparr>wl_name = ''control-plane-services'', wl_count = replicas, wl_uses_machines = [''controlPlane''],
      wl_services = [\<lparr>sd_name = ''ControlPlane'', sd_required_cpu = round64 ControlPlaneReservedCPU,
        sd_required_memory = round64 ControlPlaneReservedMemory, sd_limit_cpu = Finite 0,
        sd_limit_memory = Finite 0, sd_zones = 1, sd_runs_with = [], sd_avoid = []\<rparr>]\<rparr>"

definition vm_workload :: "string list \<Rightarrow> service_descriptor list \<Rightarrow> workload" where
  "vm_workload machines services =
     \<lparr>wl_name = ''vm-workload'', wl_count = 1, wl_uses_machines = machines, wl_services = services\<rparr>"

definition describe_service :: "batched_service \<Rightarrow> string list \<Rightarrow> string list \<Rightarrow> service_descriptor" where
  "describe_service s runs_with avoid =
     \<lparr>sd_name = bs_name s, sd_required_cpu = bs_required_cpu s, sd_required_memory = bs_required_memory s,
      sd_limit_cpu = bs_limit_cpu s, sd_limit_memory = bs_limit_memory s, sd_zones = 1,
      sd_runs_with = runs_with, sd_avoid = avoid\<rparr>"

definition build_single_node_payload :: "batched_service list \<Rightarrow> string \<Rightarrow> int \<Rightarrow> int \<Rightarrow> sizer_request" where
  "build_single_node_payload services platform cpu memory =
     (let vm_services = map (\<lambda>i. describe_service (services ! i)
            (map (\<lambda>j. bs_name (services ! j)) (filter (\<lambda>j. j \<noteq> i) [0..<length services])) [])
            [0..<length services]
      in \<lparr>sq_platform = platform, sq_machine_sets = [control_plane_machines cpu memory True],
          sq_workloads = [control_plane_services 1, vm_workload [''controlPlane''] vm_services],
          sq_detailed = True\<rparr>)"

definition build_sizer_payload ::
    "batched_service list \<Rightarrow> string \<Rightarrow> float64 \<Rightarrow> int \<Rightarrow> bool \<Rightarrow> bool \<Rightarrow> int \<Rightarrow> int \<Rightarrow> int \<Rightarrow> bool \<Rightarrow> bool \<Rightarrow>
     sizer_request" where
  "build_sizer_payload services platform worker_cpu worker_memory include_control_plane schedulable
       cp_cpu cp_memory cp_count single_node compact_mode =
     (if single_node then build_single_node_payload services platform cp_cpu cp_memory
      else
        let machine_sets =
              (if compact_mode then [control_plane_machines cp_cpu cp_memory True]
               else worker_machines worker_cpu worker_memory #
                 (if include_control_plane then [control_plane_machines cp_cpu cp_memory schedulable] else []));
            machines =
              (if compact_mode then [''controlPlane'']
               else if include_control_plane \<and> schedulable then [''worker'', ''controlPlane'']
               else [''worker'']);
            avoids = build_service_avoid_lists services;
            vms = vm_workload machines
              (map (\<lambda>i. describe_service (services ! i) [] (avoids ! i)) [0..<length services]);
            workloads = (if include_control_plane \<or> compact_mode
              then [control_plane_services cp_count, vms] else [vms])
        in \<lparr>sq_platform = platform, sq_machine_sets = machine_sets, sq_workloads = workloads,
            sq_detailed = True\<rparr>)"

subsection \<open>The transport\<close>

text \<open>
  What the service does with a request at a point in time: a transport error's text, or a status
  and a body; and the JSON decoder. \<open>render\<close> puts the arguments in the place of the verbs
  \<open>%s\<close>, \<open>%d\<close> and \<open>%w\<close>.
\<close>

record sizer_http =
  http_post :: "nat \<Rightarrow> sizer_request \<Rightarrow> errmsg + nat \<times> string"
  http_get_health :: "nat \<Rightarrow> errmsg + nat"
  decode_response :: "string \<Rightarrow> string + sizer_response"

fun render :: "string \<Rightarrow> string list \<Rightarrow> string" where
  "render (CHR ''%'' # c # cs) (a # as) = a @ render cs as"
| "render (c # cs) as = c # render cs as"
| "render [] as = []"

definition calculate_sizing :: "sizer_http \<Rightarrow> sizer_request \<Rightarrow> world \<Rightarrow> (errmsg + sizer_response option) \<times> world" where
  "calculate_sizing H req w =
     ((case http_post H (tick w) req of
         Inl m \<Rightarrow> Inl m
       | Inr (status, body) \<Rightarrow>
           if status \<noteq> 200
           then Inl (''sizer service returned status %d: %s'', [itoa (int status), body])
           else case decode_response H body of
             Inl t \<Rightarrow> Inl (''failed to decode response: %w'', [t])
           | Inr r \<Rightarrow>
               if \<not> sp_success r then Inl (''sizer service returned error: %s'', [sp_error r])
               else Inr (Some r)),
      next_tick w)"

definition sizer_health_check :: "sizer_http \<Rightarrow> unit go" where
  "sizer_health_check H w =
     ((case http_get_health H (tick w) of
         Inl m \<Rightarrow> Inl (OtherError m)
       | Inr status \<Rightarrow> if status \<noteq> 200
           then Inl (OtherError (''sizer service health check returned status %d'', [itoa (int status)]))
           else Inr ()), next_tick w)"

definition is_sizer_schedulability_error :: "errmsg \<Rightarrow> bool" where
  "is_sizer_schedulability_error m =
     (let msg = render (fst m) (snd m)
      in contains msg ''not schedulable'' \<or> contains msg ''Minimum required'' \<or> contains msg ''too small'')"

subsection \<open>Checking and translating the response\<close>

definition response_nodes :: "sizer_response \<Rightarrow> sizer_node list" where
  "response_nodes r = concat (map zn_nodes (dat_advanced (sp_data r)))"

definition vms_on_node :: "batched_service list \<Rightarrow> sizer_node \<Rightarrow> int" where
  "vms_on_node services n =
     sum_list (map (\<lambda>name. case map_of (rev (map (\<lambda>s. (bs_name s, bs_vm_count s)) services)) name of
                      Some k \<Rightarrow> k | None \<Rightarrow> 0) (nd_services n))"

definition validate_vm_distribution ::
    "sizer_response \<Rightarrow> batched_service list \<Rightarrow> bool \<Rightarrow> error + int" where
  "validate_vm_distribution r services single_node =
     (let most = foldl (\<lambda>m n. if vms_on_node services n > m then vms_on_node services n else m) 0
            (filter (\<lambda>n. \<not> (nd_is_control_plane n \<and> \<not> single_node)) (response_nodes r))
      in if most > MaxVMsPerWorkerNode
         then Inl (invalid_request
           (''VM distribution constraint violated: found %d VMs on a node, exceeds limit of %d per node'',
            [itoa most, itoa MaxVMsPerWorkerNode]))
         else Inr most)"

text \<open>The control plane and the worker nodes of a response; the fallback is for a response without details.\<close>

definition count_nodes :: "sizer_response \<Rightarrow> int \<Rightarrow> int \<times> int" where
  "count_nodes r cp_count =
     (if dat_advanced (sp_data r) \<noteq> []
      then (int (length (filter nd_is_control_plane (response_nodes r))),
            int (length (filter (\<lambda>n. \<not> nd_is_control_plane n) (response_nodes r))))
      else let total = dat_node_count (sp_data r)
           in if total < cp_count then (total, 0) else (cp_count, total - cp_count))"

definition zero_pair :: resource_pair where
  "zero_pair = \<lparr>rp_cpu = Finite 0, rp_memory = Finite 0\<rparr>"

definition transform_sizer_response :: "sizer_response \<Rightarrow> int \<Rightarrow> bool \<Rightarrow> transformed_response" where
  "transform_sizer_response r cp_count compact_mode =
     (let (cp, workers) = count_nodes r cp_count;
          failover = calculate_failover_nodes workers;
          workers = workers + failover;
          total = cp + workers;
          (total, cp, workers, failover) =
            (if cp_count = 1 then (1, 1, 0, 0)
             else if compact_mode then (3, 3, 0, 0)
             else (total, cp, workers, failover));
          rc = dat_resource_consumption (sp_data r)
      in \<lparr>tr_cluster_sizing =
            \<lparr>csf_total_nodes = total, csf_control_plane_nodes = cp, csf_worker_nodes = workers,
             csf_failover_nodes = failover, csf_total_cpu = dat_total_cpu (sp_data r),
             csf_total_memory = dat_total_memory (sp_data r)\<rparr>,
          tr_resource_consumption =
            \<lparr>rcf_cpu = rc_cpu rc, rcf_memory = rc_memory rc,
             rcf_limits = (case rc_limits rc of None \<Rightarrow> zero_pair | Some p \<Rightarrow> p),
             rcf_over_commit_ratio = (case rc_over_commit_ratio rc of None \<Rightarrow> zero_pair | Some p \<Rightarrow> p)\<rparr>\<rparr>)"

subsection \<open>A workload that does not fit\<close>

definition single_node_unfit :: errmsg where
  "single_node_unfit = (''workload does not fit on a single node. Use a multi-node cluster.'', [])"

definition compact_unfit :: errmsg where
  "compact_unfit = (''workload does not fit in compact mode (3 schedulable control plane nodes). Use a standard HA cluster with dedicated worker nodes.'', [])"

definition single_node_fit_error_message :: "int \<Rightarrow> int \<Rightarrow> int \<Rightarrow> int \<Rightarrow> errmsg" where
  "single_node_fit_error_message cp_cpu cp_memory min_cpu min_memory =
     (let already = cp_cpu \<ge> min_cpu \<and> cp_memory \<ge> min_memory;
          at_max = cp_cpu \<ge> MaxRecommendedNodeCPU \<and> cp_memory \<ge> MaxRecommendedNodeMemory
      in if already \<or> at_max then single_node_unfit
         else let cpu = max cp_cpu min_cpu; memory = max cp_memory min_memory
              in if cpu > MaxRecommendedNodeCPU \<or> memory > MaxRecommendedNodeMemory then single_node_unfit
                 else (''workload does not fit on a single node with the specified resources. Use at least %d CPU / %d GB memory per node for a single-node cluster, or use a multi-node cluster'',
                       [itoa cpu, itoa memory]))"

definition compact_mode_fit_error_message :: "int \<Rightarrow> int \<Rightarrow> int \<Rightarrow> int \<Rightarrow> errmsg" where
  "compact_mode_fit_error_message cp_cpu cp_memory min_cpu min_memory =
     (let already = cp_cpu \<ge> min_cpu \<and> cp_memory \<ge> min_memory;
          at_max = cp_cpu \<ge> MaxRecommendedNodeCPU \<and> cp_memory \<ge> MaxRecommendedNodeMemory
      in if already \<or> at_max then compact_unfit
         else (''workload does not fit in compact mode with the specified resources. Use at least %d CPU / %d GB memory per control plane node for compact mode, or use a standard HA cluster with dedicated worker nodes'',
               [itoa (max cp_cpu min_cpu), itoa (max cp_memory min_memory)]))"

text \<open>The node size a workload needs on \<open>nodes\<close> nodes, rounded up to even cores and four gigabytes.\<close>

definition uncapped_node_size :: "float64 \<Rightarrow> int \<Rightarrow> int \<Rightarrow> float64 \<Rightarrow> float64 \<Rightarrow> float64 \<Rightarrow> int \<times> int" where
  "uncapped_node_size denominator total_cpu total_memory smt cm mm =
     (let actual_cpu = fdiv (float_of_int total_cpu) cm;
          actual_memory = fdiv (float_of_int total_memory) mm;
          cpu = int_of_float (fceil (fdiv (fdiv actual_cpu denominator) smt));
          memory = int_of_float (fceil (fdiv actual_memory denominator))
      in (int_of_float (fmul (fceil (fdiv (float_of_int cpu) (Finite 2))) (Finite 2)),
          int_of_float (fmul (fceil (fdiv (float_of_int memory) (Finite 4))) (Finite 4))))"

definition minimum_with_reserve :: "int \<Rightarrow> int \<Rightarrow> int \<times> int" where
  "minimum_with_reserve cpu memory =
     (max (max cpu MinFallbackNodeCPU) (\<lceil>ControlPlaneReservedCPU / 2\<rceil> * 2),
      max (max memory MinFallbackNodeMemory) (\<lceil>ControlPlaneReservedMemory / 4\<rceil> * 4))"

definition node_fit_error ::
    "float64 \<Rightarrow> errmsg \<Rightarrow> (int \<Rightarrow> int \<Rightarrow> int \<Rightarrow> int \<Rightarrow> errmsg) \<Rightarrow> int \<Rightarrow> int \<Rightarrow> float64 \<Rightarrow> string \<Rightarrow> string \<Rightarrow>
     int \<Rightarrow> int \<Rightarrow> error" where
  "node_fit_error denominator unfit message total_cpu total_memory smt cpu_ratio memory_ratio cp_cpu cp_memory =
     (case get_cpu_over_commit_multiplier cpu_ratio of Inl m \<Rightarrow> OtherError m | Inr cm \<Rightarrow>
      (case get_memory_over_commit_multiplier memory_ratio of Inl m \<Rightarrow> OtherError m | Inr mm \<Rightarrow>
        (let (cpu, memory) = uncapped_node_size denominator total_cpu total_memory smt cm mm
         in if cpu > MaxRecommendedNodeCPU \<or> memory > MaxRecommendedNodeMemory then invalid_request unfit
            else let (min_cpu, min_memory) = minimum_with_reserve cpu memory
                 in invalid_request (message cp_cpu cp_memory min_cpu min_memory))))"

definition single_node_fit_error :: "int \<Rightarrow> int \<Rightarrow> float64 \<Rightarrow> string \<Rightarrow> string \<Rightarrow> int \<Rightarrow> int \<Rightarrow> error" where
  "single_node_fit_error = node_fit_error (round64 (1 * (TargetCapacityPercent / 100)))
     single_node_unfit single_node_fit_error_message"

definition compact_mode_fit_error :: "int \<Rightarrow> int \<Rightarrow> float64 \<Rightarrow> string \<Rightarrow> string \<Rightarrow> int \<Rightarrow> int \<Rightarrow> error" where
  "compact_mode_fit_error = node_fit_error (round64 (3 * (TargetCapacityPercent / 100)))
     compact_unfit compact_mode_fit_error_message"

definition validate_single_node_fit ::
    "int \<Rightarrow> int \<Rightarrow> int \<Rightarrow> float64 \<Rightarrow> string \<Rightarrow> string \<Rightarrow> int \<Rightarrow> int \<Rightarrow> error option" where
  "validate_single_node_fit node_count total_cpu total_memory smt cpu_ratio memory_ratio cp_cpu cp_memory =
     (if node_count > 1
      then Some (single_node_fit_error total_cpu total_memory smt cpu_ratio memory_ratio cp_cpu cp_memory)
      else None)"

definition validate_compact_mode_fit ::
    "int \<Rightarrow> int \<Rightarrow> int \<Rightarrow> float64 \<Rightarrow> string \<Rightarrow> string \<Rightarrow> int \<Rightarrow> int \<Rightarrow> error option" where
  "validate_compact_mode_fit node_count total_cpu total_memory smt cpu_ratio memory_ratio cp_cpu cp_memory =
     (if node_count > 3
      then Some (compact_mode_fit_error total_cpu total_memory smt cpu_ratio memory_ratio cp_cpu cp_memory)
      else None)"

definition compact_mode_batching_node_size ::
    "bool \<Rightarrow> float64 \<Rightarrow> int \<Rightarrow> int \<Rightarrow> int \<Rightarrow> string \<Rightarrow> string \<Rightarrow> error + float64 \<times> int" where
  "compact_mode_batching_node_size compact_mode default_cpu default_memory cp_cpu cp_memory cpu_ratio memory_ratio =
     (if \<not> compact_mode \<or> cp_cpu \<le> 0 \<or> cp_memory \<le> 0 then Inr (default_cpu, default_memory)
      else if fle (float_of_int cp_cpu) (round64 ControlPlaneReservedCPU) \<or>
              fle (float_of_int cp_memory) (round64 ControlPlaneReservedMemory)
      then Inl (invalid_request
        (''control plane nodes (%d CPU / %d GB) are too small for compact mode. Control plane services require at least %d CPU and %d GB memory per node.'',
         map itoa [cp_cpu, cp_memory, \<lceil>ControlPlaneReservedCPU\<rceil> + 1, \<lceil>ControlPlaneReservedMemory\<rceil> + 1]))
      else case get_cpu_over_commit_multiplier cpu_ratio of
        Inl m \<Rightarrow> Inl (Wrapf (''compact mode batching: %w'', []) (OtherError m))
      | Inr cm \<Rightarrow> (case get_memory_over_commit_multiplier memory_ratio of
          Inl m \<Rightarrow> Inl (Wrapf (''compact mode batching: %w'', []) (OtherError m))
        | Inr mm \<Rightarrow> Inr
            (fmul (fsub (float_of_int cp_cpu) (round64 ControlPlaneReservedCPU)) cm,
             int_of_float (fmul (float_of_int (cp_memory - \<lceil>ControlPlaneReservedMemory\<rceil>)) mm))))"

end
