(* ===== verification/SizerService.thy ===== *)
theory SizerService
  imports SizerPayload AssessmentService
begin

text \<open>
  \<open>internal/service/sizer.go\<close>: utilization, the selection of clusters, the defaults of a request,
  one sizing calculation, and the two requests (for an assessment, and for inline totals), with
  the stored input of \<open>internal/store/cluster_sizing_input.go\<close>. A missing sizing client is
  \<open>None\<close>.
\<close>

subsection \<open>Utilization\<close>

definition no_utilization_data :: "float64 \<Rightarrow> utilization_context" where
  "no_utilization_data confidence =
     \<lparr>uc_cpu_multiplier = Finite 1, uc_memory_multiplier = Finite 1, uc_cpu_percent = Finite 100,
      uc_memory_percent = Finite 100, uc_confidence = confidence, uc_has_data = False\<rparr>"

fun is_finite :: "float64 \<Rightarrow> bool" where
  "is_finite (Finite x) = True"
| "is_finite x = False"

definition extract_utilization_from_data :: "inventory_data option \<Rightarrow> utilization_context" where
  "extract_utilization_from_data data =
     (case data of None \<Rightarrow> no_utilization_data (Finite 0) | Some dt \<Rightarrow>
      (case dt_cluster_utilization dt of None \<Rightarrow> no_utilization_data (Finite 0) | Some u \<Rightarrow>
        if flt (cu_confidence u) MinConfidenceThreshold then no_utilization_data (cu_confidence u)
        else let cpu = cu_cpu_max u; mem = cu_mem_max u in
          if \<not> is_finite cpu \<or> fle cpu (Finite 0) \<or> \<not> is_finite mem \<or> fle mem (Finite 0)
          then no_utilization_data (cu_confidence u)
          else let cm = fmin (fdiv cpu (Finite 100)) (Finite 1);
                   mm = fmin (fdiv mem (Finite 100)) (Finite 1)
               in \<lparr>uc_cpu_multiplier = cm, uc_memory_multiplier = mm,
                   uc_cpu_percent = fmul cm (Finite 100), uc_memory_percent = fmul mm (Finite 100),
                   uc_confidence = cu_confidence u, uc_has_data = True\<rparr>))"

definition clusters_of :: "inventory \<Rightarrow> inventory_data gomap" where
  "clusters_of ivt = (case inv_clusters ivt of None \<Rightarrow> [] | Some m \<Rightarrow> m)"

record utilization_sums =
  us_cpu :: float64
  us_memory :: float64
  us_weighted_cpu :: float64
  us_weighted_memory :: float64
  us_weighted_confidence :: float64

fun sum_utilization ::
    "inventory \<Rightarrow> string list \<Rightarrow> utilization_sums \<Rightarrow> utilization_context + utilization_sums" where
  "sum_utilization ivt [] s = Inr s"
| "sum_utilization ivt (cid # cids) s =
     (case map_of (clusters_of ivt) cid of
        None \<Rightarrow> Inl (no_utilization_data (Finite 0))
      | Some data \<Rightarrow>
          (let u = extract_utilization_from_data (Some data) in
           if \<not> uc_has_data u then Inl u
           else let cpu = float_of_int (sint (rb_total (vm_cpu_cores (dt_vms data))));
                    memory = float_of_int (sint (rb_total (vm_ram_gb (dt_vms data))))
                in sum_utilization ivt cids
                     \<lparr>us_cpu = fadd (us_cpu s) cpu, us_memory = fadd (us_memory s) memory,
                      us_weighted_cpu = fadd (us_weighted_cpu s) (fmul cpu (uc_cpu_multiplier u)),
                      us_weighted_memory = fadd (us_weighted_memory s) (fmul memory (uc_memory_multiplier u)),
                      us_weighted_confidence = fadd (us_weighted_confidence s) (fmul cpu (uc_confidence u))\<rparr>))"

definition zero_sums :: utilization_sums where
  "zero_sums = \<lparr>us_cpu = Finite 0, us_memory = Finite 0, us_weighted_cpu = Finite 0,
     us_weighted_memory = Finite 0, us_weighted_confidence = Finite 0\<rparr>"

definition aggregate_cluster_utilization :: "inventory \<Rightarrow> string list \<Rightarrow> utilization_context" where
  "aggregate_cluster_utilization ivt cids =
     (case sum_utilization ivt cids zero_sums of
        Inl u \<Rightarrow> u
      | Inr s \<Rightarrow>
          if feq (us_cpu s) (Finite 0) \<or> feq (us_memory s) (Finite 0) then no_utilization_data (Finite 0)
          else let cm = fdiv (us_weighted_cpu s) (us_cpu s);
                   mm = fdiv (us_weighted_memory s) (us_memory s)
               in \<lparr>uc_cpu_multiplier = cm, uc_memory_multiplier = mm,
                   uc_cpu_percent = fmul cm (Finite 100), uc_memory_percent = fmul mm (Finite 100),
                   uc_confidence = fdiv (us_weighted_confidence s) (us_cpu s), uc_has_data = True\<rparr>)"

definition uses_vcenter_aggregate :: "string list \<Rightarrow> bool" where
  "uses_vcenter_aggregate cids \<longleftrightarrow> length cids = 1 \<and> hd cids = []"

definition extract_utilization_from_inventory :: "inventory option \<Rightarrow> string list \<Rightarrow> utilization_context" where
  "extract_utilization_from_inventory ivt cids =
     (case ivt of None \<Rightarrow> no_utilization_data (Finite 0) | Some v \<Rightarrow>
        if uses_vcenter_aggregate cids then extract_utilization_from_data (inv_vcenter v)
        else aggregate_cluster_utilization v cids)"

subsection \<open>The selected clusters\<close>

definition normalize_cluster_ids :: "cluster_requirements_request \<Rightarrow> error + string list" where
  "normalize_cluster_ids req = (case cr_cluster_ids req of
     None \<Rightarrow> Inr [cr_cluster_id req]
   | Some [] \<Rightarrow> Inl (new_err_invalid_request ''at least one cluster ID is required'')
   | Some cids \<Rightarrow> Inr cids)"

definition set_total :: "goint \<Rightarrow> vm_resource_breakdown \<Rightarrow> vm_resource_breakdown" where
  "set_total n b = b\<lparr>rb_total := n\<rparr>"

definition add_totals :: "inventory_data \<Rightarrow> inventory_data \<Rightarrow> inventory_data" where
  "add_totals data r = r\<lparr>dt_vms := (dt_vms r)
     \<lparr>vm_total := vm_total (dt_vms r) + vm_total (dt_vms data),
      vm_cpu_cores := set_total (rb_total (vm_cpu_cores (dt_vms r)) + rb_total (vm_cpu_cores (dt_vms data)))
        (vm_cpu_cores (dt_vms r)),
      vm_ram_gb := set_total (rb_total (vm_ram_gb (dt_vms r)) + rb_total (vm_ram_gb (dt_vms data)))
        (vm_ram_gb (dt_vms r))\<rparr>\<rparr>"

definition no_resources :: "inventory_data \<Rightarrow> bool" where
  "no_resources data \<longleftrightarrow> vm_total (dt_vms data) = 0 \<or> rb_total (vm_cpu_cores (dt_vms data)) = 0 \<or>
     rb_total (vm_ram_gb (dt_vms data)) = 0"

abbreviation unusable_cluster :: string where
  "unusable_cluster \<equiv> ''cluster has no VMs or no CPU/Memory resources and cannot be used for migration planning''"

fun resolve_clusters ::
    "(uuid \<Rightarrow> string) \<Rightarrow> inventory \<Rightarrow> uuid \<Rightarrow> string list \<Rightarrow> string list \<Rightarrow> inventory_data \<Rightarrow>
     error + inventory_data" where
  "resolve_clusters us ivt aid [] seen r = Inr r"
| "resolve_clusters us ivt aid (cid # cids) seen r =
     (if cid = [] then Inl (new_err_invalid_request ''cluster IDs cannot contain an empty value'')
      else if cid \<in> set seen
      then Inl (invalid_request (''cluster %s was selected more than once'', [cid]))
      else case map_of (clusters_of ivt) cid of
        None \<Rightarrow> Inl (new_err_cluster_not_found us cid aid)
      | Some data \<Rightarrow>
          if no_resources data then Inl (new_err_invalid_cluster_inventory cid unusable_cluster)
          else resolve_clusters us ivt aid cids (cid # seen) (add_totals data r))"

definition resolve_sizing_inventory_data ::
    "(uuid \<Rightarrow> string) \<Rightarrow> inventory \<Rightarrow> uuid \<Rightarrow> string list \<Rightarrow> error + inventory_data" where
  "resolve_sizing_inventory_data us ivt aid cids =
     (if uses_vcenter_aggregate cids
      then (case inv_vcenter ivt of
              None \<Rightarrow> Inl (new_err_invalid_cluster_inventory ''vcenter'' ''inventory has no vcenter-level data'')
            | Some data \<Rightarrow> Inr data)
      else resolve_clusters us ivt aid cids [] zero_inventory_data)"

subsection \<open>Parameters and defaults\<close>

definition extract_worker_node_threads :: "cluster_requirements_params \<Rightarrow> int" where
  "extract_worker_node_threads p = (case cp_worker_node_threads p of Some n \<Rightarrow> n | None \<Rightarrow> 0)"

definition extract_control_plane_schedulable :: "cluster_requirements_params \<Rightarrow> bool" where
  "extract_control_plane_schedulable p = (case cp_control_plane_schedulable p of Some b \<Rightarrow> b | None \<Rightarrow> False)"

definition extract_control_plane_cpu :: "cluster_requirements_params \<Rightarrow> int" where
  "extract_control_plane_cpu p = (case cp_control_plane_cpu p of Some n \<Rightarrow> n | None \<Rightarrow> 0)"

definition extract_control_plane_memory :: "cluster_requirements_params \<Rightarrow> int" where
  "extract_control_plane_memory p = (case cp_control_plane_memory p of Some n \<Rightarrow> n | None \<Rightarrow> 0)"

definition validate_compact_mode_params :: "cluster_requirements_params \<Rightarrow> error option" where
  "validate_compact_mode_params p =
     (if \<not> cp_compact_mode p then None
      else if cp_hosted_control_plane p
      then Some (new_err_invalid_request ''compact mode clusters cannot use hosted control planes'')
      else if cp_control_plane_node_count p \<noteq> 3
      then Some (new_err_invalid_request ''compact mode clusters require exactly 3 control plane nodes'')
      else if \<not> extract_control_plane_schedulable p
      then Some (new_err_invalid_request ''compact mode clusters require schedulable control planes. Set ControlPlaneSchedulable to true'')
      else None)"

record cluster_sizing_options =
  op_worker_node_threads :: "int option"
  op_hosted_control_plane :: "bool option"
  op_control_plane_schedulable :: "bool option"
  op_control_plane_node_count :: "int option"
  op_control_plane_cpu :: "int option"
  op_control_plane_memory :: "int option"

definition default_to :: "'a \<Rightarrow> 'a option \<Rightarrow> 'a option" where
  "default_to a x = (case x of None \<Rightarrow> Some a | Some _ \<Rightarrow> x)"

definition apply_cluster_sizing_option_defaults :: "cluster_sizing_options \<Rightarrow> cluster_sizing_options" where
  "apply_cluster_sizing_option_defaults opts =
     (let opts = opts\<lparr>op_worker_node_threads := default_to defaultWorkerNodeThreads (op_worker_node_threads opts),
                op_hosted_control_plane := default_to defaultHostedControlPlane (op_hosted_control_plane opts)\<rparr>
      in if op_hosted_control_plane opts \<noteq> Some True
         then opts\<lparr>op_control_plane_schedulable :=
                     default_to defaultControlPlaneSchedulable (op_control_plane_schedulable opts),
                   op_control_plane_node_count :=
                     default_to defaultControlPlaneNodeCount (op_control_plane_node_count opts),
                   op_control_plane_cpu := default_to defaultControlPlaneCPU (op_control_plane_cpu opts),
                   op_control_plane_memory := default_to defaultControlPlaneMemory (op_control_plane_memory opts)\<rparr>
         else opts\<lparr>op_control_plane_schedulable := None, op_control_plane_node_count := None,
                   op_control_plane_cpu := None, op_control_plane_memory := None\<rparr>)"

definition apply_defaults :: "cluster_requirements_request \<Rightarrow> cluster_requirements_request" where
  "apply_defaults req =
     (let opts = apply_cluster_sizing_option_defaults
            \<lparr>op_worker_node_threads = cr_worker_node_threads req,
             op_hosted_control_plane = cr_hosted_control_plane req,
             op_control_plane_schedulable = cr_control_plane_schedulable req,
             op_control_plane_node_count = cr_control_plane_node_count req,
             op_control_plane_cpu = cr_control_plane_cpu req,
             op_control_plane_memory = cr_control_plane_memory req\<rparr>
      in req\<lparr>cr_worker_node_threads := op_worker_node_threads opts,
            cr_hosted_control_plane := op_hosted_control_plane opts,
            cr_control_plane_schedulable := op_control_plane_schedulable opts,
            cr_control_plane_node_count := op_control_plane_node_count opts,
            cr_control_plane_cpu := op_control_plane_cpu opts,
            cr_control_plane_memory := op_control_plane_memory opts\<rparr>)"

definition apply_standalone_defaults :: "standalone_request \<Rightarrow> standalone_request" where
  "apply_standalone_defaults req =
     (let opts = apply_cluster_sizing_option_defaults
            \<lparr>op_worker_node_threads = st_worker_node_threads req,
             op_hosted_control_plane = st_hosted_control_plane req,
             op_control_plane_schedulable = st_control_plane_schedulable req,
             op_control_plane_node_count = st_control_plane_node_count req,
             op_control_plane_cpu = st_control_plane_cpu req,
             op_control_plane_memory = st_control_plane_memory req\<rparr>
      in req\<lparr>st_worker_node_threads := op_worker_node_threads opts,
            st_hosted_control_plane := op_hosted_control_plane opts,
            st_control_plane_schedulable := op_control_plane_schedulable opts,
            st_control_plane_node_count := op_control_plane_node_count opts,
            st_control_plane_cpu := op_control_plane_cpu opts,
            st_control_plane_memory := op_control_plane_memory opts\<rparr>)"

definition effective_control_plane_node_count :: "cluster_requirements_request \<Rightarrow> int" where
  "effective_control_plane_node_count req =
     (if cr_hosted_control_plane req = Some True then 0
      else case cr_control_plane_node_count req of Some n \<Rightarrow> n | None \<Rightarrow> 0)"

definition effective_standalone_control_plane_node_count :: "standalone_request \<Rightarrow> int" where
  "effective_standalone_control_plane_node_count req =
     (if st_hosted_control_plane req = Some True then 0
      else case st_control_plane_node_count req of Some n \<Rightarrow> n | None \<Rightarrow> 0)"

end
