(* ===== verification/SizerRequests.thy ===== *)
theory SizerRequests
  imports SizerService
begin

text \<open>
  The requests of \<open>internal/service/sizer.go\<close>: one exchange with the sizing service
  (\<open>calculateSizingWithMultipliers\<close>), the sizing of an assessment's clusters with the stored input
  of \<open>internal/store/cluster_sizing_input.go\<close>, and the sizing of inline totals.
\<close>

subsection \<open>The stored input\<close>

text \<open>The insert returns the columns with a database default, so \<open>compact_mode\<close> is filled.\<close>

definition upsert_cluster_sizing_input ::
    "env \<Rightarrow> gocontext \<Rightarrow> sizing_input_row \<Rightarrow> sizing_input_row go" where
  "upsert_cluster_sizing_input E c r =
     bind (time_now E) (\<lambda>now.
     bind (map_err (Wrapf (''upserting cluster sizing input: %w'', []))
            (exec E c (upsert_sizing_input (r\<lparr>si_updated_at := Some now\<rparr>)))) (\<lambda>_.
     ret (r\<lparr>si_updated_at := Some now, si_compact_mode := Some (si_compact_mode r = Some True)\<rparr>)))"

definition find_sizing_input :: "db \<Rightarrow> uuid \<Rightarrow> string \<Rightarrow> sizing_input_row option" where
  "find_sizing_input d aid cid =
     find (\<lambda>r. si_assessment_id r = aid \<and> si_external_cluster_id r = cid) (cluster_sizing_inputs d)"

definition get_cluster_sizing_input ::
    "env \<Rightarrow> gocontext \<Rightarrow> uuid \<Rightarrow> string \<Rightarrow> sizing_input_row go" where
  "get_cluster_sizing_input E c aid cid =
     map_err (\<lambda>e. if errors_is e GormRecordNotFound then StoreRecordNotFound
                  else Wrapf (''querying cluster sizing input: %w'', []) e)
       (query E c (\<lambda>t d. case find_sizing_input d aid cid of
          Some r \<Rightarrow> Inr r | None \<Rightarrow> Inl GormRecordNotFound))"

record cluster_requirements_input =
  ci_cluster_id :: string
  ci_cpu_over_commit_ratio :: "string option"
  ci_memory_over_commit_ratio :: "string option"
  ci_worker_node_cpu :: "int option"
  ci_worker_node_threads :: "int option"
  ci_worker_node_memory :: "int option"
  ci_control_plane_schedulable :: "bool option"
  ci_control_plane_node_count :: "int option"
  ci_control_plane_cpu :: "int option"
  ci_control_plane_memory :: "int option"
  ci_hosted_control_plane :: "bool option"
  ci_compact_mode :: "bool option"

definition input_form :: "sizing_input_row \<Rightarrow> cluster_requirements_input" where
  "input_form r =
     \<lparr>ci_cluster_id = si_external_cluster_id r,
      ci_cpu_over_commit_ratio = si_cpu_over_commit_ratio r,
      ci_memory_over_commit_ratio = si_memory_over_commit_ratio r,
      ci_worker_node_cpu = si_worker_node_cpu r, ci_worker_node_threads = si_worker_node_threads r,
      ci_worker_node_memory = si_worker_node_memory r,
      ci_control_plane_schedulable = si_control_plane_schedulable r,
      ci_control_plane_node_count = si_control_plane_node_count r,
      ci_control_plane_cpu = si_control_plane_cpu r,
      ci_control_plane_memory = si_control_plane_memory r,
      ci_hosted_control_plane = si_hosted_control_plane r,
      ci_compact_mode = si_compact_mode r\<rparr>"

definition get_cluster_requirements_input ::
    "env \<Rightarrow> gocontext \<Rightarrow> uuid \<Rightarrow> string \<Rightarrow> cluster_requirements_input go" where
  "get_cluster_requirements_input E c aid cid =
     bind (map_err (\<lambda>e. if errors_is e StoreRecordNotFound
                        then new_err_cluster_requirements_not_found (uuid_str E) cid aid
                        else Wrapf (''failed to get stored cluster requirements input: %w'', []) e)
            (get_cluster_sizing_input E c aid cid)) (\<lambda>r.
     ret (input_form r))"

definition input_row :: "uuid \<Rightarrow> cluster_requirements_request \<Rightarrow> sizing_input_row" where
  "input_row aid req =
     \<lparr>si_assessment_id = aid, si_external_cluster_id = cr_cluster_id req,
      si_cpu_over_commit_ratio = Some (cr_cpu_over_commit_ratio req),
      si_memory_over_commit_ratio = Some (cr_memory_over_commit_ratio req),
      si_worker_node_cpu = Some (cr_worker_node_cpu req),
      si_worker_node_threads = cr_worker_node_threads req,
      si_worker_node_memory = Some (cr_worker_node_memory req),
      si_control_plane_schedulable = cr_control_plane_schedulable req,
      si_control_plane_node_count = cr_control_plane_node_count req,
      si_control_plane_cpu = cr_control_plane_cpu req,
      si_control_plane_memory = cr_control_plane_memory req,
      si_hosted_control_plane = cr_hosted_control_plane req,
      si_compact_mode = cr_compact_mode req, si_updated_at = None\<rparr>"

definition persist_cluster_sizing_input ::
    "env \<Rightarrow> gocontext \<Rightarrow> uuid \<Rightarrow> cluster_requirements_request \<Rightarrow> unit go" where
  "persist_cluster_sizing_input E c aid req =
     bind (map_err (Wrapf (''failed to persist cluster requirements input: %w'', []))
            (upsert_cluster_sizing_input E c (input_row aid req))) (\<lambda>_. ret ())"

definition load_assessment_inventory :: "env \<Rightarrow> gocontext \<Rightarrow> uuid \<Rightarrow> inventory go" where
  "load_assessment_inventory E c i =
     bind (map_err (assessment_lookup_error E i) (get_assessment E c i)) (\<lambda>a.
     let ivt = asi_inventory (as_main_inventory a) in
     if inv_vcenter ivt = None \<and> inv_clusters ivt = None
     then raise (OtherError (''assessment has no full inventory'', []))
     else ret ivt)"

subsection \<open>One exchange\<close>

definition params_effective_cpu :: "cluster_requirements_params \<Rightarrow> float64" where
  "params_effective_cpu p = calculate_effective_cpu (cp_worker_node_cpu p) (extract_worker_node_threads p)"

definition smt_multiplier :: "cluster_requirements_params \<Rightarrow> float64" where
  "smt_multiplier p =
     (let threads = extract_worker_node_threads p
      in if cp_worker_node_cpu p > 0 \<and> threads > 0 \<and> threads > cp_worker_node_cpu p
         then fdiv (params_effective_cpu p) (float_of_int (cp_worker_node_cpu p)) else Finite 1)"

definition control_plane_too_small :: "cluster_requirements_params \<Rightarrow> error" where
  "control_plane_too_small p = invalid_request
     (''control plane nodes (%d CPU / %d GB) are too small for %s. Control plane services require at least 4 CPU and 16 GB memory per node.'',
      [itoa (extract_control_plane_cpu p), itoa (extract_control_plane_memory p),
       if cp_compact_mode p then ''compact mode'' else ''schedulable control plane''])"

text \<open>The error of a failed exchange; \<open>smt\<close> is computed differently by the two callers.\<close>

definition sizer_call_error ::
    "cluster_requirements_params \<Rightarrow> int \<Rightarrow> int \<Rightarrow> float64 \<Rightarrow> errmsg \<Rightarrow> error" where
  "sizer_call_error p total_cpu total_memory smt m =
     (if cp_control_plane_node_count p = 1 \<and> is_sizer_schedulability_error m
      then single_node_fit_error total_cpu total_memory smt (cp_cpu_over_commit_ratio p)
             (cp_memory_over_commit_ratio p) (extract_control_plane_cpu p) (extract_control_plane_memory p)
      else if is_sizer_schedulability_error m \<and>
              (cp_compact_mode p \<or> (\<not> cp_hosted_control_plane p \<and> extract_control_plane_schedulable p))
      then control_plane_too_small p
      else Wrapf (''failed to call sizer service: %w'', []) (OtherError m))"

definition empty_response :: error where
  "empty_response = OtherError (''sizer service returned empty response'', [])"

text \<open>What is returned of a response that passed the checks.\<close>

definition sizing_result_of ::
    "cluster_requirements_params \<Rightarrow> float64 \<Rightarrow> float64 \<Rightarrow> batched_service list \<Rightarrow> sizer_response \<Rightarrow>
     sizing_result" where
  "sizing_result_of p cpu memory services r =
     (let (cp, workers) = count_nodes r (cp_control_plane_node_count p);
          total = cp + workers;
          (total, workers) = (if cp_control_plane_node_count p = 1 \<and> total \<le> 1 then (1, 0)
                              else (total, workers));
          (total, workers) = (if cp_compact_mode p then (3, 0) else (total, workers))
      in \<lparr>sr_total_nodes = total, sr_worker_nodes = workers, sr_total_cpu = dat_total_cpu (sp_data r),
          sr_total_memory = dat_total_memory (sp_data r), sr_effective_cpu = cpu,
          sr_effective_memory = memory, sr_services = services,
          sr_resource_consumption = dat_resource_consumption (sp_data r)\<rparr>)"

definition check_sizing_response ::
    "cluster_requirements_params \<Rightarrow> int \<Rightarrow> int \<Rightarrow> batched_service list \<Rightarrow> sizer_response \<Rightarrow> error option" where
  "check_sizing_response p total_cpu total_memory services r =
     (case (if cp_compact_mode p
            then validate_compact_mode_fit (dat_node_count (sp_data r)) total_cpu total_memory
                   (smt_multiplier p) (cp_cpu_over_commit_ratio p) (cp_memory_over_commit_ratio p)
                   (extract_control_plane_cpu p) (extract_control_plane_memory p)
            else None) of
        Some e \<Rightarrow> Some e
      | None \<Rightarrow> (case validate_vm_distribution r services (cp_control_plane_node_count p = 1) of
          Inl e \<Rightarrow> Some e | Inr _ \<Rightarrow> None))"

definition params_payload :: "cluster_requirements_params \<Rightarrow> batched_service list \<Rightarrow> sizer_request" where
  "params_payload p services =
     build_sizer_payload services DefaultPlatform (params_effective_cpu p) (cp_worker_node_memory p)
       (\<not> cp_hosted_control_plane p) (extract_control_plane_schedulable p)
       (extract_control_plane_cpu p) (extract_control_plane_memory p) (cp_control_plane_node_count p)
       (cp_control_plane_node_count p = 1) (cp_compact_mode p)"

definition params_batching_node_size :: "cluster_requirements_params \<Rightarrow> error + float64 \<times> int" where
  "params_batching_node_size p =
     compact_mode_batching_node_size (cp_compact_mode p) (params_effective_cpu p)
       (cp_worker_node_memory p) (extract_control_plane_cpu p) (extract_control_plane_memory p)
       (cp_cpu_over_commit_ratio p) (cp_memory_over_commit_ratio p)"

definition calculate_sizing_with_multipliers ::
    "sizer_http \<Rightarrow> int \<Rightarrow> int \<Rightarrow> int \<Rightarrow> cluster_requirements_params \<Rightarrow> float64 \<Rightarrow> float64 \<Rightarrow>
     sizing_result go" where
  "calculate_sizing_with_multipliers H total_cpu total_memory total_vms p cm mm w =
     (let cpu = fmul (float_of_int total_cpu) cm; memory = fmul (float_of_int total_memory) mm
      in case params_batching_node_size p of Inl e \<Rightarrow> raise e w | Inr (node_cpu, node_memory) \<Rightarrow>
        (case aggregate_vms_into_services cpu memory total_vms node_cpu node_memory
                (cp_cpu_over_commit_ratio p) (cp_memory_over_commit_ratio p) CapacityMultiplier of
           Inl m \<Rightarrow> raise (Wrapf (''aggregating services: %w'', []) (OtherError m)) w
         | Inr services \<Rightarrow>
             (case calculate_sizing H (params_payload p services) w of
                (Inl m, w') \<Rightarrow>
                  raise (sizer_call_error p total_cpu total_memory
                    (if cp_worker_node_cpu p > 0
                     then fdiv (params_effective_cpu p) (float_of_int (cp_worker_node_cpu p))
                     else Finite 1) m) w'
              | (Inr None, w') \<Rightarrow> raise empty_response w'
              | (Inr (Some r), w') \<Rightarrow>
                  (case check_sizing_response p total_cpu total_memory services r of
                     Some e \<Rightarrow> raise e w'
                   | None \<Rightarrow> ret (sizing_result_of p cpu memory services r) w'))))"

subsection \<open>Checks before and after the exchange\<close>

definition single_node_unschedulable :: error where
  "single_node_unschedulable = new_err_invalid_request
     ''single-node clusters require schedulable control planes. Set ControlPlaneSchedulable to true or use multiple control plane nodes''"

definition node_size_error :: "cluster_requirements_params \<Rightarrow> int \<Rightarrow> error" where
  "node_size_error p limit =
     (let (cpu, memory) = calculate_minimum_node_size (cp_total_cpu p) (cp_total_memory p) limit
            CapacityMultiplier (smt_multiplier p)
      in format_node_size_error (cp_worker_node_cpu p) (cp_worker_node_memory p) (cp_total_cpu p)
           (cp_total_memory p) cpu memory)"

text \<open>The estimate of the number of batches, for a cluster with dedicated workers.\<close>

definition check_batch_estimate :: "cluster_requirements_params \<Rightarrow> error option" where
  "check_batch_estimate p =
     (if cp_control_plane_node_count p \<noteq> 1 \<and> \<not> cp_compact_mode p
      then let target_cpu = fmul (params_effective_cpu p) CapacityMultiplier;
               target_memory = fmul (float_of_int (cp_worker_node_memory p)) CapacityMultiplier;
               n = max (int_of_float (fceil (fdiv (float_of_int (cp_total_cpu p)) target_cpu)))
                       (int_of_float (fceil (fdiv (float_of_int (cp_total_memory p)) target_memory)))
           in if n > MaxBatches then Some (node_size_error p MaxBatches) else None
      else None)"

subsection \<open>The response\<close>

record api_cluster_sizing =
  acs_total_nodes :: int
  acs_worker_nodes :: int
  acs_control_plane_nodes :: int
  acs_failover_nodes :: int
  acs_total_cpu :: int
  acs_total_memory :: int
  acs_cpu_utilization_max :: "float64 option"
  acs_memory_utilization_max :: "float64 option"
  acs_confidence :: "float64 option"

record savings =
  sv_nodes_saved :: int
  sv_percentage_reduction :: float64
  sv_description :: string

record optimization_status =
  ost_attempted :: bool
  ost_reason :: string

record inventory_totals =
  it_total_vms :: int
  it_total_cpu :: int
  it_total_memory :: int

record cluster_requirements_response =
  rsp_cluster_sizing :: api_cluster_sizing
  rsp_optimized_sizing :: "api_cluster_sizing option"
  rsp_savings :: "savings option"
  rsp_optimization_status :: optimization_status
  rsp_resource_consumption :: resource_consumption
  rsp_inventory_totals :: inventory_totals

abbreviation CalculationError :: string where "CalculationError \<equiv> ''calculation_error''"
abbreviation LowConfidence :: string where "LowConfidence \<equiv> ''low_confidence''"
abbreviation NoUtilizationData :: string where "NoUtilizationData \<equiv> ''no_utilization_data''"
abbreviation Success :: string where "Success \<equiv> ''success''"

definition convert_resource_consumption :: "resource_consumption \<Rightarrow> resource_consumption" where
  "convert_resource_consumption rc =
     \<lparr>rc_cpu = rc_cpu rc, rc_memory = rc_memory rc,
      rc_limits = (case rc_limits rc of None \<Rightarrow> None
        | Some p \<Rightarrow> Some \<lparr>rp_cpu = rp_cpu p, rp_memory = rp_memory p\<rparr>),
      rc_over_commit_ratio = (case rc_over_commit_ratio rc of None \<Rightarrow> None
        | Some p \<Rightarrow> Some \<lparr>rp_cpu = rp_cpu p, rp_memory = rp_memory p\<rparr>)\<rparr>"

text \<open>The sizing of a result, with the failover workers added.\<close>

definition with_failover :: "sizing_result \<Rightarrow> int \<Rightarrow> api_cluster_sizing" where
  "with_failover r failover =
     (let cp = sr_total_nodes r - sr_worker_nodes r; workers = sr_worker_nodes r + failover
      in \<lparr>acs_total_nodes = cp + workers, acs_worker_nodes = workers, acs_control_plane_nodes = cp,
          acs_failover_nodes = failover, acs_total_cpu = sr_total_cpu r,
          acs_total_memory = sr_total_memory r, acs_cpu_utilization_max = None,
          acs_memory_utilization_max = None, acs_confidence = None\<rparr>)"

definition to_cluster_requirements_response ::
    "sizing_result \<Rightarrow> sizing_result option \<Rightarrow> utilization_context \<Rightarrow> int \<Rightarrow> int \<Rightarrow> int \<Rightarrow> int \<Rightarrow> int \<Rightarrow>
     optimization_status \<Rightarrow> cluster_requirements_response" where
  "to_cluster_requirements_response base opt u base_failover opt_failover total_vms total_cpu total_memory st =
     (let baseline = with_failover base base_failover;
          optimized = (case opt of None \<Rightarrow> None
            | Some r \<Rightarrow> Some ((with_failover r opt_failover)
                \<lparr>acs_cpu_utilization_max := Some (uc_cpu_percent u),
                 acs_memory_utilization_max := Some (uc_memory_percent u),
                 acs_confidence := Some (uc_confidence u)\<rparr>));
          saved = (case optimized of None \<Rightarrow> None
            | Some s \<Rightarrow>
                (let n = acs_total_nodes baseline - acs_total_nodes s
                 in if n > 0
                    then Some \<lparr>sv_nodes_saved = n,
                      sv_percentage_reduction =
                        (if acs_total_nodes baseline > 0
                         then fmul (fdiv (float_of_int n) (float_of_int (acs_total_nodes baseline))) (Finite 100)
                         else Finite 0),
                      sv_description = ''Based on actual workload performance data''\<rparr>
                    else None));
          rc = sr_resource_consumption base
      in \<lparr>rsp_cluster_sizing = baseline, rsp_optimized_sizing = optimized, rsp_savings = saved,
          rsp_optimization_status = st,
          rsp_resource_consumption =
            \<lparr>rc_cpu = rc_cpu rc, rc_memory = rc_memory rc,
             rc_limits = (case rc_limits rc of None \<Rightarrow> Some zero_pair | Some p \<Rightarrow> Some p),
             rc_over_commit_ratio =
               (case rc_over_commit_ratio rc of None \<Rightarrow> Some zero_pair | Some p \<Rightarrow> Some p)\<rparr>,
          rsp_inventory_totals =
            \<lparr>it_total_vms = total_vms, it_total_cpu = total_cpu, it_total_memory = total_memory\<rparr>\<rparr>)"

subsection \<open>The sizing of an assessment\<close>

text \<open>\<open>errors.As\<close> with a target of type \<open>*ErrInvalidRequest\<close>.\<close>

fun as_invalid_request :: "error \<Rightarrow> bool" where
  "as_invalid_request (Wrapf m e) = as_invalid_request e"
| "as_invalid_request (ErrInvalidRequest m) = True"
| "as_invalid_request e = False"

fun join_ids :: "string list \<Rightarrow> string" where
  "join_ids [] = []"
| "join_ids [cid] = cid"
| "join_ids (cid # cids) = cid @ '','' @ join_ids cids"

definition selection_id :: "string list \<Rightarrow> string" where
  "selection_id cids = (if uses_vcenter_aggregate cids then ''vcenter'' else join_ids cids)"

definition requirements_params :: "inventory_data \<Rightarrow> cluster_requirements_request \<Rightarrow> cluster_requirements_params" where
  "requirements_params data req =
     \<lparr>cp_total_vms = sint (vm_total (dt_vms data)),
      cp_total_cpu = sint (rb_total (vm_cpu_cores (dt_vms data))),
      cp_total_memory = sint (rb_total (vm_ram_gb (dt_vms data))),
      cp_worker_node_cpu = cr_worker_node_cpu req, cp_worker_node_memory = cr_worker_node_memory req,
      cp_worker_node_threads = cr_worker_node_threads req,
      cp_cpu_over_commit_ratio = cr_cpu_over_commit_ratio req,
      cp_memory_over_commit_ratio = cr_memory_over_commit_ratio req,
      cp_control_plane_schedulable = cr_control_plane_schedulable req,
      cp_control_plane_cpu = cr_control_plane_cpu req,
      cp_control_plane_memory = cr_control_plane_memory req,
      cp_control_plane_node_count = effective_control_plane_node_count req,
      cp_hosted_control_plane = (cr_hosted_control_plane req = Some True),
      cp_compact_mode = (cr_compact_mode req = Some True)\<rparr>"

definition check_requirements :: "cluster_requirements_params \<Rightarrow> error option" where
  "check_requirements p =
     (if cp_control_plane_node_count p = 1 \<and> \<not> extract_control_plane_schedulable p
      then Some single_node_unschedulable
      else case validate_compact_mode_params p of
        Some e \<Rightarrow> Some e
      | None \<Rightarrow> check_batch_estimate p)"

definition baseline_error :: "error \<Rightarrow> error" where
  "baseline_error e =
     (if as_invalid_request e then e else Wrapf (''calculating baseline sizing: %w'', []) e)"

definition check_baseline :: "cluster_requirements_params \<Rightarrow> sizing_result \<Rightarrow> error option" where
  "check_baseline p r =
     (if cp_control_plane_node_count p \<noteq> 1 \<and> sr_total_nodes r > MaxNodeCount
      then Some (node_size_error p MaxNodeCount)
      else if cp_control_plane_node_count p = 1
      then validate_single_node_fit (sr_total_nodes r) (cp_total_cpu p) (cp_total_memory p)
             (smt_multiplier p) (cp_cpu_over_commit_ratio p) (cp_memory_over_commit_ratio p)
             (extract_control_plane_cpu p) (extract_control_plane_memory p)
      else None)"

definition optimize_sizing ::
    "sizer_http \<Rightarrow> cluster_requirements_params \<Rightarrow> utilization_context \<Rightarrow>
     (sizing_result option \<times> optimization_status) go" where
  "optimize_sizing H p u =
     (if \<not> uc_has_data u
      then ret (None, \<lparr>ost_attempted = False,
        ost_reason = (if flt (Finite 0) (uc_confidence u) \<and> flt (uc_confidence u) MinConfidenceThreshold
                      then LowConfidence else NoUtilizationData)\<rparr>)
      else attempt
        (calculate_sizing_with_multipliers H (cp_total_cpu p) (cp_total_memory p) (cp_total_vms p) p
          (uc_cpu_multiplier u) (uc_memory_multiplier u))
        (\<lambda>e. ret (None, \<lparr>ost_attempted = True, ost_reason = CalculationError\<rparr>))
        (\<lambda>r. ret (Some r, \<lparr>ost_attempted = True, ost_reason = Success\<rparr>)))"

definition requirements_response ::
    "cluster_requirements_params \<Rightarrow> utilization_context \<Rightarrow> sizing_result \<Rightarrow> sizing_result option \<Rightarrow>
     optimization_status \<Rightarrow> cluster_requirements_response" where
  "requirements_response p u base opt st =
     to_cluster_requirements_response
       (base\<lparr>sr_resource_consumption := convert_resource_consumption (sr_resource_consumption base)\<rparr>)
       opt u (calculate_failover_nodes (sr_worker_nodes base))
       (case opt of None \<Rightarrow> 0 | Some r \<Rightarrow> calculate_failover_nodes (sr_worker_nodes r))
       (cp_total_vms p) (cp_total_cpu p) (cp_total_memory p) st"

text \<open>Everything after the checks of the request, for an inventory and the selected clusters.\<close>

definition size_clusters ::
    "env \<Rightarrow> sizer_http \<Rightarrow> gocontext \<Rightarrow> uuid \<Rightarrow> cluster_requirements_request \<Rightarrow> string list \<Rightarrow> inventory \<Rightarrow>
     cluster_requirements_params \<Rightarrow> cluster_requirements_response go" where
  "size_clusters E H c aid req cids ivt p =
     (let u = extract_utilization_from_inventory (Some ivt) cids in
      bind (map_err baseline_error
        (calculate_sizing_with_multipliers H (cp_total_cpu p) (cp_total_memory p) (cp_total_vms p) p
          (Finite 1) (Finite 1))) (\<lambda>base.
      case check_baseline p base of Some e \<Rightarrow> raise e | None \<Rightarrow>
      bind (optimize_sizing H p u) (\<lambda>(opt, st).
      bind (if cr_cluster_ids req = None \<and> hd cids \<noteq> [] then persist_cluster_sizing_input E c aid req
            else ret ()) (\<lambda>_.
      ret (requirements_response p u base opt st)))))"

abbreviation no_sizer_client :: error where
  "no_sizer_client \<equiv> OtherError (''sizer client is not configured'', [])"

definition calculate_cluster_requirements ::
    "env \<Rightarrow> sizer_http option \<Rightarrow> gocontext \<Rightarrow> uuid \<Rightarrow> cluster_requirements_request \<Rightarrow>
     cluster_requirements_response go" where
  "calculate_cluster_requirements E client c aid req =
     (case normalize_cluster_ids req of Inl e \<Rightarrow> raise e | Inr cids \<Rightarrow>
     (case client of None \<Rightarrow> raise no_sizer_client | Some H \<Rightarrow>
      bind (load_assessment_inventory E c aid) (\<lambda>ivt.
      if \<not> uses_vcenter_aggregate cids \<and> clusters_of ivt = []
      then raise (OtherError (''inventory has no clusters'', []))
      else case resolve_sizing_inventory_data (uuid_str E) ivt aid cids of Inl e \<Rightarrow> raise e | Inr data \<Rightarrow>
        if no_resources data
        then raise (new_err_invalid_cluster_inventory (selection_id cids) unusable_cluster)
        else let p = requirements_params data (apply_defaults req)
             in case check_requirements p of Some e \<Rightarrow> raise e | None \<Rightarrow>
                  size_clusters E H c aid req cids ivt p)))"

subsection \<open>The sizing of inline totals\<close>

definition standalone_params :: "standalone_request \<Rightarrow> cluster_requirements_params" where
  "standalone_params req =
     \<lparr>cp_total_vms = st_total_vms req, cp_total_cpu = st_total_cpu req,
      cp_total_memory = st_total_memory req,
      cp_worker_node_cpu = st_worker_node_cpu req, cp_worker_node_memory = st_worker_node_memory req,
      cp_worker_node_threads = st_worker_node_threads req,
      cp_cpu_over_commit_ratio = st_cpu_over_commit_ratio req,
      cp_memory_over_commit_ratio = st_memory_over_commit_ratio req,
      cp_control_plane_schedulable = st_control_plane_schedulable req,
      cp_control_plane_cpu = st_control_plane_cpu req,
      cp_control_plane_memory = st_control_plane_memory req,
      cp_control_plane_node_count = effective_standalone_control_plane_node_count req,
      cp_hosted_control_plane = (st_hosted_control_plane req = Some True),
      cp_compact_mode = (st_compact_mode req = Some True)\<rparr>"

definition params_fit_error ::
    "(int \<Rightarrow> int \<Rightarrow> float64 \<Rightarrow> string \<Rightarrow> string \<Rightarrow> int \<Rightarrow> int \<Rightarrow> 'a) \<Rightarrow> cluster_requirements_params \<Rightarrow> 'a" where
  "params_fit_error f p =
     f (cp_total_cpu p) (cp_total_memory p) (smt_multiplier p) (cp_cpu_over_commit_ratio p)
       (cp_memory_over_commit_ratio p) (extract_control_plane_cpu p) (extract_control_plane_memory p)"

text \<open>The checks before the exchange, up to the batches.\<close>

definition prepare_standalone :: "cluster_requirements_params \<Rightarrow> error + batched_service list" where
  "prepare_standalone p =
     (if cp_total_vms p \<le> 0 \<or> cp_total_cpu p \<le> 0 \<or> cp_total_memory p \<le> 0
      then Inl (new_err_invalid_request ''inventory must have positive VMs, CPU, and Memory values'')
      else if fle (params_effective_cpu p) (Finite 0) \<or> cp_worker_node_memory p \<le> 0
      then Inl (invalid_request (''worker node size must be greater than zero: CPU=%.2f, Memory=%d'',
             [float_text (params_effective_cpu p), itoa (cp_worker_node_memory p)]))
      else case validate_compact_mode_params p of Some e \<Rightarrow> Inl e | None \<Rightarrow>
     (case check_batch_estimate p of Some e \<Rightarrow> Inl e | None \<Rightarrow>
     (case params_batching_node_size p of Inl e \<Rightarrow> Inl e | Inr (node_cpu, node_memory) \<Rightarrow>
     (case aggregate_vms_into_services (float_of_int (cp_total_cpu p)) (float_of_int (cp_total_memory p))
             (cp_total_vms p) node_cpu node_memory (cp_cpu_over_commit_ratio p)
             (cp_memory_over_commit_ratio p) CapacityMultiplier of
        Inl m \<Rightarrow> Inl (if cp_control_plane_node_count p = 1 then params_fit_error single_node_fit_error p
                     else if cp_compact_mode p then params_fit_error compact_mode_fit_error p
                     else invalid_request m)
      | Inr services \<Rightarrow>
          if cp_control_plane_node_count p = 1 \<and> \<not> extract_control_plane_schedulable p
          then Inl single_node_unschedulable else Inr services))))"

text \<open>The checks of the response.\<close>

definition accept_standalone ::
    "cluster_requirements_params \<Rightarrow> batched_service list \<Rightarrow> sizer_response \<Rightarrow> error + transformed_response" where
  "accept_standalone p services r =
     (let t = transform_sizer_response r (cp_control_plane_node_count p) (cp_compact_mode p);
          single_node = (cp_control_plane_node_count p = 1)
      in case (if single_node then params_fit_error (validate_single_node_fit (dat_node_count (sp_data r))) p
               else None) of Some e \<Rightarrow> Inl e | None \<Rightarrow>
        (case (if cp_compact_mode p
               then params_fit_error (validate_compact_mode_fit (dat_node_count (sp_data r))) p
               else None) of Some e \<Rightarrow> Inl e | None \<Rightarrow>
        (case validate_vm_distribution r services single_node of
           Inl e \<Rightarrow> Inl (if single_node then params_fit_error single_node_fit_error p else e)
         | Inr _ \<Rightarrow>
             if csf_total_nodes (tr_cluster_sizing t) > MaxNodeCount
             then Inl (node_size_error p MaxNodeCount) else Inr t)))"

definition calculate_cluster_requirements_internal ::
    "sizer_http \<Rightarrow> cluster_requirements_params \<Rightarrow> transformed_response go" where
  "calculate_cluster_requirements_internal H p w =
     (case prepare_standalone p of Inl e \<Rightarrow> raise e w | Inr services \<Rightarrow>
       (case calculate_sizing H (params_payload p services) w of
          (Inl m, w') \<Rightarrow>
            raise (sizer_call_error p (cp_total_cpu p) (cp_total_memory p) (smt_multiplier p) m) w'
        | (Inr None, w') \<Rightarrow> raise empty_response w'
        | (Inr (Some r), w') \<Rightarrow> (accept_standalone p services r, w')))"

definition calculate_standalone_cluster_requirements ::
    "sizer_http option \<Rightarrow> standalone_request \<Rightarrow> transformed_response go" where
  "calculate_standalone_cluster_requirements client req =
     (case client of None \<Rightarrow> raise no_sizer_client | Some H \<Rightarrow>
      bind (calculate_cluster_requirements_internal H
              (standalone_params (apply_standalone_defaults req))) (\<lambda>t.
      ret \<lparr>tr_cluster_sizing = tr_cluster_sizing t, tr_resource_consumption = tr_resource_consumption t\<rparr>))"

definition sizer_health :: "sizer_http option \<Rightarrow> unit go" where
  "sizer_health client = (case client of None \<Rightarrow> raise no_sizer_client | Some H \<Rightarrow> sizer_health_check H)"

end
