(* ===== verification/SizerTheorems.thy ===== *)
theory SizerTheorems
  imports SizerRequests Scenario
begin

text \<open>
  The theorems about cluster sizing: the arithmetic of a request, the batches and their placement,
  the selected clusters, the stored input, and the two requests as a whole.
\<close>

subsection \<open>Placing batches\<close>

text \<open>
  The contract of the placement: a node holds no batch twice, and no two batches of which one is
  on the avoid list of the other.
\<close>

definition honours :: "batched_service list \<Rightarrow> sizer_node \<Rightarrow> bool" where
  "honours services n \<longleftrightarrow> distinct (nd_services n) \<and>
     (\<forall>i \<in> {0..<length services}. \<forall>j \<in> {0..<length services}.
        i \<noteq> j \<and> bs_name (services ! i) \<in> set (nd_services n) \<and>
        bs_name (services ! j) \<in> set (nd_services n) \<longrightarrow> \<not> avoiding services i j)"

lemma vms_on_node_sum:
  assumes "distinct (map bs_name services)" "distinct (nd_services n)"
  shows "vms_on_node services n =
    (\<Sum>i \<in> {i \<in> {0..<length services}. bs_name (services ! i) \<in> set (nd_services n)}. bs_vm_count (services ! i))"
proof -
  let ?name = "\<lambda>i. bs_name (services ! i)"
  let ?I = "{i \<in> {0..<length services}. ?name i \<in> set (nd_services n)}"
  let ?m = "map_of (rev (map (\<lambda>s. (bs_name s, bs_vm_count s)) services))"
  let ?f = "\<lambda>x. case ?m x of Some k \<Rightarrow> k | None \<Rightarrow> 0"
  have keys: "distinct (map fst (rev (map (\<lambda>s. (bs_name s, bs_vm_count s)) services)))"
    using assms(1) by (simp add: comp_def flip: rev_map)
  have m: "?m x = Some k \<longleftrightarrow> (\<exists>i < length services. ?name i = x \<and> bs_vm_count (services ! i) = k)" for x k
    unfolding map_of_eq_Some_iff [OF keys] by (auto simp: image_iff) (auto simp: in_set_conv_nth)
  have inj: "inj_on ?name ?I"
    using assms(1) by (auto simp: inj_on_def distinct_conv_nth)
  have at: "?f (?name i) = bs_vm_count (services ! i)" if "i \<in> ?I" for i
    using that m [of "?name i" "bs_vm_count (services ! i)"] by (simp split: option.splits) auto
  have "vms_on_node services n = sum ?f (set (nd_services n))"
    by (simp add: vms_on_node_def sum_list_distinct_conv_sum_set [OF assms(2)])
  also have "\<dots> = sum ?f (?name ` ?I)"
  proof (intro sum.mono_neutral_right ballI)
    fix x assume "x \<in> set (nd_services n) - ?name ` ?I"
    then have "?m x = None"
      using m [of x] by (cases "?m x") auto
    then show "?f x = 0" by simp
  qed auto
  also have "\<dots> = (\<Sum>i \<in> ?I. bs_vm_count (services ! i))"
    unfolding sum.reindex [OF inj] comp_def by (rule sum.cong [OF refl at])
  finally show ?thesis .
qed

lemma honoured_node_fits:
  assumes "\<forall>s \<in> set services. 0 \<le> bs_vm_count s \<and> bs_vm_count s \<le> MaxVMsPerWorkerNode"
    and "distinct (map bs_name services)" "honours services n"
  shows "vms_on_node services n \<le> MaxVMsPerWorkerNode"
proof -
  have "distinct (nd_services n)" using assms(3) by (simp add: honours_def)
  then show ?thesis
    unfolding vms_on_node_sum [OF assms(2) \<open>distinct (nd_services n)\<close>]
    using assms(3) by (intro avoid_lists_sound [OF assms(1,2)]) (auto simp: honours_def)
qed

lemma foldl_most_le:
  fixes f :: "'a \<Rightarrow> 'b::linorder"
  shows "\<forall>x \<in> set xs. f x \<le> k \<Longrightarrow> b \<le> k \<Longrightarrow> foldl (\<lambda>m x. if f x > m then f x else m) b xs \<le> k"
  by (induction xs arbitrary: b) auto

lemma foldl_most_ge:
  fixes f :: "'a \<Rightarrow> 'b::linorder"
  shows "b \<le> foldl (\<lambda>m x. if f x > m then f x else m) b xs \<and>
    (\<forall>x \<in> set xs. f x \<le> foldl (\<lambda>m x. if f x > m then f x else m) b xs)"
proof (induction xs arbitrary: b)
  case (Cons a xs)
  from Cons [of "if f a > b then f a else b"] show ?case
    by (auto split: if_splits)
qed simp

text \<open>The nodes whose load is checked.\<close>

definition loaded_nodes :: "bool \<Rightarrow> sizer_response \<Rightarrow> sizer_node list" where
  "loaded_nodes single_node r =
     filter (\<lambda>n. \<not> (nd_is_control_plane n \<and> \<not> single_node)) (response_nodes r)"

lemma validate_distribution:
  "validate_vm_distribution r services single_node = Inr k \<Longrightarrow>
     \<forall>n \<in> set (loaded_nodes single_node r). vms_on_node services n \<le> MaxVMsPerWorkerNode"
  "\<forall>n \<in> set (loaded_nodes single_node r). vms_on_node services n \<le> MaxVMsPerWorkerNode \<Longrightarrow>
     \<exists>k. validate_vm_distribution r services single_node = Inr k \<and> k \<le> MaxVMsPerWorkerNode"
proof -
  let ?ns = "loaded_nodes single_node r"
  let ?k = "foldl (\<lambda>m n. if vms_on_node services n > m then vms_on_node services n else m) 0 ?ns"
  have eq: "validate_vm_distribution r services single_node =
    (if ?k > MaxVMsPerWorkerNode then Inl (invalid_request
      (''VM distribution constraint violated: found %d VMs on a node, exceeds limit of %d per node'',
       [itoa ?k, itoa MaxVMsPerWorkerNode])) else Inr ?k)"
    by (simp add: validate_vm_distribution_def loaded_nodes_def Let_def)
  show "\<forall>n \<in> set ?ns. vms_on_node services n \<le> MaxVMsPerWorkerNode"
    if "validate_vm_distribution r services single_node = Inr k"
    using that foldl_most_ge [of 0 "vms_on_node services" ?ns] unfolding eq
    by (auto split: if_splits intro: order_trans)
  show "\<exists>k. validate_vm_distribution r services single_node = Inr k \<and> k \<le> MaxVMsPerWorkerNode"
    if "\<forall>n \<in> set ?ns. vms_on_node services n \<le> MaxVMsPerWorkerNode"
    using foldl_most_le [OF that, of 0] unfolding eq by (simp add: MaxVMsPerWorkerNode_def)
qed

text \<open>
  C25: a response that puts every batch at most once on a worker, and never two batches that avoid
  each other, passes the check of the VM distribution.
\<close>

theorem honoured_placement_accepted:
  assumes "aggregate_vms_into_services c m v wc wm cr mr cm = Inr services" "0 < v" "v < 2 ^ 53"
    and "\<forall>n \<in> set (loaded_nodes False r). honours services n"
  shows "\<exists>k. validate_vm_distribution r services False = Inr k \<and> k \<le> MaxVMsPerWorkerNode"
  using assms(4) honoured_node_fits [OF aggregate_services(3,2) [OF assms(1-3)]]
  by (intro validate_distribution(2)) simp

subsection \<open>The batches of a workload\<close>

text \<open>
  C30: the batches of a workload hold all its VMs, have different names, and none holds more VMs
  than a worker may run.
\<close>

theorem batches_partition_vms:
  assumes "aggregate_vms_into_services c m v wc wm cr mr cm = Inr services" "0 < v" "v < 2 ^ 53"
  shows "sum_list (map bs_vm_count services) = v \<and> distinct (map bs_name services) \<and>
    (\<forall>s \<in> set services. 0 \<le> bs_vm_count s \<and> bs_vm_count s \<le> MaxVMsPerWorkerNode)"
  by (intro conjI aggregate_services [OF assms])

text \<open>
  The minimum batch size raises the number of batches above the number of VMs and above the
  limit on batches: one VM with one gigabyte is split into a batch for each of its cores.
\<close>

theorem minimum_batch_splits_one_vm:
  assumes "0 < a" "a < 2 ^ 52" "0 < wm" "\<not> fle wc (Finite 0)"
  shows "\<exists>services. aggregate_vms_into_services (float_of_int a) (float_of_int 1) 1 wc wm ''1:1'' ''1:1'' cm
      = Inr services \<and> length services = nat a"
proof -
  have one: "batch_count (float_of_int a) (float_of_int 1) 1 wc wm cm = 1"
    using batch_count_bounds [of 1 "float_of_int a" "float_of_int 1" wc wm cm] by simp
  have a: "int_of_float (fceil (fdiv (float_of_int a) MinBatchCPU)) = a"
    using int_ceil_quotient [of a 1] assms by (simp add: MinBatchCPU_def)
  have m: "int_of_float (fceil (fdiv (float_of_int 1) MinBatchMemory)) = 1"
    by code_simp
  have v: "int_of_float (fceil (fdiv (float_of_int 1) (float_of_int MaxVMsPerWorkerNode))) = 1"
    by code_simp
  have small: "flt (fdiv (float_of_int 1) (float_of_int 1)) MinBatchMemory"
    by code_simp
  have limit: "(0 < MaxVMsPerWorkerNode) = True" "((0::int) < 1) = True" "max a 1 = a" "(a < 1) = False"
    using assms(1) by (simp_all add: MaxVMsPerWorkerNode_def)
  have "enforce_minimum_batch (float_of_int a) (float_of_int 1) 1 1 = a"
    unfolding enforce_minimum_batch_def Let_def a m v
    by (simp only: small limit if_True if_False disj_comms simp_thms)
  then show ?thesis
    using assms(3,4) one
    by (simp add: aggregate_vms_into_services_def Let_def MaxBatches_def
      get_cpu_over_commit_multiplier_def get_memory_over_commit_multiplier_def)
qed

subsection \<open>Arithmetic\<close>

text \<open>
  C33: the failover capacity, computed in floating point, is a tenth of the workers rounded up, at
  least two, and none for a cluster without workers.
\<close>

theorem failover_is_a_tenth:
  assumes "0 \<le> w" "w < 2 ^ 49"
  shows "calculate_failover_nodes w = (if w = 0 then 0 else max MinFailoverNodes \<lceil>of_int w / (10 :: rat)\<rceil>)"
  using failover_eq [OF assms] ceiling_divide_eq_div [of w 10, where 'a = rat]
  by (simp add: MinFailoverNodes_def)

theorem failover_is_a_tenth_witness:
  "calculate_failover_nodes 25 = (if (25::int) = 0 then 0 else max MinFailoverNodes \<lceil>of_int 25 / (10 :: rat)\<rceil>)"
  by (rule failover_is_a_tenth) simp_all

text \<open>
  C34: the node size a request is told to use has an even number of cores from 2 to 384 and a
  multiple of four gigabytes from 4 to 4096, whatever the inventory.
\<close>

theorem recommended_size_in_range:
  "calculate_minimum_node_size cpu memory n cm smt \<in>
     {(c, m). MinFallbackNodeCPU \<le> c \<and> c \<le> MaxRecommendedNodeCPU \<and> 2 dvd c \<and>
              MinFallbackNodeMemory \<le> m \<and> m \<le> MaxRecommendedNodeMemory \<and> 4 dvd m}"
  using minimum_node_size_bounds by (cases "calculate_minimum_node_size cpu memory n cm smt")
    (simp add: sizer_constants)

subsection \<open>Defaults and selection\<close>

text \<open>
  The defaults fill every option but the compact mode, clear the control plane options of a
  hosted control plane, keep what the user chose, and applying them twice changes nothing.
\<close>

theorem defaults_complete:
  "apply_defaults (apply_defaults req) = apply_defaults req \<and>
   (let r = apply_defaults req in
      cr_worker_node_threads r \<noteq> None \<and> cr_hosted_control_plane r \<noteq> None \<and>
      (if cr_hosted_control_plane r = Some True
       then cr_control_plane_node_count r = None \<and> cr_control_plane_cpu r = None \<and>
            cr_control_plane_memory r = None \<and> cr_control_plane_schedulable r = None \<and>
            effective_control_plane_node_count r = 0
       else cr_control_plane_node_count r = default_to 3 (cr_control_plane_node_count req) \<and>
            cr_control_plane_cpu r = default_to 6 (cr_control_plane_cpu req) \<and>
            cr_control_plane_memory r = default_to 16 (cr_control_plane_memory req) \<and>
            cr_control_plane_schedulable r = default_to False (cr_control_plane_schedulable req)))"
  by (cases "cr_hosted_control_plane req = Some True")
    (auto simp: apply_defaults_def apply_cluster_sizing_option_defaults_def Let_def default_to_def
      defaultWorkerNodeThreads_def defaultHostedControlPlane_def defaultControlPlaneSchedulable_def
      defaultControlPlaneNodeCount_def defaultControlPlaneCPU_def defaultControlPlaneMemory_def
      effective_control_plane_node_count_def split: option.splits)

definition usable_selection :: "inventory \<Rightarrow> string list \<Rightarrow> bool" where
  "usable_selection ivt cids \<longleftrightarrow> distinct cids \<and> [] \<notin> set cids \<and>
     (\<forall>cid \<in> set cids. \<exists>data. map_of (clusters_of ivt) cid = Some data \<and> \<not> no_resources data)"

definition total_of :: "inventory \<Rightarrow> (inventory_data \<Rightarrow> goint) \<Rightarrow> string list \<Rightarrow> goint" where
  "total_of ivt f cids = sum_list (map (\<lambda>cid. f (the (map_of (clusters_of ivt) cid))) cids)"

abbreviation total_vms :: "inventory_data \<Rightarrow> goint" where "total_vms \<equiv> vm_total \<circ> dt_vms"
abbreviation total_cores :: "inventory_data \<Rightarrow> goint" where
  "total_cores \<equiv> rb_total \<circ> vm_cpu_cores \<circ> dt_vms"
abbreviation total_memory :: "inventory_data \<Rightarrow> goint" where
  "total_memory \<equiv> rb_total \<circ> vm_ram_gb \<circ> dt_vms"

lemma total_of_simps [simp]:
  "total_of ivt f [] = 0"
  "total_of ivt f (cid # cids) = f (the (map_of (clusters_of ivt) cid)) + total_of ivt f cids"
  by (simp_all add: total_of_def)

lemma resolve_clusters_ok:
  "(\<exists>data. resolve_clusters us ivt aid cids seen r = Inr data) \<longleftrightarrow>
     usable_selection ivt cids \<and> set cids \<inter> set seen = {}"
  by (induction cids arbitrary: seen r) (auto simp: usable_selection_def split: option.splits)

lemma resolve_clusters_totals:
  "resolve_clusters us ivt aid cids seen r = Inr data \<Longrightarrow>
     total_vms data = total_vms r + total_of ivt total_vms cids \<and>
     total_cores data = total_cores r + total_of ivt total_cores cids \<and>
     total_memory data = total_memory r + total_of ivt total_memory cids"
proof (induction cids arbitrary: seen r)
  case (Cons cid cids)
  then show ?case
    by (auto simp: add_totals_def set_total_def add.assoc split: if_splits option.splits)
qed simp

text \<open>
  C32: a selection of clusters is accepted exactly if its names are not empty, different, and known,
  and every cluster has VMs, cores and memory; the totals are then the sums of the clusters' totals.
\<close>

theorem selection_adds_up:
  assumes "\<not> uses_vcenter_aggregate cids"
  shows "(\<exists>data. resolve_sizing_inventory_data us ivt aid cids = Inr data) = usable_selection ivt cids \<and>
    (\<forall>data. resolve_sizing_inventory_data us ivt aid cids = Inr data \<longrightarrow>
       total_vms data = total_of ivt total_vms cids \<and>
       total_cores data = total_of ivt total_cores cids \<and>
       total_memory data = total_of ivt total_memory cids)"
  using assms resolve_clusters_ok [of us ivt aid cids "[]" zero_inventory_data]
    resolve_clusters_totals [of us ivt aid cids "[]" zero_inventory_data]
  by (auto simp: resolve_sizing_inventory_data_def zero_inventory_data_def zero_vms_def zero_breakdown_def)

subsection \<open>The stored input\<close>

lemma find_upserted:
  assumes "upsert_sizing_input r d = Inr d'"
  shows "find_sizing_input d' aid cid =
    (if aid = si_assessment_id r \<and> cid = si_external_cluster_id r
     then Some (r\<lparr>si_compact_mode := Some (si_compact_mode r = Some True)\<rparr>)
     else find_sizing_input d aid cid)"
proof -
  let ?r = "r\<lparr>si_compact_mode := Some (si_compact_mode r = Some True)\<rparr>"
  let ?same = "\<lambda>q. si_assessment_id q = si_assessment_id r \<and> si_external_cluster_id q = si_external_cluster_id r"
  let ?P = "\<lambda>q. si_assessment_id q = aid \<and> si_external_cluster_id q = cid"
  have map: "find ?P (map (\<lambda>q. if ?same q then ?r else q) rows) =
      (if aid = si_assessment_id r \<and> cid = si_external_cluster_id r
       then (if \<exists>q \<in> set rows. ?same q then Some ?r else None) else find ?P rows)" for rows
    by (induction rows) auto
  have append: "find ?P (rows @ [?r]) = (case find ?P rows of Some q \<Rightarrow> Some q
      | None \<Rightarrow> if ?P ?r then Some ?r else None)" for rows
    by (induction rows) auto
  let ?rows = "cluster_sizing_inputs d"
  have rows: "cluster_sizing_inputs d' =
      (if \<exists>q \<in> set ?rows. ?same q then map (\<lambda>q. if ?same q then ?r else q) ?rows else ?rows @ [?r])"
    using assms by (auto simp: upsert_sizing_input_def Let_def split: if_splits)
  show ?thesis
  proof (cases "\<exists>q \<in> set ?rows. ?same q")
    case True
    then have "cluster_sizing_inputs d' = map (\<lambda>q. if ?same q then ?r else q) ?rows"
      by (simp only: rows if_True)
    then show ?thesis
      unfolding find_sizing_input_def by (simp only: map True if_True)
  next
    case False
    then have "cluster_sizing_inputs d' = ?rows @ [?r]"
      by (simp only: rows if_False)
    moreover have "find ?same ?rows = None"
      using False by (auto simp: find_None_iff)
    ultimately show ?thesis
      unfolding find_sizing_input_def by (auto simp: append split: option.splits)
  qed
qed

lemma upsert_sizing_input_ok:
  "si_assessment_id r \<in> a_id ` set (assessments d) \<Longrightarrow> \<exists>d'. upsert_sizing_input r d = Inr d'"
  by (simp add: upsert_sizing_input_def Let_def)

text \<open>
  C31: when no database call fails, the input of a request for a cluster of an existing assessment
  is stored, and reading it returns the fields of the request, an omitted compact mode as false,
  while the inputs of all other clusters are as before.
\<close>

theorem stored_input_roundtrip:
  assumes "\<not> faulty E" "aid \<in> a_id ` set (assessments (get_db c w))"
    and "persist_cluster_sizing_input E c aid req w = (r, w')"
  shows "r = Inr () \<and>
    fst (get_cluster_requirements_input E c aid (cr_cluster_id req) w') =
      Inr (input_form ((input_row aid req)\<lparr>si_compact_mode := Some (cr_compact_mode req = Some True)\<rparr>)) \<and>
    (\<forall>aid' cid. (aid', cid) \<noteq> (aid, cr_cluster_id req) \<longrightarrow>
       find_sizing_input (get_db c w') aid' cid = find_sizing_input (get_db c w) aid' cid)"
proof -
  define row where "row = (input_row aid req)\<lparr>si_updated_at := Some (clock E (tick w))\<rparr>"
  have row: "si_assessment_id row = aid" "si_external_cluster_id row = cr_cluster_id req"
    "input_form (row\<lparr>si_compact_mode := x\<rparr>) = input_form ((input_row aid req)\<lparr>si_compact_mode := x\<rparr>)"
    "si_compact_mode row = cr_compact_mode req" for x
    by (simp_all add: row_def input_row_def input_form_def)
  obtain d' where d': "upsert_sizing_input row (get_db c w) = Inr d'"
    using upsert_sizing_input_ok [of row] assms(2) row(1) by auto
  have "wp (persist_cluster_sizing_input E c aid req) w (\<lambda>r w'. r = Inr () \<and> get_db c w' = d')"
    using assms(1) d'
    by (simp add: persist_cluster_sizing_input_def upsert_cluster_sizing_input_def wp_simps faulty_def
        flip: row_def)
  then have run: "r = Inr ()" "get_db c w' = d'"
    using wpD assms(3) by fast+
  have "wp (get_cluster_requirements_input E c aid (cr_cluster_id req)) w'
     (\<lambda>r w''. r = Inr (input_form ((input_row aid req)\<lparr>si_compact_mode := Some (cr_compact_mode req = Some True)\<rparr>)))"
    using assms(1)
    by (simp add: get_cluster_requirements_input_def get_cluster_sizing_input_def wp_simps faulty_def run
        find_upserted [OF d'] row)
  then show ?thesis
    by (auto simp: run wp_run find_upserted [OF d'] row)
qed

subsection \<open>Concrete workloads\<close>

definition demo_batches :: "batched_service list" where
  "demo_batches = map (make_batch 300 4 (Finite (5 / 2)) (Finite (25 / 2)) (Finite 10) (Finite 25)) [0..<4]"

lemma demo_aggregate:
  "aggregate_vms_into_services (Finite 40) (Finite 100) 300 (Finite 16) 64 ''1:4'' ''1:2'' CapacityMultiplier
     = Inr demo_batches"
  by code_simp

definition demo_node :: "bool \<Rightarrow> string list \<Rightarrow> sizer_node" where
  "demo_node cp services = \<lparr>nd_node = ''node'', nd_machine_set = ''worker'', nd_is_control_plane = cp,
     nd_services = services\<rparr>"

definition demo_response :: "sizer_node list \<Rightarrow> sizer_response" where
  "demo_response nodes = \<lparr>sp_success = True, sp_data = \<lparr>dat_node_count = int (length nodes), dat_zones = 1,
     dat_total_cpu = 64, dat_total_memory = 256,
     dat_resource_consumption = \<lparr>rc_cpu = Finite 1, rc_memory = Finite 1, rc_limits = None,
       rc_over_commit_ratio = None\<rparr>,
     dat_advanced = [\<lparr>zn_zone = ''zone1'', zn_nodes = nodes\<rparr>]\<rparr>, sp_error = []\<rparr>"

definition demo_placement :: sizer_response where
  "demo_placement = demo_response
     [demo_node True [], demo_node False [batch_name 0, batch_name 1], demo_node False [batch_name 2, batch_name 3]]"

lemma demo_batches_names: "i < length demo_batches \<Longrightarrow> bs_name (demo_batches ! i) = batch_name i"
  by (simp add: demo_batches_def)

lemma demo_honours: "distinct (nd_services n) \<Longrightarrow> set (nd_services n) \<subseteq> batch_name ` G \<Longrightarrow>
    G \<in> {{0, 1}, {2, 3}} \<Longrightarrow> honours demo_batches n"
proof -
  assume n: "distinct (nd_services n)" "set (nd_services n) \<subseteq> batch_name ` G" "G \<in> {{0, 1}, {2, 3}}"
  have names: "distinct (map bs_name demo_batches)"
    by (simp add: demo_batches_def comp_def distinct_map inj_on_def inj_batch_name)
  have size: "max_vms_per_batch demo_batches \<noteq> 0" "services_per_node demo_batches = 2"
    by code_simp+
  have "int i div 2 = int j div 2" if "i \<in> G" "j \<in> G" for i j
    using that n(3) by auto
  moreover have "i \<in> G" if "bs_name (demo_batches ! i) \<in> set (nd_services n)" "i < length demo_batches" for i
    using that n(2) by (auto simp: demo_batches_names inj_batch_name)
  ultimately show ?thesis
    using n(1) avoid_groups [OF names] size by (auto simp: honours_def)
qed

lemma demo_placement_honours: "\<forall>n \<in> set (loaded_nodes False demo_placement). honours demo_batches n"
  by (auto simp: loaded_nodes_def demo_placement_def demo_response_def demo_node_def response_nodes_def
      inj_batch_name intro: demo_honours [where G = "{0, 1}"] demo_honours [where G = "{2, 3}"])

theorem honoured_placement_accepted_witness:
  "\<exists>k. validate_vm_distribution demo_placement demo_batches False = Inr k \<and> k \<le> MaxVMsPerWorkerNode"
  by (rule honoured_placement_accepted [OF demo_aggregate _ _ demo_placement_honours]) simp_all

theorem batches_partition_vms_witness:
  "sum_list (map bs_vm_count demo_batches) = 300 \<and> distinct (map bs_name demo_batches) \<and>
    bs_vm_count (demo_batches ! 3) \<le> MaxVMsPerWorkerNode"
proof -
  have "demo_batches ! 3 \<in> set demo_batches" by (simp add: demo_batches_def)
  then show ?thesis using batches_partition_vms [OF demo_aggregate] by simp
qed

theorem minimum_batch_splits_one_vm_witness:
  "\<exists>services. aggregate_vms_into_services (float_of_int 5000) (float_of_int 1) 1 (Finite 16) 64 ''1:1'' ''1:1''
     CapacityMultiplier = Inr services \<and> length services = nat 5000"
proof (rule minimum_batch_splits_one_vm)
  show "\<not> fle (Finite 16) (Finite 0)" by code_simp
qed simp_all

definition demo_cluster :: inventory_data where
  "demo_cluster = zero_inventory_data\<lparr>dt_vms := zero_vms\<lparr>vm_total := 10,
     vm_cpu_cores := zero_breakdown\<lparr>rb_total := 40\<rparr>, vm_ram_gb := zero_breakdown\<lparr>rb_total := 160\<rparr>\<rparr>\<rparr>"

definition demo_inventory :: inventory where
  "demo_inventory = zero_inventory\<lparr>inv_clusters := Some [(''c1'', demo_cluster), (''c2'', demo_cluster)]\<rparr>"

theorem selection_adds_up_witness:
  "\<exists>data. resolve_sizing_inventory_data demo_uuid_str demo_inventory 3 [''c1'', ''c2''] = Inr data \<and>
     total_vms data = 20"
proof -
  have "usable_selection demo_inventory [''c1'', ''c2'']"
    by (simp add: usable_selection_def demo_inventory_def demo_cluster_def clusters_of_def no_resources_def)
  moreover have "total_of demo_inventory total_vms [''c1'', ''c2''] = 20"
    by (simp add: demo_inventory_def demo_cluster_def clusters_of_def)
  ultimately show ?thesis
    using selection_adds_up [of "[''c1'', ''c2'']" demo_uuid_str demo_inventory 3]
    by (auto simp: uses_vcenter_aggregate_def)
qed

definition demo_requirements :: cluster_requirements_request where
  "demo_requirements = \<lparr>cr_cluster_id = ''c1'', cr_cluster_ids = None, cr_cpu_over_commit_ratio = ''1:4'',
     cr_memory_over_commit_ratio = ''1:2'', cr_worker_node_cpu = 16, cr_worker_node_memory = 64,
     cr_worker_node_threads = None, cr_control_plane_schedulable = None, cr_control_plane_node_count = None,
     cr_control_plane_cpu = None, cr_control_plane_memory = None, cr_hosted_control_plane = None,
     cr_compact_mode = None\<rparr>"

theorem stored_input_roundtrip_witness:
  "fst (persist_cluster_sizing_input demo_env (request_context (demo_user ''cus'')) 3 demo_requirements
     (start demo_db)) = Inr ()"
  by (rule stored_input_roundtrip [THEN conjunct1, OF _ _ prod.collapse [symmetric]])
     (simp add: faulty_def demo_env_def, code_simp)

end
