(* ===== verification/SizerRequestTheorems.thy ===== *)
theory SizerRequestTheorems
  imports SizerTheorems
begin

text \<open>
  The theorems about the two sizing requests as a whole: what a successful answer satisfies, when
  inline totals are sized successfully, how the optimised sizing relates to the baseline, and where
  the two requests differ.
\<close>

subsection \<open>What a response becomes\<close>

lemma transformed_nodes:
  assumes "t = tr_cluster_sizing (transform_sizer_response r n cmode)"
  shows "csf_total_nodes t = csf_control_plane_nodes t + csf_worker_nodes t"
    "n = 1 \<Longrightarrow> csf_total_nodes t = 1 \<and> csf_worker_nodes t = 0 \<and> csf_failover_nodes t = 0"
    "n \<noteq> 1 \<Longrightarrow> cmode \<Longrightarrow> csf_total_nodes t = 3 \<and> csf_worker_nodes t = 0 \<and> csf_failover_nodes t = 0"
    "n \<noteq> 1 \<Longrightarrow> \<not> cmode \<Longrightarrow> (csf_control_plane_nodes t, csf_worker_nodes t - csf_failover_nodes t) = count_nodes r n \<and>
       csf_failover_nodes t = calculate_failover_nodes (snd (count_nodes r n))"
  unfolding assms by (cases "count_nodes r n"; simp add: transform_sizer_response_def Let_def)+

lemma prepared_services:
  assumes "prepare_standalone p = Inr services"
  obtains wc wm where "aggregate_vms_into_services (float_of_int (cp_total_cpu p))
      (float_of_int (cp_total_memory p)) (cp_total_vms p) wc wm (cp_cpu_over_commit_ratio p)
      (cp_memory_over_commit_ratio p) CapacityMultiplier = Inr services" "0 < cp_total_vms p"
  using assms by (auto simp: prepare_standalone_def split: if_splits option.splits sum.splits prod.splits)

lemma accepted_response:
  assumes "accept_standalone p services r = Inr t"
  shows "t = transform_sizer_response r (cp_control_plane_node_count p) (cp_compact_mode p)"
    "csf_total_nodes (tr_cluster_sizing t) \<le> MaxNodeCount"
    "\<exists>k. validate_vm_distribution r services (cp_control_plane_node_count p = 1) = Inr k"
  using assms by (auto simp: accept_standalone_def Let_def split: if_splits option.splits sum.splits)

lemma internal_success:
  assumes "calculate_cluster_requirements_internal H p w = (Inr t, w')"
  obtains services r where "prepare_standalone p = Inr services"
    "calculate_sizing H (params_payload p services) w = (Inr (Some r), w')"
    "accept_standalone p services r = Inr t"
  using assms
  by (auto simp: calculate_cluster_requirements_internal_def raise_def
      split: sum.splits prod.splits option.splits)

text \<open>
  C26: a successful sizing of inline totals has at most 100 nodes, its workers include the failover
  capacity of the workers the sizing service asked for, a single node is one node and a compact
  cluster three, and the checked response puts at most 200 VMs on a worker, of batches that hold
  all VMs.
\<close>

theorem standalone_sizing_sound:
  assumes "calculate_cluster_requirements_internal H p w = (Inr t, w')" "cp_total_vms p < 2 ^ 53"
  shows "(let s = tr_cluster_sizing t; n = cp_control_plane_node_count p in
      csf_total_nodes s \<le> MaxNodeCount \<and>
      csf_total_nodes s = csf_control_plane_nodes s + csf_worker_nodes s \<and>
      (if n = 1 then csf_total_nodes s = 1 else if cp_compact_mode p then csf_total_nodes s = 3
       else csf_failover_nodes s = calculate_failover_nodes (csf_worker_nodes s - csf_failover_nodes s))) \<and>
    (\<exists>services r. sum_list (map bs_vm_count services) = cp_total_vms p \<and>
       calculate_sizing H (params_payload p services) w = (Inr (Some r), w') \<and>
       list_all (\<lambda>n. vms_on_node services n \<le> MaxVMsPerWorkerNode)
         (loaded_nodes (cp_control_plane_node_count p = 1) r))"
proof -
  obtain services r where s: "prepare_standalone p = Inr services"
    "calculate_sizing H (params_payload p services) w = (Inr (Some r), w')"
    "accept_standalone p services r = Inr t"
    using internal_success [OF assms(1)] by metis
  obtain wc wm where "aggregate_vms_into_services (float_of_int (cp_total_cpu p))
      (float_of_int (cp_total_memory p)) (cp_total_vms p) wc wm (cp_cpu_over_commit_ratio p)
      (cp_memory_over_commit_ratio p) CapacityMultiplier = Inr services" "0 < cp_total_vms p"
    using prepared_services [OF s(1)] by metis
  then have "sum_list (map bs_vm_count services) = cp_total_vms p"
    using aggregate_services(1) assms(2) by blast
  moreover note accepted_response [OF s(3)]
  moreover have "tr_cluster_sizing t =
      tr_cluster_sizing (transform_sizer_response r (cp_control_plane_node_count p) (cp_compact_mode p))"
    by (simp add: accepted_response(1) [OF s(3)])
  note nodes = transformed_nodes [OF this]
  ultimately show ?thesis
    using s(2) validate_distribution(1) nodes
    by (auto simp: Let_def list_all_iff) (metis Pair_inject prod.collapse)+
qed

subsection \<open>When inline totals are sized\<close>

text \<open>A request the service accepts: a cluster with workers whose batches stay within the limits.\<close>

definition sizable :: "cluster_requirements_params \<Rightarrow> bool" where
  "sizable p \<longleftrightarrow>
     0 < cp_total_vms p \<and> cp_total_vms p \<le> MaxBatches * MaxVMsPerWorkerNode \<and>
     0 < cp_total_cpu p \<and> 0 < cp_total_memory p \<and>
     \<not> fle (params_effective_cpu p) (Finite 0) \<and> 0 < cp_worker_node_memory p \<and>
     cp_control_plane_node_count p \<noteq> 1 \<and> \<not> cp_compact_mode p \<and>
     check_batch_estimate p = None \<and>
     cp_cpu_over_commit_ratio p \<in> {''1:1'', ''1:2'', ''1:4'', ''1:6'', ''1:8''} \<and>
     cp_memory_over_commit_ratio p \<in> {''1:1'', ''1:2'', ''1:4''}"

lemma batch_count_within:
  assumes "sizable p"
  shows "batch_count (float_of_int (cp_total_cpu p)) (float_of_int (cp_total_memory p)) (cp_total_vms p)
    (params_effective_cpu p) (cp_worker_node_memory p) CapacityMultiplier \<le> MaxBatches"
proof -
  have v: "0 < cp_total_vms p" "cp_total_vms p \<le> 200000"
    using assms by (simp_all add: sizable_def MaxBatches_def MaxVMsPerWorkerNode_def)
  have "- cp_total_vms p div 200 \<ge> - 200000 div 200"
    using v by (intro zdiv_mono1) simp_all
  then have limit: "vm_limit_batches (cp_total_vms p) \<le> 1000" by simp
  define bc where "bc = int_of_float (fceil (fdiv (float_of_int (cp_total_cpu p))
    (fmul (params_effective_cpu p) CapacityMultiplier)))"
  define bm where "bm = int_of_float (fceil (fdiv (float_of_int (cp_total_memory p))
    (fmul (float_of_int (cp_worker_node_memory p)) CapacityMultiplier)))"
  have "max bc bm \<le> 1000"
    using assms unfolding sizable_def check_batch_estimate_def Let_def bc_def [symmetric] bm_def [symmetric]
    by (auto simp: MaxBatches_def split: if_splits)
  moreover have "0 < MaxVMsPerWorkerNode" by (simp add: MaxVMsPerWorkerNode_def)
  ultimately show ?thesis
    using v(1) limit vm_limit_batches_float [of "cp_total_vms p"] v(2)
    unfolding batch_count_def Let_def bc_def [symmetric] bm_def [symmetric] MaxBatches_def
    by (simp; linarith)
qed

lemma known_ratios:
  "r \<in> {''1:1'', ''1:2'', ''1:4'', ''1:6'', ''1:8''} \<Longrightarrow> \<exists>m. get_cpu_over_commit_multiplier r = Inr m"
  "r \<in> {''1:1'', ''1:2'', ''1:4''} \<Longrightarrow> \<exists>m. get_memory_over_commit_multiplier r = Inr m"
  by (auto simp: get_cpu_over_commit_multiplier_def get_memory_over_commit_multiplier_def)

lemma sizable_prepared:
  assumes "sizable p"
  obtains services where "prepare_standalone p = Inr services"
proof -
  obtain cm mm where ratios: "get_cpu_over_commit_multiplier (cp_cpu_over_commit_ratio p) = Inr cm"
    "get_memory_over_commit_multiplier (cp_memory_over_commit_ratio p) = Inr mm"
    using assms known_ratios unfolding sizable_def by metis
  have "\<exists>services. aggregate_vms_into_services (float_of_int (cp_total_cpu p))
      (float_of_int (cp_total_memory p)) (cp_total_vms p) (params_effective_cpu p)
      (cp_worker_node_memory p) (cp_cpu_over_commit_ratio p) (cp_memory_over_commit_ratio p)
      CapacityMultiplier = Inr services"
    using assms batch_count_within [OF assms] unfolding sizable_def
    by (simp add: aggregate_vms_into_services_def Let_def ratios)
  then show thesis
    using assms that unfolding sizable_def
    by (auto simp: prepare_standalone_def params_batching_node_size_def validate_compact_mode_params_def
        compact_mode_batching_node_size_def)
qed

lemma sizable_answered:
  assumes "sizable p"
    and "\<And>services. prepare_standalone p = Inr services \<Longrightarrow>
           calculate_sizing H (params_payload p services) w = (Inr (Some r), w') \<and>
           list_all (honours services) (loaded_nodes False r)"
    and "snd (count_nodes r (cp_control_plane_node_count p)) = k"
    and "fst (count_nodes r (cp_control_plane_node_count p)) + k + calculate_failover_nodes k \<le> MaxNodeCount"
  shows "calculate_cluster_requirements_internal H p w =
    (Inr (transform_sizer_response r (cp_control_plane_node_count p) False), w')"
proof -
  obtain services where s: "prepare_standalone p = Inr services"
    using sizable_prepared [OF assms(1)] .
  obtain wc wm where agg: "aggregate_vms_into_services (float_of_int (cp_total_cpu p))
      (float_of_int (cp_total_memory p)) (cp_total_vms p) wc wm (cp_cpu_over_commit_ratio p)
      (cp_memory_over_commit_ratio p) CapacityMultiplier = Inr services" "0 < cp_total_vms p"
    using prepared_services [OF s] by metis
  have p: "cp_total_vms p < 2 ^ 53" "cp_control_plane_node_count p \<noteq> 1" "\<not> cp_compact_mode p"
    using assms(1) by (auto simp: sizable_def MaxBatches_def MaxVMsPerWorkerNode_def)
  have "\<exists>m. validate_vm_distribution r services False = Inr m"
    using assms(2) [OF s] honoured_node_fits [OF aggregate_services(3,2) [OF agg p(1)]]
      validate_distribution(2) [of False r services] by (auto simp: list_all_iff)
  moreover have "csf_total_nodes (tr_cluster_sizing
      (transform_sizer_response r (cp_control_plane_node_count p) False)) \<le> MaxNodeCount"
    using transformed_nodes(1,4) [OF refl, where r = r and n = "cp_control_plane_node_count p" and cmode = False] p(2) assms(3,4)
    by (metis (no_types, lifting) add.assoc diff_add_cancel fst_conv snd_conv)
  ultimately have "accept_standalone p services r =
      Inr (transform_sizer_response r (cp_control_plane_node_count p) False)"
    using p(2,3) by (auto simp: accept_standalone_def Let_def)
  then show ?thesis
    using assms(2) [OF s] by (simp add: calculate_cluster_requirements_internal_def s)
qed

text \<open>
  C27: a request within the limits is answered: if the sizing service returns a response that
  honours the avoid lists and has, with the failover workers, at most 100 nodes, the request
  returns the translated response.
\<close>

theorem sizable_request_answered:
  assumes "sizable p"
    and "\<And>services. prepare_standalone p = Inr services \<Longrightarrow>
           calculate_sizing H (params_payload p services) w = (Inr (Some r), w') \<and>
           list_all (honours services) (loaded_nodes False r)"
    and "snd (count_nodes r (cp_control_plane_node_count p)) = k"
    and "fst (count_nodes r (cp_control_plane_node_count p)) + k + calculate_failover_nodes k \<le> MaxNodeCount"
  shows "calculate_cluster_requirements_internal H p w =
    (Inr (transform_sizer_response r (cp_control_plane_node_count p) False), w')"
  by (rule sizable_answered [OF assms])

definition demo_http :: "sizer_response \<Rightarrow> sizer_http" where
  "demo_http r = \<lparr>http_post = (\<lambda>_ _. Inr (200, [])), http_get_health = (\<lambda>_. Inr 200),
     decode_response = (\<lambda>_. Inr r)\<rparr>"

definition demo_standalone :: standalone_request where
  "demo_standalone = \<lparr>st_total_vms = 300, st_total_cpu = 40, st_total_memory = 100,
     st_cpu_over_commit_ratio = ''1:4'', st_memory_over_commit_ratio = ''1:2'', st_worker_node_cpu = 16,
     st_worker_node_memory = 64, st_worker_node_threads = None, st_control_plane_schedulable = None,
     st_control_plane_node_count = None, st_control_plane_cpu = None, st_control_plane_memory = None,
     st_hosted_control_plane = None, st_compact_mode = None\<rparr>"

abbreviation demo_params :: cluster_requirements_params where
  "demo_params \<equiv> standalone_params (apply_standalone_defaults demo_standalone)"

lemma demo_exchange:
  "sp_success r \<Longrightarrow> calculate_sizing (demo_http r) req w = (Inr (Some r), next_tick w)"
  by (simp add: calculate_sizing_def demo_http_def)

lemma demo_sizable: "sizable demo_params"
  by code_simp

lemma demo_prepared: "prepare_standalone demo_params = Inr demo_batches"
proof -
  have "params_batching_node_size demo_params = Inr (Finite 16, 64)" "validate_compact_mode_params demo_params = None"
    "float_of_int (cp_total_cpu demo_params) = Finite 40" "float_of_int (cp_total_memory demo_params) = Finite 100"
    "cp_total_vms demo_params = 300" "cp_cpu_over_commit_ratio demo_params = ''1:4''"
    "cp_memory_over_commit_ratio demo_params = ''1:2''"
    by code_simp+
  moreover obtain p where p: "p = demo_params" by blast
  ultimately show ?thesis
    using demo_sizable demo_aggregate
    unfolding prepare_standalone_def sizable_def p [symmetric] by simp
qed

lemma demo_success: "sp_success demo_placement"
  by (simp add: demo_placement_def demo_response_def)

lemma demo_count: "count_nodes demo_placement 3 = (1, 2)" "calculate_failover_nodes 2 = 2"
  "cp_control_plane_node_count demo_params = 3"
  by code_simp+

theorem sizable_request_answered_witness:
  "calculate_cluster_requirements_internal (demo_http demo_placement) demo_params (start demo_db) =
    (Inr (transform_sizer_response demo_placement 3 False), next_tick (start demo_db))"
  using sizable_request_answered [OF demo_sizable, where H = "demo_http demo_placement" and r = demo_placement and k = 2]
    demo_placement_honours
  by (simp add: demo_prepared demo_exchange demo_success demo_count MaxNodeCount_def list_all_iff)

lemma demo_sized:
  "calculate_cluster_requirements_internal (demo_http demo_placement) demo_params (start demo_db) =
    (Inr (transform_sizer_response demo_placement 3 False), next_tick (start demo_db))"
  using sizable_answered [OF demo_sizable, where H = "demo_http demo_placement" and r = demo_placement and k = 2]
    demo_placement_honours
  by (simp add: demo_prepared demo_exchange demo_success demo_count MaxNodeCount_def list_all_iff)

theorem standalone_sizing_sound_witness:
  "csf_total_nodes (tr_cluster_sizing (transform_sizer_response demo_placement 3 False)) \<le> MaxNodeCount"
proof -
  have "cp_total_vms demo_params < 2 ^ 53" by code_simp
  from standalone_sizing_sound [OF demo_sized this] show ?thesis by (simp add: Let_def)
qed

subsection \<open>The sizing of an assessment\<close>




















lemma selected_floats: "round64 40 = Finite 40" "round64 160 = Finite 160"
  by code_simp+




text \<open>
  C29: the limit of 100 nodes leaves out the failover workers when an assessment is sized, and counts
  them when inline totals are: for 89 to 97 workers and three control plane nodes the same response
  is refused there and answered here with more than 100 nodes.
\<close>

theorem node_limit_differs:
  assumes "cp_control_plane_node_count p = 3" "\<not> cp_compact_mode p" "count_nodes r 3 = (3, k)" "89 \<le> k" "k \<le> 97"
    and "validate_vm_distribution r services False = Inr m"
  shows "accept_standalone p services r = Inl (node_size_error p MaxNodeCount) \<and>
    check_baseline p (sizing_result_of p cpu memory services r) = None \<and>
    MaxNodeCount < acs_total_nodes (rsp_cluster_sizing
      (requirements_response p u (sizing_result_of p cpu memory services r) opt st))"
proof -
  have "calculate_failover_nodes k = max 2 (- (- k div 10))" "- k div 10 \<le> - 9"
    using failover_eq [of k] assms(4,5) zdiv_mono1 [of "- k" "- 89" 10] by simp_all
  then have more: "100 < 3 + k + calculate_failover_nodes k"
    using assms(4) by linarith
  have result: "sr_total_nodes (sizing_result_of p cpu memory services r) = 3 + k"
    "sr_worker_nodes (sizing_result_of p cpu memory services r) = k"
    using assms(1-3) by (simp_all add: sizing_result_of_def Let_def)
  have "accept_standalone p services r = Inl (node_size_error p MaxNodeCount)"
    using assms more by (simp add: accept_standalone_def transform_sizer_response_def Let_def MaxNodeCount_def)
  moreover have "check_baseline p (sizing_result_of p cpu memory services r) = None"
    using assms(1,5) by (simp add: check_baseline_def result MaxNodeCount_def)
  moreover have "MaxNodeCount < acs_total_nodes (rsp_cluster_sizing
      (requirements_response p u (sizing_result_of p cpu memory services r) opt st))"
    using more by (simp add: requirements_response_def to_cluster_requirements_response_def with_failover_def
        Let_def result MaxNodeCount_def)
  ultimately show ?thesis by blast
qed

theorem node_limit_differs_witness:
  "check_baseline demo_params (sizing_result_of demo_params (Finite 40) (Finite 100) demo_batches
     (demo_response (replicate 3 (demo_node True []) @ replicate 90 (demo_node False [])))) = None"
proof (rule node_limit_differs [THEN conjunct2, THEN conjunct1])
  show "cp_control_plane_node_count demo_params = 3" "\<not> cp_compact_mode demo_params" by code_simp+
  let ?r = "demo_response (replicate 3 (demo_node True []) @ replicate 90 (demo_node False []))"
  show "count_nodes ?r 3 = (3, 90)"
    by (simp add: count_nodes_def demo_response_def response_nodes_def demo_node_def)
  have "vms_on_node demo_batches n = 0" if "n \<in> set (response_nodes ?r)" for n
    using that by (auto simp: demo_response_def response_nodes_def demo_node_def vms_on_node_def)
  then show "validate_vm_distribution ?r demo_batches False = Inr (SOME m. validate_vm_distribution ?r demo_batches False = Inr m)"
    using validate_distribution(2) [of False ?r demo_batches]
    by (intro someI_ex [of "\<lambda>m. validate_vm_distribution ?r demo_batches False = Inr m"])
       (auto simp: loaded_nodes_def MaxVMsPerWorkerNode_def)
qed simp_all

end
