(* ===== verification/Calculators.thy ===== *)
theory Calculators
  imports SizerTypes
begin

text \<open>
  The estimation engine of \<open>pkg/estimations\<close>: parameters and estimates (\<open>estimation/types.go\<close>),
  the calculators (\<open>estimation/calculators\<close>), the engine (\<open>estimation/engine.go\<close>) and the schemas
  (\<open>engines/factory.go\<close>). A duration is a 64-bit number of nanoseconds. A calculator returns an
  estimate or an error message; a panic is an error of the whole run. A reason keeps its format
  string and its arguments.
\<close>

subsection \<open>Parameters and estimates\<close>

text \<open>The dynamic types of a parameter value that the code distinguishes.\<close>

datatype param_value = Float64Value float64 | Float32Value float64 | IntValue goint | Int64Value goint
  | OtherValue string

record param =
  pm_key :: string
  pm_value :: param_value

type_synonym duration = goint

record estimation =
  es_duration :: "duration option"
  es_min_duration :: "duration option"
  es_max_duration :: "duration option"
  es_reason :: errmsg

definition new_point_estimation :: "duration \<Rightarrow> errmsg \<Rightarrow> estimation" where
  "new_point_estimation d reason =
     \<lparr>es_duration = Some d, es_min_duration = None, es_max_duration = None, es_reason = reason\<rparr>"

definition new_ranged_estimation :: "duration \<Rightarrow> duration \<Rightarrow> errmsg \<Rightarrow> error + estimation" where
  "new_ranged_estimation lo hi reason =
     (if sint lo > sint hi
      then Inl (Panic ''estimation: NewRangedEstimation: min must be <= max'')
      else Inr \<lparr>es_duration = None, es_min_duration = Some lo, es_max_duration = Some hi, es_reason = reason\<rparr>)"

definition is_ranged :: "estimation \<Rightarrow> bool" where
  "is_ranged e \<longleftrightarrow> es_min_duration e \<noteq> None \<and> es_max_duration e \<noteq> None"

definition not_a_number :: "param \<Rightarrow> string \<Rightarrow> errmsg" where
  "not_a_number p t = (''param %s is not a number (type: %T)'', [pm_key p, t])"

definition get_int :: "param \<Rightarrow> errmsg + goint" where
  "get_int p = (case pm_value p of
     Float64Value x \<Rightarrow> Inr (of_int (int_of_float x))
   | IntValue n \<Rightarrow> Inr n
   | Int64Value n \<Rightarrow> Inr n
   | Float32Value x \<Rightarrow> Inl (not_a_number p ''float32'')
   | OtherValue t \<Rightarrow> Inl (not_a_number p t))"

definition get_float :: "param \<Rightarrow> errmsg + float64" where
  "get_float p = (case pm_value p of
     Float64Value x \<Rightarrow> Inr x
   | IntValue n \<Rightarrow> Inr (float_of_int (sint n))
   | Int64Value n \<Rightarrow> Inr (float_of_int (sint n))
   | Float32Value x \<Rightarrow> Inl (not_a_number p ''float32'')
   | OtherValue t \<Rightarrow> Inl (not_a_number p t))"

text \<open>\<open>time.Minute\<close> and \<open>time.Second\<close>, and the conversion of a float to a duration.\<close>

definition minute :: float64 where "minute = Finite 60000000000"
definition second :: float64 where "second = Finite 1000000000"

definition to_duration :: "float64 \<Rightarrow> duration" where
  "to_duration x = of_int (int_of_float x)"

type_synonym params = "string \<Rightarrow> param option"

record calculator =
  cal_name :: string
  cal_keys :: "string list"
  cal_calculate :: "params \<Rightarrow> error + (errmsg + estimation)"

abbreviation ParamVMCount :: string where "ParamVMCount \<equiv> ''vm_count''"
abbreviation ParamTroubleshootMinsPerVM :: string where "ParamTroubleshootMinsPerVM \<equiv> ''troubleshoot_mins_per_vm''"
abbreviation ParamPostMigrationEngineers :: string where "ParamPostMigrationEngineers \<equiv> ''post_migration_engineers''"
abbreviation ParamWorkHoursPerDay :: string where "ParamWorkHoursPerDay \<equiv> ''work_hours_per_day''"
abbreviation ParamTotalDiskGB :: string where "ParamTotalDiskGB \<equiv> ''total_disk_gb''"
abbreviation ParamTransferRateMbps :: string where "ParamTransferRateMbps \<equiv> ''transfer_rate_mbps''"

definition DefaultTroubleshootMinsPerVM :: float64 where "DefaultTroubleshootMinsPerVM = Finite 60"
definition DefaultEngineerCount :: goint where "DefaultEngineerCount = 10"
definition DefaultWorkHoursPerDay :: float64 where "DefaultWorkHoursPerDay = Finite 8"
definition DefaultTransferRateMbps :: float64 where "DefaultTransferRateMbps = Finite 620"

definition missing :: "string \<Rightarrow> errmsg" where
  "missing key = (''missing %s'', [key])"

definition negative :: "string \<Rightarrow> errmsg" where
  "negative key = (''%s must be non-negative'', [key])"

text \<open>An optional parameter: its value if it is there, or else the default.\<close>

definition optional_param :: "(param \<Rightarrow> errmsg + 'a) \<Rightarrow> params \<Rightarrow> string \<Rightarrow> 'a \<Rightarrow> errmsg + 'a" where
  "optional_param get ps key d = (case ps key of None \<Rightarrow> Inr d | Some p \<Rightarrow> get p)"

definition positive_or :: "float64 \<Rightarrow> float64 \<Rightarrow> float64" where
  "positive_or d x = (if flt (Finite 0) x then x else d)"

subsection \<open>Post-migration checks\<close>

record post_migration_troubleshooting =
  pmt_troubleshoot_mins_per_vm :: float64
  pmt_engineer_count :: goint
  pmt_work_hours_per_day :: float64

definition with_troubleshoot_mins_per_vm ::
    "float64 \<Rightarrow> post_migration_troubleshooting \<Rightarrow> post_migration_troubleshooting" where
  "with_troubleshoot_mins_per_vm mins c = c\<lparr>pmt_troubleshoot_mins_per_vm := mins\<rparr>"

definition with_engineer_count ::
    "goint \<Rightarrow> post_migration_troubleshooting \<Rightarrow> post_migration_troubleshooting" where
  "with_engineer_count n c = c\<lparr>pmt_engineer_count := n\<rparr>"

definition with_work_hours_per_day ::
    "float64 \<Rightarrow> post_migration_troubleshooting \<Rightarrow> post_migration_troubleshooting" where
  "with_work_hours_per_day hours c =
     (if flt (Finite 0) hours then c\<lparr>pmt_work_hours_per_day := hours\<rparr> else c)"

definition new_post_migration_troubleshooting ::
    "(post_migration_troubleshooting \<Rightarrow> post_migration_troubleshooting) list \<Rightarrow>
     post_migration_troubleshooting" where
  "new_post_migration_troubleshooting opts =
     foldl (\<lambda>c opt. opt c)
       \<lparr>pmt_troubleshoot_mins_per_vm = DefaultTroubleshootMinsPerVM,
        pmt_engineer_count = DefaultEngineerCount, pmt_work_hours_per_day = DefaultWorkHoursPerDay\<rparr> opts"

text \<open>The estimate once the parameters are read.\<close>

definition checks_estimation :: "goint \<Rightarrow> float64 \<Rightarrow> goint \<Rightarrow> float64 \<Rightarrow> estimation" where
  "checks_estimation vm_count mins engineers hours =
     (let total_man_mins = fmul (float_of_int (sint vm_count)) mins;
          real_time_mins = fdiv total_man_mins (float_of_int (sint engineers));
          work_days = int_of_float (fceil (fdiv real_time_mins (fmul hours (Finite 60))))
      in new_point_estimation (to_duration (fmul real_time_mins minute))
           (''%d VMs @ %.1f mins each / %d engineers working %.0f h/day for a total of %d work days'',
            [itoa (sint vm_count), float_text mins, itoa (sint engineers), float_text hours, itoa work_days]))"

definition calculate_checks :: "post_migration_troubleshooting \<Rightarrow> params \<Rightarrow> error + (errmsg + estimation)" where
  "calculate_checks c ps = Inr
     (case ps ParamVMCount of None \<Rightarrow> Inl (missing ParamVMCount) | Some vp \<Rightarrow>
     (case get_int vp of Inl m \<Rightarrow> Inl m | Inr vm_count \<Rightarrow>
      if sint vm_count < 0 then Inl (''vm_count must be non-negative'', []) else
     (case optional_param get_float ps ParamTroubleshootMinsPerVM (pmt_troubleshoot_mins_per_vm c) of
        Inl m \<Rightarrow> Inl m | Inr mins \<Rightarrow>
     (case optional_param get_int ps ParamPostMigrationEngineers (pmt_engineer_count c) of
        Inl m \<Rightarrow> Inl m | Inr engineers \<Rightarrow>
      if sint engineers \<le> 0 then Inl (''engineers must be > 0'', []) else
     (case optional_param get_float ps ParamWorkHoursPerDay (pmt_work_hours_per_day c) of
        Inl m \<Rightarrow> Inl m | Inr hours \<Rightarrow>
      Inr (checks_estimation vm_count mins engineers
             (positive_or (pmt_work_hours_per_day c) hours)))))))"

definition checks_calculator :: "post_migration_troubleshooting \<Rightarrow> calculator" where
  "checks_calculator c = \<lparr>cal_name = ''Post-Migration Checks'', cal_keys = [ParamVMCount],
     cal_calculate = calculate_checks c\<rparr>"

subsection \<open>Storage migration over the network\<close>

record storage_migration =
  sm_transfer_rate_mbps :: float64

definition with_transfer_rate_mbps :: "float64 \<Rightarrow> storage_migration \<Rightarrow> storage_migration" where
  "with_transfer_rate_mbps mbps s =
     (if flt (Finite 0) mbps then s\<lparr>sm_transfer_rate_mbps := mbps\<rparr> else s)"

definition new_storage_migration :: "(storage_migration \<Rightarrow> storage_migration) list \<Rightarrow> storage_migration" where
  "new_storage_migration opts =
     foldl (\<lambda>s opt. opt s) \<lparr>sm_transfer_rate_mbps = DefaultTransferRateMbps\<rparr> opts"

definition transfer_estimation :: "float64 \<Rightarrow> float64 \<Rightarrow> estimation" where
  "transfer_estimation total_gb rate_mbps =
     (let rate_mb = fdiv rate_mbps (Finite 8);
          total_minutes = fdiv (fdiv (fmul total_gb (Finite 1024)) rate_mb) (Finite 60);
          mins_per_500 = fdiv (fdiv (Finite (500 * 1024)) rate_mb) (Finite 60)
      in new_point_estimation (to_duration (fmul total_minutes minute))
           (''%.2f GB at %g Mbps (%.0f min/500GB)'',
            [float_text total_gb, float_text rate_mbps, float_text mins_per_500]))"

definition calculate_storage_migration ::
    "storage_migration \<Rightarrow> params \<Rightarrow> error + (errmsg + estimation)" where
  "calculate_storage_migration s ps = Inr
     (case ps ParamTotalDiskGB of None \<Rightarrow> Inl (missing ParamTotalDiskGB) | Some dp \<Rightarrow>
     (case get_float dp of Inl m \<Rightarrow> Inl m | Inr total_gb \<Rightarrow>
      if flt total_gb (Finite 0) then Inl (negative ParamTotalDiskGB) else
     (case optional_param get_float ps ParamTransferRateMbps (sm_transfer_rate_mbps s) of
        Inl m \<Rightarrow> Inl m | Inr rate \<Rightarrow>
      Inr (transfer_estimation total_gb (positive_or (sm_transfer_rate_mbps s) rate)))))"

definition storage_migration_calculator :: "storage_migration \<Rightarrow> calculator" where
  "storage_migration_calculator s = \<lparr>cal_name = ''Storage Migration'', cal_keys = [ParamTotalDiskGB],
     cal_calculate = calculate_storage_migration s\<rparr>"

subsection \<open>Storage offload\<close>

definition storageOffloadMinRateGBps :: float64 where "storageOffloadMinRateGBps = Finite (1 / 2)"
definition storageOffloadMaxRateGBps :: float64 where "storageOffloadMaxRateGBps = Finite 2"

definition calculate_storage_offload :: "params \<Rightarrow> error + (errmsg + estimation)" where
  "calculate_storage_offload ps =
     (case ps ParamTotalDiskGB of None \<Rightarrow> Inr (Inl (missing ParamTotalDiskGB)) | Some dp \<Rightarrow>
     (case get_float dp of Inl m \<Rightarrow> Inr (Inl m) | Inr total_gb \<Rightarrow>
      if flt total_gb (Finite 0) then Inr (Inl (negative ParamTotalDiskGB)) else
        let min_secs = fdiv total_gb storageOffloadMaxRateGBps;
            max_secs = fdiv total_gb storageOffloadMinRateGBps
        in case new_ranged_estimation (to_duration (fmul min_secs second)) (to_duration (fmul max_secs second))
             (''%.2f GB @ %.1f-%.1f GB/s transfer rate; assumes same storage array with x-copy enabled'',
              [float_text total_gb, float_text storageOffloadMinRateGBps, float_text storageOffloadMaxRateGBps]) of
             Inl e \<Rightarrow> Inl e | Inr e \<Rightarrow> Inr (Inr e)))"

definition storage_offload_calculator :: calculator where
  "storage_offload_calculator = \<lparr>cal_name = ''Storage Offload'', cal_keys = [ParamTotalDiskGB],
     cal_calculate = calculate_storage_offload\<rparr>"

subsection \<open>The engine\<close>

text \<open>An engine is the list of its calculators; registering a name twice panics.\<close>

definition register :: "calculator \<Rightarrow> calculator list \<Rightarrow> error + calculator list" where
  "register c cs =
     (if cal_name c \<in> cal_name ` set cs
      then Inl (Panic (''estimation: calculator '' @ [CHR 0x22] @ cal_name c @ [CHR 0x22] @ '' already registered''))
      else Inr (cs @ [c]))"

definition param_map :: "param list \<Rightarrow> params" where
  "param_map inputs = foldl (\<lambda>m p. m(pm_key p := Some p)) (\<lambda>_. None) inputs"

definition error_estimation :: "errmsg \<Rightarrow> estimation" where
  "error_estimation m = new_point_estimation 0 (''Error: '' @ fst m, snd m)"

text \<open>A map from the calculator names to the results, in the order of the first entry of a name.\<close>

type_synonym breakdown = "(string \<times> estimation) list"

definition put_result :: "string \<Rightarrow> estimation \<Rightarrow> breakdown \<Rightarrow> breakdown" where
  "put_result name e rs =
     (if name \<in> fst ` set rs then map (\<lambda>(n, x). if n = name then (n, e) else (n, x)) rs else rs @ [(name, e)])"

fun run_calculators :: "calculator list \<Rightarrow> params \<Rightarrow> breakdown \<Rightarrow> error + breakdown" where
  "run_calculators [] ps rs = Inr rs"
| "run_calculators (c # cs) ps rs =
     (case cal_calculate c ps of
        Inl e \<Rightarrow> Inl e
      | Inr (Inl m) \<Rightarrow> run_calculators cs ps (put_result (cal_name c) (error_estimation m) rs)
      | Inr (Inr est) \<Rightarrow> run_calculators cs ps (put_result (cal_name c) est rs))"

definition run_engine :: "calculator list \<Rightarrow> param list \<Rightarrow> error + breakdown" where
  "run_engine cs inputs = run_calculators cs (param_map inputs) []"

subsection \<open>Schemas\<close>

abbreviation SchemaNetworkBased :: string where "SchemaNetworkBased \<equiv> ''network-based''"
abbreviation SchemaStorageOffload :: string where "SchemaStorageOffload \<equiv> ''storage-offload''"

definition allSchemas :: "string list" where
  "allSchemas = [SchemaNetworkBased, SchemaStorageOffload]"

fun register_all :: "calculator list \<Rightarrow> calculator list \<Rightarrow> error + calculator list" where
  "register_all [] e = Inr e"
| "register_all (c # cs) e = (case register c e of Inl x \<Rightarrow> Inl x | Inr e' \<Rightarrow> register_all cs e')"

definition schema_builders :: "(string \<times> calculator list) list" where
  "schema_builders =
     [(SchemaNetworkBased, [storage_migration_calculator (new_storage_migration []),
        checks_calculator (new_post_migration_troubleshooting [])]),
      (SchemaStorageOffload, [storage_offload_calculator,
        checks_calculator (new_post_migration_troubleshooting [])])]"

text \<open>One engine per requested schema, or the message for an unknown one; a repeated schema is built once more.\<close>

fun build_engines_for ::
    "string list \<Rightarrow> (string \<times> calculator list) list \<Rightarrow> error + (errmsg + (string \<times> calculator list) list)" where
  "build_engines_for [] r = Inr (Inr r)"
| "build_engines_for (s # ss) r =
     (case map_of schema_builders s of
        None \<Rightarrow> Inr (Inl (''unknown estimation schema %q'', [s]))
      | Some cs \<Rightarrow> (case register_all cs [] of
          Inl e \<Rightarrow> Inl e
        | Inr e \<Rightarrow> build_engines_for ss (if s \<in> fst ` set r then r else r @ [(s, e)])))"

definition build_engines :: "string list \<Rightarrow> error + (errmsg + (string \<times> calculator list) list)" where
  "build_engines schemas = build_engines_for (if schemas = [] then allSchemas else schemas) []"

end
