(* ===== verification/Complexity.thy ===== *)
theory Complexity
  imports Inventory "HOL-Library.Char_ord" "HOL-Library.List_Lexorder" "HOL-Library.Product_Lexorder"
begin

text \<open>
  The complexity scores of \<open>pkg/estimations/complexity/complexity.go\<close>. A lookup that ranges over a
  Go map takes the order of the iteration as an argument: \<open>it k\<close> is the order of the \<open>k\<close>-th
  classification of a call. VM counts are 64-bit integers, sizes are floats.
\<close>

subsection \<open>Evaluating string searches\<close>

fun starts_with :: "string \<Rightarrow> string \<Rightarrow> bool" where
  "starts_with s [] = True"
| "starts_with [] (p # ps) = False"
| "starts_with (c # cs) (p # ps) = (c = p \<and> starts_with cs ps)"

lemma starts_take: "starts_with s p \<longleftrightarrow> take (length p) s = p"
  by (induction s p rule: starts_with.induct) auto

lemma contains_code [code]:
  "contains [] sub = (sub = [])"
  "contains (c # cs) sub = (starts_with (c # cs) sub \<or> contains cs sub)"
  by (simp_all add: starts_take)

definition upper_bits :: "bool \<Rightarrow> bool \<Rightarrow> bool \<Rightarrow> bool \<Rightarrow> bool \<Rightarrow> bool" where
  "upper_bits b0 b1 b2 b3 b4 \<longleftrightarrow> (b0 \<or> b1 \<or> b2 \<or> b3 \<or> b4) \<and> \<not> (b4 \<and> b3 \<and> (b2 \<or> (b1 \<and> b0)))"

lemma lower_char_code [code]:
  "lower_char (Char b0 b1 b2 b3 b4 b5 b6 b7) =
     Char b0 b1 b2 b3 b4 (b5 \<or> (b6 \<and> \<not> b7 \<and> upper_bits b0 b1 b2 b3 b4)) b6 b7"
  by (cases b0; cases b1; cases b2; cases b3; cases b4; cases b5; cases b6; cases b7)
     (simp_all add: lower_char_def upper_bits_def char_of_def of_char_def Let_def bit_0)

subsection \<open>Scores\<close>

type_synonym score = int

definition OSScores :: "score list" where "OSScores = [0, 1, 2, 3, 4]"
definition DiskScores :: "score list" where "DiskScores = [1, 2, 3, 4]"

definition OSDifficultyScores :: "(string \<times> score) list" where
  "OSDifficultyScores = [
    (''Red Hat Enterprise Linux 4'', 2), (''Red Hat Enterprise Linux 5'', 2),
    (''Red Hat Enterprise Linux 6'', 1), (''Red Hat Enterprise Linux 7'', 1),
    (''Red Hat Enterprise Linux 8'', 1), (''Red Hat Enterprise Linux 9'', 1),
    (''Red Hat Enterprise Linux 10'', 1), (''Red Hat Fedora'', 1), (''CentOS 4'', 2),
    (''CentOS 5'', 2), (''CentOS 6'', 1), (''CentOS 7'', 1), (''CentOS 8'', 1), (''CentOS 9'', 1),
    (''Oracle Linux 4'', 2), (''Oracle Linux 5'', 2), (''Oracle Linux 6'', 1),
    (''Oracle Linux 7'', 1), (''Oracle Linux 8'', 1), (''Oracle Linux 9'', 1),
    (''Rocky Linux 8'', 1), (''Rocky Linux 9'', 1), (''AlmaLinux 8'', 3), (''AlmaLinux 9'', 3),
    (''SUSE Linux Enterprise 8'', 3), (''SUSE Linux Enterprise 9'', 3),
    (''SUSE Linux Enterprise 10'', 3), (''SUSE Linux Enterprise 11'', 3),
    (''SUSE Linux Enterprise 12'', 2), (''SUSE Linux Enterprise 15'', 2), (''SUSE openSUSE'', 3),
    (''Ubuntu Linux 18.04'', 3), (''Ubuntu Linux 20.04'', 3), (''Ubuntu Linux 22.04'', 3),
    (''Ubuntu Linux 24.04'', 3), (''Ubuntu Linux'', 3), (''Debian GNU/Linux 5'', 3),
    (''Debian GNU/Linux 6'', 3), (''Debian GNU/Linux 7'', 3), (''Debian GNU/Linux 8'', 3),
    (''Debian GNU/Linux 9'', 3), (''Debian GNU/Linux 10'', 3), (''Debian GNU/Linux 11'', 3),
    (''Debian GNU/Linux 12'', 3), (''Windows Server 2000'', 3), (''Windows Server 2003'', 3),
    (''Windows Server 2008 R2'', 3), (''Windows Server 2008'', 3), (''Windows Server 2012 R2'', 3),
    (''Windows Server 2012'', 3), (''Windows Server 2016'', 2), (''Windows Server 2019'', 2),
    (''Windows Server 2022'', 2), (''Windows Server 2025'', 2), (''Windows XP'', 3),
    (''Windows Vista'', 3), (''Windows 7'', 3), (''Windows 8'', 3), (''Windows 10'', 2),
    (''Windows 11'', 2), (''Oracle Solaris 10'', 3), (''Oracle Solaris 11'', 3), (''FreeBSD'', 3),
    (''VMware Photon OS'', 3), (''Amazon Linux 2'', 3), (''CoreOS Linux'', 3), (''Apple macOS'', 3),
    (''Microsoft SQL'', 4)]"

definition DiskSizeScores :: "(string \<times> score) list" where
  "DiskSizeScores = [(''0-10TiB'', 1), (''10-20TiB'', 2), (''20-50TiB'', 3), (''50+TiB'', 4),
     (''Easy (0-10TB)'', 1), (''Medium (10-20TB)'', 2), (''Hard (20-50TB)'', 3),
     (''White Glove (>50TB)'', 4)]"

definition ComplexityMatrix :: "(score \<times> (score \<times> score) list) list" where
  "ComplexityMatrix =
     [(0, [(1, 0), (2, 0), (3, 0), (4, 0)]),
      (1, [(1, 1), (2, 1), (3, 3), (4, 3)]),
      (2, [(1, 2), (2, 2), (3, 3), (4, 3)]),
      (3, [(1, 2), (2, 2), (3, 3), (4, 3)]),
      (4, [(1, 4), (2, 4), (3, 4), (4, 4)])]"

definition combine_complexity :: "score \<Rightarrow> score \<Rightarrow> score" where
  "combine_complexity os_score disk_score =
     (case map_of ComplexityMatrix os_score of
        Some inner \<Rightarrow> (case map_of inner disk_score of Some s \<Rightarrow> s | None \<Rightarrow> 0)
      | None \<Rightarrow> 0)"

text \<open>The first key of the iteration that occurs in the name.\<close>

fun first_match :: "string \<Rightarrow> (string \<times> score) list \<Rightarrow> score" where
  "first_match normalized [] = 0"
| "first_match normalized ((keyword, s) # rest) =
     (if contains normalized (lower keyword) then s else first_match normalized rest)"

definition classify_os :: "nat list \<Rightarrow> string \<Rightarrow> score" where
  "classify_os p name = first_match (lower name) (reorder p OSDifficultyScores)"

definition score_disk_tier_label :: "string \<Rightarrow> score" where
  "score_disk_tier_label label = (case map_of DiskSizeScores label of Some s \<Rightarrow> s | None \<Rightarrow> 0)"

definition disk_size_range_ratings :: "(string \<times> score) list" where
  "disk_size_range_ratings = [(''0-10TiB'', 1), (''10-20TiB'', 2), (''20-50TiB'', 3), (''50+TiB'', 4)]"

subsection \<open>Breakdowns\<close>

record vm_os_entry =
  ose_name :: string
  ose_count :: goint

record disk_tier_input =
  dti_label :: string
  dti_vm_count :: goint
  dti_total_size_tb :: float64

record os_difficulty_entry =
  ode_score :: score
  ode_vm_count :: goint

record os_disk_entry =
  ods_score :: score
  ods_vm_count :: goint
  ods_total_size_tb :: float64

record disk_complexity_entry =
  dce_score :: score
  dce_vm_count :: goint
  dce_total_size_tb :: float64

fun count_by_score ::
    "(nat \<Rightarrow> nat list) \<Rightarrow> nat \<Rightarrow> vm_os_entry list \<Rightarrow> (score \<Rightarrow> goint) \<Rightarrow> score \<Rightarrow> goint" where
  "count_by_score it k [] counts = counts"
| "count_by_score it k (e # es) counts =
     (let s = classify_os (it k) (ose_name e)
      in count_by_score it (Suc k) es (counts(s := counts s + ose_count e)))"

definition os_breakdown :: "(nat \<Rightarrow> nat list) \<Rightarrow> vm_os_entry list \<Rightarrow> os_difficulty_entry list" where
  "os_breakdown it es =
     (let counts = count_by_score it 0 es (\<lambda>_. 0)
      in map (\<lambda>s. \<lparr>ode_score = s, ode_vm_count = counts s\<rparr>) OSScores)"

text \<open>
  One row per OS name. Rows are ordered by score, then by name; the sort of the code leaves rows
  that agree in both in any order, here the smaller count is first.
\<close>

datatype os_name_entry = OSNameEntry (one_name: string) (one_score: score) (one_vm_count: goint)

definition row_key :: "os_name_entry \<Rightarrow> score \<times> string \<times> goint" where
  "row_key e = (one_score e, one_name e, one_vm_count e)"

instantiation os_name_entry :: linorder
begin

definition less_eq_os_name_entry :: "os_name_entry \<Rightarrow> os_name_entry \<Rightarrow> bool" where
  "less_eq_os_name_entry a b \<longleftrightarrow> row_key a \<le> row_key b"

definition less_os_name_entry :: "os_name_entry \<Rightarrow> os_name_entry \<Rightarrow> bool" where
  "less_os_name_entry a b \<longleftrightarrow> row_key a < row_key b"

instance
proof
  fix a b c :: os_name_entry
  show "(a < b) = (a \<le> b \<and> \<not> b \<le> a)" "a \<le> a" "a \<le> b \<Longrightarrow> b \<le> c \<Longrightarrow> a \<le> c" "a \<le> b \<or> b \<le> a"
    by (auto simp: less_eq_os_name_entry_def less_os_name_entry_def)
  show "a = b" if "a \<le> b" "b \<le> a"
  proof -
    have "row_key a = row_key b"
      using that by (simp add: less_eq_os_name_entry_def)
    then show ?thesis by (cases a; cases b) (simp add: row_key_def)
  qed
qed

end

definition os_name_breakdown :: "(nat \<Rightarrow> nat list) \<Rightarrow> vm_os_entry list \<Rightarrow> os_name_entry list" where
  "os_name_breakdown it es =
     sort (map (\<lambda>(k, e). OSNameEntry (ose_name e) (classify_os (it k) (ose_name e)) (ose_count e))
            (enumerate 0 es))"

definition os_ratings :: "(nat \<Rightarrow> nat list) \<Rightarrow> vm_os_entry list \<Rightarrow> string \<Rightarrow> score option" where
  "os_ratings it es =
     foldl (\<lambda>m (k, e). m(ose_name e := Some (classify_os (it k) (ose_name e)))) (\<lambda>_. None) (enumerate 0 es)"

definition tiers_by_score :: "disk_tier_input list \<Rightarrow> score \<Rightarrow> disk_tier_input option" where
  "tiers_by_score tiers =
     foldl (\<lambda>m t. let s = score_disk_tier_label (dti_label t) in if s \<noteq> 0 then m(s := Some t) else m)
       (\<lambda>_. None) tiers"

definition disk_breakdown :: "disk_tier_input list \<Rightarrow> disk_complexity_entry list" where
  "disk_breakdown tiers =
     map (\<lambda>s. case tiers_by_score tiers s of
             Some t \<Rightarrow> \<lparr>dce_score = s, dce_vm_count = dti_vm_count t, dce_total_size_tb = dti_total_size_tb t\<rparr>
           | None \<Rightarrow> \<lparr>dce_score = s, dce_vm_count = 0, dce_total_size_tb = Finite 0\<rparr>)
       DiskScores"

subsection \<open>Names with one score\<close>

text \<open>The scores of the keys that occur in a name.\<close>

definition matching_scores :: "string \<Rightarrow> score list" where
  "matching_scores name = map snd (filter (\<lambda>(k, s). contains (lower name) (lower k)) OSDifficultyScores)"

definition score_of :: "string \<Rightarrow> score" where
  "score_of name = (case matching_scores name of [] \<Rightarrow> 0 | s # _ \<Rightarrow> s)"

text \<open>All keys that occur in the name carry the same score.\<close>

definition unambiguous :: "string \<Rightarrow> bool" where
  "unambiguous name \<longleftrightarrow> (case matching_scores name of [] \<Rightarrow> True | s # ss \<Rightarrow> list_all (\<lambda>x. x = s) ss)"

lemma first_match_in:
  "first_match n ks = 0 \<and> filter (\<lambda>(k, s). contains n (lower k)) ks = [] \<or>
   first_match n ks \<in> snd ` set (filter (\<lambda>(k, s). contains n (lower k)) ks)"
  by (induction n ks rule: first_match.induct) auto

lemma classify_unambiguous:
  assumes "unambiguous name"
  shows "classify_os p name = score_of name"
proof -
  let ?f = "filter (\<lambda>(k, s). contains (lower name) (lower k))"
  have "set (?f (reorder p OSDifficultyScores)) = set (?f OSDifficultyScores)"
    by simp
  then have cases: "classify_os p name = 0 \<and> matching_scores name = [] \<or>
      classify_os p name \<in> set (matching_scores name)"
    using first_match_in [of "lower name" "reorder p OSDifficultyScores"]
    unfolding classify_os_def matching_scores_def by (metis (no_types, lifting) filter_empty_conv image_set list.map_disc_iff set_empty set_reorder)
  with assms show ?thesis
    by (auto simp: score_of_def unambiguous_def list_all_iff split: list.splits)
qed

end
