(* ===== verification/EstimationService.thy ===== *)
theory EstimationService
  imports Calculators Complexity SizerRequests
begin

text \<open>
  \<open>internal/service/estimation.go\<close>: the inventory of a request, the complexity breakdowns, the
  parameters of an estimation and its run. A call that ranges over maps takes the orders of its
  iterations as an argument \<open>it\<close>: \<open>it k n\<close> is the order of the \<open>k\<close>-th iteration, over \<open>n\<close> entries.
  A map that is only looked up again is the list of its entries.
\<close>

subsection \<open>The inventory of a request\<close>

definition resolve_inventory_data ::
    "(uuid \<Rightarrow> string) \<Rightarrow> inventory \<Rightarrow> string \<Rightarrow> uuid \<Rightarrow> error + inventory_data" where
  "resolve_inventory_data us ivt cid aid =
     (if cid = [] then
        (case inv_vcenter ivt of
           None \<Rightarrow> Inl (OtherError (''inventory has no vcenter-level data'', [])) | Some d \<Rightarrow> Inr d)
      else case map_of (clusters_of ivt) cid of
        None \<Rightarrow> Inl (new_err_cluster_not_found us cid aid) | Some d \<Rightarrow> Inr d)"

definition add_estimation_totals :: "inventory_data \<Rightarrow> inventory_data \<Rightarrow> inventory_data" where
  "add_estimation_totals data r = r\<lparr>dt_vms := (dt_vms r)
     \<lparr>vm_total := vm_total (dt_vms r) + vm_total (dt_vms data),
      vm_disk_gb := set_total (rb_total (vm_disk_gb (dt_vms r)) + rb_total (vm_disk_gb (dt_vms data)))
        (vm_disk_gb (dt_vms r))\<rparr>\<rparr>"

fun combine_clusters ::
    "(uuid \<Rightarrow> string) \<Rightarrow> inventory \<Rightarrow> uuid \<Rightarrow> string list \<Rightarrow> string list \<Rightarrow> inventory_data \<Rightarrow>
     error + inventory_data" where
  "combine_clusters us ivt aid [] seen r =
     (if seen = [] then Inl (new_err_invalid_request ''cluster IDs must contain at least one non-empty value'')
      else Inr r)"
| "combine_clusters us ivt aid (cid # cids) seen r =
     (if cid = [] \<or> cid \<in> set seen then combine_clusters us ivt aid cids seen r
      else case resolve_inventory_data us ivt cid aid of
        Inl e \<Rightarrow> Inl e
      | Inr data \<Rightarrow> combine_clusters us ivt aid cids (cid # seen) (add_estimation_totals data r))"

definition resolve_estimation_inventory_data ::
    "(uuid \<Rightarrow> string) \<Rightarrow> inventory \<Rightarrow> string list \<Rightarrow> uuid \<Rightarrow> error + inventory_data" where
  "resolve_estimation_inventory_data us ivt cids aid =
     (if cids = [] then resolve_inventory_data us ivt [] aid
      else combine_clusters us ivt aid cids [] zero_inventory_data)"

subsection \<open>Merging clusters\<close>

text \<open>\<open>m[key] = f(m[key])\<close>, with the zero value for a missing key.\<close>

fun modify_entry :: "'v \<Rightarrow> string \<Rightarrow> ('v \<Rightarrow> 'v) \<Rightarrow> 'v gomap \<Rightarrow> 'v gomap" where
  "modify_entry zero k f [] = [(k, f zero)]"
| "modify_entry zero k f ((k', v) # m) =
     (if k = k' then (k', f v) # m else (k', v) # modify_entry zero k f m)"

definition merge_breakdown :: "vm_resource_breakdown \<Rightarrow> vm_resource_breakdown \<Rightarrow> vm_resource_breakdown" where
  "merge_breakdown c r = r\<lparr>rb_total := rb_total r + rb_total c,
     rb_total_for_migratable := rb_total_for_migratable r + rb_total_for_migratable c,
     rb_total_for_migratable_with_warnings :=
       rb_total_for_migratable_with_warnings r + rb_total_for_migratable_with_warnings c,
     rb_total_for_not_migratable := rb_total_for_not_migratable r + rb_total_for_not_migratable c\<rparr>"

definition zero_os_info :: os_info where
  "zero_os_info = \<lparr>os_count = 0, os_support_tier = None, os_supported = False,
     os_upgrade_recommendation = None\<rparr>"

definition merge_os_info :: "os_info \<Rightarrow> os_info \<Rightarrow> os_info" where
  "merge_os_info i x =
     \<lparr>os_count = os_count x + os_count i,
      os_support_tier =
        (case os_support_tier i of None \<Rightarrow> os_support_tier x
         | Some t \<Rightarrow> (case os_support_tier x of None \<Rightarrow> Some t | Some u \<Rightarrow> Some (if t > u then t else u))),
      os_supported = (os_supported i \<or> os_supported x),
      os_upgrade_recommendation =
        (case os_upgrade_recommendation x of None \<Rightarrow> os_upgrade_recommendation i | Some r \<Rightarrow> Some r)\<rparr>"

definition zero_tier :: disk_size_tier_summary where
  "zero_tier = \<lparr>dst_total_size_tb = Finite 0, dst_vm_count = 0\<rparr>"

definition add_tier :: "disk_size_tier_summary \<Rightarrow> disk_size_tier_summary \<Rightarrow> disk_size_tier_summary" where
  "add_tier s x = \<lparr>dst_total_size_tb = fadd (dst_total_size_tb x) (dst_total_size_tb s),
     dst_vm_count = dst_vm_count x + dst_vm_count s\<rparr>"

definition merge_tiers :: "disk_size_tier_summary gomap \<Rightarrow> disk_size_tier_summary gomap \<Rightarrow>
     disk_size_tier_summary gomap" where
  "merge_tiers src m = foldl (\<lambda>m (k, s). modify_entry zero_tier k (add_tier s) m) m src"

definition merge_optional_tiers ::
    "disk_size_tier_summary gomap option \<Rightarrow> disk_size_tier_summary gomap option \<Rightarrow>
     disk_size_tier_summary gomap option" where
  "merge_optional_tiers src m = (case src of None \<Rightarrow> m
     | Some s \<Rightarrow> Some (merge_tiers s (case m of None \<Rightarrow> [] | Some x \<Rightarrow> x)))"

text \<open>The complexity tiers, or the size tiers of an old snapshot.\<close>

definition disk_source :: "vms \<Rightarrow> disk_size_tier_summary gomap option" where
  "disk_source v = (case vm_disk_complexity_tier v of
     Some (t # ts) \<Rightarrow> Some (t # ts) | _ \<Rightarrow> vm_disk_size_tier v)"

definition merge_vms :: "vms \<Rightarrow> vms \<Rightarrow> vms" where
  "merge_vms c r = r\<lparr>vm_total := vm_total r + vm_total c,
     vm_total_migratable := vm_total_migratable r + vm_total_migratable c,
     vm_total_migratable_with_warnings :=
       (case vm_total_migratable_with_warnings c of
          None \<Rightarrow> vm_total_migratable_with_warnings r
        | Some n \<Rightarrow> Some ((case vm_total_migratable_with_warnings r of None \<Rightarrow> 0 | Some m \<Rightarrow> m) + n)),
     vm_cpu_cores := merge_breakdown (vm_cpu_cores c) (vm_cpu_cores r),
     vm_ram_gb := merge_breakdown (vm_ram_gb c) (vm_ram_gb r),
     vm_disk_gb := merge_breakdown (vm_disk_gb c) (vm_disk_gb r),
     vm_disk_complexity_tier := merge_optional_tiers (disk_source c) (vm_disk_complexity_tier r),
     vm_complexity_distribution :=
       merge_optional_tiers (vm_complexity_distribution c) (vm_complexity_distribution r)\<rparr>"

definition merge_os :: "vms \<Rightarrow> os_info gomap \<Rightarrow> os_info gomap" where
  "merge_os c m = (case vm_os_info c of None \<Rightarrow> m
     | Some infos \<Rightarrow> foldl (\<lambda>m (k, i). modify_entry zero_os_info k (merge_os_info i) m) m infos)"

fun unknown_cluster :: "inventory \<Rightarrow> string list \<Rightarrow> string option" where
  "unknown_cluster ivt [] = None"
| "unknown_cluster ivt (cid # cids) =
     (if map_of (clusters_of ivt) cid = None then Some cid else unknown_cluster ivt cids)"

definition merge_clusters :: "inventory_data list \<Rightarrow> inventory_data" where
  "merge_clusters cs =
     (let v = foldl (\<lambda>r c. merge_vms (dt_vms c) r) zero_vms cs;
          infos = foldl (\<lambda>m c. merge_os (dt_vms c) m) [] cs
      in zero_inventory_data\<lparr>dt_vms := v\<lparr>vm_os_info := (if infos = [] then None else Some infos)\<rparr>\<rparr>)"

definition aggregate_inventory_data ::
    "(uuid \<Rightarrow> string) \<Rightarrow> (nat \<Rightarrow> nat list) \<Rightarrow> inventory \<Rightarrow> string list \<Rightarrow> uuid \<Rightarrow> error + inventory_data" where
  "aggregate_inventory_data us p ivt cids aid =
     (if cids = [] then Inl (OtherError (''at least one cluster ID required'', []))
      else if uses_vcenter_aggregate cids
      then (case inv_vcenter ivt of
              None \<Rightarrow> Inl (OtherError (''inventory has no vcenter-level data'', [])) | Some d \<Rightarrow> Inr d)
      else if length cids = 1
      then (case map_of (clusters_of ivt) (hd cids) of
              None \<Rightarrow> Inl (new_err_cluster_not_found us (hd cids) aid) | Some d \<Rightarrow> Inr d)
      else case unknown_cluster ivt cids of
        Some cid \<Rightarrow> Inl (new_err_cluster_not_found us cid aid)
      | None \<Rightarrow>
          let ids = remdups cids
          in Inr (merge_clusters
               (map (\<lambda>cid. the (map_of (clusters_of ivt) cid)) (reorder (p (length ids)) ids))))"

subsection \<open>Complexity\<close>

record migration_complexity_result =
  mcr_by_disk :: "disk_complexity_entry list"
  mcr_by_os :: "os_difficulty_entry list"
  mcr_by_os_name :: "os_name_entry list"
  mcr_disk_size_ratings :: "(string \<times> score) list"
  mcr_os_ratings :: "string \<Rightarrow> score option"

definition disk_entry :: "string \<times> disk_size_tier_summary \<Rightarrow> disk_tier_input" where
  "disk_entry kv = \<lparr>dti_label = fst kv, dti_vm_count = dst_vm_count (snd kv),
     dti_total_size_tb = dst_total_size_tb (snd kv)\<rparr>"

definition os_entry :: "string \<times> os_info \<Rightarrow> vm_os_entry" where
  "os_entry kv = \<lparr>ose_name = fst kv, ose_count = os_count (snd kv)\<rparr>"

text \<open>The iterations are: the disk tiers, the names, and one per classification of each breakdown.\<close>

definition build_complexity_result ::
    "(nat \<Rightarrow> nat \<Rightarrow> nat list) \<Rightarrow> inventory_data \<Rightarrow> error + migration_complexity_result" where
  "build_complexity_result it data =
     (case vm_os_info (dt_vms data) of
        None \<Rightarrow> Inl (OtherError (''inventory has no osInfo data'', []))
      | Some infos \<Rightarrow>
          (case disk_source (dt_vms data) of
             Some (t # ts) \<Rightarrow>
               (let tiers = t # ts;
                    disks = map disk_entry (reorder (it 0 (length tiers)) tiers);
                    n = length infos;
                    oses = map os_entry (reorder (it 1 n) infos);
                    table = length OSDifficultyScores
                in Inr \<lparr>mcr_by_disk = disk_breakdown disks,
                        mcr_by_os = os_breakdown (\<lambda>k. it (2 + k) table) oses,
                        mcr_by_os_name = os_name_breakdown (\<lambda>k. it (2 + n + k) table) oses,
                        mcr_disk_size_ratings = disk_size_range_ratings,
                        mcr_os_ratings = os_ratings (\<lambda>k. it (2 + 2 * n + k) table) oses\<rparr>)
           | _ \<Rightarrow> Inl (OtherError
               (''inventory has no disk tier data (diskComplexityTier or diskSizeTier)'', []))))"

definition build_complexity_by_os_disk :: "disk_size_tier_summary gomap option \<Rightarrow> os_disk_entry list" where
  "build_complexity_by_os_disk d =
     map (\<lambda>s. let e = (case d of None \<Rightarrow> None | Some m \<Rightarrow> map_of m (itoa s))
              in case e of
                   None \<Rightarrow> \<lparr>ods_score = s, ods_vm_count = 0, ods_total_size_tb = Finite 0\<rparr>
                 | Some t \<Rightarrow> \<lparr>ods_score = s, ods_vm_count = dst_vm_count t,
                     ods_total_size_tb = dst_total_size_tb t\<rparr>) OSScores"

definition get_aggregated_inventory_data ::
    "env \<Rightarrow> gocontext \<Rightarrow> uuid \<Rightarrow> string list \<Rightarrow> inventory_data go" where
  "get_aggregated_inventory_data E c aid cids =
     bind (load_assessment_inventory E c aid) (\<lambda>ivt w.
     (aggregate_inventory_data (uuid_str E) (order E (tick w)) ivt cids aid, next_tick w))"

definition calculate_migration_complexity ::
    "env \<Rightarrow> gocontext \<Rightarrow> uuid \<Rightarrow> string list \<Rightarrow> migration_complexity_result go" where
  "calculate_migration_complexity E c aid cids =
     bind (get_aggregated_inventory_data E c aid cids) (\<lambda>data w.
     (build_complexity_result (\<lambda>k. order E (tick w + k)) data, w))"

definition calculate_os_disk_complexity ::
    "env \<Rightarrow> gocontext \<Rightarrow> uuid \<Rightarrow> string list \<Rightarrow> os_disk_entry list go" where
  "calculate_os_disk_complexity E c aid cids =
     bind (get_aggregated_inventory_data E c aid cids) (\<lambda>data.
     ret (build_complexity_by_os_disk (vm_complexity_distribution (dt_vms data))))"

subsection \<open>Parameters\<close>

record param_definition =
  pd_key :: string
  pd_display_name :: string
  pd_type :: string
  pd_unit :: string
  pd_min :: "float64 option"
  pd_max :: "float64 option"
  pd_default :: param_value
  pd_schemas :: "string list"

definition estimationParamDefs :: "param_definition list" where
  "estimationParamDefs =
     [\<lparr>pd_key = ParamTransferRateMbps, pd_display_name = ''Network Transfer Rate'', pd_type = ''number'',
       pd_unit = ''Mbps'', pd_min = Some (round64 (1 / 10)), pd_max = None,
       pd_default = Float64Value DefaultTransferRateMbps, pd_schemas = [SchemaNetworkBased]\<rparr>,
      \<lparr>pd_key = ParamWorkHoursPerDay, pd_display_name = ''Work Hours per Day'', pd_type = ''number'',
       pd_unit = ''hours'', pd_min = Some (Finite (1 / 2)), pd_max = None,
       pd_default = Float64Value DefaultWorkHoursPerDay, pd_schemas = []\<rparr>,
      \<lparr>pd_key = ParamTroubleshootMinsPerVM, pd_display_name = ''Troubleshooting Time per VM'',
       pd_type = ''number'', pd_unit = ''minutes'', pd_min = Some (Finite 1), pd_max = None,
       pd_default = Float64Value DefaultTroubleshootMinsPerVM, pd_schemas = []\<rparr>,
      \<lparr>pd_key = ParamPostMigrationEngineers, pd_display_name = ''Post-Migration Engineers'',
       pd_type = ''integer'', pd_unit = [], pd_min = Some (Finite 1), pd_max = None,
       pd_default = IntValue DefaultEngineerCount, pd_schemas = []\<rparr>]"

definition default_params :: "param list" where
  "default_params = map (\<lambda>d. \<lparr>pm_key = pd_key d, pm_value = pd_default d\<rparr>) estimationParamDefs"

text \<open>The merged map, whose entries are then listed in any order.\<close>

definition put_param :: "param list \<Rightarrow> param \<Rightarrow> param list" where
  "put_param m p =
     (if pm_key p \<in> pm_key ` set m then map (\<lambda>q. if pm_key q = pm_key p then p else q) m else m @ [p])"

definition merge_params :: "(nat \<Rightarrow> nat list) \<Rightarrow> param list list \<Rightarrow> param list" where
  "merge_params p layers =
     (let m = foldl put_param [] (concat layers) in reorder (p (length m)) m)"

definition map_cluster_to_params :: "inventory_data \<Rightarrow> param list" where
  "map_cluster_to_params data =
     [\<lparr>pm_key = ParamTotalDiskGB,
       pm_value = Float64Value (float_of_int (sint (rb_total (vm_disk_gb (dt_vms data)))))\<rparr>,
      \<lparr>pm_key = ParamVMCount, pm_value = IntValue (vm_total (dt_vms data))\<rparr>]"

definition build_base_params :: "(nat \<Rightarrow> nat list) \<Rightarrow> param list \<Rightarrow> param list" where
  "build_base_params p user_params = merge_params p [default_params, user_params]"

definition build_bucket_params ::
    "(nat \<Rightarrow> nat list) \<Rightarrow> param list \<Rightarrow> goint \<Rightarrow> float64 \<Rightarrow> param list" where
  "build_bucket_params p base vm_count disk_gb = merge_params p [base,
     [\<lparr>pm_key = ParamVMCount, pm_value = IntValue vm_count\<rparr>,
      \<lparr>pm_key = ParamTotalDiskGB, pm_value = Float64Value disk_gb\<rparr>]]"

text \<open>\<open>math.Trunc\<close>.\<close>

fun ftrunc :: "float64 \<Rightarrow> float64" where
  "ftrunc (Finite x) = Finite (of_int (if 0 \<le> x then \<lfloor>x\<rfloor> else \<lceil>x\<rceil>))"
| "ftrunc x = x"

definition to_float64 :: "param_value \<Rightarrow> float64 option" where
  "to_float64 v = (case v of Float64Value x \<Rightarrow> Some x | Float32Value x \<Rightarrow> Some x
     | IntValue n \<Rightarrow> Some (float_of_int (sint n)) | Int64Value n \<Rightarrow> Some (float_of_int (sint n))
     | OtherValue t \<Rightarrow> None)"

definition validate_param :: "param \<Rightarrow> error option" where
  "validate_param p =
     (case find (\<lambda>d. pd_key d = pm_key p) estimationParamDefs of
        None \<Rightarrow> Some (ErrInvalidEstimationParam (''unknown param key %q'', [pm_key p]))
      | Some d \<Rightarrow>
        (case to_float64 (pm_value p) of
           None \<Rightarrow> Some (ErrInvalidEstimationParam (''param %q: value must be numeric'', [pm_key p]))
         | Some v \<Rightarrow>
             if pd_type d = ''integer'' \<and> \<not> feq (ftrunc v) v
             then Some (ErrInvalidEstimationParam
               (''param %q: value %v must be a whole number'', [pm_key p, float_text v]))
             else if (case pd_min d of None \<Rightarrow> False | Some m \<Rightarrow> flt v m)
             then Some (ErrInvalidEstimationParam
               (''param %q: value %v is below minimum %v'', [pm_key p, float_text v, float_text (the (pd_min d))]))
             else if (case pd_max d of None \<Rightarrow> False | Some m \<Rightarrow> flt m v)
             then Some (ErrInvalidEstimationParam
               (''param %q: value %v exceeds maximum %v'', [pm_key p, float_text v, float_text (the (pd_max d))]))
             else None))"

fun validate_params :: "param list \<Rightarrow> error option" where
  "validate_params [] = None"
| "validate_params (p # ps) = (case validate_param p of Some e \<Rightarrow> Some e | None \<Rightarrow> validate_params ps)"

subsection \<open>Running an estimation\<close>

record migration_assessment_result =
  mar_min_total_duration :: duration
  mar_max_total_duration :: duration
  mar_breakdown :: breakdown

text \<open>The sums over a breakdown; a point estimate without a duration is a nil dereference.\<close>

fun add_estimates :: "breakdown \<Rightarrow> duration \<Rightarrow> duration \<Rightarrow> error + duration \<times> duration" where
  "add_estimates [] lo hi = Inr (lo, hi)"
| "add_estimates ((name, e) # es) lo hi =
     (case (es_min_duration e, es_max_duration e) of
        (Some a, Some b) \<Rightarrow> add_estimates es (lo + a) (hi + b)
      | _ \<Rightarrow> (case es_duration e of
          None \<Rightarrow> Inl (Panic ''nil pointer dereference'')
        | Some d \<Rightarrow> add_estimates es (lo + d) (hi + d)))"

definition summarize :: "breakdown \<Rightarrow> error + migration_assessment_result" where
  "summarize b = (case add_estimates b 0 0 of
     Inl e \<Rightarrow> Inl e
   | Inr (lo, hi) \<Rightarrow>
       Inr \<lparr>mar_min_total_duration = lo, mar_max_total_duration = hi, mar_breakdown = b\<rparr>)"

fun run_engines ::
    "(string \<times> calculator list) list \<Rightarrow> param list \<Rightarrow>
     error + (string \<times> migration_assessment_result) list" where
  "run_engines [] ps = Inr []"
| "run_engines ((s, cs) # es) ps =
     (case run_engine cs ps of Inl e \<Rightarrow> Inl e | Inr b \<Rightarrow>
     (case summarize b of Inl e \<Rightarrow> Inl e | Inr r \<Rightarrow>
     (case run_engines es ps of Inl e \<Rightarrow> Inl e | Inr rs \<Rightarrow> Inr ((s, r) # rs))))"

definition run_estimation ::
    "string list \<Rightarrow> param list \<Rightarrow> error + (string \<times> migration_assessment_result) list" where
  "run_estimation schemas ps =
     (case build_engines schemas of
        Inl e \<Rightarrow> Inl e
      | Inr (Inl m) \<Rightarrow> Inl (ErrInvalidSchema m)
      | Inr (Inr es) \<Rightarrow> run_engines es ps)"

definition calculate_migration_estimation ::
    "env \<Rightarrow> gocontext \<Rightarrow> uuid \<Rightarrow> string list \<Rightarrow> string list \<Rightarrow> param list \<Rightarrow>
     (string \<times> migration_assessment_result) list go" where
  "calculate_migration_estimation E c aid cids schemas user_params =
     bind (load_assessment_inventory E c aid) (\<lambda>ivt w.
     ((case resolve_estimation_inventory_data (uuid_str E) ivt cids aid of
         Inl e \<Rightarrow> Inl e
       | Inr data \<Rightarrow> run_estimation schemas
           (merge_params (order E (tick w)) [default_params, map_cluster_to_params data, user_params])),
      next_tick w))"

end
