(* ===== verification/EstimationTheorems.thy ===== *)
theory EstimationTheorems
  imports EstimationService
begin

text \<open>
  The theorems about the complexity by operating system: every VM is counted once, and the order of
  the map iterations does not matter where the keys agree and does where they do not.
\<close>

subsection \<open>Counting VMs by score\<close>

lemma first_match_range: "set ks \<subseteq> A \<times> {0..4} \<Longrightarrow> first_match n ks \<in> {0..4}"
  by (induction n ks rule: first_match.induct) auto

lemma classify_range: "classify_os p name \<in> {0, 1, 2, 3, 4}"
proof -
  have "set OSDifficultyScores \<subseteq> UNIV \<times> {0..4}"
    by (simp add: OSDifficultyScores_def)
  then have "first_match (lower name) (reorder p OSDifficultyScores) \<in> {0..4}"
    by (intro first_match_range [of _ UNIV]) simp
  then show ?thesis unfolding classify_os_def by auto
qed

lemma count_by_score:
  "count_by_score it k es c s =
     c s + sum_list (map (\<lambda>(i, e). if classify_os (it i) (ose_name e) = s then ose_count e else 0) (enumerate k es))"
  by (induction es arbitrary: k c) (simp_all add: Let_def add.assoc)

lemma five_scores:
  fixes n :: goint
  assumes "x \<in> {0, 1, 2, 3, 4 :: int}"
  shows "(\<Sum>s\<leftarrow>OSScores. if x = s then n else 0) = n"
  using assms by (auto simp: OSScores_def)

lemma os_breakdown_counts:
  "sum_list (map ode_vm_count (os_breakdown it es)) = sum_list (map ose_count es)"
proof -
  have "(\<Sum>s\<leftarrow>OSScores. \<Sum>(i, e)\<leftarrow>enumerate k es. if classify_os (it i) (ose_name e) = s then ose_count e else 0) =
      sum_list (map ose_count es)" for k
  proof (induction es arbitrary: k)
    case (Cons e es)
    then show ?case
      using five_scores [OF classify_range [of "it k" "ose_name e"], of "ose_count e"]
      by (simp add: sum_list_addf)
  qed simp
  from this [of 0] show ?thesis
    by (simp add: os_breakdown_def Let_def count_by_score comp_def)
qed

text \<open>
  C38: whatever order the maps are ranged in, every VM is counted in exactly one row of the
  breakdown by operating system, and the rows are the five scores in order.
\<close>

theorem every_vm_has_one_score:
  "map ode_score (os_breakdown it es) = OSScores \<and>
   sum_list (map ode_vm_count (os_breakdown it es)) = sum_list (map ose_count es)"
  by (intro conjI os_breakdown_counts) (simp add: os_breakdown_def Let_def comp_def)

subsection \<open>The order of the classification\<close>

definition all_unambiguous :: "vm_os_entry list \<Rightarrow> bool" where
  "all_unambiguous es \<longleftrightarrow> list_all (\<lambda>e. unambiguous (ose_name e)) es"

lemma classify_all:
  "all_unambiguous es \<Longrightarrow> e \<in> set es \<Longrightarrow> classify_os p (ose_name e) = score_of (ose_name e)"
  by (simp add: all_unambiguous_def list_all_iff classify_unambiguous)

lemma enumerate_mem: "(i, e) \<in> set (enumerate k es) \<Longrightarrow> e \<in> set es"
  by (auto simp: in_set_enumerate_eq)

lemma breakdown_by_score_of:
  assumes "all_unambiguous es"
  shows "os_breakdown it es = map (\<lambda>s. \<lparr>ode_score = s, ode_vm_count =
      sum_list (map (\<lambda>e. if score_of (ose_name e) = s then ose_count e else 0) es)\<rparr>) OSScores"
proof -
  have "map (\<lambda>(i, e). if classify_os (it i) (ose_name e) = s then ose_count e else 0) (enumerate 0 es) =
      map (\<lambda>e. if score_of (ose_name e) = s then ose_count e else 0) (map snd (enumerate 0 es))" for s
    unfolding map_map by (rule map_cong [OF refl]) (auto dest!: enumerate_mem simp: classify_all [OF assms])
  then show ?thesis
    by (simp add: os_breakdown_def Let_def count_by_score)
qed

lemma names_by_score_of:
  assumes "all_unambiguous es"
  shows "os_name_breakdown it es =
    sort (map (\<lambda>e. OSNameEntry (ose_name e) (score_of (ose_name e)) (ose_count e)) es)"
proof -
  have "map (\<lambda>(k, e). OSNameEntry (ose_name e) (classify_os (it k) (ose_name e)) (ose_count e)) (enumerate 0 es) =
      map (\<lambda>e. OSNameEntry (ose_name e) (score_of (ose_name e)) (ose_count e)) (map snd (enumerate 0 es))"
    unfolding map_map by (rule map_cong [OF refl]) (auto dest!: enumerate_mem simp: classify_all [OF assms])
  then show ?thesis by (simp add: os_name_breakdown_def)
qed

lemma foldl_update_scores:
  "\<forall>(k, e) \<in> set es. c k e = score_of (ose_name e) \<Longrightarrow>
   foldl (\<lambda>m (k, e). m(ose_name e := Some (c k e))) m es n =
     (if n \<in> ose_name ` snd ` set es then Some (score_of n) else m n)"
  by (induction es arbitrary: m) auto

lemma ratings_by_score_of:
  assumes "all_unambiguous es"
  shows "os_ratings it es n = (if n \<in> ose_name ` set es then Some (score_of n) else None)"
proof -
  have "snd ` set (enumerate 0 es) = set es"
    by (metis map_snd_enumerate set_map)
  then show ?thesis
    using assms unfolding os_ratings_def
    by (subst foldl_update_scores) (auto dest!: enumerate_mem simp: classify_all)
qed

text \<open>
  C37: if all keys that occur in a name carry the same score, for every name of the inventory, the
  three results by operating system do not depend on the order of the iterations or of the
  inventory's entries, and they agree: each name has the score of its keys everywhere.
\<close>

theorem scores_independent_of_order:
  assumes "all_unambiguous es" "mset es' = mset es"
  shows "os_breakdown it' es' = os_breakdown it es \<and>
    os_name_breakdown it' es' = os_name_breakdown it es \<and>
    os_ratings it' es' = os_ratings it es \<and>
    list_all (\<lambda>r. os_ratings it es (one_name r) = Some (one_score r)) (os_name_breakdown it es)"
proof -
  have all: "all_unambiguous es'"
    using assms by (metis all_unambiguous_def list_all_iff set_mset_mset)
  have "sum_list (map f es') = sum_list (map f es)" for f :: "vm_os_entry \<Rightarrow> goint"
    using assms(2) by (metis mset_map sum_mset_sum_list)
  moreover have "mset (map f es') = mset (map f es)" for f :: "vm_os_entry \<Rightarrow> os_name_entry"
    using assms(2) by simp
  then have "sort (map f es') = sort (map f es)" for f :: "vm_os_entry \<Rightarrow> os_name_entry"
    by (metis properties_for_sort sorted_sort mset_sort)
  moreover have "set es' = set es" using assms(2) by (metis set_mset_mset)
  ultimately show ?thesis
    unfolding breakdown_by_score_of [OF all] breakdown_by_score_of [OF assms(1)]
      names_by_score_of [OF all] names_by_score_of [OF assms(1)]
    by (auto simp: fun_eq_iff ratings_by_score_of [OF all] ratings_by_score_of [OF assms(1)] list_all_iff)
qed

theorem scores_independent_of_order_witness:
  "os_breakdown (\<lambda>_. [1, 0]) [\<lparr>ose_name = ''CentOS 7'', ose_count = 2\<rparr>, \<lparr>ose_name = ''Ubuntu Linux'', ose_count = 3\<rparr>] =
   os_breakdown (\<lambda>_. []) [\<lparr>ose_name = ''Ubuntu Linux'', ose_count = 3\<rparr>, \<lparr>ose_name = ''CentOS 7'', ose_count = 2\<rparr>]"
  by (rule scores_independent_of_order [THEN conjunct1]) (code_simp, simp)

definition sql_on_windows :: string where
  "sql_on_windows = ''Microsoft SQL Server on Windows Server 2019''"

text \<open>
  A name can contain keys with different scores, and then its score is that of whichever key the
  iteration meets first.
\<close>

theorem ambiguous_name_scores_vary:
  "{classify_os p sql_on_windows | p. True} = {2, 4}"
proof -
  have scores: "set (matching_scores sql_on_windows) = {2, 4}"
    by code_simp
  have "classify_os p sql_on_windows \<in> {2, 4}" for p
  proof -
    have "matching_scores sql_on_windows \<noteq> []" using scores by auto
    then show ?thesis
      using first_match_in [of "lower sql_on_windows" "reorder p OSDifficultyScores"] scores
      unfolding classify_os_def matching_scores_def
      by (auto simp: filter_empty_conv)
  qed
  moreover have "classify_os [] sql_on_windows = 2" "classify_os (rev [0..<68]) sql_on_windows = 4"
    by code_simp+
  ultimately show ?thesis by auto
qed

end
