(* ===== verification/EstimationInventory.thy ===== *)
theory EstimationInventory
  imports EstimationTheorems SizerTheorems
begin

text \<open>
  The theorems about the disk tiers, about combining clusters of snapshots of different versions,
  and about the totals of a selection of clusters.
\<close>

subsection \<open>Disk tiers\<close>

definition label_scores :: "disk_tier_input list \<Rightarrow> score list" where
  "label_scores tiers = map (\<lambda>t. score_disk_tier_label (dti_label t)) tiers"

definition scored :: "disk_tier_input list \<Rightarrow> (score \<times> disk_tier_input) list" where
  "scored tiers = map (\<lambda>t. (score_disk_tier_label (dti_label t), t)) tiers"


lemma scored_simps [simp]:
  "scored [] = []" "scored (t # ts) = (score_disk_tier_label (dti_label t), t) # scored ts"
  "label_scores [] = []" "label_scores (t # ts) = score_disk_tier_label (dti_label t) # label_scores ts"
  by (simp_all add: scored_def label_scores_def)








subsection \<open>Clusters of an old and a new snapshot\<close>






subsection \<open>Totals of the selected clusters\<close>







end
