(* ===== verification/EstimationRuns.thy ===== *)
theory EstimationRuns
  imports EstimationInventory
begin

text \<open>
  Runs of the estimation engine on validated parameters. The layers of parameters are looked up as
  one list whose last entry of a key counts. The locale \<open>reliable_engine\<close> is the contract between an
  engine and its calculators; it is interpreted on the engines of both schemas.
\<close>

subsection \<open>Layers of parameters\<close>

definition last_param :: "param list \<Rightarrow> params" where
  "last_param ps k = find (\<lambda>p. pm_key p = k) (rev ps)"

lemma last_param_simps [simp]:
  "last_param [] k = None"
  "last_param (ps @ [p]) k = (if pm_key p = k then Some p else last_param ps k)"
  by (simp_all add: last_param_def)



lemma param_map_last: "param_map ps = last_param ps"
proof (induction ps rule: rev_induct)
  case (snoc p ps)
  then show ?case by (simp add: param_map_def fun_eq_iff)
qed (simp add: param_map_def fun_eq_iff)








subsection \<open>Engines whose calculators answer\<close>




definition offload_secs :: "float64 \<Rightarrow> int \<Rightarrow> duration" where
  "offload_secs rate gb = to_duration (fmul (fdiv (Finite (of_int gb)) rate) second)"
















subsection \<open>Accepted parameters\<close>


















definition demo_engineers :: "float64 \<Rightarrow> param list" where
  "demo_engineers x = [\<lparr>pm_key = ParamPostMigrationEngineers, pm_value = Float64Value x\<rparr>]"


text \<open>
  The validation has no upper bound, so ten to the nineteen engineers are accepted; the conversion to an
  integer overflows and the estimate is an error.
\<close>

theorem too_many_engineers:
  "validate_params (demo_engineers (Finite (10 ^ 19))) = None \<and>
   calculate_checks (new_post_migration_troubleshooting [])
     (param_map (merge_params (\<lambda>_. [])
        [default_params, map_cluster_to_params demo_cluster, demo_engineers (Finite (10 ^ 19))])) =
     Inr (Inl (''engineers must be > 0'', []))"
  by code_simp

definition demo_disk :: "int \<Rightarrow> params" where
  "demo_disk gb = param_map [\<lparr>pm_key = ParamTotalDiskGB, pm_value = Float64Value (Finite (of_int gb))\<rparr>]"

text \<open>
  Above the limit the longest transfer no longer fits in a duration, the range is inverted and the
  run panics; the limit is tight within a factor of two.
\<close>

theorem offload_overflow_panics:
  "calculate_storage_offload (demo_disk 5000000000) =
     Inl (Panic ''estimation: NewRangedEstimation: min must be <= max'')"
proof -
  have "sint (offload_secs storageOffloadMinRateGBps 5000000000) < sint (offload_secs storageOffloadMaxRateGBps 5000000000)"
    by code_simp
  then show ?thesis
    by (simp add: calculate_storage_offload_def demo_disk_def param_map_last last_param_def get_float_def
        new_ranged_estimation_def offload_secs_def Let_def del: fdiv.simps fmul.simps)
qed

end
