(* ===== verification/SourceStore.thy ===== *)
theory SourceStore
  imports AssessmentStore
begin

text \<open>
  The stores of sources, agents, subset inventories, image infrastructure, labels and private keys
  (\<open>internal/store/source.go\<close>, \<open>agent.go\<close>, \<open>source_subset_inventory.go\<close>, \<open>image.go\<close>, \<open>label.go\<close>,
  \<open>key.go\<close>). A source is read with its agents, its image infrastructure and its labels.
\<close>

text \<open>A statement with \<open>RETURNING\<close>: its value is read from the tables it leaves.\<close>

definition exec_returning :: "env \<Rightarrow> gocontext \<Rightarrow> (db \<Rightarrow> error + db) \<Rightarrow> (db \<Rightarrow> 'a) \<Rightarrow> 'a go" where
  "exec_returning E c f v w = (case exec E c f w of
     (Inl e, w') \<Rightarrow> (Inl e, w') | (Inr u, w') \<Rightarrow> (Inr (v (get_db c w')), w'))"

text \<open>\<open>Delete\<close> of a missing row is no error.\<close>

definition deleting :: "unit go \<Rightarrow> unit go" where
  "deleting m = attempt m (\<lambda>e. if \<not> errors_is e GormRecordNotFound then raise e else ret ()) ret"

subsection \<open>Sources\<close>

record source =
  so_row :: source_row
  so_agents :: "agent_row list"
  so_image_infra :: "image_infra_row option"
  so_labels :: "label_row list"

definition preload_source :: "env \<Rightarrow> nat \<Rightarrow> db \<Rightarrow> source_row \<Rightarrow> source" where
  "preload_source E t d s = \<lparr>so_row = s,
     so_agents = find_rows E t (\<lambda>a. ag_source_id a = s_id s) (agents d),
     so_image_infra = find (\<lambda>i. ii_source_id i = s_id s) (image_infras d),
     so_labels = find_rows E t (\<lambda>l. lb_source_id l = uuid_str E (s_id s)) (labels d)\<rparr>"

definition list_sources :: "env \<Rightarrow> gocontext \<Rightarrow> source_row query_filter option \<Rightarrow> source list go" where
  "list_sources E c qf = query E c (\<lambda>t d. Inr (map (preload_source E t d)
     (sort_key s_id (find_rows E t (satisfies qf) (sources d)))))"

definition get_full_source :: "env \<Rightarrow> gocontext \<Rightarrow> uuid \<Rightarrow> source go" where
  "get_full_source E c i = map_err gorm_not_found
     (gorm_first E c (\<lambda>d. first_by s_id (filter (primary_key i \<circ> s_id) (sources d))) (preload_source E))"

text \<open>The times, and the default of the column \<open>update_type\<close>.\<close>

definition stamp_source :: "time \<Rightarrow> source_row \<Rightarrow> source_row" where
  "stamp_source now s =
     s\<lparr>s_created_at := if s_created_at s = zero_time then now else s_created_at s,
       s_updated_at := if s_updated_at s = None then Some now else s_updated_at s,
       s_update_type := if s_update_type s = [] then ''auto'' else s_update_type s\<rparr>"

definition create_source_row :: "env \<Rightarrow> gocontext \<Rightarrow> source \<Rightarrow> source go" where
  "create_source_row E c s =
     bind (time_now E) (\<lambda>now.
     let row = stamp_source now (so_row s)
     in bind (map_err gorm_duplicated (exec E c (insert_source row (so_labels s)))) (\<lambda>_.
        ret (s\<lparr>so_row := row\<rparr>)))"

definition delete_source :: "env \<Rightarrow> gocontext \<Rightarrow> uuid \<Rightarrow> unit go" where
  "delete_source E c i = deleting (exec E c (model_update i (delete_source_row (uuid_str E) i)))"

text \<open>The associations that were read are written back as they are.\<close>

definition update_source_row :: "env \<Rightarrow> gocontext \<Rightarrow> source \<Rightarrow> source go" where
  "update_source_row E c s =
     bind (time_now E) (\<lambda>now.
     let row = (so_row s)\<lparr>s_updated_at := Some now\<rparr>
     in bind (exec_returning E c (model_update (s_id row) (update_source_columns row))
          (\<lambda>d. case find (\<lambda>r. s_id r = s_id row) (sources d) of Some r \<Rightarrow> r | None \<Rightarrow> row)) (\<lambda>r.
        ret (s\<lparr>so_row := r\<rparr>)))"

subsection \<open>Agents\<close>

definition agent_by_source_id ::
    "(uuid \<Rightarrow> string) \<Rightarrow> string \<Rightarrow> agent_row query_filter \<Rightarrow> agent_row query_filter" where
  "agent_by_source_id us sid f = f @ [\<lambda>a. us (ag_source_id a) = sid]"

definition agent_by_id ::
    "(uuid \<Rightarrow> string) \<Rightarrow> string list \<Rightarrow> agent_row query_filter \<Rightarrow> agent_row query_filter" where
  "agent_by_id us ids f = f @ [\<lambda>a. us (ag_id a) \<in> set ids]"

datatype sort_order = Unsorted | SortByID | SortByUpdatedTime | SortByCreatedTime

definition sort_agents :: "sort_order \<Rightarrow> agent_row list \<Rightarrow> agent_row list" where
  "sort_agents ord as = (case ord of
     Unsorted \<Rightarrow> as
   | SortByID \<Rightarrow> sort_key ag_id as
   | SortByUpdatedTime \<Rightarrow> filter (\<lambda>a. ag_updated_at a = None) as @
       sort_key (\<lambda>a. the (ag_updated_at a)) (filter (\<lambda>a. ag_updated_at a \<noteq> None) as)
   | SortByCreatedTime \<Rightarrow> sort_key ag_created_at as)"

text \<open>The first order counts most.\<close>

definition list_agents ::
    "env \<Rightarrow> gocontext \<Rightarrow> agent_row query_filter option \<Rightarrow> sort_order list \<Rightarrow> agent_row list go" where
  "list_agents E c qf orders = query E c (\<lambda>t d. Inr (foldr sort_agents orders
     (find_rows E t (satisfies qf) (agents d))))"

definition get_agent :: "env \<Rightarrow> gocontext \<Rightarrow> uuid \<Rightarrow> agent_row go" where
  "get_agent E c i = map_err gorm_not_found
     (gorm_first E c (\<lambda>d. first_by ag_id (filter (primary_key i \<circ> ag_id) (agents d))) (\<lambda>_ _ a. a))"

definition stamp_agent :: "time \<Rightarrow> agent_row \<Rightarrow> agent_row" where
  "stamp_agent now a =
     a\<lparr>ag_created_at := if ag_created_at a = zero_time then now else ag_created_at a,
       ag_updated_at := if ag_updated_at a = None then Some now else ag_updated_at a\<rparr>"

definition create_agent :: "env \<Rightarrow> gocontext \<Rightarrow> agent_row \<Rightarrow> agent_row go" where
  "create_agent E c a =
     bind (time_now E) (\<lambda>now.
     bind (exec E c (insert_agent (stamp_agent now a))) (\<lambda>_. ret (stamp_agent now a)))"

definition update_agent :: "env \<Rightarrow> gocontext \<Rightarrow> agent_row \<Rightarrow> agent_row go" where
  "update_agent E c a =
     bind (gorm_first E c (\<lambda>d. first_by ag_id (filter (primary_key (ag_id a) \<circ> ag_id) (agents d)))
            (\<lambda>_ _ r. r)) (\<lambda>_.
     bind (time_now E) (\<lambda>now.
     let a' = a\<lparr>ag_updated_at := Some now\<rparr>
     in exec_returning E c (model_update (ag_id a) (update_agent_columns a'))
          (\<lambda>d. case find (\<lambda>r. ag_id r = ag_id a) (agents d) of Some r \<Rightarrow> r | None \<Rightarrow> a')))"

definition delete_agent :: "env \<Rightarrow> gocontext \<Rightarrow> uuid \<Rightarrow> unit go" where
  "delete_agent E c i = deleting (exec E c (model_update i (delete_agent_row i)))"

subsection \<open>Subset inventories\<close>

definition stamp_subset :: "time \<Rightarrow> subset_row \<Rightarrow> subset_row" where
  "stamp_subset now s =
     s\<lparr>ss_created_at := if ss_created_at s = zero_time then now else ss_created_at s,
       ss_updated_at := if ss_updated_at s = None then Some now else ss_updated_at s,
       ss_update_type := if ss_update_type s = [] then ''auto'' else ss_update_type s\<rparr>"

definition create_subset :: "env \<Rightarrow> gocontext \<Rightarrow> subset_row \<Rightarrow> subset_row go" where
  "create_subset E c s =
     bind (time_now E) (\<lambda>now.
     bind (map_err gorm_duplicated (exec E c (insert_subsets [stamp_subset now s]))) (\<lambda>_.
     ret (stamp_subset now s)))"

definition create_subsets :: "env \<Rightarrow> gocontext \<Rightarrow> subset_row list \<Rightarrow> unit go" where
  "create_subsets E c ss =
     (if ss = [] then ret ()
      else bind (time_now E) (\<lambda>now.
        map_err gorm_duplicated (exec E c (insert_subsets (map (stamp_subset now) ss)))))"

definition get_subset :: "env \<Rightarrow> gocontext \<Rightarrow> uuid \<Rightarrow> subset_row go" where
  "get_subset E c i = map_err gorm_not_found
     (gorm_first E c (\<lambda>d. first_by ss_id (filter (primary_key i \<circ> ss_id) (source_subset_inventories d)))
        (\<lambda>_ _ s. s))"

definition delete_subset :: "env \<Rightarrow> gocontext \<Rightarrow> uuid \<Rightarrow> unit go" where
  "delete_subset E c i = deleting (exec E c (model_update i (delete_subset_row i)))"

definition delete_subsets_by_source_id :: "env \<Rightarrow> gocontext \<Rightarrow> uuid \<Rightarrow> unit go" where
  "delete_subsets_by_source_id E c sid = deleting (exec E c (delete_subset_rows_of sid))"

text \<open>\<open>RowsAffected\<close> tells whether the row was there.\<close>

definition update_subset :: "env \<Rightarrow> gocontext \<Rightarrow> subset_row \<Rightarrow> subset_row go" where
  "update_subset E c s =
     bind (time_now E) (\<lambda>now.
     let s' = s\<lparr>ss_updated_at := Some now\<rparr>
     in bind (exec_returning E c (model_update (ss_id s) (update_subset_columns s'))
          (\<lambda>d. find (\<lambda>r. ss_id r = ss_id s) (source_subset_inventories d))) (\<lambda>r.
        case r of None \<Rightarrow> raise StoreRecordNotFound | Some x \<Rightarrow> ret x))"

subsection \<open>Image infrastructure\<close>

definition create_image_infra :: "env \<Rightarrow> gocontext \<Rightarrow> image_infra_row \<Rightarrow> image_infra_row go" where
  "create_image_infra E c i = bind (exec E c (insert_image_infra i)) (\<lambda>_. ret i)"

definition update_image_infra :: "env \<Rightarrow> gocontext \<Rightarrow> image_infra_row \<Rightarrow> image_infra_row go" where
  "update_image_infra E c i = bind (exec E c (save_image_infra i)) (\<lambda>_. ret i)"

definition infra_of :: "env \<Rightarrow> string \<Rightarrow> image_infra_row \<Rightarrow> bool" where
  "infra_of E sid i \<longleftrightarrow> uuid_str E (ii_source_id i) = sid"

definition update_infra_column ::
    "env \<Rightarrow> gocontext \<Rightarrow> string \<Rightarrow> (image_infra_row \<Rightarrow> image_infra_row) \<Rightarrow> unit go" where
  "update_infra_column E c sid f =
     bind (exec_returning E c (update_infra_where (infra_of E sid) f)
       (\<lambda>d. \<exists>i \<in> set (image_infras d). infra_of E sid i)) (\<lambda>affected.
     reject_if (\<not> affected) StoreRecordNotFound)"

definition update_agent_version :: "env \<Rightarrow> gocontext \<Rightarrow> string \<Rightarrow> string \<Rightarrow> unit go" where
  "update_agent_version E c sid v = update_infra_column E c sid (ii_agent_version_update (\<lambda>_. Some v))"

definition update_agent_token :: "env \<Rightarrow> gocontext \<Rightarrow> string \<Rightarrow> string \<Rightarrow> unit go" where
  "update_agent_token E c sid t = update_infra_column E c sid (ii_agent_token_update (\<lambda>_. Some t))"

subsection \<open>Labels\<close>

definition delete_labels_by_source_id :: "env \<Rightarrow> gocontext \<Rightarrow> string \<Rightarrow> unit go" where
  "delete_labels_by_source_id E c sid = exec E c (delete_labels_of sid)"

fun create_labels :: "env \<Rightarrow> gocontext \<Rightarrow> string \<Rightarrow> label_row list \<Rightarrow> unit go" where
  "create_labels E c sid [] = ret ()"
| "create_labels E c sid (l # ls) =
     bind (map_err (Wrapf (''failed to create label with key '' @ [CHR 0x27] @ ''%s'' @ [CHR 0x27] @ '': %w'', [lb_key l]))
            (exec E c (insert_label (uuid_str E) (l\<lparr>lb_source_id := sid\<rparr>)))) (\<lambda>_.
     create_labels E c sid ls)"

definition update_labels :: "env \<Rightarrow> gocontext \<Rightarrow> uuid \<Rightarrow> label_row list \<Rightarrow> unit go" where
  "update_labels E c sid ls =
     bind (map_err (Wrapf (''failed to delete existing labels: %w'', []))
            (delete_labels_by_source_id E c (uuid_str E sid))) (\<lambda>_.
     create_labels E c (uuid_str E sid) ls)"

subsection \<open>Private keys\<close>

definition create_private_key :: "env \<Rightarrow> gocontext \<Rightarrow> key_row \<Rightarrow> key_row go" where
  "create_private_key E c k = bind (exec E c (insert_key k)) (\<lambda>_. ret k)"

text \<open>An organization without an identifier selects any key.\<close>

definition get_private_key :: "env \<Rightarrow> gocontext \<Rightarrow> string \<Rightarrow> key_row go" where
  "get_private_key E c org = map_err gorm_not_found (query E c (\<lambda>t d.
     case find_rows E t (\<lambda>k. org = [] \<or> k_org_id k = org) (private_keys d) of
       [] \<Rightarrow> Inl GormRecordNotFound | k # _ \<Rightarrow> Inr k))"

definition delete_private_key :: "env \<Rightarrow> gocontext \<Rightarrow> string \<Rightarrow> unit go" where
  "delete_private_key E c org = deleting (exec E c (\<lambda>d.
     if org = [] then Inl (DbError ''WHERE conditions required'') else delete_key_rows org d))"

definition get_public_key :: "env \<Rightarrow> gocontext \<Rightarrow> string \<Rightarrow> string go" where
  "get_public_key E c kid = query E c (\<lambda>t d.
     case find_rows E t (\<lambda>k. k_id k = kid) (private_keys d) of
       [] \<Rightarrow> Inl GormRecordNotFound | k # _ \<Rightarrow> Inr (k_private_key k))"

end
