(* ===== verification/SourceService.thy ===== *)
theory SourceService
  imports SourceStore AssessmentService
begin

text \<open>
  The services of sources and agents (\<open>internal/service/source.go\<close>, \<open>agent.go\<close>), their forms
  (\<open>internal/service/mappers/inbound.go\<close>) and the tokens of the agents
  (\<open>internal/auth/agent_authenticator.go\<close>). Random numbers, signatures and the encoding of a token are an
  argument, the record \<open>token_lib\<close>.
\<close>

subsection \<open>Forms\<close>

record source_create_form =
  sc_certificate_chain :: string
  sc_name :: string
  sc_http_url :: string
  sc_https_url :: string
  sc_no_proxy :: string
  sc_ssh_public_key :: string
  sc_username :: string
  sc_org_id :: string
  sc_email_domain :: string
  sc_labels :: "string gomap"
  sc_ip_address :: string
  sc_subnet_mask :: string
  sc_default_gateway :: string
  sc_dns :: string
  sc_enable_proxy :: "bool option"
  sc_network_config_type :: "string option"

definition clear_proxy :: "image_infra_row \<Rightarrow> image_infra_row" where
  "clear_proxy i = i\<lparr>ii_http_proxy_url := [], ii_https_proxy_url := [], ii_no_proxy_domains := []\<rparr>"

definition clear_network :: "image_infra_row \<Rightarrow> image_infra_row" where
  "clear_network i = i\<lparr>ii_ip_address := [], ii_subnet_mask := [], ii_default_gateway := [], ii_dns := []\<rparr>"

definition apply_switches ::
    "bool option \<Rightarrow> string option \<Rightarrow> image_infra_row \<Rightarrow> image_infra_row" where
  "apply_switches proxy network i =
     (let i = if proxy = Some False then clear_proxy i else i
      in if network = Some ''dhcp'' then clear_network i else i)"

definition create_form_to_image_infra :: "source_create_form \<Rightarrow> uuid \<Rightarrow> string \<Rightarrow> image_infra_row" where
  "create_form_to_image_infra f sid key = apply_switches (sc_enable_proxy f) (sc_network_config_type f)
     \<lparr>ii_source_id = sid, ii_http_proxy_url = sc_http_url f, ii_https_proxy_url = sc_https_url f,
      ii_no_proxy_domains = sc_no_proxy f, ii_certificate_chain = sc_certificate_chain f,
      ii_ssh_public_key = sc_ssh_public_key f, ii_image_token_key = key, ii_ip_address = sc_ip_address f,
      ii_subnet_mask = sc_subnet_mask f, ii_default_gateway = sc_default_gateway f, ii_dns = sc_dns f,
      ii_agent_version = None, ii_agent_token = None\<rparr>"

text \<open>The labels are a map, ranged over in any order.\<close>

definition create_form_to_source :: "env \<Rightarrow> source_create_form \<Rightarrow> source go" where
  "create_form_to_source E f =
     bind (uuid_new E) (\<lambda>i w.
     (Inr \<lparr>so_row = \<lparr>s_id = i, s_created_at = zero_time, s_updated_at = None, s_name = sc_name f,
         s_vcenter_id = [], s_username = sc_username f, s_org_id = sc_org_id f, s_inventory = None,
         s_on_premises = False, s_update_type = [],
         s_email_domain = (if sc_email_domain f = [] then None else Some (sc_email_domain f))\<rparr>,
       so_agents = [], so_image_infra = None,
       so_labels = map (\<lambda>(k, v). \<lparr>lb_key = k, lb_value = v, lb_source_id = uuid_str E i\<rparr>)
         (reorder (order E (tick w) (length (sc_labels f))) (sc_labels f))\<rparr>, next_tick w))"

record subset_update_form =
  su_id :: uuid
  su_name :: string
  su_source_id :: uuid
  su_vcenter_id :: string
  su_vms_count :: goint
  su_inventory :: string

record inventory_update_form =
  iu_source_id :: uuid
  iu_agent_id :: uuid
  iu_vcenter_id :: string
  iu_inventory :: "string option"
  iu_subsets :: "subset_update_form list"

record source_inventory_update_form =
  sv_source_id :: uuid
  sv_vcenter_id :: string
  sv_inventory :: "string option"

record agent_update_form =
  au_id :: uuid
  au_status :: string
  au_status_info :: string
  au_cred_url :: string
  au_version :: string
  au_source_id :: uuid

definition agent_form_to_model :: "agent_update_form \<Rightarrow> agent_row" where
  "agent_form_to_model f = \<lparr>ag_id = au_id f, ag_created_at = zero_time, ag_updated_at = None,
     ag_status = au_status f, ag_status_info = au_status_info f, ag_cred_url = au_cred_url f,
     ag_version = au_version f, ag_source_id = au_source_id f\<rparr>"

definition update_source_from_api :: "source \<Rightarrow> string \<Rightarrow> string option \<Rightarrow> source" where
  "update_source_from_api s vcenter_id data =
     s\<lparr>so_row := (so_row s)\<lparr>s_inventory := data, s_vcenter_id := vcenter_id\<rparr>\<rparr>"

record source_update_form =
  sf_name :: "string option"
  sf_labels :: "(string \<times> string) list option"
  sf_ssh_public_key :: "string option"
  sf_certificate_chain :: "string option"
  sf_http_url :: "string option"
  sf_https_url :: "string option"
  sf_no_proxy :: "string option"
  sf_ip_address :: "string option"
  sf_subnet_mask :: "string option"
  sf_default_gateway :: "string option"
  sf_dns :: "string option"
  sf_enable_proxy :: "bool option"
  sf_network_config_type :: "string option"

definition update_form_to_source :: "source_update_form \<Rightarrow> source_row \<Rightarrow> source_row" where
  "update_form_to_source f s = (case sf_name f of None \<Rightarrow> s | Some n \<Rightarrow> s\<lparr>s_name := n\<rparr>)"

text \<open>A field that is given replaces the old value, after the switches have cleared their fields.\<close>

definition chosen_or :: "'a \<Rightarrow> 'a option \<Rightarrow> 'a" where
  "chosen_or old new = (case new of None \<Rightarrow> old | Some x \<Rightarrow> x)"

definition update_form_to_image_infra :: "source_update_form \<Rightarrow> image_infra_row \<Rightarrow> image_infra_row" where
  "update_form_to_image_infra f i0 =
     (let i = apply_switches (sf_enable_proxy f) (sf_network_config_type f) i0
      in i\<lparr>ii_ssh_public_key := chosen_or (ii_ssh_public_key i) (sf_ssh_public_key f),
           ii_certificate_chain := chosen_or (ii_certificate_chain i) (sf_certificate_chain f),
           ii_http_proxy_url := chosen_or (ii_http_proxy_url i) (sf_http_url f),
           ii_https_proxy_url := chosen_or (ii_https_proxy_url i) (sf_https_url f),
           ii_no_proxy_domains := chosen_or (ii_no_proxy_domains i) (sf_no_proxy f),
           ii_ip_address := chosen_or (ii_ip_address i) (sf_ip_address f),
           ii_subnet_mask := chosen_or (ii_subnet_mask i) (sf_subnet_mask f),
           ii_default_gateway := chosen_or (ii_default_gateway i) (sf_default_gateway f),
           ii_dns := chosen_or (ii_dns i) (sf_dns f)\<rparr>)"

definition update_form_to_labels :: "source_update_form \<Rightarrow> label_row list option" where
  "update_form_to_labels f =
     map_option (map (\<lambda>(k, v). \<lparr>lb_key = k, lb_value = v, lb_source_id = []\<rparr>)) (sf_labels f)"

subsection \<open>Agent tokens\<close>

text \<open>The claims of an agent token; its times are seconds.\<close>

record agent_claims =
  jc_source_id :: string
  jc_expires_at :: int
  jc_issued_at :: int
  jc_not_before :: int
  jc_issuer :: string
  jc_subject :: string
  jc_id :: string
  jc_audience :: "string list"

text \<open>
  Generating a private key and an HMAC key, signing claims with a key under its identifier, reading
  the identifier and the claims of a token, checking a token's signature, and signing a download address; the
  first argument of what is random is the step of the request.
\<close>

record token_lib =
  tl_keygen :: "nat \<Rightarrow> string + string"
  tl_hmac_key :: "nat \<Rightarrow> error + string"
  tl_sign :: "string \<Rightarrow> string \<Rightarrow> agent_claims \<Rightarrow> string + string"
  tl_read :: "string \<Rightarrow> (string option \<times> agent_claims) option"
  tl_verify :: "string \<Rightarrow> string \<Rightarrow> bool"
  tl_download_url :: "nat \<Rightarrow> source \<Rightarrow> error + string \<times> time"

definition agent_token_lifetime :: time where "agent_token_lifetime = 3 * 30 * 24 * 3600 * 1000000000"
definition renewal_period :: time where "renewal_period = 30 * 24 * 3600 * 1000000000"
definition whole_seconds :: "time \<Rightarrow> int" where "whole_seconds t = t div 1000000000"

definition generate_agent_jwt :: "env \<Rightarrow> token_lib \<Rightarrow> key_row \<Rightarrow> source \<Rightarrow> string go" where
  "generate_agent_jwt E T k s =
     bind (time_now E) (\<lambda>t1.
     bind (time_now E) (\<lambda>t2.
     bind (time_now E) (\<lambda>t3.
     case tl_sign T (k_private_key k) (k_id k)
       \<lparr>jc_source_id = uuid_str E (s_id (so_row s)),
        jc_expires_at = whole_seconds (t1 + agent_token_lifetime),
        jc_issued_at = whole_seconds t2, jc_not_before = whole_seconds t3,
        jc_issuer = ''assisted-migrations'', jc_subject = s_org_id (so_row s), jc_id = ''1'',
        jc_audience = [''assisted-migrations'']\<rparr> of
       Inl m \<Rightarrow> raise (OtherError (''failed to signed agent token: %s'', [m]))
     | Inr token \<Rightarrow> ret token)))"

definition generate_agent_jwt_and_key :: "env \<Rightarrow> token_lib \<Rightarrow> source \<Rightarrow> (key_row \<times> string) go" where
  "generate_agent_jwt_and_key E T s w =
     (case tl_keygen T (tick w) of
        Inl m \<Rightarrow> (Inl (OtherError (''failed to generate agent private key: %s'', [m])), next_tick w)
      | Inr private_key \<Rightarrow>
          bind (uuid_new E) (\<lambda>kid.
          let k = \<lparr>k_org_id = s_org_id (so_row s), k_id = uuid_str E kid, k_private_key = private_key\<rparr>
          in bind (generate_agent_jwt E T k s) (\<lambda>token. ret (k, token))) (next_tick w))"

definition is_token_near_expiry :: "token_lib \<Rightarrow> string \<Rightarrow> time \<Rightarrow> bool" where
  "is_token_near_expiry T token now = (case tl_read T token of
     None \<Rightarrow> True
   | Some (kid, claims) \<Rightarrow> jc_expires_at claims * 1000000000 - now < renewal_period)"

definition ensure_agent_token :: "env \<Rightarrow> token_lib \<Rightarrow> gocontext \<Rightarrow> source \<Rightarrow> unit go" where
  "ensure_agent_token E T c s =
     (let renew =
        attempt (get_private_key E c (s_org_id (so_row s)))
          (\<lambda>e. if \<not> errors_is e StoreRecordNotFound then raise e
            else bind (generate_agent_jwt_and_key E T s) (\<lambda>(k, token).
                 bind (create_private_key E c k) (\<lambda>_.
                 update_agent_token E c (uuid_str E (s_id (so_row s))) token)))
          (\<lambda>k. bind (generate_agent_jwt E T k s) (\<lambda>token.
               update_agent_token E c (uuid_str E (s_id (so_row s))) token))
      in case so_image_infra s of
           Some i \<Rightarrow> (case ii_agent_token i of
             Some token \<Rightarrow> bind (time_now E) (\<lambda>now. if is_token_near_expiry T token now then renew else ret ())
           | None \<Rightarrow> renew)
         | None \<Rightarrow> renew)"

text \<open>
  The parser checks the signature with the key the token names, requires an expiration time and that
  the current time is before it and not before the other two.
\<close>

definition authenticate_agent :: "env \<Rightarrow> token_lib \<Rightarrow> gocontext \<Rightarrow> string \<Rightarrow> agent_claims go" where
  "authenticate_agent E T c token =
     (case tl_read T token of
        None \<Rightarrow> raise (OtherError (''failed to authenticate token: %w'', []))
      | Some (None, claims) \<Rightarrow> raise (OtherError (''failed to authenticate token: %w'', [''kid not found'']))
      | Some (Some kid, claims) \<Rightarrow>
          bind (map_err (\<lambda>e. OtherError (''failed to authenticate token: %w'', [''public key not found with id: %s'', kid]))
                 (get_public_key E c kid)) (\<lambda>key.
          bind (time_now E) (\<lambda>now.
          if tl_verify T key token \<and> now < jc_expires_at claims * 1000000000 \<and>
             jc_issued_at claims * 1000000000 \<le> now \<and> jc_not_before claims * 1000000000 \<le> now
          then ret claims
          else raise (OtherError (''failed to authenticate token: %w'', [])))))"

subsection \<open>Sources\<close>

record source_filter =
  sl_username :: string
  sl_org_id :: string
  sl_id :: uuid

definition with_username :: "string \<Rightarrow> source_filter \<Rightarrow> source_filter" where
  "with_username u f = f\<lparr>sl_username := u\<rparr>"

definition with_source_id :: "uuid \<Rightarrow> source_filter \<Rightarrow> source_filter" where
  "with_source_id i f = f\<lparr>sl_id := i\<rparr>"

definition with_org_id :: "string \<Rightarrow> source_filter \<Rightarrow> source_filter" where
  "with_org_id o' f = f\<lparr>sl_org_id := o'\<rparr>"

definition new_source_filter :: "(source_filter \<Rightarrow> source_filter) list \<Rightarrow> source_filter" where
  "new_source_filter fs = foldl (\<lambda>f g. g f) \<lparr>sl_username = [], sl_org_id = [], sl_id = nil_uuid\<rparr> fs"

definition source_lookup_error :: "env \<Rightarrow> uuid \<Rightarrow> error \<Rightarrow> error" where
  "source_lookup_error E i e =
     (if errors_is e StoreRecordNotFound then new_err_source_not_found (uuid_str E) i else e)"

definition service_list_sources :: "env \<Rightarrow> gocontext \<Rightarrow> source_filter \<Rightarrow> source list go" where
  "service_list_sources E c f = list_sources E c
     (Some (source_by_org_id (sl_org_id f) (source_by_username (sl_username f) new_query_filter)))"

definition service_get_source :: "env \<Rightarrow> gocontext \<Rightarrow> uuid \<Rightarrow> source go" where
  "service_get_source E c i = map_err (source_lookup_error E i) (get_full_source E c i)"

definition get_source_download_url ::
    "env \<Rightarrow> token_lib \<Rightarrow> gocontext \<Rightarrow> uuid \<Rightarrow> (string \<times> time) go" where
  "get_source_download_url E T c i =
     bind (map_err (source_lookup_error E i) (get_full_source E c i)) (\<lambda>s.
     bind (map_err (Wrapf (''failed to ensure agent token: %w'', [])) (ensure_agent_token E T c s)) (\<lambda>_ w.
     (tl_download_url T (tick w) s, next_tick w)))"

text \<open>An error after \<open>Rollback\<close>, whose own error is dropped.\<close>

definition rolled_back :: "env \<Rightarrow> gocontext \<Rightarrow> error \<Rightarrow> 'a go" where
  "rolled_back E c e w = (Inl e, snd (rollback E c w))"

definition service_create_source ::
    "env \<Rightarrow> token_lib \<Rightarrow> gocontext \<Rightarrow> source_create_form \<Rightarrow> source go" where
  "service_create_source E T c0 f w0 =
     (case tl_hmac_key T (tick w0) of
        Inl e \<Rightarrow> (Inl e, next_tick w0)
      | Inr key \<Rightarrow>
          bind (new_transaction_context E c0) (\<lambda>c.
          bind (create_form_to_source E f) (\<lambda>s.
          attempt (create_source_row E c s)
            (\<lambda>e. rolled_back E c (if errors_is e StoreDuplicateKey then new_err_source_duplicate_name (sc_name f) else e))
            (\<lambda>created.
               let i = create_form_to_image_infra f (s_id (so_row created)) key
               in attempt (create_image_infra E c i) (rolled_back E c) (\<lambda>_.
                  bind (commit E c) (\<lambda>_. ret (created\<lparr>so_image_infra := Some i\<rparr>)))))) (next_tick w0))"

definition service_delete_source :: "env \<Rightarrow> gocontext \<Rightarrow> uuid \<Rightarrow> unit go" where
  "service_delete_source E c i = delete_source E c i"

text \<open>A source without image infrastructure has its zero value, whose source is no source.\<close>

definition zero_image_infra :: image_infra_row where
  "zero_image_infra = \<lparr>ii_source_id = nil_uuid, ii_http_proxy_url = [], ii_https_proxy_url = [],
     ii_no_proxy_domains = [], ii_certificate_chain = [], ii_ssh_public_key = [], ii_image_token_key = [],
     ii_ip_address = [], ii_subnet_mask = [], ii_default_gateway = [], ii_dns = [],
     ii_agent_version = None, ii_agent_token = None\<rparr>"

definition update_source_body :: "env \<Rightarrow> uuid \<Rightarrow> source_update_form \<Rightarrow> gocontext \<Rightarrow> unit go" where
  "update_source_body E i f c =
     bind (map_err (source_lookup_error E i) (get_full_source E c i)) (\<lambda>s.
     bind (update_source_row E c (s\<lparr>so_row := update_form_to_source f (so_row s)\<rparr>)) (\<lambda>_.
     bind (update_image_infra E c (update_form_to_image_infra f
            (case so_image_infra s of Some x \<Rightarrow> x | None \<Rightarrow> zero_image_infra))) (\<lambda>_.
     case update_form_to_labels f of
       None \<Rightarrow> ret () | Some ls \<Rightarrow> update_labels E c (s_id (so_row s)) ls)))"

definition service_update_source :: "env \<Rightarrow> gocontext \<Rightarrow> uuid \<Rightarrow> source_update_form \<Rightarrow> source go" where
  "service_update_source E c0 i f =
     bind (new_transaction_context E c0) (\<lambda>c.
     defer_rollback E c
       (bind (update_source_body E i f c) (\<lambda>_.
        bind (commit E c) (\<lambda>_.
        get_full_source E c i))))"

definition subset_of_form :: "uuid \<Rightarrow> string \<Rightarrow> subset_update_form \<Rightarrow> subset_row" where
  "subset_of_form sid type f = \<lparr>ss_id = su_id f, ss_created_at = zero_time, ss_updated_at = None,
     ss_name = su_name f, ss_source_id = sid, ss_vcenter_id = su_vcenter_id f,
     ss_vms_count = su_vms_count f, ss_inventory = su_inventory f, ss_update_type = type\<rparr>"

definition replace_source_subsets :: "env \<Rightarrow> gocontext \<Rightarrow> uuid \<Rightarrow> subset_update_form list \<Rightarrow> unit go" where
  "replace_source_subsets E c sid fs =
     bind (map_err (Wrapf (''failed to delete source subset inventories: %w'', []))
            (delete_subsets_by_source_id E c sid)) (\<lambda>_.
     if fs = [] then ret ()
     else map_err (Wrapf (''failed to create source subset inventories: %w'', []))
            (create_subsets E c (map (subset_of_form sid ''manual'') fs)))"

definition new_agent_for_source :: "uuid \<Rightarrow> source \<Rightarrow> agent_row" where
  "new_agent_for_source i s = \<lparr>ag_id = i, ag_created_at = zero_time, ag_updated_at = None, ag_status = [],
     ag_status_info = [], ag_cred_url = [], ag_version = [], ag_source_id = s_id (so_row s)\<rparr>"

definition other_vcenter :: "source \<Rightarrow> string \<Rightarrow> bool" where
  "other_vcenter s v \<longleftrightarrow> s_vcenter_id (so_row s) \<noteq> [] \<and> s_vcenter_id (so_row s) \<noteq> v"

definition update_inventory :: "env \<Rightarrow> gocontext \<Rightarrow> inventory_update_form \<Rightarrow> source go" where
  "update_inventory E c0 f =
     bind (new_transaction_context E c0) (\<lambda>c.
     bind (map_err (source_lookup_error E (iu_source_id f)) (get_full_source E c (iu_source_id f))) (\<lambda>s.
     bind (if iu_agent_id f \<in> ag_id ` set (so_agents s) then ret ()
           else bind (create_agent E c (new_agent_for_source (iu_agent_id f) s)) (\<lambda>_. ret ())) (\<lambda>_.
     if other_vcenter s (iu_vcenter_id f)
     then rolled_back E c (new_err_invalid_vcenter_id (uuid_str E) (iu_source_id f) (iu_vcenter_id f))
     else let s' = s\<lparr>so_row := (so_row s)\<lparr>s_on_premises := True, s_vcenter_id := iu_vcenter_id f,
                      s_inventory := iu_inventory f, s_update_type := ''manual''\<rparr>\<rparr>
       in attempt (update_source_row E c s') (rolled_back E c) (\<lambda>_.
          attempt (replace_source_subsets E c (iu_source_id f) (iu_subsets f)) (rolled_back E c) (\<lambda>_.
          bind (commit E c) (\<lambda>_. ret s'))))))"

definition is_valid_agent_version :: "string \<Rightarrow> bool" where
  "is_valid_agent_version v \<longleftrightarrow> v \<noteq> [] \<and> v \<noteq> ''unknown''"

definition check_agent_version_warning :: "string \<Rightarrow> image_infra_row option \<Rightarrow> string option" where
  "check_agent_version_warning current infra =
     (if \<not> is_valid_agent_version current then None
      else case (case infra of None \<Rightarrow> None | Some i \<Rightarrow> ii_agent_version i) of
        None \<Rightarrow> Some (''No version information available for this OVA. Current system version: '' @ current @
          ''. Consider downloading a new OVA to ensure compatibility.'')
      | Some [] \<Rightarrow> Some (''No version information available for this OVA. Current system version: '' @ current @
          ''. Consider downloading a new OVA to ensure compatibility.'')
      | Some stored \<Rightarrow>
          if \<not> is_valid_agent_version stored then None
          else if stored = current then None
          else Some (''Agent version mismatch detected. The OVA was downloaded with version '' @ stored @
            '', but the current system version is '' @ current @
            ''. Consider downloading a new OVA to ensure compatibility.''))"

subsection \<open>Agents\<close>

definition fetch_source :: "env \<Rightarrow> gocontext \<Rightarrow> uuid \<Rightarrow> source go" where
  "fetch_source E c i = map_err
     (\<lambda>e. if errors_is e StoreRecordNotFound then new_err_source_not_found (uuid_str E) i
          else Wrapf (''failed to fetch source: %w'', []) e) (get_full_source E c i)"

definition store_agent_inventory :: "env \<Rightarrow> gocontext \<Rightarrow> source \<Rightarrow> string \<Rightarrow> string option \<Rightarrow> source go" where
  "store_agent_inventory E c s vcenter_id data =
     (let s' = update_source_from_api s vcenter_id data
      in map_err (Wrapf (''failed to update source: %w'', []))
           (update_source_row E c (s'\<lparr>so_row := (so_row s')\<lparr>s_update_type := ''auto''\<rparr>\<rparr>)))"

definition update_source_inventory :: "env \<Rightarrow> gocontext \<Rightarrow> inventory_update_form \<Rightarrow> source go" where
  "update_source_inventory E c f =
     bind (fetch_source E c (iu_source_id f)) (\<lambda>s.
     bind (map_err (\<lambda>e. if errors_is e StoreRecordNotFound then new_err_agent_not_found (uuid_str E) (iu_agent_id f)
                        else Wrapf (''failed to fetch agent: %w'', []) e) (get_agent E c (iu_agent_id f))) (\<lambda>a.
     bind (reject_if (iu_source_id f \<noteq> ag_source_id a)
            (new_err_agent_update_forbidden (uuid_str E) (iu_source_id f) (iu_agent_id f))) (\<lambda>_.
     bind (reject_if (other_vcenter s (iu_vcenter_id f))
            (new_err_invalid_vcenter_id (uuid_str E) (iu_source_id f) (iu_vcenter_id f))) (\<lambda>_.
     store_agent_inventory E c s (iu_vcenter_id f) (iu_inventory f)))))"

definition agent_update_source :: "env \<Rightarrow> gocontext \<Rightarrow> source_inventory_update_form \<Rightarrow> source go" where
  "agent_update_source E c f =
     bind (fetch_source E c (sv_source_id f)) (\<lambda>s.
     bind (reject_if (other_vcenter s (sv_vcenter_id f))
            (new_err_invalid_vcenter_id (uuid_str E) (sv_source_id f) (sv_vcenter_id f))) (\<lambda>_.
     store_agent_inventory E c s (sv_vcenter_id f) (sv_inventory f)))"

text \<open>The subset and whether it was created.\<close>

definition update_source_subset :: "env \<Rightarrow> gocontext \<Rightarrow> subset_update_form \<Rightarrow> (subset_row \<times> bool) go" where
  "update_source_subset E c f =
     bind (fetch_source E c (su_source_id f)) (\<lambda>s.
     bind (reject_if (s_inventory (so_row s) \<in> {None, Some []})
            (new_err_source_inventory_required (uuid_str E) (su_source_id f))) (\<lambda>_.
     bind (reject_if (other_vcenter s (su_vcenter_id f))
            (new_err_invalid_vcenter_id (uuid_str E) (su_source_id f) (su_vcenter_id f))) (\<lambda>_.
     let subset = subset_of_form (su_source_id f) ''auto'' f
     in attempt (get_subset E c (su_id f))
          (\<lambda>e. if \<not> errors_is e StoreRecordNotFound
               then raise (Wrapf (''failed to fetch source inventory: %w'', []) e)
               else bind (map_err (Wrapf (''failed to create source inventory: %w'', [])) (create_subset E c subset)) (\<lambda>x.
                    ret (x, True)))
          (\<lambda>_. bind (map_err (Wrapf (''failed to update source inventory: %w'', [])) (update_subset E c subset)) (\<lambda>x.
                ret (x, False))))))"

definition subset_not_found :: "env \<Rightarrow> uuid \<Rightarrow> error" where
  "subset_not_found E i = new_err_resource_not_found_by_str (uuid_str E i) ''source_subset_inventory''"

definition delete_source_subset :: "env \<Rightarrow> gocontext \<Rightarrow> uuid \<Rightarrow> uuid \<Rightarrow> unit go" where
  "delete_source_subset E c sid i =
     bind (fetch_source E c sid) (\<lambda>_.
     bind (map_err (\<lambda>e. if errors_is e StoreRecordNotFound then subset_not_found E i
                        else Wrapf (''failed to fetch source inventory: %w'', []) e) (get_subset E c i)) (\<lambda>s.
     bind (reject_if (ss_source_id s \<noteq> sid) (subset_not_found E i)) (\<lambda>_.
     map_err (Wrapf (''failed to delete source inventory: %w'', [])) (delete_subset E c i))))"

fun delete_placeholders :: "env \<Rightarrow> gocontext \<Rightarrow> agent_row list \<Rightarrow> unit go" where
  "delete_placeholders E c [] = ret ()"
| "delete_placeholders E c (a # as) =
     (if ag_status a \<noteq> [] then delete_placeholders E c as
      else bind (map_err (Wrapf (''failed to delete placeholder agent: %w'', [])) (delete_agent E c (ag_id a))) (\<lambda>_.
           delete_placeholders E c as))"

definition update_agent_status :: "env \<Rightarrow> gocontext \<Rightarrow> agent_update_form \<Rightarrow> (agent_row \<times> bool) go" where
  "update_agent_status E c f =
     bind (fetch_source E c (au_source_id f)) (\<lambda>s.
     attempt (get_agent E c (au_id f))
       (\<lambda>e. if \<not> errors_is e StoreRecordNotFound then raise (Wrapf (''failed to fetch the agent: %w'', []) e)
            else bind (delete_placeholders E c (so_agents s)) (\<lambda>_.
                 bind (map_err (Wrapf (''failed to create the agent: %w'', []))
                        (create_agent E c (agent_form_to_model f))) (\<lambda>a.
                 ret (a, True))))
       (\<lambda>a. bind (map_err (Wrapf (''failed to update agent: %w'', [])) (update_agent E c (agent_form_to_model f))) (\<lambda>_.
             ret (a, False))))"

end
