(* ===== verification/SourceInvariants.thy ===== *)
theory SourceInvariants
  imports SourceService AccessControl
begin

text \<open>
  The invariant of the tables of sources and agents, and the requests that keep it. \<open>keeps I m\<close> says
  that \<open>m\<close> preserves a property of the rows, committed or in the open transaction; it holds of
  a request if it holds of each of its statements.
\<close>

subsection \<open>Preserving a property of the rows\<close>

definition rows_ok :: "(db \<Rightarrow> bool) \<Rightarrow> world \<Rightarrow> bool" where
  "rows_ok I w \<longleftrightarrow> I (committed w) \<and> (\<forall>d. open_tx w = Some d \<longrightarrow> I d)"

definition keeps :: "(db \<Rightarrow> bool) \<Rightarrow> 'a go \<Rightarrow> bool" where
  "keeps I m \<longleftrightarrow> (\<forall>w. rows_ok I w \<longrightarrow> rows_ok I (snd (m w)))"

definition stable :: "(db \<Rightarrow> bool) \<Rightarrow> (db \<Rightarrow> error + db) \<Rightarrow> bool" where
  "stable I f \<longleftrightarrow> (\<forall>d d'. I d \<longrightarrow> f d = Inr d' \<longrightarrow> I d')"

lemma stableI: "(\<And>d d'. I d \<Longrightarrow> f d = Inr d' \<Longrightarrow> I d') \<Longrightarrow> stable I f"
  by (simp add: stable_def)

lemma rows_ok_get: "rows_ok I w \<Longrightarrow> I (get_db c w)"
  by (auto simp: rows_ok_def get_db_def from_context_def split: option.splits)

lemma rows_ok_put: "rows_ok I w \<Longrightarrow> I d \<Longrightarrow> rows_ok I (put_db c d w)"
  by (auto simp: rows_ok_def put_db_def from_context_def split: option.splits)

lemma rows_ok_tick [simp]: "rows_ok I (next_tick w) = rows_ok I w"
  by (simp add: rows_ok_def)

lemma keeps_readonly: "readonly m \<Longrightarrow> keeps I m"
  unfolding readonly_def keeps_def rows_ok_def wp_run by simp

lemma keeps_attempt [frame_intro]:
  "keeps I m \<Longrightarrow> (\<And>e. keeps I (h e)) \<Longrightarrow> (\<And>a. keeps I (k a)) \<Longrightarrow> keeps I (attempt m h k)"
  unfolding keeps_def attempt_def by (auto split: prod.splits sum.splits) 

lemma keeps_primitive [frame_intro]:
  "keeps I (ret a)" "keeps I (raise e)" "keeps I (reject_if b e)" "keeps I (time_now E)"
  "keeps I (uuid_new E)" "keeps I (query E c f)" "keeps I (gorm_first E c sel p)"
  by (simp_all add: keeps_readonly readonly_intro)

lemma keeps_bind [frame_intro]: "keeps I m \<Longrightarrow> (\<And>a. keeps I (k a)) \<Longrightarrow> keeps I (bind m k)"
  by (simp add: bind_def frame_intro)

lemma keeps_map_err [frame_intro]: "keeps I m \<Longrightarrow> keeps I (map_err f m)"
  by (simp add: map_err_def frame_intro)

lemma keeps_bind_value:
  assumes "keeps I m" "\<And>w a w'. m w = (Inr a, w') \<Longrightarrow> keeps I (k a)"
  shows "keeps I (bind m k)"
  unfolding keeps_def
proof (intro allI impI)
  fix w assume ok: "rows_ok I w"
  show "rows_ok I (snd (bind m k w))"
  proof (cases "m w")
    case (Pair r w')
    with ok assms(1) have "rows_ok I w'" by (metis keeps_def snd_conv)
    with Pair assms(2) show ?thesis by (auto simp: bind_eq keeps_def split: sum.splits)
  qed
qed

lemma keeps_bind_reject: "(\<not> b \<Longrightarrow> keeps I (k ())) \<Longrightarrow> keeps I (bind (reject_if b e) k)"
  by (rule keeps_bind_value) (simp_all add: keeps_readonly readonly_intro reject_if_def ret_def raise_def split: if_splits)

lemma keeps_option [frame_intro]:
  "keeps I m \<Longrightarrow> (\<And>x. keeps I (n x)) \<Longrightarrow> keeps I (case y of None \<Rightarrow> m | Some x \<Rightarrow> n x)"
  by (simp split: option.splits)

lemma keeps_sum [frame_intro]:
  "(\<And>x. keeps I (m x)) \<Longrightarrow> (\<And>x. keeps I (n x)) \<Longrightarrow> keeps I (case y of Inl x \<Rightarrow> m x | Inr x \<Rightarrow> n x)"
  by (simp split: sum.splits)

lemma keeps_pair [frame_intro]: "(\<And>x y. keeps I (m x y)) \<Longrightarrow> keeps I (case p of (x, y) \<Rightarrow> m x y)"
  by (simp split: prod.splits)

text \<open>A step without a database call: a random number, a signature.\<close>

lemma keeps_step [frame_intro]: "keeps I (\<lambda>w. (f w, next_tick w))"
  by (simp add: keeps_def)

lemma keeps_stepped: "(\<And>x. keeps I (m x)) \<Longrightarrow>
    keeps I (\<lambda>w. case f w of Inl e \<Rightarrow> (Inl (g e), next_tick w) | Inr x \<Rightarrow> m x (next_tick w))"
  by (auto simp: keeps_def split: sum.splits)

lemma keeps_if [frame_intro]: "(b \<Longrightarrow> keeps I m) \<Longrightarrow> (\<not> b \<Longrightarrow> keeps I n) \<Longrightarrow> keeps I (if b then m else n)"
  by simp

lemma keeps_exec [frame_intro]: "stable I f \<Longrightarrow> keeps I (exec E c f)"
  unfolding keeps_def exec_def stable_def
  by (auto split: sum.splits intro!: rows_ok_put dest: rows_ok_get)

lemma keeps_exec_returning [frame_intro]: "stable I f \<Longrightarrow> keeps I (exec_returning E c f v)"
  using keeps_exec [of I f E c] unfolding keeps_def exec_returning_def
  by (auto split: prod.splits sum.splits)

lemma keeps_deleting [frame_intro]: "keeps I m \<Longrightarrow> keeps I (deleting m)"
  by (auto simp: deleting_def intro!: frame_intro)

lemma keeps_transaction [frame_intro]:
  "keeps I (new_transaction_context E c)" "keeps I (commit E c)" "keeps I (rollback E c)"
  unfolding keeps_def new_transaction_context_def new_transaction_def commit_def tx_commit_def
    rollback_def tx_rollback_def
  by (auto simp: bind_eq ret_def rows_ok_def next_tick_def split: option.splits)

lemma keeps_rolled_back [frame_intro]: "keeps I (rolled_back E c e)"
  using keeps_transaction(3) unfolding keeps_def rolled_back_def by auto

lemma keeps_defer_rollback [frame_intro]: "keeps I m \<Longrightarrow> keeps I (defer_rollback E c m)"
  using keeps_transaction(3) [of I E c] unfolding keeps_def defer_rollback_def
  by (auto split: prod.splits)

subsection \<open>The invariant\<close>

text \<open>
  Keys are unique, a user has at most one source of a name, and what refers to a source refers to
  one that exists: agents, image infrastructure, labels, subset inventories and assessments.
\<close>

definition sources_ok :: "env \<Rightarrow> db \<Rightarrow> bool" where
  "sources_ok E d \<longleftrightarrow>
     distinct (map s_id (sources d)) \<and>
     distinct (map (\<lambda>s. (s_org_id s, s_username s, s_name s)) (sources d)) \<and>
     distinct (map ag_id (agents d)) \<and>
     distinct (map ss_id (source_subset_inventories d)) \<and>
     (\<forall>a \<in> set (agents d). ag_source_id a \<in> s_id ` set (sources d)) \<and>
     (\<forall>i \<in> set (image_infras d). ii_source_id i \<in> s_id ` set (sources d)) \<and>
     (\<forall>l \<in> set (labels d). lb_source_id l \<in> uuid_str E ` s_id ` set (sources d)) \<and>
     (\<forall>s \<in> set (source_subset_inventories d). ss_source_id s \<in> s_id ` set (sources d)) \<and>
     (\<forall>a \<in> set (assessments d). \<forall>i. a_source_id a = Some i \<longrightarrow> i \<in> s_id ` set (sources d))"

lemma updated_source_id [simp]: "s_id (updated_source s r) = s_id r"
  by (simp add: updated_source_def)

lemma updated_agent_id [simp]: "ag_id (updated_agent a r) = ag_id r"
  by (simp add: updated_agent_def)

lemma map_if_id: "(\<And>r. P r \<Longrightarrow> g (f r) = g r) \<Longrightarrow> map g (map (\<lambda>r. if P r then f r else r) xs) = map g xs"
  by simp

lemma image_set_eq: "map g ys = map g xs \<Longrightarrow> g ` set ys = g ` set xs"
  by (metis list.set_map)

lemma disjoint_image: "\<forall>b \<in> B. f b \<notin> f ` A \<Longrightarrow> f ` A \<inter> f ` B = {}"
  by (fastforce intro: rev_image_eqI)

lemma distinct_map_update:
  assumes "distinct (map k xs)" "distinct (map g xs)"
    and "\<And>r. r \<in> set xs \<Longrightarrow> k r = i \<Longrightarrow> \<forall>q \<in> set xs. k q \<noteq> i \<longrightarrow> g q \<noteq> g (f r)"
  shows "distinct (map g (map (\<lambda>r. if k r = i then f r else r) xs))"
proof -
  have k: "inj_on k (set xs)" and g: "inj_on g (set xs)"
    using assms(1,2) by (simp_all add: distinct_map)
  have "inj_on (\<lambda>r. g (if k r = i then f r else r)) (set xs)"
  proof (rule inj_onI)
    fix x y assume mem: "x \<in> set xs" "y \<in> set xs"
      and eq: "g (if k x = i then f x else x) = g (if k y = i then f y else y)"
    consider "k x = i" "k y = i" | "k x = i" "k y \<noteq> i" | "k x \<noteq> i" "k y = i" | "k x \<noteq> i" "k y \<noteq> i"
      by blast
    then show "x = y"
    proof cases
      case 1
      with mem k show ?thesis by (auto dest: inj_onD)
    next
      case 2
      with mem eq assms(3) [of x] show ?thesis by force
    next
      case 3
      with mem eq assms(3) [of y] show ?thesis by force
    next
      case 4
      with mem eq g show ?thesis by (auto dest: inj_onD)
    qed
  qed
  moreover have "distinct xs" using assms(1) by (simp add: distinct_map)
  ultimately show ?thesis
    by (simp add: distinct_map comp_def)
qed

subsection \<open>Statements\<close>

lemma insert_labels_sources:
  "set (insert_labels ls tbl) \<subseteq> set ls \<union> set tbl"
proof (induction ls tbl rule: insert_labels.induct)
  case (2 l ls tbl)
  then show ?case by (auto split: if_splits)
qed simp

lemma stable_insert_source:
  assumes "\<forall>l \<in> set ls. lb_source_id l = uuid_str E (s_id s)"
  shows "stable (sources_ok E) (insert_source s ls)"
proof (rule stableI)
  fix d d' assume ok: "sources_ok E d" and "insert_source s ls d = Inr d'"
  then have new: "s_id s \<notin> s_id ` set (sources d)"
    "(s_org_id s, s_username s, s_name s) \<notin> (\<lambda>s. (s_org_id s, s_username s, s_name s)) ` set (sources d)"
    and d': "d' = d\<lparr>sources := sources d @ [s], labels := insert_labels ls (labels d)\<rparr>"
    by (auto simp: insert_source_def split: if_splits)
  have "\<forall>l \<in> set (insert_labels ls (labels d)). lb_source_id l \<in>
      insert (uuid_str E (s_id s)) (uuid_str E ` s_id ` set (sources d))"
    using insert_labels_sources [of ls "labels d"] assms ok unfolding sources_ok_def by blast
  then show "sources_ok E d'"
    using ok new by (auto simp: sources_ok_def d' image_iff)
qed

lemma stable_update_source: "stable (sources_ok E) (update_source_columns s)"
proof (rule stableI)
  fix d d' assume ok: "sources_ok E d" and upd: "update_source_columns s d = Inr d'"
  let ?name = "\<lambda>s. (s_org_id s, s_username s, s_name s)"
  let ?f = "\<lambda>r. if s_id r = s_id s then updated_source s r else r"
  from upd have d': "d' = d\<lparr>sources := map ?f (sources d)\<rparr>"
    and free: "\<And>r. r \<in> set (sources d) \<Longrightarrow> s_id r = s_id s \<Longrightarrow>
      \<forall>q \<in> set (sources d). s_id q \<noteq> s_id s \<longrightarrow> ?name q \<noteq> ?name (updated_source s r)"
    by (auto simp: update_source_columns_def split: if_splits)
  have ids: "map s_id (map ?f (sources d)) = map s_id (sources d)" by simp
  then have "s_id ` set (map ?f (sources d)) = s_id ` set (sources d)"
    by (rule image_set_eq)
  moreover have "distinct (map ?name (map ?f (sources d)))"
    using ok free by (intro distinct_map_update) (simp_all add: sources_ok_def)
  ultimately show "sources_ok E d'"
    using ok ids by (simp add: sources_ok_def d' del: map_map set_map list.map_comp)
qed

lemma stable_delete_source: "stable (sources_ok E) (delete_source_row (uuid_str E) i)"
proof (rule stableI)
  fix d d' assume ok: "sources_ok E d" and "delete_source_row (uuid_str E) i d = Inr d'"
  then have d': "d' = d\<lparr>sources := filter (\<lambda>s. s_id s \<noteq> i) (sources d),
      agents := filter (\<lambda>a. ag_source_id a \<noteq> i) (agents d),
      image_infras := filter (\<lambda>r. ii_source_id r \<noteq> i) (image_infras d),
      labels := filter (\<lambda>l. lb_source_id l \<noteq> uuid_str E i) (labels d),
      source_subset_inventories := filter (\<lambda>r. ss_source_id r \<noteq> i) (source_subset_inventories d),
      assessments := map (\<lambda>a. if a_source_id a = Some i then a\<lparr>a_source_id := None\<rparr> else a) (assessments d)\<rparr>"
    by (simp add: delete_source_row_def)
  have ids: "s_id ` {s. s \<in> set (sources d) \<and> s_id s \<noteq> i} = s_id ` set (sources d) - {i}" by auto
  have labels: "lb_source_id l \<in> uuid_str E ` (s_id ` set (sources d) - {i})"
    if "l \<in> set (labels d)" "lb_source_id l \<noteq> uuid_str E i" for l
  proof -
    from ok that(1) obtain j where "j \<in> s_id ` set (sources d)" "lb_source_id l = uuid_str E j"
      unfolding sources_ok_def by blast
    with that(2) show ?thesis by auto
  qed
  show "sources_ok E d'"
    using ok unfolding sources_ok_def d' by (simp add: ids distinct_map_filter labels) auto
qed

lemma stable_insert_agent: "stable (sources_ok E) (insert_agent a)"
proof (rule stableI)
  fix d d' assume "sources_ok E d" and upd: "insert_agent a d = Inr d'"
  moreover from upd have "d' = d\<lparr>agents := agents d @ [a]\<rparr>" "ag_id a \<notin> ag_id ` set (agents d)"
    "ag_source_id a \<in> s_id ` set (sources d)"
    by (auto simp: insert_agent_def split: if_splits)
  ultimately show "sources_ok E d'"
    by (simp add: sources_ok_def)
qed

lemma stable_update_agent: "stable (sources_ok E) (update_agent_columns a)"
proof (rule stableI)
  fix d d' assume ok: "sources_ok E d" and upd: "update_agent_columns a d = Inr d'"
  let ?f = "\<lambda>r. if ag_id r = ag_id a then updated_agent a r else r"
  from upd have d': "d' = d\<lparr>agents := map ?f (agents d)\<rparr>"
    and known: "\<And>r. r \<in> set (agents d) \<Longrightarrow> ag_id r = ag_id a \<Longrightarrow>
      ag_source_id (updated_agent a r) \<in> s_id ` set (sources d)"
    by (auto simp: update_agent_columns_def split: if_splits)
  have "map ag_id (map ?f (agents d)) = map ag_id (agents d)" by simp
  moreover have "\<forall>r \<in> set (map ?f (agents d)). ag_source_id r \<in> s_id ` set (sources d)"
    using ok known by (auto simp: sources_ok_def)
  ultimately show "sources_ok E d'"
    using ok by (simp add: sources_ok_def d' del: map_map set_map list.map_comp)
qed

lemma stable_delete_agent: "stable (sources_ok E) (delete_agent_row i)"
  by (rule stableI) (auto simp: sources_ok_def delete_agent_row_def distinct_map_filter)

lemma stable_insert_subsets: "stable (sources_ok E) (insert_subsets rs)"
proof (rule stableI)
  fix d d' assume ok: "sources_ok E d" and upd: "insert_subsets rs d = Inr d'"
  let ?t = "source_subset_inventories d"
  from upd have d': "d' = d\<lparr>source_subset_inventories := ?t @ rs\<rparr>"
    by (simp add: insert_subsets_def split: if_splits)
  from upd have rs: "distinct (map ss_id rs) \<and> (\<forall>r \<in> set rs. ss_id r \<notin> ss_id ` set ?t) \<and>
      (\<forall>r \<in> set rs. ss_source_id r \<in> s_id ` set (sources d))"
    by (simp add: insert_subsets_def split: if_splits)
  have "ss_id ` set ?t \<inter> ss_id ` set rs = {}"
    using rs by (intro disjoint_image) simp_all
  with rs ok show "sources_ok E d'"
    by (simp add: sources_ok_def d' ball_Un)
qed

lemma stable_update_subset: "stable (sources_ok E) (update_subset_columns s)"
proof (rule stableI)
  fix d d' assume ok: "sources_ok E d" and upd: "update_subset_columns s d = Inr d'"
  let ?f = "\<lambda>r. if ss_id r = ss_id s then s\<lparr>ss_created_at := ss_created_at r\<rparr> else r"
  let ?t = "source_subset_inventories d"
  from upd have d': "d' = d\<lparr>source_subset_inventories := map ?f ?t\<rparr>"
    and known: "ss_id s \<in> ss_id ` set ?t \<Longrightarrow> ss_source_id s \<in> s_id ` set (sources d)"
    by (auto simp: update_subset_columns_def split: if_splits)
  have "map ss_id (map ?f ?t) = map ss_id ?t" by simp
  moreover have "ss_source_id (?f r) \<in> s_id ` set (sources d)" if "r \<in> set ?t" for r
    using ok that known [OF image_eqI [of _ ss_id r]] by (simp add: sources_ok_def)
  then have "\<forall>r \<in> set (map ?f ?t). ss_source_id r \<in> s_id ` set (sources d)"
    unfolding set_map by blast
  ultimately show "sources_ok E d'"
    using ok by (simp add: sources_ok_def d' del: map_map set_map list.map_comp)
qed

lemma stable_delete_subsets:
  "stable (sources_ok E) (delete_subset_row i)" "stable (sources_ok E) (delete_subset_rows_of i)"
  by (rule stableI, auto simp: sources_ok_def delete_subset_row_def delete_subset_rows_of_def
      distinct_map_filter)+

lemma stable_infra:
  "stable (sources_ok E) (insert_image_infra i)"
  "stable (sources_ok E) (save_image_infra i)"
  "(\<And>r. ii_source_id (f r) = ii_source_id r) \<Longrightarrow> stable (sources_ok E) (update_infra_where P f)"
  by (rule stableI, auto simp: sources_ok_def insert_image_infra_def save_image_infra_def
      update_infra_where_def  split: if_splits)+

lemma stable_labels:
  "stable (sources_ok E) (delete_labels_of sid)"
  "stable (sources_ok E) (insert_label (uuid_str E) l)"
  by (rule stableI, auto simp: sources_ok_def delete_labels_of_def insert_label_def split: if_splits)+

lemma stable_keys: "stable (sources_ok E) (insert_key k)"
  by (rule stableI) (auto simp: sources_ok_def insert_key_def split: if_splits)

lemma stable_model_update: "stable I f \<Longrightarrow> stable I (model_update i f)"
  by (auto simp: stable_def model_update_def split: if_splits)

lemmas source_statements = stable_update_source stable_delete_source stable_insert_agent
  stable_update_agent stable_delete_agent stable_insert_subsets stable_update_subset
  stable_delete_subsets stable_infra stable_labels stable_keys stable_model_update

subsection \<open>The vCenter of a source\<close>

text \<open>Source \<open>i\<close> exists and its vCenter is \<open>v\<close>.\<close>

definition has_vcenter :: "uuid \<Rightarrow> string \<Rightarrow> db \<Rightarrow> bool" where
  "has_vcenter i v d \<longleftrightarrow>
     v \<noteq> [] \<and> (\<exists>s \<in> set (sources d). s_id s = i) \<and> (\<forall>s \<in> set (sources d). s_id s = i \<longrightarrow> s_vcenter_id s = v)"

definition pins :: "uuid \<Rightarrow> string \<Rightarrow> source_row \<Rightarrow> bool" where
  "pins i v s \<longleftrightarrow> (s_id s = i \<longrightarrow> s_vcenter_id s = v \<or> s_vcenter_id s = [])"

lemma stable_sources_unchanged:
  "(\<And>d d'. f d = Inr d' \<Longrightarrow> sources d' = sources d) \<Longrightarrow> stable (has_vcenter i v) f"
  by (rule stableI) (simp add: has_vcenter_def)

lemma vcenter_insert_source: "stable (has_vcenter i v) (insert_source s ls)"
  by (rule stableI) (auto simp: has_vcenter_def insert_source_def split: if_splits; metis)

lemma vcenter_update_source: "pins i v s \<Longrightarrow> stable (has_vcenter i v) (update_source_columns s)"
proof (rule stableI)
  fix d d' assume pins: "pins i v s" and ok: "has_vcenter i v d" and upd: "update_source_columns s d = Inr d'"
  define f where "f = (\<lambda>r. if s_id r = s_id s then updated_source s r else r)"
  from upd have d': "d' = d\<lparr>sources := map f (sources d)\<rparr>"
    by (simp add: update_source_columns_def f_def split: if_splits)
  have id: "s_id (f r) = s_id r" for r by (simp add: f_def)
  have "s_vcenter_id (f r) = v" if "r \<in> set (sources d)" "s_id r = i" for r
    using ok pins that by (auto simp: has_vcenter_def pins_def updated_source_def f_def)
  then show "has_vcenter i v d'"
    using ok unfolding has_vcenter_def d' by (simp add: id)
qed

lemma vcenter_delete_source: "j \<noteq> i \<Longrightarrow> stable (has_vcenter i v) (delete_source_row us j)"
  by (rule stableI) (auto simp: has_vcenter_def delete_source_row_def)

lemma vcenter_statements:
  "stable (has_vcenter i v) (insert_agent a)" "stable (has_vcenter i v) (update_agent_columns a)"
  "stable (has_vcenter i v) (delete_agent_row j)" "stable (has_vcenter i v) (insert_subsets rs)"
  "stable (has_vcenter i v) (update_subset_columns r)" "stable (has_vcenter i v) (delete_subset_row j)"
  "stable (has_vcenter i v) (delete_subset_rows_of j)" "stable (has_vcenter i v) (insert_image_infra m)"
  "stable (has_vcenter i v) (save_image_infra m)" "stable (has_vcenter i v) (update_infra_where P g)"
  "stable (has_vcenter i v) (delete_labels_of sid)" "stable (has_vcenter i v) (insert_label us l)"
  "stable (has_vcenter i v) (insert_key k)"
  by (rule stable_sources_unchanged,
      simp add: insert_agent_def update_agent_columns_def delete_agent_row_def insert_subsets_def
        update_subset_columns_def delete_subset_row_def delete_subset_rows_of_def insert_image_infra_def
        save_image_infra_def update_infra_where_def delete_labels_of_def insert_label_def insert_key_def
        split: if_splits; clarsimp?)+


lemmas vcenter_source_statements = vcenter_statements vcenter_insert_source vcenter_update_source
  vcenter_delete_source stable_model_update

subsection \<open>The requests\<close>

text \<open>What a request does to a source it has read depends on a property every stored source has.\<close>

lemma get_full_source_row:
  assumes "rows_ok I w" "get_full_source E c i w = (Inr s, w')" "\<And>d r. I d \<Longrightarrow> r \<in> set (sources d) \<Longrightarrow> P r"
  shows "P (so_row s)"
proof -
  from assms(2) obtain r where "first_by s_id (filter (primary_key i \<circ> s_id) (sources (get_db c w))) = Some r"
    "so_row s = r"
    by (auto simp: get_full_source_def gorm_first_def query_def map_err_def attempt_def ret_def raise_def
        preload_source_def split: prod.splits sum.splits option.splits if_splits)
  then show ?thesis
    using assms(3) [OF rows_ok_get [OF assms(1)]] by (auto dest: first_by_filterD)
qed

lemma keeps_get_source:
  assumes "\<And>d r. I d \<Longrightarrow> r \<in> set (sources d) \<Longrightarrow> P r" "\<And>s. P (so_row s) \<Longrightarrow> keeps I (k s)"
  shows "keeps I (bind (map_err h (get_full_source E c i)) k)"
  unfolding keeps_def
proof (intro allI impI)
  fix w assume ok: "rows_ok I w"
  have get: "keeps I (get_full_source E c i)"
    by (simp add: get_full_source_def frame_intro)
  show "rows_ok I (snd (bind (map_err h (get_full_source E c i)) k w))"
  proof (cases "get_full_source E c i w")
    case (Pair r w')
    with ok get have ok': "rows_ok I w'" by (metis keeps_def snd_conv)
    show ?thesis
    proof (cases r)
      case (Inl e)
      with Pair ok' show ?thesis by (simp add: bind_eq map_err_def attempt_def raise_def)
    next
      case (Inr s)
      with Pair have run: "get_full_source E c i w = (Inr s, w')" by simp
      have "keeps I (k s)"
        by (rule assms(2), rule get_full_source_row [OF ok run assms(1)])
      with run ok' show ?thesis by (simp add: bind_eq map_err_def attempt_def ret_def keeps_def)
    qed
  qed
qed


text \<open>
  What the rows must promise so that every request keeps a property \<open>I\<close> of them: each statement keeps it,
  an update of a source if it may be \<open>written\<close>, a deletion if its source may be \<open>deleted\<close>.
\<close>

locale row_invariant =
  fixes E :: env and I :: "db \<Rightarrow> bool" and written :: "source_row \<Rightarrow> bool" and deleted :: "uuid \<Rightarrow> bool"
  assumes insert: "\<forall>l \<in> set ls. lb_source_id l = uuid_str E (s_id s) \<Longrightarrow> stable I (insert_source s ls)"
    and update: "written s \<Longrightarrow> stable I (update_source_columns s)"
    and keeps_vcenter: "I d \<Longrightarrow> r \<in> set (sources d) \<Longrightarrow> s_id s = s_id r \<Longrightarrow>
      s_vcenter_id s = s_vcenter_id r \<or> s_vcenter_id r = [] \<Longrightarrow> written s"
    and delete: "deleted j \<Longrightarrow> stable I (delete_source_row (uuid_str E) j)"
    and agents: "stable I (insert_agent a)" "stable I (update_agent_columns a)" "stable I (delete_agent_row j)"
    and subsets: "stable I (insert_subsets rs)" "stable I (update_subset_columns t)"
      "stable I (delete_subset_row j)" "stable I (delete_subset_rows_of j)"
    and infra: "stable I (insert_image_infra m)" "stable I (save_image_infra m)"
      "(\<And>r. ii_source_id (g r) = ii_source_id r) \<Longrightarrow> stable I (update_infra_where Q g)"
    and labels_keys: "stable I (delete_labels_of sid)" "stable I (insert_label (uuid_str E) l)" "stable I (insert_key k)"
begin

lemmas statements = agents subsets infra labels_keys stable_model_update

lemma create_source_row_keeps:
  "\<forall>l \<in> set (so_labels s). lb_source_id l = uuid_str E (s_id (so_row s)) \<Longrightarrow> keeps I (create_source_row E c s)"
  unfolding create_source_row_def Let_def
  by (intro frame_intro insert) (simp add: stamp_source_def)

lemma update_source_row_keeps:
  assumes "\<And>u. written ((so_row s)\<lparr>s_updated_at := u\<rparr>)"
  shows "keeps I (update_source_row E c s)"
  unfolding update_source_row_def Let_def
  by (intro frame_intro stable_model_update update assms)

lemma stores_keep:
  "keeps I (create_agent E c a)" "keeps I (update_agent E c a)" "keeps I (delete_agent E c j)"
  "keeps I (create_subset E c t)" "keeps I (create_subsets E c ts)" "keeps I (delete_subset E c j)"
  "keeps I (delete_subsets_by_source_id E c j)" "keeps I (create_image_infra E c m)"
  "keeps I (update_image_infra E c m)" "keeps I (update_agent_token E c sid v)"
  "keeps I (update_agent_version E c sid v)" "keeps I (delete_labels_by_source_id E c sid)"
  "keeps I (create_private_key E c k)"
  unfolding create_agent_def update_agent_def delete_agent_def create_subset_def create_subsets_def
    delete_subset_def delete_subsets_by_source_id_def create_image_infra_def update_image_infra_def
    update_agent_token_def update_agent_version_def update_infra_column_def
    delete_labels_by_source_id_def create_private_key_def Let_def
  by (intro frame_intro statements; simp)+

lemma gets_keep: "keeps I (get_subset E c j)" "keeps I (get_agent E c j)" "keeps I (get_full_source E c j)"
  "keeps I (get_private_key E c org)"
  unfolding get_subset_def get_agent_def get_full_source_def get_private_key_def by (intro frame_intro)+

lemma update_subset_keeps: "keeps I (update_subset E c t)"
  unfolding update_subset_def Let_def by (intro frame_intro statements)

lemma create_labels_keep: "keeps I (create_labels E c sid ls)"
  by (induction ls) (simp_all add: frame_intro statements)

lemma update_labels_keeps: "keeps I (update_labels E c j ls)"
  unfolding update_labels_def by (intro frame_intro stores_keep create_labels_keep)

lemma delete_placeholders_keeps: "keeps I (delete_placeholders E c as)"
  by (induction as) (simp_all add: frame_intro stores_keep)

lemmas operations = stores_keep gets_keep update_subset_keeps update_labels_keeps delete_placeholders_keeps

text \<open>Every source that was read may be written back with its vCenter, or with a first one.\<close>

lemma fetched_keeps:
  assumes "\<And>s. (\<And>t. s_id t = s_id (so_row s) \<Longrightarrow>
      s_vcenter_id t = s_vcenter_id (so_row s) \<or> s_vcenter_id (so_row s) = [] \<Longrightarrow> written t) \<Longrightarrow> keeps I (k s)"
  shows "keeps I (bind (map_err h (get_full_source E c i)) k)"
  by (rule keeps_get_source [where P = "\<lambda>r. \<forall>t. s_id t = s_id r \<longrightarrow>
        s_vcenter_id t = s_vcenter_id r \<or> s_vcenter_id r = [] \<longrightarrow> written t"])
    (use keeps_vcenter assms in blast)+

lemma store_agent_inventory_keeps:
  assumes "\<And>t. s_id t = s_id (so_row s) \<Longrightarrow>
      s_vcenter_id t = s_vcenter_id (so_row s) \<or> s_vcenter_id (so_row s) = [] \<Longrightarrow> written t"
    and "\<not> other_vcenter s v"
  shows "keeps I (store_agent_inventory E c s v data)"
  using assms(2) unfolding store_agent_inventory_def Let_def update_source_from_api_def
  by (intro frame_intro update_source_row_keeps assms(1)) (auto simp: other_vcenter_def)

lemma create_keeps: "keeps I (service_create_source E T c f)"
  unfolding service_create_source_def
proof (rule keeps_stepped [where g = "\<lambda>e. e"], rule keeps_bind, rule keeps_transaction)
  fix key c'
  show "keeps I (bind (create_form_to_source E f) (\<lambda>s.
      attempt (create_source_row E c' s)
        (\<lambda>e. rolled_back E c' (if errors_is e StoreDuplicateKey then new_err_source_duplicate_name (sc_name f) else e))
        (\<lambda>created. let i = create_form_to_image_infra f (s_id (so_row created)) key
          in attempt (create_image_infra E c' i) (rolled_back E c')
               (\<lambda>_. bind (commit E c') (\<lambda>_. ret (created\<lparr>so_image_infra := Some i\<rparr>))))))"
    (is "keeps I (bind _ ?k)")
  proof (rule keeps_bind_value)
    show "keeps I (create_form_to_source E f)"
      by (simp add: create_form_to_source_def bind_eq uuid_new_def keeps_def rows_ok_def)
    fix w s w' assume "create_form_to_source E f w = (Inr s, w')"
    then have "\<forall>l \<in> set (so_labels s). lb_source_id l = uuid_str E (s_id (so_row s))"
      by (auto simp: create_form_to_source_def bind_eq uuid_new_def)
    then show "keeps I (?k s)"
      unfolding Let_def by (intro frame_intro operations create_source_row_keeps)
  qed
qed

lemma update_source_keeps: "keeps I (service_update_source E c i f)"
  unfolding service_update_source_def update_source_body_def
  by (intro frame_intro fetched_keeps operations update_source_row_keeps)
    (auto simp: update_form_to_source_def split: option.splits)

lemma replace_subsets_keeps: "keeps I (replace_source_subsets E c i fs)"
  unfolding replace_source_subsets_def by (intro frame_intro operations)

lemma update_inventory_keeps: "keeps I (update_inventory E c f)"
  unfolding update_inventory_def Let_def
  by (intro frame_intro fetched_keeps operations update_source_row_keeps replace_subsets_keeps)
    (auto simp: other_vcenter_def)

lemma agent_updates_keep:
  "keeps I (update_source_inventory E c f)" "keeps I (agent_update_source E c g)"
  unfolding update_source_inventory_def agent_update_source_def fetch_source_def
  by (rule fetched_keeps; intro keeps_bind_reject keeps_bind [OF keeps_map_err] gets_keep
      store_agent_inventory_keeps; simp)+

lemma subset_requests_keep:
  "keeps I (update_source_subset E c f)" "keeps I (delete_source_subset E c i j)"
  unfolding update_source_subset_def delete_source_subset_def fetch_source_def Let_def
  by (intro frame_intro operations)+

lemma update_agent_status_keeps: "keeps I (update_agent_status E c f)"
  unfolding update_agent_status_def fetch_source_def Let_def
  by (intro frame_intro operations)

lemma generate_jwt_keeps: "keeps I (generate_agent_jwt E T k s)"
  unfolding generate_agent_jwt_def by (intro frame_intro)

lemma generate_key_keeps: "keeps I (generate_agent_jwt_and_key E T s)"
  unfolding generate_agent_jwt_and_key_def Let_def
  by (intro keeps_stepped frame_intro generate_jwt_keeps)

lemma download_keeps: "keeps I (get_source_download_url E T c i)"
  unfolding get_source_download_url_def ensure_agent_token_def Let_def
  by (intro frame_intro operations generate_jwt_keeps generate_key_keeps)

lemma delete_keeps: "deleted i \<Longrightarrow> keeps I (service_delete_source E c i)"
  unfolding service_delete_source_def delete_source_def
  by (intro frame_intro stable_model_update delete)

end


interpretation well_formed: row_invariant E "sources_ok E" "\<lambda>_. True" "\<lambda>_. True" for E
  by unfold_locales (auto intro: source_statements stable_insert_source)

interpretation vcenter: row_invariant E "has_vcenter i v" "pins i v" "\<lambda>j. j \<noteq> i" for E i v
  by unfold_locales (auto intro: vcenter_source_statements simp: has_vcenter_def pins_def)

subsection \<open>Runs of requests\<close>

text \<open>The requests on sources, of users and of agents.\<close>

datatype source_call =
    CreateSource source_create_form
  | DeleteSource uuid
  | UpdateSource uuid source_update_form
  | UploadInventory inventory_update_form
  | DownloadSource uuid
  | AgentUpdateInventory inventory_update_form
  | AgentUpdateSource source_inventory_update_form
  | AgentUpdateSubset subset_update_form
  | AgentDeleteSubset uuid uuid
  | AgentUpdateStatus agent_update_form

fun serve_source :: "env \<Rightarrow> token_lib \<Rightarrow> gocontext \<Rightarrow> source_call \<Rightarrow> unit go" where
  "serve_source E T c (CreateSource f) = discard (service_create_source E T c f)"
| "serve_source E T c (DeleteSource i) = service_delete_source E c i"
| "serve_source E T c (UpdateSource i f) = discard (service_update_source E c i f)"
| "serve_source E T c (UploadInventory f) = discard (update_inventory E c f)"
| "serve_source E T c (DownloadSource i) = discard (get_source_download_url E T c i)"
| "serve_source E T c (AgentUpdateInventory f) = discard (update_source_inventory E c f)"
| "serve_source E T c (AgentUpdateSource f) = discard (agent_update_source E c f)"
| "serve_source E T c (AgentUpdateSubset f) = discard (update_source_subset E c f)"
| "serve_source E T c (AgentDeleteSubset i j) = delete_source_subset E c i j"
| "serve_source E T c (AgentUpdateStatus f) = discard (update_agent_status E c f)"

text \<open>
  Requests run one after the other, in any context; an open transaction a request leaves behind stays in
  the world.
\<close>

inductive source_run :: "env \<Rightarrow> token_lib \<Rightarrow> (source_call \<Rightarrow> bool) \<Rightarrow> world \<Rightarrow> world \<Rightarrow> bool" for E T P where
  Unchanged: "source_run E T P w w"
| Served: "source_run E T P w0 w \<Longrightarrow> P call \<Longrightarrow> serve_source E T c call w = (r, w') \<Longrightarrow> source_run E T P w0 w'"

lemma source_run_keeps:
  assumes "source_run E T P w0 w" "rows_ok I w0" "\<And>c call. P call \<Longrightarrow> keeps I (serve_source E T c call)"
  shows "rows_ok I w"
  using assms(1,2)
proof (induction rule: source_run.induct)
  case (Served w0 w call c r w')
  then show ?case using assms(3) unfolding keeps_def by (metis snd_conv)
qed

lemma serve_source_keeps:
  assumes "row_invariant E I U D" "\<And>i. call = DeleteSource i \<Longrightarrow> D i"
  shows "keeps I (serve_source E T c call)"
proof -
  note ops = row_invariant.create_keeps row_invariant.update_source_keeps row_invariant.update_inventory_keeps
    row_invariant.download_keeps row_invariant.agent_updates_keep row_invariant.subset_requests_keep
    row_invariant.update_agent_status_keeps
  show ?thesis
    using assms(2) by (cases call)
      (auto simp: discard_def intro!: frame_intro ops [OF assms(1)] row_invariant.delete_keeps [OF assms(1)])
qed

end
