(* ===== verification/SourceTheorems.thy ===== *)
theory SourceTheorems
  imports SourceInvariants Scenario
begin

text \<open>
  What the requests on sources guarantee, with witnesses on a small deployment: user \<open>cus\<close> has one
  source, uploads its inventory, and an agent reports to it.
\<close>

subsection \<open>The deployment\<close>

definition demo_tokens :: token_lib where
  "demo_tokens = \<lparr>tl_keygen = (\<lambda>_. Inr ''pem''), tl_hmac_key = (\<lambda>_. Inr ''hmac''),
     tl_sign = (\<lambda>key kid claims. Inr (kid @ CHR 0x2E # jc_source_id claims)),
     tl_read = (\<lambda>token. None), tl_verify = (\<lambda>key token. True),
     tl_download_url = (\<lambda>_ s. Inr (s_name (so_row s), 0))\<rparr>"


definition demo_context :: gocontext where
  "demo_context = request_context (demo_user ''cus'')"

definition demo_source :: "uuid \<Rightarrow> string \<Rightarrow> string \<Rightarrow> source_row" where
  "demo_source i n v = \<lparr>s_id = i, s_created_at = 1, s_updated_at = None, s_name = n, s_vcenter_id = v,
     s_username = ''cus'', s_org_id = ''org'', s_inventory = Some ''{}'', s_on_premises = True,
     s_update_type = ''auto'', s_email_domain = None\<rparr>"

definition demo_subset :: "uuid \<Rightarrow> uuid \<Rightarrow> subset_row" where
  "demo_subset i s = \<lparr>ss_id = i, ss_created_at = 1, ss_updated_at = None, ss_name = ''app'', ss_source_id = s,
     ss_vcenter_id = ''vc'', ss_vms_count = 1, ss_inventory = ''{}'', ss_update_type = ''auto''\<rparr>"

definition demo_sources_db :: db where
  "demo_sources_db = empty_db\<lparr>sources := [demo_source 1 ''site'' ''vc'', demo_source 2 ''other'' ''''],
     source_subset_inventories := [demo_subset 5 1]\<rparr>"

definition demo_upload :: "uuid \<Rightarrow> string \<Rightarrow> inventory_update_form" where
  "demo_upload i v = \<lparr>iu_source_id = i, iu_agent_id = 9, iu_vcenter_id = v, iu_inventory = Some ''{1}'',
     iu_subsets = [\<lparr>su_id = 6, su_name = ''db'', su_source_id = i, su_vcenter_id = v, su_vms_count = 3,
       su_inventory = ''{2}''\<rparr>]\<rparr>"

subsection \<open>Invariants\<close>




text \<open>
  C13: The vCenter of a source never changes: once a source has one, no request other than the deletion
  of the source gives it another, and none removes it.
\<close>
theorem vcenter_never_changes:
  assumes "source_run E T (\<lambda>call. call \<noteq> DeleteSource i) w0 w" "open_tx w0 = None"
    and "has_vcenter i v (committed w0)"
  shows "has_vcenter i v (committed w)"
proof -
  have "rows_ok (has_vcenter i v) w0"
    using assms(2,3) by (simp add: rows_ok_def)
  with assms(1) have "rows_ok (has_vcenter i v) w"
    by (rule source_run_keeps) (rule serve_source_keeps [OF vcenter.row_invariant_axioms], simp)
  then show ?thesis by (simp add: rows_ok_def)
qed

lemma demo_refused_upload:
  "isl (fst (serve_source demo_env demo_tokens demo_context (UploadInventory (demo_upload 1 ''vc2''))
     (start demo_sources_db)))"
  by code_simp

theorem vcenter_never_changes_witness:
  "has_vcenter 1 ''vc'' (committed (snd (serve_source demo_env demo_tokens demo_context
     (UploadInventory (demo_upload 1 ''vc2'')) (start demo_sources_db))))"
proof -
  let ?run = "serve_source demo_env demo_tokens demo_context (UploadInventory (demo_upload 1 ''vc2''))
    (start demo_sources_db)"
  have "source_run demo_env demo_tokens (\<lambda>call. call \<noteq> DeleteSource 1) (start demo_sources_db) (snd ?run)"
    by (rule Served [OF Unchanged _ prod.collapse [symmetric]]) simp
  then show ?thesis
    by (rule vcenter_never_changes)
      (simp_all add: start_def demo_sources_db_def demo_source_def has_vcenter_def)
qed

subsection \<open>Failures\<close>

text \<open>An error leaves the committed rows as they were.\<close>

definition unharmed :: "'a go \<Rightarrow> bool" where
  "unharmed m \<longleftrightarrow> (\<forall>w e w'. m w = (Inl e, w') \<longrightarrow> committed w' = committed w)"

lemma unharmedD: "unharmed m \<Longrightarrow> m w = (Inl e, w') \<Longrightarrow> committed w' = committed w"
  by (simp add: unharmed_def)

lemma unharmed_readonly: "readonly m \<Longrightarrow> unharmed m"
  by (auto simp: unharmed_def dest: readonly_run)

lemma unharmed_exec: "unharmed (exec E c f)" "unharmed (exec_returning E c f v)"
  by (auto simp: unharmed_def exec_def exec_returning_def split: if_splits sum.splits prod.splits)

lemma unharmed_after_read:
  assumes "readonly m" "\<And>e. unharmed (h e)" "\<And>a. unharmed (k a)"
  shows "unharmed (attempt m h k)"
  unfolding unharmed_def
proof (intro allI impI)
  fix w e w' assume run: "attempt m h k w = (Inl e, w')"
  obtain r w1 where m: "m w = (r, w1)" by force
  with readonly_run [OF assms(1)] have "committed w1 = committed w" by blast
  with run m show "committed w' = committed w"
    by (cases r)
      (auto simp: attempt_def dest!: unharmedD [OF assms(2)] unharmedD [OF assms(3)])
qed

lemma unharmed_bind: "readonly m \<Longrightarrow> (\<And>a. unharmed (k a)) \<Longrightarrow> unharmed (bind m k)"
  by (simp add: bind_def unharmed_after_read unharmed_readonly readonly_intro)

lemma unharmed_last: "unharmed m \<Longrightarrow> unharmed (bind m (\<lambda>a. ret (f a)))"
  by (auto simp: unharmed_def bind_eq ret_def split: prod.splits sum.splits)

lemma unharmed_map_err: "unharmed m \<Longrightarrow> unharmed (map_err f m)"
  by (auto simp: unharmed_def map_err_def attempt_def raise_def ret_def split: prod.splits sum.splits)

lemma unharmed_deleting: "unharmed m \<Longrightarrow> unharmed (deleting m)"
  by (auto simp: unharmed_def deleting_def attempt_def raise_def ret_def split: prod.splits sum.splits if_splits)

lemmas unharmed_intro = unharmed_exec unharmed_last unharmed_map_err unharmed_deleting

lemma unharmed_update_row: "unharmed (update_source_row E c s)"
  unfolding update_source_row_def Let_def
  by (intro unharmed_bind unharmed_intro readonly_intro)

text \<open>Updating a subset inventory that is not there changes no row.\<close>

lemma unharmed_update_subset: "unharmed (update_subset E c t)"
  unfolding update_subset_def Let_def
proof (rule unharmed_bind, rule readonly_time_now)
  fix now
  let ?t = "t\<lparr>ss_updated_at := Some now\<rparr>"
  let ?found = "\<lambda>d. find (\<lambda>r. ss_id r = ss_id t) (source_subset_inventories d)"
  let ?f = "model_update (ss_id t) (update_subset_columns ?t)"
  have same: "d' = d" if "?f d = Inr d'" "?found d' = None" for d d'
  proof -
    from that(1) have d': "d' = d\<lparr>source_subset_inventories := map (\<lambda>r. if ss_id r = ss_id t
        then ?t\<lparr>ss_created_at := ss_created_at r\<rparr> else r) (source_subset_inventories d)\<rparr>"
      by (simp add: model_update_def update_subset_columns_def split: if_splits)
    with that(2) have "\<forall>r \<in> set (source_subset_inventories d). ss_id r \<noteq> ss_id t"
      by (auto simp: find_None_iff)
    then show "d' = d"
      unfolding d' by (simp add: map_idI)
  qed
  show "unharmed (bind (exec_returning E c ?f ?found)
      (\<lambda>r. case r of None \<Rightarrow> raise StoreRecordNotFound | Some x \<Rightarrow> ret x))"
    unfolding unharmed_def
  proof (intro allI impI)
    fix w e w'
    assume run: "bind (exec_returning E c ?f ?found)
      (\<lambda>r. case r of None \<Rightarrow> raise StoreRecordNotFound | Some x \<Rightarrow> ret x) w = (Inl e, w')"
    show "committed w' = committed w"
    proof (cases "fault E (tick w) \<or> isl (?f (get_db c w))")
      case True
      with run show ?thesis
        by (auto simp: bind_eq exec_returning_def exec_def isl_def split: if_splits)
    next
      case False
      then obtain d' where d': "?f (get_db c w) = Inr d'" by (cases "?f (get_db c w)") auto
      with False run have "?found d' = None" and w': "w' = put_db c d' (next_tick w)"
        by (auto simp: bind_eq exec_returning_def exec_def raise_def ret_def split: option.splits)
      from same [OF d' this(1)] w' show ?thesis by simp
    qed
  qed
qed

text \<open>Inside a transaction the request has opened, until it commits.\<close>

definition unharmed_tx :: "'a go \<Rightarrow> bool" where
  "unharmed_tx m \<longleftrightarrow> (\<forall>w e w'. open_tx w \<noteq> None \<longrightarrow> m w = (Inl e, w') \<longrightarrow> committed w' = committed w)"

lemma unharmed_txD: "unharmed_tx m \<Longrightarrow> open_tx w \<noteq> None \<Longrightarrow> m w = (Inl e, w') \<Longrightarrow> committed w' = committed w"
  unfolding unharmed_tx_def by blast

lemma unharmed_tx_attempt:
  assumes "local_tx c m" "ctx_tx c" "\<And>e. unharmed_tx (h e)" "\<And>a. unharmed_tx (k a)"
  shows "unharmed_tx (attempt m h k)"
  unfolding unharmed_tx_def
proof (intro allI impI)
  fix w e w' assume tx: "open_tx w \<noteq> None" and run: "attempt m h k w = (Inl e, w')"
  obtain r w1 where m: "m w = (r, w1)" by force
  from wpD [OF wp_local [OF assms(1,2) refl tx] m]
  have w1: "committed w1 = committed w" "open_tx w1 \<noteq> None" by simp_all
  show "committed w' = committed w"
  proof (cases r)
    case (Inl x)
    with run m have "h x w1 = (Inl e, w')" by (simp add: attempt_def)
    from unharmed_txD [OF assms(3) w1(2) this] w1(1) show ?thesis by simp
  next
    case (Inr x)
    with run m have "k x w1 = (Inl e, w')" by (simp add: attempt_def)
    from unharmed_txD [OF assms(4) w1(2) this] w1(1) show ?thesis by simp
  qed
qed

lemma unharmed_tx_raise: "unharmed_tx (raise e)"
  by (simp add: unharmed_tx_def raise_def)

lemma unharmed_tx_bind:
  "local_tx c m \<Longrightarrow> ctx_tx c \<Longrightarrow> (\<And>a. unharmed_tx (k a)) \<Longrightarrow> unharmed_tx (bind m k)"
  by (simp add: bind_def unharmed_tx_attempt unharmed_tx_raise)

lemma unharmed_tx_end:
  "unharmed_tx (rolled_back E c e)" "unharmed_tx (bind (commit E c) (\<lambda>_. ret a))"
  by (auto simp: unharmed_tx_def rolled_back_def commit_def tx_commit_def bind_eq ret_def
      split: option.splits if_splits)

lemma unharmed_opened:
  assumes "\<not> ctx_tx c" "\<And>c'. ctx_tx c' \<Longrightarrow> unharmed_tx (body c')"
  shows "unharmed (bind (new_transaction_context E c) body)"
  unfolding unharmed_def
proof (intro allI impI)
  fix w e w' assume run: "bind (new_transaction_context E c) body w = (Inl e, w')"
  let ?c = "c\<lparr>ctx_tx := True, ctx_owner := True\<rparr>"
  let ?w = "(next_tick w)\<lparr>open_tx := Some (committed w)\<rparr>"
  have body: "unharmed_tx (body ?c)" by (rule assms(2)) simp
  show "committed w' = committed w"
  proof (cases "fault E (tick w)")
    case True
    with run assms(1) show ?thesis
      by (auto simp: new_transaction_context_def new_transaction_def bind_eq)
  next
    case False
    with run assms(1) have "body ?c ?w = (Inl e, w')"
      by (simp add: new_transaction_context_def new_transaction_def bind_eq ret_def)
    from unharmed_txD [OF body _ this] show ?thesis by simp
  qed
qed

lemma local_exec_returning [local_intro]: "local_tx c (exec_returning E c f v)"
  using local_exec [of c E f] unfolding local_tx_def wp_run exec_returning_def
  by (auto split: prod.splits sum.splits)

lemma local_source_stores:
  "local_tx c (create_source_row E c s)" "local_tx c (update_source_row E c s)"
  "local_tx c (create_image_infra E c m)" "local_tx c (create_agent E c a)"
  "local_tx c (get_full_source E c i)" "local_tx c (replace_source_subsets E c i fs)"
  unfolding create_source_row_def update_source_row_def create_image_infra_def create_agent_def
    get_full_source_def gorm_first_def replace_source_subsets_def delete_subsets_by_source_id_def
    deleting_def create_subsets_def Let_def
  by (intro local_intro)+

lemma unharmed_stepped:
  "(\<And>x. unharmed (m x)) \<Longrightarrow>
    unharmed (\<lambda>w. case f w of Inl e \<Rightarrow> (Inl (g e), next_tick w) | Inr x \<Rightarrow> m x (next_tick w))"
  unfolding unharmed_def by (fastforce split: sum.splits)

lemma unharmed_tx_if: "unharmed_tx m \<Longrightarrow> unharmed_tx n \<Longrightarrow> unharmed_tx (if b then m else n)"
  by simp

lemma local_create_form: "local_tx c (create_form_to_source E f)"
  by (auto simp: local_tx_def wp_run create_form_to_source_def bind_eq uuid_new_def)

lemma unharmed_create:
  assumes "\<not> ctx_tx c"
  shows "unharmed (service_create_source E T c f)"
  unfolding service_create_source_def Let_def
proof (rule unharmed_stepped [where g = "\<lambda>e. e"], rule unharmed_opened [OF assms])
  fix key and c' :: gocontext assume "ctx_tx c'"
  then show "unharmed_tx (bind (create_form_to_source E f) (\<lambda>s.
      attempt (create_source_row E c' s)
        (\<lambda>e. rolled_back E c' (if errors_is e StoreDuplicateKey then new_err_source_duplicate_name (sc_name f) else e))
        (\<lambda>created. attempt (create_image_infra E c' (create_form_to_image_infra f (s_id (so_row created)) key))
           (rolled_back E c') (\<lambda>_. bind (commit E c') (\<lambda>_. ret (created\<lparr>so_image_infra :=
              Some (create_form_to_image_infra f (s_id (so_row created)) key)\<rparr>))))))"
    by (intro unharmed_tx_bind [where c = c'] unharmed_tx_attempt [where c = c'] unharmed_tx_end
        local_create_form local_source_stores)
qed

lemma unharmed_upload:
  assumes "\<not> ctx_tx c"
  shows "unharmed (update_inventory E c f)"
  unfolding update_inventory_def Let_def
proof (rule unharmed_opened [OF assms], goal_cases)
  case (1 c')
  then show ?case
    by (intro unharmed_tx_bind [where c = c'] unharmed_tx_attempt [where c = c'] unharmed_tx_end
        unharmed_tx_if local_intro local_source_stores)
qed


lemma unharmed_reads: "readonly (fetch_source E c i)" "readonly (get_subset E c j)" "readonly (get_agent E c j)"
  "readonly (get_full_source E c i)"
  unfolding fetch_source_def get_full_source_def get_subset_def get_agent_def gorm_first_def
  by (intro readonly_intro)+

lemma unharmed_store_inventory: "unharmed (store_agent_inventory E c s v data)"
  unfolding store_agent_inventory_def Let_def by (intro unharmed_intro unharmed_update_row)

lemma unharmed_agent_updates:
  "unharmed (update_source_inventory E c f)" "unharmed (agent_update_source E c g)"
  unfolding update_source_inventory_def agent_update_source_def
  by (intro unharmed_bind unharmed_reads unharmed_store_inventory readonly_map_err readonly_intro)+

lemma unharmed_create_subset: "unharmed (create_subset E c t)"
  unfolding create_subset_def by (rule unharmed_bind, rule readonly_time_now, rule unharmed_last)
    (intro unharmed_map_err unharmed_exec)

lemma unharmed_subset_requests:
  "unharmed (update_source_subset E c f)" "unharmed (delete_source_subset E c i j)"
proof -
  have if_: "unharmed m \<Longrightarrow> unharmed n \<Longrightarrow> unharmed (if b then m else n)" for m n :: "(subset_row \<times> bool) go" and b
    by simp
  show "unharmed (update_source_subset E c f)"
    unfolding update_source_subset_def Let_def
    by (intro unharmed_bind unharmed_after_read unharmed_reads unharmed_last unharmed_map_err
        unharmed_create_subset unharmed_update_subset readonly_reject_if if_ unharmed_readonly readonly_raise)
  show "unharmed (delete_source_subset E c i j)"
    unfolding delete_source_subset_def delete_subset_def
    by (intro unharmed_bind unharmed_reads unharmed_intro readonly_map_err readonly_reject_if)
qed

lemma unharmed_delete: "unharmed (service_delete_source E c i)"
  unfolding service_delete_source_def delete_source_def by (intro unharmed_intro)

lemma unharmed_discard: "unharmed m \<Longrightarrow> unharmed (discard m)"
  unfolding discard_def by (rule unharmed_last)

text \<open>The requests that change several rows without a transaction, or read again after the commit.\<close>

fun partial_on_error :: "source_call \<Rightarrow> bool" where
  "partial_on_error (UpdateSource i f) = True"
| "partial_on_error (DownloadSource i) = True"
| "partial_on_error (AgentUpdateStatus f) = True"
| "partial_on_error _ = False"

text \<open>
  C14: A request on sources that fails changes no row, also when a database call in its middle fails.
  The exceptions are the update of a source, which reads the source again after it has committed, the download,
  which stores a key before the token, and the status of an agent, which deletes the placeholders first.
\<close>
theorem failed_source_requests_change_nothing:
  assumes "serve_source E T c call w = (Inl e, w')" "\<not> ctx_tx c" "\<not> partial_on_error call"
  shows "committed w' = committed w"
proof -
  have "unharmed (serve_source E T c call)"
    using assms(2,3) by (cases call)
      (simp_all add: unharmed_discard unharmed_create unharmed_upload unharmed_delete
        unharmed_agent_updates unharmed_subset_requests)
  then show ?thesis using assms(1) by (rule unharmedD)
qed

theorem failed_source_requests_change_nothing_witness:
  "committed (snd (serve_source demo_env demo_tokens demo_context (UploadInventory (demo_upload 1 ''vc2''))
     (start demo_sources_db))) = demo_sources_db"
proof -
  obtain e where "fst (serve_source demo_env demo_tokens demo_context (UploadInventory (demo_upload 1 ''vc2''))
     (start demo_sources_db)) = Inl e"
    using demo_refused_upload by (auto simp: isl_def)
  then have "serve_source demo_env demo_tokens demo_context (UploadInventory (demo_upload 1 ''vc2''))
     (start demo_sources_db) = (Inl e, snd (serve_source demo_env demo_tokens demo_context
       (UploadInventory (demo_upload 1 ''vc2'')) (start demo_sources_db)))"
    by (metis prod.collapse)
  from failed_source_requests_change_nothing [OF this] show ?thesis
    by (simp add: demo_context_def start_def)
qed

end
