(* ===== verification/SourceUploads.thy ===== *)
theory SourceUploads
  imports SourceTheorems
begin

text \<open>
  What a successful upload of an inventory writes, and what the agents of other sources may change.
\<close>

subsection \<open>Successful runs\<close>

lemma bind_InrE:
  assumes "bind m k w = (Inr a, w')"
  obtains b w1 where "m w = (Inr b, w1)" "k b w1 = (Inr a, w')"
  using assms by (auto simp: bind_eq split: prod.splits sum.splits)

lemma attempt_InrE:
  assumes "attempt m h k w = (Inr a, w')" "\<And>e w1 x w2. h e w1 \<noteq> (Inr x, w2)"
  obtains b w1 where "m w = (Inr b, w1)" "k b w1 = (Inr a, w')"
  using assms by (auto simp: attempt_def split: prod.splits sum.splits)

lemma map_err_Inr: "map_err f m w = (Inr a, w') \<longleftrightarrow> m w = (Inr a, w')"
  by (auto simp: map_err_def attempt_def raise_def ret_def split: prod.splits sum.splits)

lemma raise_Inr [simp]: "raise e w \<noteq> (Inr a, w')"
  by (simp add: raise_def)

lemma reject_if_Inr: "reject_if b e w = (Inr a, w') \<longleftrightarrow> \<not> b \<and> w' = w"
  by (auto simp: reject_if_def raise_def ret_def)

lemma rolled_back_Inr [simp]: "rolled_back E c e w \<noteq> (Inr a, w')"
  by (simp add: rolled_back_def)

text \<open>The rows an open transaction has reached.\<close>

definition in_tx :: "gocontext \<Rightarrow> world \<Rightarrow> db \<Rightarrow> bool" where
  "in_tx c w d \<longleftrightarrow> ctx_tx c \<and> ctx_owner c \<and> open_tx w = Some d"

lemma in_tx_readonly: "readonly m \<Longrightarrow> m w = (r, w') \<Longrightarrow> in_tx c w d \<Longrightarrow> in_tx c w' d"
  by (auto simp: in_tx_def dest: readonly_run)

lemma exec_in_tx:
  assumes "exec E c f w = (Inr u, w')" "in_tx c w d"
  obtains d' where "f d = Inr d'" "in_tx c w' d'"
  using assms by (auto simp: exec_def in_tx_def split: if_splits sum.splits)

lemma exec_returning_in_tx:
  assumes "exec_returning E c f v w = (Inr u, w')" "in_tx c w d"
  obtains d' where "f d = Inr d'" "in_tx c w' d'"
  using assms by (auto simp: exec_returning_def exec_def in_tx_def split: if_splits sum.splits prod.splits)

lemma begin_tx:
  assumes "new_transaction_context E c w = (Inr c', w')" "\<not> ctx_tx c"
  shows "in_tx c' w' (committed w)"
  using assms by (auto simp: new_transaction_context_def new_transaction_def bind_eq ret_def in_tx_def
      split: if_splits)

lemma commit_in_tx: "commit E c w = (Inr c', w') \<Longrightarrow> in_tx c w d \<Longrightarrow> committed w' = d"
  by (auto simp: commit_def tx_commit_def in_tx_def bind_eq ret_def split: if_splits)

lemma get_full_source_in_tx:
  assumes "get_full_source E c i w = (Inr s, w')" "in_tx c w d"
  obtains t where "so_row s \<in> set (sources d)" "i = nil_uuid \<or> s_id (so_row s) = i" "in_tx c w' d"
    "s = preload_source E t d (so_row s)"
proof -
  have "in_tx c w' d"
    using in_tx_readonly [OF unharmed_reads(4) assms] .
  with assms show ?thesis
    by (auto simp: get_full_source_def gorm_first_def query_def map_err_Inr in_tx_def preload_source_def
        primary_key_def dest!: first_by_filterD split: if_splits option.splits intro: that)
qed

lemma deleting_in_tx:
  assumes "deleting (exec E c f) w = (Inr u, w')" "in_tx c w d" "\<And>d. f d = Inr (g d)"
  shows "in_tx c w' (g d)"
  using assms(1,2) unfolding deleting_def
  by (auto simp: attempt_def exec_def raise_def ret_def in_tx_def assms(3) errors_is.simps split: if_splits)

subsection \<open>The steps of an upload\<close>

lemma create_agent_in_tx:
  assumes "create_agent E c a w = (Inr a', w')" "in_tx c w d"
  obtains now where "in_tx c w' (d\<lparr>agents := agents d @ [stamp_agent now a]\<rparr>)"
proof -
  from assms(1) obtain now w1 where w1: "time_now E w = (Inr now, w1)"
    and run: "exec E c (insert_agent (stamp_agent now a)) w1 = (Inr (), w')"
    unfolding create_agent_def by (elim bind_InrE) (auto simp: ret_def)
  have "in_tx c w1 d" by (rule in_tx_readonly [OF readonly_time_now w1 assms(2)])
  from exec_in_tx [OF run this] show ?thesis
    by (rule that) (auto simp: insert_agent_def split: if_splits)
qed

lemma update_source_row_in_tx:
  assumes "update_source_row E c s w = (Inr s', w')" "in_tx c w d"
  obtains now where "in_tx c w' (d\<lparr>sources := map (\<lambda>r. if s_id r = s_id (so_row s)
      then updated_source ((so_row s)\<lparr>s_updated_at := Some now\<rparr>) r else r) (sources d)\<rparr>)"
proof -
  from assms(1) obtain now w1 v where w1: "time_now E w = (Inr now, w1)"
    and run: "exec_returning E c (model_update (s_id (so_row s))
      (update_source_columns ((so_row s)\<lparr>s_updated_at := Some now\<rparr>))) v w1 = (Inr (v (get_db c w')), w')"
    unfolding update_source_row_def Let_def
    by (elim bind_InrE) (auto simp: ret_def exec_returning_def split: prod.splits sum.splits)
  have "in_tx c w1 d" by (rule in_tx_readonly [OF readonly_time_now w1 assms(2)])
  from exec_returning_in_tx [OF run this] show ?thesis
    by (rule that) (auto simp: model_update_def update_source_columns_def split: if_splits)
qed

lemma replace_subsets_in_tx:
  assumes "replace_source_subsets E c i fs w = (Inr u, w')" "in_tx c w d"
  obtains now where "in_tx c w' (d\<lparr>source_subset_inventories :=
      filter (\<lambda>r. ss_source_id r \<noteq> i) (source_subset_inventories d) @
      map (stamp_subset now \<circ> subset_of_form i ''manual'') fs\<rparr>)"
proof -
  let ?d = "d\<lparr>source_subset_inventories := filter (\<lambda>r. ss_source_id r \<noteq> i) (source_subset_inventories d)\<rparr>"
  from assms(1) obtain w1 v where del: "delete_subsets_by_source_id E c i w = (Inr v, w1)"
    and ins: "(if fs = [] then ret () else map_err (Wrapf (''failed to create source subset inventories: %w'', []))
        (create_subsets E c (map (subset_of_form i ''manual'') fs))) w1 = (Inr u, w')"
    unfolding replace_source_subsets_def by (elim bind_InrE) (auto simp: map_err_Inr)
  have d: "in_tx c w1 ?d"
    by (rule deleting_in_tx [OF del [unfolded delete_subsets_by_source_id_def] assms(2) delete_subset_rows_of_def])
  show ?thesis
  proof (cases "fs = []")
    case True
    with ins d show ?thesis by (intro that [of 0]) (simp add: ret_def)
  next
    case False
    with ins obtain now w2 where w2: "time_now E w1 = (Inr now, w2)"
      and run: "exec E c (insert_subsets (map (stamp_subset now) (map (subset_of_form i ''manual'') fs))) w2 = (Inr u, w')"
      unfolding create_subsets_def by (auto simp: map_err_Inr elim!: bind_InrE)
    have "in_tx c w2 ?d" by (rule in_tx_readonly [OF readonly_time_now w2 d])
    from exec_in_tx [OF run this] show ?thesis
      by (rule that [of now]) (simp add: insert_subsets_def split: if_splits)
  qed
qed

subsection \<open>An upload\<close>

definition uploaded_subset :: "subset_row \<Rightarrow> uuid \<times> string \<times> string \<times> goint \<times> string \<times> string" where
  "uploaded_subset r = (ss_id r, ss_name r, ss_vcenter_id r, ss_vms_count r, ss_inventory r, ss_update_type r)"

definition requested_subset :: "subset_update_form \<Rightarrow> uuid \<times> string \<times> string \<times> goint \<times> string \<times> string" where
  "requested_subset f = (su_id f, su_name f, su_vcenter_id f, su_vms_count f, su_inventory f, ''manual'')"

definition uploaded :: "inventory_update_form \<Rightarrow> db \<Rightarrow> db \<Rightarrow> bool" where
  "uploaded f d d' \<longleftrightarrow> (let i = iu_source_id f in
     map uploaded_subset (filter (\<lambda>r. ss_source_id r = i) (source_subset_inventories d')) =
       map requested_subset (iu_subsets f) \<and>
     filter (\<lambda>r. ss_source_id r \<noteq> i) (source_subset_inventories d') =
       filter (\<lambda>r. ss_source_id r \<noteq> i) (source_subset_inventories d) \<and>
     filter (\<lambda>s. s_id s \<noteq> i) (sources d') = filter (\<lambda>s. s_id s \<noteq> i) (sources d) \<and>
     (\<exists>s \<in> set (sources d'). s_id s = i \<and> s_vcenter_id s = iu_vcenter_id f \<and> s_on_premises s \<and>
        s_update_type s = ''manual'' \<and> (case iu_inventory f of None \<Rightarrow> True | Some x \<Rightarrow> s_inventory s = Some x)) \<and>
     (\<exists>a \<in> set (agents d'). ag_id a = iu_agent_id f \<and> ag_source_id a = i))"

lemma uploaded_stamped [simp]:
  "uploaded_subset (stamp_subset now (subset_of_form i ''manual'' f)) = requested_subset f"
  "ss_source_id (stamp_subset now (subset_of_form i t f)) = i"
  by (simp_all add: uploaded_subset_def requested_subset_def stamp_subset_def subset_of_form_def)

lemma filter_map_other:
  "(\<And>r. k (g r) = k r) \<Longrightarrow>
     filter (\<lambda>r. k r \<noteq> i) (map (\<lambda>r. if k r = i then g r else r) rs) = filter (\<lambda>r. k r \<noteq> i) rs"
  by (induction rs) auto

lemma upload_run:
  assumes "update_inventory E c f w = (Inr s', w')" "\<not> ctx_tx c"
  obtains c' s w2 w3 w4 w5 t u where
    "s' = s\<lparr>so_row := (so_row s)\<lparr>s_on_premises := True, s_vcenter_id := iu_vcenter_id f,
       s_inventory := iu_inventory f, s_update_type := ''manual''\<rparr>\<rparr>"
    "\<not> other_vcenter s (iu_vcenter_id f)"
    "so_row s \<in> set (sources (committed w))" "iu_source_id f = nil_uuid \<or> s_id (so_row s) = iu_source_id f"
    "s = preload_source E t (committed w) (so_row s)" "in_tx c' w2 (committed w)"
    "iu_agent_id f \<in> ag_id ` set (so_agents s) \<and> w3 = w2 \<or>
       iu_agent_id f \<notin> ag_id ` set (so_agents s) \<and>
       (\<exists>a. create_agent E c' (new_agent_for_source (iu_agent_id f) s) w2 = (Inr a, w3))"
    "update_source_row E c' s' w3 = (Inr u, w4)"
    "replace_source_subsets E c' (iu_source_id f) (iu_subsets f) w4 = (Inr (), w5)"
    "\<And>d. in_tx c' w5 d \<Longrightarrow> committed w' = d"
  using assms(1) unfolding update_inventory_def
proof (elim bind_InrE, goal_cases)
  case (1 c' w1 s w2 v w3)
  have w1: "in_tx c' w1 (committed w)" by (rule begin_tx [OF 1(2) assms(2)])
  from 1(3) have get: "get_full_source E c' (iu_source_id f) w1 = (Inr s, w2)"
    by (simp add: map_err_Inr)
  from get_full_source_in_tx [OF get w1] obtain t where
    s: "so_row s \<in> set (sources (committed w))" "iu_source_id f = nil_uuid \<or> s_id (so_row s) = iu_source_id f"
      "in_tx c' w2 (committed w)" "s = preload_source E t (committed w) (so_row s)" .
  from 1(4) have agent: "iu_agent_id f \<in> ag_id ` set (so_agents s) \<and> w3 = w2 \<or>
       iu_agent_id f \<notin> ag_id ` set (so_agents s) \<and>
       (\<exists>a. create_agent E c' (new_agent_for_source (iu_agent_id f) s) w2 = (Inr a, w3))"
    by (auto simp: ret_def bind_eq split: if_splits prod.splits sum.splits)
  from 1(5) have other: "\<not> other_vcenter s (iu_vcenter_id f)"
    by (auto split: if_splits)
  let ?s = "s\<lparr>so_row := (so_row s)\<lparr>s_on_premises := True, s_vcenter_id := iu_vcenter_id f,
       s_inventory := iu_inventory f, s_update_type := ''manual''\<rparr>\<rparr>"
  from 1(5) other obtain u w4 w5 where upd: "update_source_row E c' ?s w3 = (Inr u, w4)"
    and subs: "replace_source_subsets E c' (iu_source_id f) (iu_subsets f) w4 = (Inr (), w5)"
    and fin: "bind (commit E c') (\<lambda>_. ret ?s) w5 = (Inr s', w')"
    by (auto simp: Let_def elim!: attempt_InrE)
  from fin have s': "s' = ?s" and "\<exists>c''. commit E c' w5 = (Inr c'', w')"
    by (auto simp: ret_def elim!: bind_InrE)
  then have comm: "committed w' = d" if "in_tx c' w5 d" for d
    using that commit_in_tx by blast
  show thesis
    by (rule that [OF s' other s(1,2,4,3) agent _ subs comm]) (simp_all add: s' upd)
qed

text \<open>
  C15: A successful upload stores what was sent: the source has the vCenter and the inventory of the form,
  its subset inventories are exactly those of the form, in their order, and the uploading agent belongs to
  it; other sources and their subset inventories keep what they have.
\<close>
theorem upload_replaces_inventory:
  assumes "update_inventory E c f w = (Inr s, w')" "\<not> ctx_tx c" "iu_source_id f \<noteq> nil_uuid"
  shows "uploaded f (committed w) (committed w')"
  using upload_run [OF assms(1,2)]
proof cases
  case (1 c' s0 w2 w3 w4 w5 t u)
  let ?i = "iu_source_id f" and ?d = "committed w"
  have id: "s_id (so_row s0) = ?i" using 1(4) assms(3) by simp
  obtain d3 where w3: "in_tx c' w3 d3" and d3: "sources d3 = sources ?d"
      "source_subset_inventories d3 = source_subset_inventories ?d"
      "\<exists>a \<in> set (agents d3). ag_id a = iu_agent_id f \<and> ag_source_id a = ?i"
    using 1(7)
  proof (elim disjE conjE exE, goal_cases)
    case 1
    from 1(2) \<open>s0 = preload_source E t ?d (so_row s0)\<close> id
    have "\<exists>a \<in> set (agents ?d). ag_id a = iu_agent_id f \<and> ag_source_id a = ?i"
      by (auto simp: preload_source_def intro!: bexI dest!: arg_cong [where f = so_agents])
    with 1(1,3) \<open>in_tx c' w2 ?d\<close> show ?case by blast
  next
    case (2 a)
    from create_agent_in_tx [OF 2(3) \<open>in_tx c' w2 ?d\<close>] obtain now where
      "in_tx c' w3 (?d\<lparr>agents := agents ?d @ [stamp_agent now (new_agent_for_source (iu_agent_id f) s0)]\<rparr>)" .
    then show ?case
      by (rule 2(1)) (auto simp: stamp_agent_def new_agent_for_source_def id)
  qed
  obtain now1 where w4: "in_tx c' w4 (d3\<lparr>sources := map (\<lambda>r. if s_id r = s_id (so_row s)
      then updated_source ((so_row s)\<lparr>s_updated_at := Some now1\<rparr>) r else r) (sources d3)\<rparr>)"
    by (rule update_source_row_in_tx [OF 1(8) w3])
  let ?u = "updated_source ((so_row s)\<lparr>s_updated_at := Some now1\<rparr>)"
  let ?d4 = "d3\<lparr>sources := map (\<lambda>r. if s_id r = s_id (so_row s) then ?u r else r) (sources d3)\<rparr>"
  obtain now2 where w5: "in_tx c' w5 (?d4\<lparr>source_subset_inventories :=
      filter (\<lambda>r. ss_source_id r \<noteq> ?i) (source_subset_inventories ?d4) @
      map (stamp_subset now2 \<circ> subset_of_form ?i ''manual'') (iu_subsets f)\<rparr>)"
    by (rule replace_subsets_in_tx [OF 1(9) w4])
  note d' = 1(10) [OF w5]
  have sid: "s_id (so_row s) = ?i" using 1(1) id by simp
  have "?u (so_row s0) \<in> set (sources (committed w'))"
    unfolding d' using 1(3) id by (auto simp: d3 sid)
  moreover have "s_id (?u (so_row s0)) = ?i" "s_on_premises (?u (so_row s0))"
      "s_update_type (?u (so_row s0)) = ''manual''" "s_vcenter_id (?u (so_row s0)) = iu_vcenter_id f"
      "case iu_inventory f of None \<Rightarrow> True | Some x \<Rightarrow> s_inventory (?u (so_row s0)) = Some x"
    using 1(1,2) by (auto simp: updated_source_def id other_vcenter_def split: option.splits)
  moreover have "filter (\<lambda>r. s_id r \<noteq> ?i) (sources (committed w')) = filter (\<lambda>r. s_id r \<noteq> ?i) (sources ?d)"
    unfolding d' by (simp add: d3 sid filter_map_other)
  moreover have "map uploaded_subset (filter (\<lambda>r. ss_source_id r = ?i) (source_subset_inventories (committed w'))) =
        map requested_subset (iu_subsets f)"
      "filter (\<lambda>r. ss_source_id r \<noteq> ?i) (source_subset_inventories (committed w')) =
        filter (\<lambda>r. ss_source_id r \<noteq> ?i) (source_subset_inventories ?d)"
    unfolding d' by (simp_all add: d3 filter_map comp_def)
  moreover have "\<exists>a \<in> set (agents (committed w')). ag_id a = iu_agent_id f \<and> ag_source_id a = ?i"
    unfolding d' using d3(3) by simp
  ultimately show ?thesis
    unfolding uploaded_def Let_def by blast
qed

lemma demo_upload_succeeds:
  "\<not> isl (fst (update_inventory demo_env demo_context (demo_upload 1 ''vc'') (start demo_sources_db)))"
  by code_simp

theorem upload_replaces_inventory_witness:
  "uploaded (demo_upload 1 ''vc'') demo_sources_db
     (committed (snd (update_inventory demo_env demo_context (demo_upload 1 ''vc'') (start demo_sources_db))))"
proof -
  let ?run = "update_inventory demo_env demo_context (demo_upload 1 ''vc'') (start demo_sources_db)"
  have "?run = (Inr (projr (fst ?run)), snd ?run)"
    by (rule prod_eqI) (simp_all add: demo_upload_succeeds)
  from upload_replaces_inventory [OF this] show ?thesis
    by (simp add: demo_context_def start_def demo_upload_def)
qed

subsection \<open>Identifiers of other sources\<close>

text \<open>Reading a source that exists, when no call fails.\<close>

lemma first_by_key:
  assumes "r \<in> set rs" "k r = i" "i \<noteq> nil_uuid"
  obtains x where "first_by k (filter (primary_key i \<circ> k) rs) = Some x" "x \<in> set rs" "k x = i"
proof -
  from assms have "filter (primary_key i \<circ> k) rs \<noteq> []"
    by (auto simp: filter_empty_conv primary_key_def)
  then obtain x where x: "first_by k (filter (primary_key i \<circ> k) rs) = Some x"
    by (cases "first_by k (filter (primary_key i \<circ> k) rs)") auto
  with first_by_filterD [OF x] assms(3) show thesis
    by (intro that) (auto simp: primary_key_def)
qed

lemma get_full_source_run:
  assumes "\<not> faulty E" "r \<in> set (sources (get_db c w))" "s_id r = i" "i \<noteq> nil_uuid"
  obtains r' where "get_full_source E c i w = (Inr (preload_source E (tick w) (get_db c w) r'), next_tick w)"
    "r' \<in> set (sources (get_db c w))" "s_id r' = i"
proof -
  from first_by_key [where k = s_id, OF assms(2-4)] obtain x where
    "first_by s_id (filter (primary_key i \<circ> s_id) (sources (get_db c w))) = Some x"
    "x \<in> set (sources (get_db c w))" "s_id x = i" .
  with assms(1) show thesis
    by (intro that [of x])
      (simp_all add: get_full_source_def gorm_first_def query_def map_err_def attempt_def ret_def faulty_def)
qed




lemma find_map_update:
  "t \<in> set rs \<Longrightarrow> k t = i \<Longrightarrow> (\<And>r. k (g r) = i) \<Longrightarrow>
     find (\<lambda>r. k r = i) (map (\<lambda>r. if k r = i then g r else r) rs) \<noteq> None"
  by (induction rs) auto

lemma found_row: "find P rs = Some x \<Longrightarrow> x \<in> set rs \<and> P x"
  by (auto simp: find_Some_iff)

text \<open>
  C18: An agent that reports a subset inventory under the identifier of another source's subset takes it
  over: the request succeeds, and the subset, with its name, vCenter and inventory, is now the caller's.
\<close>
theorem foreign_subset_taken:
  assumes "\<not> faulty E" "\<not> ctx_tx c" "su_source_id f \<noteq> nil_uuid" "su_id f \<noteq> nil_uuid" "su_inventory f \<noteq> []"
    and "\<forall>r \<in> set (sources (committed w)). s_id r = su_source_id f \<longrightarrow>
       s_inventory r \<notin> {None, Some []} \<and> s_vcenter_id r \<in> {[], su_vcenter_id f}"
    and "r \<in> set (sources (committed w))" "s_id r = su_source_id f"
    and "t \<in> set (source_subset_inventories (committed w))" "ss_id t = su_id f" "ss_source_id t \<noteq> su_source_id f"
  shows "\<exists>x w'. update_source_subset E c f w = (Inr (x, False), w') \<and> ss_source_id x = su_source_id f \<and>
     (\<forall>y \<in> set (source_subset_inventories (committed w')). ss_id y = su_id f \<longrightarrow>
        ss_source_id y = su_source_id f \<and> ss_name y = su_name f \<and> ss_inventory y = su_inventory f)"
proof -
  obtain r' where get: "get_full_source E c (su_source_id f) w =
      (Inr (preload_source E (tick w) (committed w) r'), next_tick w)"
    and r': "r' \<in> set (sources (committed w))" "s_id r' = su_source_id f"
    using get_full_source_run [of E r c w "su_source_id f"] assms(1-3,7,8) by (auto simp: assms(2))
  let ?s = "preload_source E (tick w) (committed w) r'"
  have row: "so_row ?s = r'" by (simp add: preload_source_def)
  have ok: "\<not> s_inventory (so_row ?s) \<in> {None, Some []}" "\<not> other_vcenter ?s (su_vcenter_id f)"
    using assms(6) r' unfolding row other_vcenter_def row by auto
  obtain t' where "first_by ss_id (filter (primary_key (su_id f) \<circ> ss_id)
      (source_subset_inventories (committed w))) = Some t'"
    by (rule first_by_key [where k = ss_id, OF assms(9,10,4)])
  then have sub: "get_subset E c (su_id f) (next_tick w) = (Inr t', next_tick (next_tick w))"
    using assms(1,2)
    by (simp add: get_subset_def gorm_first_def query_def map_err_def attempt_def ret_def faulty_def)
  let ?w = "next_tick (next_tick w)"
  let ?new = "(subset_of_form (su_source_id f) ''auto'' f)\<lparr>ss_updated_at := Some (clock E (tick ?w))\<rparr>"
  let ?d = "(committed w)\<lparr>source_subset_inventories := map (\<lambda>r. if ss_id r = su_id f
      then ?new\<lparr>ss_created_at := ss_created_at r\<rparr> else r) (source_subset_inventories (committed w))\<rparr>"
  have id: "ss_id (subset_of_form i k f) = su_id f" "ss_source_id (subset_of_form i k f) = i"
    "ss_inventory (subset_of_form i k f) = su_inventory f" "ss_name (subset_of_form i k f) = su_name f" for i k
    by (simp_all add: subset_of_form_def)
  have stmt: "model_update (su_id f) (update_subset_columns ?new) (committed w) = Inr ?d"
  proof -
    have "su_source_id f \<in> s_id ` set (sources (committed w))" using assms(7,8) by force
    with assms(4,5) show ?thesis
      by (simp add: model_update_def update_subset_columns_def subset_of_form_def)
  qed
  have taken: "ss_source_id y = su_source_id f \<and> ss_name y = su_name f \<and> ss_inventory y = su_inventory f"
    if "y \<in> set (source_subset_inventories ?d)" "ss_id y = su_id f" for y
    using that by (auto simp: id)
  obtain x where x: "find (\<lambda>r. ss_id r = su_id f) (source_subset_inventories ?d) = Some x"
    and owner: "ss_source_id x = su_source_id f"
  proof (cases "find (\<lambda>r. ss_id r = su_id f) (source_subset_inventories ?d)")
    case None
    with find_map_update [where k = ss_id and g = "\<lambda>r. ?new\<lparr>ss_created_at := ss_created_at r\<rparr>", OF assms(9,10)]
    show ?thesis by (simp add: id)
  next
    case (Some x)
    from taken [OF conjunct1 [OF found_row [OF Some]] conjunct2 [OF found_row [OF Some]]]
    have "ss_source_id x = su_source_id f" by (rule conjunct1)
    then show ?thesis by (rule that [OF Some])
  qed
  then have upd: "update_subset E c (subset_of_form (su_source_id f) ''auto'' f) ?w =
      (Inr x, (next_tick (next_tick ?w))\<lparr>committed := ?d\<rparr>)" (is "_ = (_, ?w')")
    using assms(1,2) stmt x
    by (simp add: update_subset_def bind_eq exec_returning_def exec_def time_now_def ret_def faulty_def id Let_def
        next_tick_def)
  have fetch: "fetch_source E c (su_source_id f) w = (Inr ?s, next_tick w)"
    using get by (simp add: fetch_source_def map_err_Inr)
  from ok(1) obtain inv where inv: "s_inventory (so_row ?s) = Some inv" "inv \<noteq> []" by auto
  have "update_source_subset E c f w = (Inr (x, False), ?w')"
    unfolding update_source_subset_def bind_eq fetch
    using inv ok(2) sub upd by (simp add: reject_if_def bind_eq map_err_def attempt_def ret_def Let_def)
  moreover have "\<forall>y \<in> set (source_subset_inventories (committed ?w')). ss_id y = su_id f \<longrightarrow>
        ss_source_id y = su_source_id f \<and> ss_name y = su_name f \<and> ss_inventory y = su_inventory f"
    by (auto simp: id)
  ultimately show ?thesis
    using owner by (intro exI conjI)
qed

definition demo_report :: subset_update_form where
  "demo_report = \<lparr>su_id = 5, su_name = ''mine'', su_source_id = 2, su_vcenter_id = ''vc2'', su_vms_count = 0,
     su_inventory = ''{3}''\<rparr>"

theorem foreign_subset_taken_witness:
  "\<exists>x w'. update_source_subset demo_env demo_context demo_report (start demo_sources_db) = (Inr (x, False), w') \<and>
     ss_source_id x = 2 \<and> ss_source_id (demo_subset 5 1) = 1"
proof -
  have "\<not> faulty demo_env" by (simp add: faulty_def demo_env_def)
  moreover have "\<not> ctx_tx demo_context" by (simp add: demo_context_def)
  moreover have "su_source_id demo_report = 2" "su_id demo_report = 5" "su_inventory demo_report = ''{3}''"
    "su_vcenter_id demo_report = ''vc2''" by (simp_all add: demo_report_def)
  moreover have "(2 :: uuid) \<noteq> nil_uuid" "(5 :: uuid) \<noteq> nil_uuid" by simp_all
  moreover have "sources (committed (start demo_sources_db)) = [demo_source 1 ''site'' ''vc'', demo_source 2 ''other'' []]"
    "source_subset_inventories (committed (start demo_sources_db)) = [demo_subset 5 1]"
    by (simp_all add: start_def demo_sources_db_def)
  moreover have "ss_source_id (demo_subset 5 1) = 1" "ss_id (demo_subset 5 1) = 5"
    by (simp_all add: demo_subset_def)
  moreover have "s_id (demo_source i n v) = i" "s_vcenter_id (demo_source i n v) = v"
    "s_inventory (demo_source i n v) = Some ''{}''" for i n v
    by (simp_all add: demo_source_def)
  ultimately show ?thesis
    using foreign_subset_taken [of demo_env demo_context demo_report "start demo_sources_db"
        "demo_source 2 ''other'' []" "demo_subset 5 1"]
    by simp blast
qed

end
