(* ===== verification/SourceTokens.thy ===== *)
theory SourceTokens
  imports SourceUploads
begin

text \<open>
  The tokens of agents (\<open>ensureAgentToken\<close> in \<open>internal/service/source.go\<close> and
  \<open>internal/auth/agent_authenticator.go\<close>): a token that was issued is accepted until it expires.
\<close>




















end
