(* ===== verification/ApiInventory.thy ===== *)
theory ApiInventory
  imports Inventory
begin

text \<open>
  The inventory of the API (\<open>api/v1alpha1/types.gen.go\<close>), its conversion to and from the inventory of
  the services (\<open>internal/handlers/v1alpha1/mappers/inventory_inbound.go\<close>,
  \<open>inventory_outbound.go\<close>) and the normalisation of replies (\<open>outbound.go\<close>). The conversions
  are lossless up to five fields they do not copy.
\<close>

subsection \<open>Types\<close>

record api_cluster_features =
  acf_drs_enabled :: "bool option"
  acf_drs_mode :: "string option"
  acf_ha_enabled :: "bool option"

record api_cluster_utilization =
  acu_confidence :: float64
  acu_cpu_avg :: float64
  acu_cpu_max :: float64
  acu_cpu_p95 :: float64
  acu_mem_avg :: float64
  acu_mem_max :: float64
  acu_mem_p95 :: float64

record api_storage_io_configuration =
  asio_congestion_threshold :: "goint option"
  asio_congestion_threshold_mode :: "string option"
  asio_enabled :: "bool option"
  asio_percent_of_peak_throughput :: "goint option"

record api_datastore =
  ads_backing_device_ids :: "string list option"
  ads_filesystem_major_version :: "32 word option"
  ads_filesystem_type :: "string option"
  ads_disk_id :: string
  ads_free_capacity_gb :: goint
  ads_hardware_accelerated_move :: bool
  ads_host_id :: "string option"
  ads_model :: string
  ads_protocol_type :: string
  ads_storage_io_configuration :: "api_storage_io_configuration option"
  ads_storage_protocol :: "string option"
  ads_total_capacity_gb :: goint
  ads_type :: string
  ads_vendor :: string
  ads_vsan_snapshot_support :: "bool option"

record api_host =
  ah_cpu_cores :: "goint option"
  ah_cpu_sockets :: "goint option"
  ah_id :: "string option"
  ah_memory_mb :: "64 word option"
  ah_model :: string
  ah_storage_vmotion_supported :: "bool option"
  ah_vendor :: string
  ah_vmotion_supported :: "bool option"

record api_network =
  an_dvswitch :: "string option"
  an_name :: string
  an_type :: string
  an_vlan_id :: "string option"
  an_vms_count :: "goint option"

record api_infra =
  aif_clusters_per_datacenter :: "goint list option"
  aif_cpu_over_commitment :: "float64 option"
  aif_datastores :: "api_datastore list option"
  aif_host_power_states :: "goint gomap option"
  aif_hosts :: "api_host list option"
  aif_hosts_per_cluster :: "goint list option"
  aif_memory_over_commitment :: "float64 option"
  aif_networks :: "api_network list option"
  aif_standalone_hosts_detected :: "bool option"
  aif_total_clusters :: "goint option"
  aif_total_datacenters :: "goint option"
  aif_total_hosts :: goint
  aif_vms_per_cluster :: "goint list option"
  aif_vms_per_host_average :: "float64 option"

record api_vcenter =
  avc_id :: string

record api_histogram =
  ahg_data :: "goint list"
  ahg_min_value :: goint
  ahg_step :: goint

record api_vm_resource_breakdown =
  arb_histogram :: "api_histogram option"
  arb_total :: goint
  arb_total_for_migratable :: goint
  arb_total_for_migratable_with_warnings :: goint
  arb_total_for_not_migratable :: goint

record api_disk_size_tier_summary =
  adst_total_size_tb :: float64
  adst_vm_count :: goint

record api_disk_type_summary =
  adty_total_size_tb :: float64
  adty_vm_count :: goint

record api_issues_breakdown =
  aib_advisory :: goint
  aib_critical :: goint
  aib_error :: goint
  aib_information :: goint
  aib_warning :: goint

record api_migration_issue =
  ami_assessment :: string
  ami_count :: goint
  ami_id :: "string option"
  ami_label :: string

record api_os_info =
  aos_count :: goint
  aos_support_tier :: "string option"
  aos_supported :: bool
  aos_upgrade_recommendation :: "string option"

record api_vms =
  avm_complexity_distribution :: "api_disk_size_tier_summary gomap option"
  avm_cpu_cores :: api_vm_resource_breakdown
  avm_disk_complexity_tier :: "api_disk_size_tier_summary gomap option"
  avm_disk_count :: api_vm_resource_breakdown
  avm_disk_gb :: api_vm_resource_breakdown
  avm_disk_size_tier :: "api_disk_size_tier_summary gomap option"
  avm_disk_types :: "api_disk_type_summary gomap option"
  avm_distribution_by_complexity :: "goint gomap option"
  avm_distribution_by_cpu_tier :: "goint gomap option"
  avm_distribution_by_memory_tier :: "goint gomap option"
  avm_distribution_by_nic_count :: "goint gomap option"
  avm_issues_breakdown :: "api_issues_breakdown option"
  avm_migration_warnings :: "api_migration_issue list option"
  avm_nic_count :: "api_vm_resource_breakdown option"
  avm_not_migratable_reasons :: "api_migration_issue list option"
  avm_os :: "goint gomap option"
  avm_os_info :: "api_os_info gomap option"
  avm_power_states :: "goint gomap option"
  avm_ram_gb :: api_vm_resource_breakdown
  avm_total :: goint
  avm_total_migratable :: goint
  avm_total_migratable_with_warnings :: "goint option"
  avm_total_with_fault_tolerance :: "goint option"
  avm_total_with_rdm :: "goint option"
  avm_total_with_shared_disks :: "goint option"

record api_inventory_data =
  adt_cluster_features :: "api_cluster_features option"
  adt_cluster_utilization :: "api_cluster_utilization option"
  adt_infra :: api_infra
  adt_vcenter :: "api_vcenter option"
  adt_vms :: api_vms

record api_inventory =
  ainv_clusters :: "api_inventory_data gomap option"
  ainv_collection_time :: "time option"
  ainv_created_at :: "time option"
  ainv_vcenter :: "api_inventory_data option"
  ainv_vcenter_id :: string
  ainv_vcenter_version :: "string option"


subsection \<open>From the API\<close>

text \<open>A copy of a map, entry by entry.\<close>

definition map_values :: "('a \<Rightarrow> 'b) \<Rightarrow> 'a gomap \<Rightarrow> 'b gomap" where
  "map_values f m = map (\<lambda>(k, v). (k, f v)) m"

definition cluster_features_from_api :: "api_cluster_features \<Rightarrow> cluster_features" where
  "cluster_features_from_api x =
     \<lparr>cf_drs_enabled = acf_drs_enabled x, cf_drs_mode = acf_drs_mode x, cf_ha_enabled = acf_ha_enabled x\<rparr>"

definition cluster_utilization_from_api :: "api_cluster_utilization \<Rightarrow> cluster_utilization" where
  "cluster_utilization_from_api x =
     \<lparr>cu_confidence = acu_confidence x, cu_cpu_avg = acu_cpu_avg x, cu_cpu_max = acu_cpu_max x,
      cu_cpu_p95 = acu_cpu_p95 x, cu_mem_avg = acu_mem_avg x, cu_mem_max = acu_mem_max x,
      cu_mem_p95 = acu_mem_p95 x\<rparr>"

definition storage_io_configuration_from_api :: "api_storage_io_configuration \<Rightarrow> storage_io_configuration" where
  "storage_io_configuration_from_api x =
     \<lparr>sio_congestion_threshold = asio_congestion_threshold x,
      sio_congestion_threshold_mode = asio_congestion_threshold_mode x, sio_enabled = asio_enabled x,
      sio_percent_of_peak_throughput = asio_percent_of_peak_throughput x\<rparr>"

definition datastore_from_api :: "api_datastore \<Rightarrow> datastore" where
  "datastore_from_api x =
     \<lparr>ds_backing_device_ids = ads_backing_device_ids x,
      ds_filesystem_major_version = ads_filesystem_major_version x,
      ds_filesystem_type = ads_filesystem_type x, ds_disk_id = ads_disk_id x,
      ds_free_capacity_gb = ads_free_capacity_gb x,
      ds_hardware_accelerated_move = ads_hardware_accelerated_move x, ds_host_id = ads_host_id x,
      ds_model = ads_model x, ds_protocol_type = ads_protocol_type x,
      ds_storage_io_configuration = map_option storage_io_configuration_from_api (ads_storage_io_configuration x),
      ds_storage_protocol = ads_storage_protocol x, ds_total_capacity_gb = ads_total_capacity_gb x,
      ds_type = ads_type x, ds_vendor = ads_vendor x,
      ds_vsan_snapshot_support = ads_vsan_snapshot_support x\<rparr>"

definition host_from_api :: "api_host \<Rightarrow> host" where
  "host_from_api x =
     \<lparr>h_cpu_cores = ah_cpu_cores x, h_cpu_sockets = ah_cpu_sockets x, h_id = ah_id x,
      h_memory_mb = ah_memory_mb x, h_model = ah_model x,
      h_storage_vmotion_supported = ah_storage_vmotion_supported x, h_vendor = ah_vendor x,
      h_vmotion_supported = ah_vmotion_supported x\<rparr>"

definition network_from_api :: "api_network \<Rightarrow> network" where
  "network_from_api x =
     \<lparr>n_dvswitch = an_dvswitch x, n_name = an_name x, n_type = an_type x, n_vlan_id = an_vlan_id x,
      n_vms_count = an_vms_count x\<rparr>"

definition infra_from_api :: "api_infra \<Rightarrow> infra" where
  "infra_from_api x =
     \<lparr>if_clusters_per_datacenter = aif_clusters_per_datacenter x,
      if_cpu_over_commitment = aif_cpu_over_commitment x,
      if_datastores = map_option (map datastore_from_api) (aif_datastores x),
      if_host_power_states = aif_host_power_states x,
      if_hosts = map_option (map host_from_api) (aif_hosts x), if_hosts_per_cluster = None,
      if_memory_over_commitment = aif_memory_over_commitment x,
      if_networks = map_option (map network_from_api) (aif_networks x),
      if_standalone_hosts_detected = aif_standalone_hosts_detected x, if_total_clusters = None,
      if_total_datacenters = aif_total_datacenters x, if_total_hosts = aif_total_hosts x,
      if_vms_per_cluster = None, if_vms_per_host_average = aif_vms_per_host_average x\<rparr>"

definition vcenter_from_api :: "api_vcenter \<Rightarrow> vcenter" where
  "vcenter_from_api x =
     \<lparr>vc_id = avc_id x\<rparr>"

definition histogram_from_api :: "api_histogram \<Rightarrow> histogram" where
  "histogram_from_api x =
     \<lparr>hg_data = ahg_data x, hg_min_value = ahg_min_value x, hg_step = ahg_step x\<rparr>"

definition vm_resource_breakdown_from_api :: "api_vm_resource_breakdown \<Rightarrow> vm_resource_breakdown" where
  "vm_resource_breakdown_from_api x =
     \<lparr>rb_histogram = map_option histogram_from_api (arb_histogram x), rb_total = arb_total x,
      rb_total_for_migratable = arb_total_for_migratable x,
      rb_total_for_migratable_with_warnings = arb_total_for_migratable_with_warnings x,
      rb_total_for_not_migratable = arb_total_for_not_migratable x\<rparr>"

definition disk_size_tier_summary_from_api :: "api_disk_size_tier_summary \<Rightarrow> disk_size_tier_summary" where
  "disk_size_tier_summary_from_api x =
     \<lparr>dst_total_size_tb = adst_total_size_tb x, dst_vm_count = adst_vm_count x\<rparr>"

definition disk_type_summary_from_api :: "api_disk_type_summary \<Rightarrow> disk_type_summary" where
  "disk_type_summary_from_api x =
     \<lparr>dty_total_size_tb = adty_total_size_tb x, dty_vm_count = adty_vm_count x\<rparr>"

definition issues_breakdown_from_api :: "api_issues_breakdown \<Rightarrow> issues_breakdown" where
  "issues_breakdown_from_api x =
     \<lparr>ib_advisory = aib_advisory x, ib_critical = aib_critical x, ib_error = aib_error x,
      ib_information = aib_information x, ib_warning = aib_warning x\<rparr>"

definition migration_issue_from_api :: "api_migration_issue \<Rightarrow> migration_issue" where
  "migration_issue_from_api x =
     \<lparr>mi_assessment = ami_assessment x, mi_count = ami_count x, mi_id = ami_id x, mi_label = ami_label x\<rparr>"

definition os_info_from_api :: "api_os_info \<Rightarrow> os_info" where
  "os_info_from_api x =
     \<lparr>os_count = aos_count x, os_support_tier = aos_support_tier x, os_supported = aos_supported x,
      os_upgrade_recommendation = aos_upgrade_recommendation x\<rparr>"

definition vms_from_api :: "api_vms \<Rightarrow> vms" where
  "vms_from_api x =
     \<lparr>vm_complexity_distribution = map_option (map_values disk_size_tier_summary_from_api) (avm_complexity_distribution x),
      vm_cpu_cores = vm_resource_breakdown_from_api (avm_cpu_cores x),
      vm_disk_complexity_tier = map_option (map_values disk_size_tier_summary_from_api) (avm_disk_complexity_tier x),
      vm_disk_count = vm_resource_breakdown_from_api (avm_disk_count x),
      vm_disk_gb = vm_resource_breakdown_from_api (avm_disk_gb x),
      vm_disk_size_tier = map_option (map_values disk_size_tier_summary_from_api) (avm_disk_size_tier x),
      vm_disk_types = map_option (map_values disk_type_summary_from_api) (avm_disk_types x),
      vm_distribution_by_complexity = None, vm_distribution_by_cpu_tier = avm_distribution_by_cpu_tier x,
      vm_distribution_by_memory_tier = avm_distribution_by_memory_tier x,
      vm_distribution_by_nic_count = avm_distribution_by_nic_count x,
      vm_issues_breakdown = map_option issues_breakdown_from_api (avm_issues_breakdown x),
      vm_migration_warnings = map_option (map migration_issue_from_api) (avm_migration_warnings x),
      vm_nic_count = map_option vm_resource_breakdown_from_api (avm_nic_count x),
      vm_not_migratable_reasons = map_option (map migration_issue_from_api) (avm_not_migratable_reasons x),
      vm_os = None, vm_os_info = map_option (map_values os_info_from_api) (avm_os_info x),
      vm_power_states = avm_power_states x, vm_ram_gb = vm_resource_breakdown_from_api (avm_ram_gb x),
      vm_total = avm_total x, vm_total_migratable = avm_total_migratable x,
      vm_total_migratable_with_warnings = avm_total_migratable_with_warnings x,
      vm_total_with_fault_tolerance = avm_total_with_fault_tolerance x,
      vm_total_with_rdm = avm_total_with_rdm x, vm_total_with_shared_disks = avm_total_with_shared_disks x\<rparr>"

definition inventory_data_from_api :: "api_inventory_data \<Rightarrow> inventory_data" where
  "inventory_data_from_api x =
     \<lparr>dt_cluster_features = map_option cluster_features_from_api (adt_cluster_features x),
      dt_cluster_utilization = map_option cluster_utilization_from_api (adt_cluster_utilization x),
      dt_infra = infra_from_api (adt_infra x), dt_vcenter = map_option vcenter_from_api (adt_vcenter x),
      dt_vms = vms_from_api (adt_vms x)\<rparr>"



subsection \<open>To the API\<close>

definition cluster_features_to_api :: "cluster_features \<Rightarrow> api_cluster_features" where
  "cluster_features_to_api x =
     \<lparr>acf_drs_enabled = cf_drs_enabled x, acf_drs_mode = cf_drs_mode x, acf_ha_enabled = cf_ha_enabled x\<rparr>"

definition cluster_utilization_to_api :: "cluster_utilization \<Rightarrow> api_cluster_utilization" where
  "cluster_utilization_to_api x =
     \<lparr>acu_confidence = cu_confidence x, acu_cpu_avg = cu_cpu_avg x, acu_cpu_max = cu_cpu_max x,
      acu_cpu_p95 = cu_cpu_p95 x, acu_mem_avg = cu_mem_avg x, acu_mem_max = cu_mem_max x,
      acu_mem_p95 = cu_mem_p95 x\<rparr>"

definition storage_io_configuration_to_api :: "storage_io_configuration \<Rightarrow> api_storage_io_configuration" where
  "storage_io_configuration_to_api x =
     \<lparr>asio_congestion_threshold = sio_congestion_threshold x,
      asio_congestion_threshold_mode = sio_congestion_threshold_mode x, asio_enabled = sio_enabled x,
      asio_percent_of_peak_throughput = sio_percent_of_peak_throughput x\<rparr>"

definition datastore_to_api :: "datastore \<Rightarrow> api_datastore" where
  "datastore_to_api x =
     \<lparr>ads_backing_device_ids = ds_backing_device_ids x,
      ads_filesystem_major_version = ds_filesystem_major_version x,
      ads_filesystem_type = ds_filesystem_type x, ads_disk_id = ds_disk_id x,
      ads_free_capacity_gb = ds_free_capacity_gb x,
      ads_hardware_accelerated_move = ds_hardware_accelerated_move x, ads_host_id = ds_host_id x,
      ads_model = ds_model x, ads_protocol_type = ds_protocol_type x,
      ads_storage_io_configuration = map_option storage_io_configuration_to_api (ds_storage_io_configuration x),
      ads_storage_protocol = ds_storage_protocol x, ads_total_capacity_gb = ds_total_capacity_gb x,
      ads_type = ds_type x, ads_vendor = ds_vendor x,
      ads_vsan_snapshot_support = ds_vsan_snapshot_support x\<rparr>"

definition host_to_api :: "host \<Rightarrow> api_host" where
  "host_to_api x =
     \<lparr>ah_cpu_cores = h_cpu_cores x, ah_cpu_sockets = h_cpu_sockets x, ah_id = h_id x,
      ah_memory_mb = h_memory_mb x, ah_model = h_model x,
      ah_storage_vmotion_supported = h_storage_vmotion_supported x, ah_vendor = h_vendor x,
      ah_vmotion_supported = h_vmotion_supported x\<rparr>"

definition network_to_api :: "network \<Rightarrow> api_network" where
  "network_to_api x =
     \<lparr>an_dvswitch = n_dvswitch x, an_name = n_name x, an_type = n_type x, an_vlan_id = n_vlan_id x,
      an_vms_count = n_vms_count x\<rparr>"

definition infra_to_api :: "infra \<Rightarrow> api_infra" where
  "infra_to_api x =
     \<lparr>aif_clusters_per_datacenter = if_clusters_per_datacenter x,
      aif_cpu_over_commitment = if_cpu_over_commitment x,
      aif_datastores = map_option (map datastore_to_api) (if_datastores x),
      aif_host_power_states = if_host_power_states x,
      aif_hosts = map_option (map host_to_api) (if_hosts x), aif_hosts_per_cluster = None,
      aif_memory_over_commitment = if_memory_over_commitment x,
      aif_networks = map_option (map network_to_api) (if_networks x),
      aif_standalone_hosts_detected = if_standalone_hosts_detected x, aif_total_clusters = None,
      aif_total_datacenters = if_total_datacenters x, aif_total_hosts = if_total_hosts x,
      aif_vms_per_cluster = None, aif_vms_per_host_average = if_vms_per_host_average x\<rparr>"

definition vcenter_to_api :: "vcenter \<Rightarrow> api_vcenter" where
  "vcenter_to_api x =
     \<lparr>avc_id = vc_id x\<rparr>"

definition histogram_to_api :: "histogram \<Rightarrow> api_histogram" where
  "histogram_to_api x =
     \<lparr>ahg_data = hg_data x, ahg_min_value = hg_min_value x, ahg_step = hg_step x\<rparr>"

definition vm_resource_breakdown_to_api :: "vm_resource_breakdown \<Rightarrow> api_vm_resource_breakdown" where
  "vm_resource_breakdown_to_api x =
     \<lparr>arb_histogram = map_option histogram_to_api (rb_histogram x), arb_total = rb_total x,
      arb_total_for_migratable = rb_total_for_migratable x,
      arb_total_for_migratable_with_warnings = rb_total_for_migratable_with_warnings x,
      arb_total_for_not_migratable = rb_total_for_not_migratable x\<rparr>"

definition disk_size_tier_summary_to_api :: "disk_size_tier_summary \<Rightarrow> api_disk_size_tier_summary" where
  "disk_size_tier_summary_to_api x =
     \<lparr>adst_total_size_tb = dst_total_size_tb x, adst_vm_count = dst_vm_count x\<rparr>"

definition disk_type_summary_to_api :: "disk_type_summary \<Rightarrow> api_disk_type_summary" where
  "disk_type_summary_to_api x =
     \<lparr>adty_total_size_tb = dty_total_size_tb x, adty_vm_count = dty_vm_count x\<rparr>"

definition issues_breakdown_to_api :: "issues_breakdown \<Rightarrow> api_issues_breakdown" where
  "issues_breakdown_to_api x =
     \<lparr>aib_advisory = ib_advisory x, aib_critical = ib_critical x, aib_error = ib_error x,
      aib_information = ib_information x, aib_warning = ib_warning x\<rparr>"

definition migration_issue_to_api :: "migration_issue \<Rightarrow> api_migration_issue" where
  "migration_issue_to_api x =
     \<lparr>ami_assessment = mi_assessment x, ami_count = mi_count x, ami_id = mi_id x, ami_label = mi_label x\<rparr>"

definition os_info_to_api :: "os_info \<Rightarrow> api_os_info" where
  "os_info_to_api x =
     \<lparr>aos_count = os_count x, aos_support_tier = os_support_tier x, aos_supported = os_supported x,
      aos_upgrade_recommendation = os_upgrade_recommendation x\<rparr>"

definition vms_to_api :: "vms \<Rightarrow> api_vms" where
  "vms_to_api x =
     \<lparr>avm_complexity_distribution = map_option (map_values disk_size_tier_summary_to_api) (vm_complexity_distribution x),
      avm_cpu_cores = vm_resource_breakdown_to_api (vm_cpu_cores x),
      avm_disk_complexity_tier = map_option (map_values disk_size_tier_summary_to_api) (vm_disk_complexity_tier x),
      avm_disk_count = vm_resource_breakdown_to_api (vm_disk_count x),
      avm_disk_gb = vm_resource_breakdown_to_api (vm_disk_gb x),
      avm_disk_size_tier = map_option (map_values disk_size_tier_summary_to_api) (vm_disk_size_tier x),
      avm_disk_types = map_option (map_values disk_type_summary_to_api) (vm_disk_types x),
      avm_distribution_by_complexity = None, avm_distribution_by_cpu_tier = vm_distribution_by_cpu_tier x,
      avm_distribution_by_memory_tier = vm_distribution_by_memory_tier x,
      avm_distribution_by_nic_count = vm_distribution_by_nic_count x,
      avm_issues_breakdown = map_option issues_breakdown_to_api (vm_issues_breakdown x),
      avm_migration_warnings = map_option (map migration_issue_to_api) (vm_migration_warnings x),
      avm_nic_count = map_option vm_resource_breakdown_to_api (vm_nic_count x),
      avm_not_migratable_reasons = map_option (map migration_issue_to_api) (vm_not_migratable_reasons x),
      avm_os = None, avm_os_info = map_option (map_values os_info_to_api) (vm_os_info x),
      avm_power_states = vm_power_states x, avm_ram_gb = vm_resource_breakdown_to_api (vm_ram_gb x),
      avm_total = vm_total x, avm_total_migratable = vm_total_migratable x,
      avm_total_migratable_with_warnings = vm_total_migratable_with_warnings x,
      avm_total_with_fault_tolerance = vm_total_with_fault_tolerance x,
      avm_total_with_rdm = vm_total_with_rdm x, avm_total_with_shared_disks = vm_total_with_shared_disks x\<rparr>"

definition inventory_data_to_api :: "inventory_data \<Rightarrow> api_inventory_data" where
  "inventory_data_to_api x =
     \<lparr>adt_cluster_features = map_option cluster_features_to_api (dt_cluster_features x),
      adt_cluster_utilization = map_option cluster_utilization_to_api (dt_cluster_utilization x),
      adt_infra = infra_to_api (dt_infra x), adt_vcenter = map_option vcenter_to_api (dt_vcenter x),
      adt_vms = vms_to_api (dt_vms x)\<rparr>"

definition inventory_to_api :: "inventory \<Rightarrow> api_inventory" where
  "inventory_to_api x =
     \<lparr>ainv_clusters = map_option (map_values inventory_data_to_api) (inv_clusters x),
      ainv_collection_time = inv_collection_time x, ainv_created_at = inv_created_at x,
      ainv_vcenter = map_option inventory_data_to_api (inv_vcenter x), ainv_vcenter_id = inv_vcenter_id x,
      ainv_vcenter_version = inv_vcenter_version x\<rparr>"

subsection \<open>Normalisation\<close>

text \<open>A nil slice or map becomes an empty one.\<close>

definition no_nil :: "'a list option \<Rightarrow> 'a list option" where
  "no_nil x = (case x of None \<Rightarrow> Some [] | Some xs \<Rightarrow> Some xs)"

definition normalize_infra :: "api_infra \<Rightarrow> api_infra" where
  "normalize_infra x = x\<lparr>aif_datastores := no_nil (aif_datastores x), aif_networks := no_nil (aif_networks x),
     aif_host_power_states := no_nil (aif_host_power_states x)\<rparr>"

definition normalize_vms :: "api_vms \<Rightarrow> api_vms" where
  "normalize_vms x = x\<lparr>avm_power_states := no_nil (avm_power_states x),
     avm_migration_warnings := no_nil (avm_migration_warnings x),
     avm_not_migratable_reasons := no_nil (avm_not_migratable_reasons x),
     avm_os_info := no_nil (avm_os_info x), avm_disk_size_tier := no_nil (avm_disk_size_tier x),
     avm_disk_types := no_nil (avm_disk_types x),
     avm_distribution_by_cpu_tier := no_nil (avm_distribution_by_cpu_tier x),
     avm_distribution_by_memory_tier := no_nil (avm_distribution_by_memory_tier x),
     avm_distribution_by_nic_count := no_nil (avm_distribution_by_nic_count x),
     avm_distribution_by_complexity := no_nil (avm_distribution_by_complexity x)\<rparr>"

definition normalize_inventory_data :: "api_inventory_data \<Rightarrow> api_inventory_data" where
  "normalize_inventory_data x = x\<lparr>adt_infra := normalize_infra (adt_infra x), adt_vms := normalize_vms (adt_vms x)\<rparr>"

definition normalize_inventory :: "api_inventory \<Rightarrow> api_inventory" where
  "normalize_inventory x = x\<lparr>
     ainv_clusters := map_option (map_values normalize_inventory_data) (no_nil (ainv_clusters x)),
     ainv_vcenter := map_option normalize_inventory_data (ainv_vcenter x)\<rparr>"

definition normalize_domain_inventory :: "inventory \<Rightarrow> api_inventory" where
  "normalize_domain_inventory v = normalize_inventory (inventory_to_api v)"

subsection \<open>Nothing is lost but five fields\<close>

lemma map_values_compose [simp]: "map_values f (map_values g m) = map_values (f \<circ> g) m"
  by (simp add: map_values_def split_def)

lemma map_values_identity [simp]: "map_values id m = m" "map_values (\<lambda>x. x) m = m"
  by (simp_all add: map_values_def)

named_theorems api_round_trips

lemma cluster_features_round_trip [api_round_trips]:
  "cluster_features_from_api (cluster_features_to_api v) = v" "cluster_features_to_api (cluster_features_from_api a) = a"
  by (simp_all add: cluster_features_from_api_def cluster_features_to_api_def option.map_comp option.map_ident comp_def api_round_trips)

lemma cluster_utilization_round_trip [api_round_trips]:
  "cluster_utilization_from_api (cluster_utilization_to_api v) = v" "cluster_utilization_to_api (cluster_utilization_from_api a) = a"
  by (simp_all add: cluster_utilization_from_api_def cluster_utilization_to_api_def option.map_comp option.map_ident comp_def api_round_trips)

lemma storage_io_configuration_round_trip [api_round_trips]:
  "storage_io_configuration_from_api (storage_io_configuration_to_api v) = v" "storage_io_configuration_to_api (storage_io_configuration_from_api a) = a"
  by (simp_all add: storage_io_configuration_from_api_def storage_io_configuration_to_api_def option.map_comp option.map_ident comp_def api_round_trips)

lemma datastore_round_trip [api_round_trips]:
  "datastore_from_api (datastore_to_api v) = v" "datastore_to_api (datastore_from_api a) = a"
  by (simp_all add: datastore_from_api_def datastore_to_api_def option.map_comp option.map_ident comp_def api_round_trips)

lemma host_round_trip [api_round_trips]:
  "host_from_api (host_to_api v) = v" "host_to_api (host_from_api a) = a"
  by (simp_all add: host_from_api_def host_to_api_def option.map_comp option.map_ident comp_def api_round_trips)

lemma network_round_trip [api_round_trips]:
  "network_from_api (network_to_api v) = v" "network_to_api (network_from_api a) = a"
  by (simp_all add: network_from_api_def network_to_api_def option.map_comp option.map_ident comp_def api_round_trips)

lemma vcenter_round_trip [api_round_trips]:
  "vcenter_from_api (vcenter_to_api v) = v" "vcenter_to_api (vcenter_from_api a) = a"
  by (simp_all add: vcenter_from_api_def vcenter_to_api_def option.map_comp option.map_ident comp_def api_round_trips)

lemma histogram_round_trip [api_round_trips]:
  "histogram_from_api (histogram_to_api v) = v" "histogram_to_api (histogram_from_api a) = a"
  by (simp_all add: histogram_from_api_def histogram_to_api_def option.map_comp option.map_ident comp_def api_round_trips)

lemma vm_resource_breakdown_round_trip [api_round_trips]:
  "vm_resource_breakdown_from_api (vm_resource_breakdown_to_api v) = v" "vm_resource_breakdown_to_api (vm_resource_breakdown_from_api a) = a"
  by (simp_all add: vm_resource_breakdown_from_api_def vm_resource_breakdown_to_api_def option.map_comp option.map_ident comp_def api_round_trips)

lemma disk_size_tier_summary_round_trip [api_round_trips]:
  "disk_size_tier_summary_from_api (disk_size_tier_summary_to_api v) = v" "disk_size_tier_summary_to_api (disk_size_tier_summary_from_api a) = a"
  by (simp_all add: disk_size_tier_summary_from_api_def disk_size_tier_summary_to_api_def option.map_comp option.map_ident comp_def api_round_trips)

lemma disk_type_summary_round_trip [api_round_trips]:
  "disk_type_summary_from_api (disk_type_summary_to_api v) = v" "disk_type_summary_to_api (disk_type_summary_from_api a) = a"
  by (simp_all add: disk_type_summary_from_api_def disk_type_summary_to_api_def option.map_comp option.map_ident comp_def api_round_trips)

lemma issues_breakdown_round_trip [api_round_trips]:
  "issues_breakdown_from_api (issues_breakdown_to_api v) = v" "issues_breakdown_to_api (issues_breakdown_from_api a) = a"
  by (simp_all add: issues_breakdown_from_api_def issues_breakdown_to_api_def option.map_comp option.map_ident comp_def api_round_trips)

lemma migration_issue_round_trip [api_round_trips]:
  "migration_issue_from_api (migration_issue_to_api v) = v" "migration_issue_to_api (migration_issue_from_api a) = a"
  by (simp_all add: migration_issue_from_api_def migration_issue_to_api_def option.map_comp option.map_ident comp_def api_round_trips)

lemma os_info_round_trip [api_round_trips]:
  "os_info_from_api (os_info_to_api v) = v" "os_info_to_api (os_info_from_api a) = a"
  by (simp_all add: os_info_from_api_def os_info_to_api_def option.map_comp option.map_ident comp_def api_round_trips)

definition without_deprecated_infra :: "infra \<Rightarrow> infra" where
  "without_deprecated_infra v =
     v\<lparr>if_hosts_per_cluster := None, if_total_clusters := None, if_vms_per_cluster := None\<rparr>"

definition without_deprecated_vms :: "vms \<Rightarrow> vms" where
  "without_deprecated_vms v = v\<lparr>vm_distribution_by_complexity := None, vm_os := None\<rparr>"

definition without_deprecated_data :: "inventory_data \<Rightarrow> inventory_data" where
  "without_deprecated_data v = v\<lparr>dt_infra := without_deprecated_infra (dt_infra v),
     dt_vms := without_deprecated_vms (dt_vms v)\<rparr>"


lemma infra_round_trip [api_round_trips]: "infra_from_api (infra_to_api v) = without_deprecated_infra v"
  by (simp add: infra_from_api_def infra_to_api_def without_deprecated_infra_def option.map_comp
      option.map_ident comp_def api_round_trips)

lemma vms_round_trip [api_round_trips]: "vms_from_api (vms_to_api v) = without_deprecated_vms v"
  by (simp add: vms_from_api_def vms_to_api_def without_deprecated_vms_def option.map_comp
      option.map_ident comp_def api_round_trips)

lemma inventory_data_round_trip [api_round_trips]:
  "inventory_data_from_api (inventory_data_to_api v) = without_deprecated_data v"
  by (simp add: inventory_data_from_api_def inventory_data_to_api_def without_deprecated_data_def
      option.map_comp option.map_ident comp_def api_round_trips)

text \<open>The same for an inventory of the API.\<close>

definition api_without_deprecated_infra :: "api_infra \<Rightarrow> api_infra" where
  "api_without_deprecated_infra v =
     v\<lparr>aif_hosts_per_cluster := None, aif_total_clusters := None, aif_vms_per_cluster := None\<rparr>"

definition api_without_deprecated_vms :: "api_vms \<Rightarrow> api_vms" where
  "api_without_deprecated_vms v = v\<lparr>avm_distribution_by_complexity := None, avm_os := None\<rparr>"

definition api_without_deprecated_data :: "api_inventory_data \<Rightarrow> api_inventory_data" where
  "api_without_deprecated_data v = v\<lparr>adt_infra := api_without_deprecated_infra (adt_infra v),
     adt_vms := api_without_deprecated_vms (adt_vms v)\<rparr>"


lemma api_infra_round_trip [api_round_trips]: "infra_to_api (infra_from_api a) = api_without_deprecated_infra a"
  by (simp add: infra_from_api_def infra_to_api_def api_without_deprecated_infra_def option.map_comp
      option.map_ident comp_def api_round_trips)

lemma api_vms_round_trip [api_round_trips]: "vms_to_api (vms_from_api a) = api_without_deprecated_vms a"
  by (simp add: vms_from_api_def vms_to_api_def api_without_deprecated_vms_def option.map_comp
      option.map_ident comp_def api_round_trips)

lemma api_inventory_data_round_trip [api_round_trips]:
  "inventory_data_to_api (inventory_data_from_api a) = api_without_deprecated_data a"
  by (simp add: inventory_data_from_api_def inventory_data_to_api_def api_without_deprecated_data_def
      option.map_comp option.map_ident comp_def api_round_trips)


subsection \<open>Normalised inventories\<close>

text \<open>No collection of a reply is null.\<close>

definition infra_complete :: "api_infra \<Rightarrow> bool" where
  "infra_complete x \<longleftrightarrow> aif_host_power_states x \<noteq> None \<and> aif_datastores x \<noteq> None \<and> aif_networks x \<noteq> None"

definition vms_complete :: "api_vms \<Rightarrow> bool" where
  "vms_complete x \<longleftrightarrow> avm_power_states x \<noteq> None \<and> avm_migration_warnings x \<noteq> None \<and>
     avm_not_migratable_reasons x \<noteq> None \<and> avm_os_info x \<noteq> None \<and> avm_disk_size_tier x \<noteq> None \<and>
     avm_disk_types x \<noteq> None \<and>
     avm_distribution_by_cpu_tier x \<noteq> None \<and> avm_distribution_by_memory_tier x \<noteq> None \<and>
     avm_distribution_by_nic_count x \<noteq> None \<and> avm_distribution_by_complexity x \<noteq> None"

definition data_complete :: "api_inventory_data \<Rightarrow> bool" where
  "data_complete x \<longleftrightarrow> infra_complete (adt_infra x) \<and> vms_complete (adt_vms x)"

definition inventory_complete :: "api_inventory \<Rightarrow> bool" where
  "inventory_complete x \<longleftrightarrow> ainv_clusters x \<noteq> None \<and>
     pred_option (list_all (data_complete \<circ> snd)) (ainv_clusters x) \<and>
     pred_option data_complete (ainv_vcenter x)"

lemma no_nil_simps [simp]: "no_nil x \<noteq> None" "no_nil (no_nil x) = no_nil x"
    "x \<noteq> None \<Longrightarrow> no_nil x = x" "no_nil (Some xs) = Some xs"
  by (auto simp: no_nil_def split: option.splits)

lemma normalized_data_complete [simp]: "data_complete (normalize_inventory_data x)"
  by (simp add: data_complete_def normalize_inventory_data_def infra_complete_def normalize_infra_def
      vms_complete_def normalize_vms_def)

lemma normalized_inventory_complete [simp]: "inventory_complete (normalize_inventory x)"
  by (cases "no_nil (ainv_clusters x)"; cases "ainv_vcenter x")
     (auto simp: inventory_complete_def normalize_inventory_def map_values_def list_all_iff)

lemma complete_data_normal: "data_complete x \<Longrightarrow> normalize_inventory_data x = x"
  by (auto simp: data_complete_def normalize_inventory_data_def infra_complete_def normalize_infra_def
      vms_complete_def normalize_vms_def)

lemma normalize_domain_vcenter [simp]: "ainv_vcenter (normalize_domain_inventory v) =
    map_option (\<lambda>d. normalize_inventory_data (inventory_data_to_api d)) (inv_vcenter v)"
  by (simp add: normalize_domain_inventory_def normalize_inventory_def inventory_to_api_def option.map_comp comp_def)

lemma domain_complexity_dropped [simp]:
  "avm_distribution_by_complexity (adt_vms (normalize_inventory_data (inventory_data_to_api d))) = Some []"
  by (simp add: normalize_inventory_data_def normalize_vms_def inventory_data_to_api_def vms_to_api_def no_nil_def)

lemma domain_inventory_complete [simp]: "inventory_complete (normalize_domain_inventory v)"
  by (simp add: normalize_domain_inventory_def)


end
