(* ===== verification/InventoryBundle.thy ===== *)
theory InventoryBundle
  imports SourceService Complexity ApiInventory
begin

text \<open>
  Uploaded inventory files: reading the form (\<open>readUploadedInventoryFile\<close> in
  \<open>internal/handlers/v1alpha1/source.go\<close>) and the bundle (\<open>internal/inventorybundle/parse.go\<close>). The
  multipart reader, the archive reader and the JSON codec of the generated API types are arguments.
\<close>

subsection \<open>Decoding\<close>

record subset_update =
  sbu_name :: string
  sbu_vcenter_id :: "string option"
  sbu_vms_count :: "goint option"
  sbu_inventory :: api_inventory

text \<open>
  \<open>json.Unmarshal\<close> and \<open>json.Marshal\<close> at the types of the API, and the probes for \<open>agentId\<close> and
  \<open>inventory\<close> (nothing if the text does not decode or the field is empty).
\<close>

record api_codec =
  ac_decode :: "string \<Rightarrow> error + api_inventory"
  ac_decode_data :: "string \<Rightarrow> error + api_inventory_data"
  ac_encode :: "api_inventory \<Rightarrow> error + string"
  ac_decode_subset :: "string \<Rightarrow> error + subset_update"
  ac_probe_agent :: "string \<Rightarrow> uuid option"
  ac_probe_inventory :: "string \<Rightarrow> string option"

subsection \<open>Reading the form\<close>

definition max_file_size :: nat where "max_file_size = 50 * 2 ^ 20"

datatype read_error = MaxBytesError | ReadError string

text \<open>A part: its name, its bytes, and the error after them, if any.\<close>

record form_part =
  fp_name :: string
  fp_content :: string
  fp_error :: "read_error option"

datatype next_part = EndOfForm | NextFailed read_error | NextPart form_part

text \<open>\<open>io.ReadAll(io.LimitReader(r, n))\<close>: an error past the limit is not met.\<close>

definition read_limited :: "nat \<Rightarrow> string \<Rightarrow> 'e option \<Rightarrow> 'e + string" where
  "read_limited n content e =
     (if n \<le> length content then Inr (take n content)
      else case e of None \<Rightarrow> Inr content | Some x \<Rightarrow> Inl x)"

definition too_large :: error where
  "too_large = OtherError (''file exceeds maximum upload size of %d MiB'', [''50''])"

definition form_error :: "string \<Rightarrow> read_error \<Rightarrow> error" where
  "form_error s e = (case e of MaxBytesError \<Rightarrow> too_large
     | ReadError m \<Rightarrow> Wrapf (''failed to '' @ s @ '': %w'', []) (OtherError (m, [])))"

text \<open>The reader gives the parts one by one; a reader that never ends is read for ever.\<close>

partial_function (option) read_parts ::
    "(nat \<Rightarrow> next_part) \<Rightarrow> nat \<Rightarrow> string \<Rightarrow> (error + string) option" where
  "read_parts r n file = (case r n of
     EndOfForm \<Rightarrow> Some (if file = [] then Inl (OtherError (''file is required'', [])) else Inr file)
   | NextFailed e \<Rightarrow> Some (Inl (form_error ''parse form'' e))
   | NextPart p \<Rightarrow>
       if fp_name p \<noteq> ''file'' then read_parts r (Suc n) file
       else (case read_limited (Suc max_file_size) (fp_content p) (fp_error p) of
         Inl e \<Rightarrow> Some (Inl (form_error ''read file'' e))
       | Inr bytes \<Rightarrow> if length bytes > max_file_size then Some (Inl too_large)
                      else read_parts r (Suc n) bytes))"

definition read_uploaded_inventory_file :: "(nat \<Rightarrow> next_part) \<Rightarrow> (error + string) option" where
  "read_uploaded_inventory_file r = read_parts r 0 []"

subsection \<open>The archive\<close>

record zip_entry =
  ze_name :: string
  ze_is_dir :: bool
  ze_uncompressed_size :: nat
  ze_open_error :: "string option"
  ze_content :: string
  ze_read_error :: "string option"

type_synonym zip_reader = "string \<Rightarrow> string + zip_entry list"

record bundle_subset =
  bs_id :: uuid
  bs_name :: string
  bs_vcenter_id :: string
  bs_vms_count :: goint
  bs_inventory :: string

record parsed_bundle =
  pb_main_inventory :: string
  pb_vcenter_id :: string
  pb_agent_id :: "uuid option"
  pb_subsets :: "bundle_subset list"

definition max_zip_entries :: nat where "max_zip_entries = 512"
definition max_decompressed_total :: nat where "max_decompressed_total = 4 * max_file_size"

definition is_zip :: "string \<Rightarrow> bool" where
  "is_zip d \<longleftrightarrow> length d \<ge> 4 \<and> take 4 d = [CHR ''P'', CHR ''K'', CHR 0x03, CHR 0x04]"

text \<open>The elements of a path, and \<open>path.Clean\<close> of a path that is not absolute.\<close>

fun path_elements :: "string \<Rightarrow> string list" where
  "path_elements [] = [[]]"
| "path_elements (c # cs) = (if c = CHR ''/'' then [] # path_elements cs
     else case path_elements cs of [] \<Rightarrow> [[c]] | e # es \<Rightarrow> (c # e) # es)"

fun clean_elements :: "string list \<Rightarrow> string list \<Rightarrow> string list" where
  "clean_elements acc [] = rev acc"
| "clean_elements acc (e # es) =
     (if e = [] \<or> e = ''.'' then clean_elements acc es
      else if e = ''..'' \<and> acc \<noteq> [] \<and> hd acc \<noteq> ''..'' then clean_elements (tl acc) es
      else clean_elements (e # acc) es)"

fun join_path :: "string list \<Rightarrow> string" where
  "join_path [] = []"
| "join_path [e] = e"
| "join_path (e # es) = e @ ''/'' @ join_path es"

definition path_clean :: "string \<Rightarrow> string" where
  "path_clean p = (let c = join_path (clean_elements [] (path_elements p)) in if c = [] then ''.'' else c)"

definition ends_with :: "string \<Rightarrow> string \<Rightarrow> bool" where
  "ends_with suf s = starts_with (rev s) (rev suf)"

definition illegal_path :: "string \<Rightarrow> error" where
  "illegal_path n = OtherError (''zip archive contains illegal path: %q'', [n])"

definition zip_entry_name :: "string \<Rightarrow> error + string" where
  "zip_entry_name raw =
     (let name = map (\<lambda>c. if c = CHR 0x5C then CHR ''/'' else c) raw in
      if name = [] \<or> contains name ''..'' \<or> starts_with name ''/'' then Inl (illegal_path name)
      else let cleaned = path_clean name in
        if cleaned = ''.'' \<or> cleaned = ''..'' \<or> contains cleaned ''..'' \<or> starts_with cleaned ''/''
        then Inl (illegal_path name)
        else Inr cleaned)"

definition subset_base_name :: "string \<Rightarrow> string" where
  "subset_base_name name =
     (let s = (if starts_with name ''subsets/'' then drop 8 name else name)
      in if ends_with ''.json'' s then take (length s - 5) s else s)"

definition subset_id_from_name :: "env \<Rightarrow> string \<Rightarrow> error + uuid" where
  "subset_id_from_name E name = (case uuid_parse E (subset_base_name name) of
     None \<Rightarrow> Inl (OtherError (''subset filename %q must be subsets/<uuid>.json'', [name]))
   | Some i \<Rightarrow> Inr i)"

definition subset_from_update :: "api_codec \<Rightarrow> uuid \<Rightarrow> subset_update \<Rightarrow> error + bundle_subset" where
  "subset_from_update C i u = (case ac_encode C (sbu_inventory u) of
     Inl e \<Rightarrow> Inl (Wrapf (''failed to encode subset inventory: %w'', []) e)
   | Inr bytes \<Rightarrow> Inr \<lparr>bs_id = i, bs_name = sbu_name u,
       bs_vcenter_id = (case sbu_vcenter_id u of None \<Rightarrow> [] | Some v \<Rightarrow> v),
       bs_vms_count = (case sbu_vms_count u of None \<Rightarrow> 0 | Some n \<Rightarrow> n), bs_inventory = bytes\<rparr>)"

subsection \<open>Reading the entries\<close>

definition entry_too_large :: "string \<Rightarrow> error" where
  "entry_too_large n = OtherError (''zip entry %q exceeds maximum size of %d MiB'', [n, ''50''])"

definition archive_too_large :: error where
  "archive_too_large = OtherError (''zip archive exceeds maximum decompressed size of %d MiB'', [''200''])"

definition check_decompressed_size :: "string \<Rightarrow> nat \<Rightarrow> nat \<Rightarrow> error option" where
  "check_decompressed_size name uncompressed total' =
     (if uncompressed > max_file_size then Some (entry_too_large name)
      else if total' + uncompressed > max_decompressed_total then Some archive_too_large
      else None)"

text \<open>The content, and the bytes read so far.\<close>

definition read_zip_entry :: "zip_entry \<Rightarrow> nat \<Rightarrow> error + string \<times> nat" where
  "read_zip_entry f total' = (case check_decompressed_size (ze_name f) (ze_uncompressed_size f) total' of
     Some e \<Rightarrow> Inl e
   | None \<Rightarrow> (case ze_open_error f of
       Some m \<Rightarrow> Inl (Wrapf (''failed to open zip entry %q: %w'', [ze_name f]) (OtherError (m, [])))
     | None \<Rightarrow> (case read_limited (Suc max_file_size) (ze_content f) (ze_read_error f) of
         Inl m \<Rightarrow> Inl (Wrapf (''failed to read zip entry %q: %w'', [ze_name f]) (OtherError (m, [])))
       | Inr content \<Rightarrow>
           if length content > max_file_size then Inl (entry_too_large (ze_name f))
           else if total' + length content > max_decompressed_total then Inl archive_too_large
           else Inr (content, total' + length content))))"

record zip_state =
  zs_total :: nat
  zs_main :: "string option"
  zs_subsets :: "bundle_subset list"

definition is_subset_name :: "string \<Rightarrow> bool" where
  "is_subset_name n \<longleftrightarrow> starts_with n ''subsets/'' \<and> ends_with ''.json'' n"

definition parse_subset ::
    "env \<Rightarrow> api_codec \<Rightarrow> string \<Rightarrow> string \<Rightarrow> bundle_subset list \<Rightarrow> error + bundle_subset" where
  "parse_subset E C name content seen = (case subset_id_from_name E name of
     Inl e \<Rightarrow> Inl e
   | Inr i \<Rightarrow>
       if i \<in> bs_id ` set seen then Inl (OtherError (''zip archive contains duplicate subset %s'', [uuid_str E i]))
       else (case ac_decode_subset C content of
         Inl e \<Rightarrow> Inl (Wrapf (''invalid subset inventory %q: %w'', [name]) e)
       | Inr u \<Rightarrow> (case subset_from_update C i u of
           Inl e \<Rightarrow> Inl (Wrapf (''invalid subset inventory %q: %w'', [name]) e)
         | Inr s \<Rightarrow> Inr s)))"

definition parse_entry :: "env \<Rightarrow> api_codec \<Rightarrow> zip_entry \<Rightarrow> zip_state \<Rightarrow> error + zip_state" where
  "parse_entry E C f st = (case zip_entry_name (ze_name f) of
     Inl e \<Rightarrow> Inl e
   | Inr name \<Rightarrow>
       if ze_is_dir f then Inr st
       else if name \<noteq> ''inventory.json'' \<and> \<not> is_subset_name name then Inr st
       else (case read_zip_entry f (zs_total st) of
         Inl e \<Rightarrow> Inl e
       | Inr (content, total') \<Rightarrow>
           if name = ''inventory.json''
           then (if zs_main st \<noteq> None
                 then Inl (OtherError (''zip archive contains more than one inventory.json'', []))
                 else Inr (st\<lparr>zs_total := total', zs_main := Some content\<rparr>))
           else (case parse_subset E C name content (zs_subsets st) of
             Inl e \<Rightarrow> Inl e
           | Inr s \<Rightarrow> Inr (st\<lparr>zs_total := total', zs_subsets := zs_subsets st @ [s]\<rparr>))))"

fun parse_entries :: "env \<Rightarrow> api_codec \<Rightarrow> zip_entry list \<Rightarrow> zip_state \<Rightarrow> error + zip_state" where
  "parse_entries E C [] st = Inr st"
| "parse_entries E C (f # fs) st = (case parse_entry E C f st of
     Inl e \<Rightarrow> Inl e | Inr st' \<Rightarrow> parse_entries E C fs st')"

subsection \<open>The main inventory\<close>

definition main_inventory_bytes :: "api_codec \<Rightarrow> string \<Rightarrow> string" where
  "main_inventory_bytes C d = (case ac_probe_inventory C d of
     None \<Rightarrow> d
   | Some inner \<Rightarrow> (case ac_probe_inventory C inner of None \<Rightarrow> inner | Some nested \<Rightarrow> nested))"

text \<open>The clock is read only if the inventory has no time.\<close>

definition stamped :: "env \<Rightarrow> api_inventory \<Rightarrow> api_inventory go" where
  "stamped E i = (if ainv_created_at i = None
     then bind (time_now E) (\<lambda>now. ret (i\<lparr>ainv_created_at := Some now\<rparr>)) else ret i)"

definition normalize_main_inventory :: "env \<Rightarrow> api_codec \<Rightarrow> string \<Rightarrow> (string \<times> string) go" where
  "normalize_main_inventory E C d =
     (let bytes = main_inventory_bytes C d in
      if get_inventory_version E bytes \<noteq> 2 then raise (OtherError (''only v2 inventories are supported'', []))
      else case ac_decode C bytes of
        Inl e \<Rightarrow> raise (Wrapf (''invalid inventory JSON: %w'', []) e)
      | Inr i \<Rightarrow> bind (stamped E i) (\<lambda>i.
          case ac_encode C i of
            Inl e \<Rightarrow> raise (Wrapf (''failed to re-encode inventory: %w'', []) e)
          | Inr out \<Rightarrow> ret (out, ainv_vcenter_id i)))"

definition parsed_with :: "env \<Rightarrow> api_codec \<Rightarrow> string \<Rightarrow> bundle_subset list \<Rightarrow> parsed_bundle go" where
  "parsed_with E C raw subsets =
     bind (normalize_main_inventory E C raw) (\<lambda>(main, vcenter).
     ret \<lparr>pb_main_inventory = main, pb_vcenter_id = vcenter, pb_agent_id = ac_probe_agent C raw,
          pb_subsets = subsets\<rparr>)"

definition parse_json :: "env \<Rightarrow> api_codec \<Rightarrow> string \<Rightarrow> parsed_bundle go" where
  "parse_json E C d = parsed_with E C d []"

definition parse_zip :: "env \<Rightarrow> api_codec \<Rightarrow> zip_reader \<Rightarrow> string \<Rightarrow> parsed_bundle go" where
  "parse_zip E C Z d = (case Z d of
     Inl m \<Rightarrow> raise (Wrapf (''invalid zip archive: %w'', []) (OtherError (m, [])))
   | Inr files \<Rightarrow>
       if length files > max_zip_entries
       then raise (OtherError (''zip archive has too many entries (max %d)'', [''512'']))
       else (case parse_entries E C files \<lparr>zs_total = 0, zs_main = None, zs_subsets = []\<rparr> of
         Inl e \<Rightarrow> raise e
       | Inr st \<Rightarrow> (case zs_main st of
           None \<Rightarrow> raise (OtherError (''zip archive is missing inventory.json'', []))
         | Some raw \<Rightarrow> parsed_with E C raw (zs_subsets st))))"

definition parse_bundle :: "env \<Rightarrow> api_codec \<Rightarrow> zip_reader \<Rightarrow> string \<Rightarrow> parsed_bundle go" where
  "parse_bundle E C Z d =
     (if d = [] then raise (OtherError (''file is required'', []))
      else if is_zip d then parse_zip E C Z d
      else parse_json E C d)"

end
