(* ===== verification/ApiAccounts.thy ===== *)
theory ApiAccounts
  imports AuthzPartner
begin

text \<open>
  The HTTP handlers of accounts and partners (\<open>internal/handlers/v1alpha1/accounts.go\<close>,
  \<open>partner.go\<close>) with their mappers. A handler runs a request of the authorised services and answers
  with a status and a body; the message of an error reply is kept as an error value. The generated types of the
  API are the records the mappers fill. Decoding of requests and encoding of replies is generated code.
\<close>

subsection \<open>Replies\<close>

datatype 'a reply = Reply nat 'a | Refused nat error

type_synonym 'a handler = "world \<Rightarrow> 'a reply \<times> world"

fun status :: "'a reply \<Rightarrow> nat" where
  "status (Reply s a) = s"
| "status (Refused s e) = s"

definition answer :: "nat \<Rightarrow> 'a \<Rightarrow> 'a handler" where
  "answer s a w = (Reply s a, w)"

definition refuse :: "nat \<Rightarrow> error \<Rightarrow> 'a handler" where
  "refuse s e w = (Refused s e, w)"

text \<open>\<open>if err != nil { switch err.(type) \<dots> }\<close>\<close>

definition on_result :: "'a go \<Rightarrow> (error \<Rightarrow> 'b reply) \<Rightarrow> ('a \<Rightarrow> 'b handler) \<Rightarrow> 'b handler" where
  "on_result m h k w = (case m w of (Inl e, w') \<Rightarrow> (h e, w') | (Inr a, w') \<Rightarrow> k a w')"

definition message :: "string \<Rightarrow> error" where
  "message s = OtherError (s, [])"

definition failed_to :: "string \<Rightarrow> error \<Rightarrow> error" where
  "failed_to s e = Wrapf (''failed to '' @ s @ '': %v'', []) e"

abbreviation no_permission :: error where
  "no_permission \<equiv> message ''you do not have permission to perform this action''"

subsection \<open>Accounts: forms and bodies\<close>

record group_create =
  gc_name :: string
  gc_description :: string
  gc_kind :: string
  gc_icon :: string
  gc_company :: string

record group_update =
  gu_name :: "string option"
  gu_description :: "string option"
  gu_icon :: "string option"
  gu_company :: "string option"

record api_group =
  apg_id :: uuid
  apg_name :: string
  apg_kind :: string
  apg_icon :: string
  apg_company :: string
  apg_created_at :: time
  apg_description :: "string option"
  apg_updated_at :: time

record api_member =
  apm_username :: string
  apm_email :: string
  apm_group_id :: uuid
  apm_created_at :: time
  apm_updated_at :: "time option"

record group_list_params =
  gp_kind :: "string option"
  gp_name :: "string option"
  gp_company :: "string option"

definition group_create_to_model :: "env \<Rightarrow> group_create \<Rightarrow> group go" where
  "group_create_to_model E f = bind (uuid_new E) (\<lambda>i. ret
     \<lparr>g_id = i, g_created_at = zero_time, g_updated_at = None, g_name = gc_name f,
      g_description = gc_description f, g_kind = gc_kind f, g_icon = gc_icon f, g_company = gc_company f,
      g_parent_id = None\<rparr>)"

definition given_or :: "'a option \<Rightarrow> 'a \<Rightarrow> 'a" where
  "given_or new old = (case new of None \<Rightarrow> old | Some x \<Rightarrow> x)"

definition group_update_to_model :: "group_update \<Rightarrow> group \<Rightarrow> group" where
  "group_update_to_model f g = g\<lparr>g_name := given_or (gu_name f) (g_name g),
     g_description := given_or (gu_description f) (g_description g),
     g_icon := given_or (gu_icon f) (g_icon g), g_company := given_or (gu_company f) (g_company g)\<rparr>"

definition member_create_to_model :: "string \<Rightarrow> string \<Rightarrow> uuid \<Rightarrow> member" where
  "member_create_to_model username email gid = \<lparr>m_id = nil_uuid, m_created_at = zero_time,
     m_updated_at = None, m_username = username, m_email = email, m_group_id = gid, m_org_id = []\<rparr>"

definition member_update_to_model :: "string option \<Rightarrow> member \<Rightarrow> member" where
  "member_update_to_model email m = m\<lparr>m_email := given_or email (m_email m)\<rparr>"

definition group_to_api :: "group \<Rightarrow> api_group" where
  "group_to_api g = \<lparr>apg_id = g_id g, apg_name = g_name g, apg_kind = g_kind g, apg_icon = g_icon g,
     apg_company = g_company g, apg_created_at = g_created_at g, apg_description = Some (g_description g),
     apg_updated_at = given_or (g_updated_at g) zero_time\<rparr>"

definition group_list_to_api :: "(group \<times> member list) list \<Rightarrow> api_group list" where
  "group_list_to_api gs = map (group_to_api \<circ> fst) gs"

definition member_to_api :: "member \<Rightarrow> api_member" where
  "member_to_api m = \<lparr>apm_username = m_username m, apm_email = m_email m, apm_group_id = m_group_id m,
     apm_created_at = m_created_at m, apm_updated_at = m_updated_at m\<rparr>"

definition member_list_to_api :: "(member \<times> group option) list \<Rightarrow> api_member list" where
  "member_list_to_api ms = map (member_to_api \<circ> fst) ms"

definition identity_to_api :: "identity \<Rightarrow> identity" where
  "identity_to_api i = \<lparr>id_username = id_username i, id_kind = id_kind i, id_group_id = id_group_id i,
     id_partner_id = id_partner_id i\<rparr>"

subsection \<open>Accounts: handlers\<close>

definition handle_get_identity :: "env \<Rightarrow> user \<Rightarrow> identity handler" where
  "handle_get_identity E u = on_result (authz_get_identity E (request_context u) (u_username u))
     (\<lambda>e. Refused 500 (failed_to ''get identity'' e)) (\<lambda>i. answer 200 (identity_to_api i))"

definition group_filter :: "group_list_params \<Rightarrow> group query_filter" where
  "group_filter p =
     (let f = (case gp_kind p of None \<Rightarrow> new_query_filter | Some k \<Rightarrow> group_by_kind k new_query_filter);
          f = (case gp_name p of None \<Rightarrow> f | Some n \<Rightarrow> group_by_name n f)
      in case gp_company p of None \<Rightarrow> f | Some c \<Rightarrow> group_by_company c f)"

definition handle_list_groups :: "env \<Rightarrow> user \<Rightarrow> group_list_params \<Rightarrow> api_group list handler" where
  "handle_list_groups E u p = on_result (authz_list_groups E (request_context u) (Some (group_filter p)))
     (\<lambda>e. case e of ErrForbidden m \<Rightarrow> Refused 403 no_permission | _ \<Rightarrow> Refused 500 (failed_to ''list groups'' e))
     (\<lambda>gs. answer 200 (group_list_to_api gs))"

definition handle_create_group :: "env \<Rightarrow> user \<Rightarrow> group_create option \<Rightarrow> api_group handler" where
  "handle_create_group E u body = (case body of
     None \<Rightarrow> refuse 400 (message ''empty body'')
   | Some f \<Rightarrow>
       if blank (gc_name f) then refuse 400 (message ''name cannot be empty'')
       else if blank (gc_company f) then refuse 400 (message ''company cannot be empty'')
       else on_result (bind (group_create_to_model E f) (authz_create_group E (request_context u)))
         (\<lambda>e. case e of ErrForbidden m \<Rightarrow> Refused 403 no_permission
            | ErrDuplicateKey m \<Rightarrow> Refused 400 (message ''group already exists'')
            | _ \<Rightarrow> Refused 500 (failed_to ''create group'' e))
         (\<lambda>g. answer 201 (group_to_api g)))"

definition group_lookup_failed :: "error \<Rightarrow> 'a reply" where
  "group_lookup_failed e = (case e of ErrForbidden m \<Rightarrow> Refused 403 no_permission
     | ErrResourceNotFound m \<Rightarrow> Refused 404 (message ''group not found'')
     | _ \<Rightarrow> Refused 500 (failed_to ''get group'' e))"

definition handle_get_group :: "env \<Rightarrow> user \<Rightarrow> uuid \<Rightarrow> api_group handler" where
  "handle_get_group E u i = on_result (authz_get_group E (request_context u) i) group_lookup_failed
     (\<lambda>g. answer 200 (group_to_api (fst g)))"

definition blank_field :: "string option \<Rightarrow> bool" where
  "blank_field x \<longleftrightarrow> (case x of None \<Rightarrow> False | Some s \<Rightarrow> blank s)"

definition handle_update_group :: "env \<Rightarrow> user \<Rightarrow> uuid \<Rightarrow> group_update option \<Rightarrow> api_group handler" where
  "handle_update_group E u i body = (case body of
     None \<Rightarrow> refuse 400 (message ''empty body'')
   | Some f \<Rightarrow>
       if blank_field (gu_name f) then refuse 400 (message ''name cannot be empty'')
       else if blank_field (gu_company f) then refuse 400 (message ''company cannot be empty'')
       else on_result (authz_get_group E (request_context u) i) group_lookup_failed (\<lambda>existing.
         on_result (authz_update_group E (request_context u) (group_update_to_model f (fst existing)))
           (\<lambda>e. case e of ErrForbidden m \<Rightarrow> Refused 403 no_permission
              | ErrDuplicateKey m \<Rightarrow> Refused 400 (message ''group already exists'')
              | _ \<Rightarrow> Refused 500 (failed_to ''update group'' e))
           (\<lambda>g. answer 200 (group_to_api g))))"

definition handle_delete_group :: "env \<Rightarrow> user \<Rightarrow> uuid \<Rightarrow> api_group handler" where
  "handle_delete_group E u i =
     on_result (authz_get_group E (request_context u) i) group_lookup_failed (\<lambda>g.
     on_result (authz_delete_group E (request_context u) i)
       (\<lambda>e. case e of ErrForbidden m \<Rightarrow> Refused 403 no_permission
          | _ \<Rightarrow> Refused 500 (failed_to ''delete group'' e))
       (\<lambda>_. answer 200 (group_to_api (fst g))))"

definition handle_list_group_members :: "env \<Rightarrow> user \<Rightarrow> uuid \<Rightarrow> api_member list handler" where
  "handle_list_group_members E u i = on_result (authz_list_group_members E (request_context u) i)
     (\<lambda>e. case e of ErrForbidden m \<Rightarrow> Refused 403 no_permission
        | ErrResourceNotFound m \<Rightarrow> Refused 404 (message ''group not found'')
        | _ \<Rightarrow> Refused 500 (failed_to ''list group members'' e))
     (\<lambda>ms. answer 200 (member_list_to_api ms))"

text \<open>The body of an update is the new address, if one is given.\<close>

definition handle_update_group_member ::
    "env \<Rightarrow> user \<Rightarrow> uuid \<Rightarrow> string \<Rightarrow> string option option \<Rightarrow> api_member handler" where
  "handle_update_group_member E u i name body = (case body of
     None \<Rightarrow> refuse 400 (message ''empty body'')
   | Some email \<Rightarrow>
       on_result (authz_get_member E (request_context u) name)
         (\<lambda>e. case e of ErrForbidden m \<Rightarrow> Refused 403 no_permission
            | ErrResourceNotFound m \<Rightarrow> Refused 404 e
            | _ \<Rightarrow> Refused 500 (failed_to ''get member'' e)) (\<lambda>existing.
       on_result (authz_update_group_member E (request_context u) i name
           (member_update_to_model email (fst existing)))
         (\<lambda>e. case e of ErrForbidden m \<Rightarrow> Refused 403 no_permission
            | ErrResourceNotFound m \<Rightarrow> Refused 404 e
            | ErrMembershipMismatch m \<Rightarrow> Refused 400 e
            | _ \<Rightarrow> Refused 500 (failed_to ''update member'' e))
         (\<lambda>m. answer 200 (member_to_api m))))"

definition handle_remove_group_member :: "env \<Rightarrow> user \<Rightarrow> uuid \<Rightarrow> string \<Rightarrow> unit handler" where
  "handle_remove_group_member E u i name =
     on_result (authz_remove_group_member E (request_context u) i name)
       (\<lambda>e. case e of ErrForbidden m \<Rightarrow> Refused 403 no_permission
          | ErrResourceNotFound m \<Rightarrow> Refused 404 e
          | ErrMembershipMismatch m \<Rightarrow> Refused 400 e
          | _ \<Rightarrow> Refused 500 (failed_to ''remove member from group'' e))
       (\<lambda>_. answer 200 ())"

text \<open>The body is the name and the address.\<close>

definition handle_create_group_member ::
    "env \<Rightarrow> user \<Rightarrow> uuid \<Rightarrow> (string \<times> string) option \<Rightarrow> api_member handler" where
  "handle_create_group_member E u i body = (case body of
     None \<Rightarrow> refuse 400 (message ''empty body'')
   | Some (name, email) \<Rightarrow>
       on_result (authz_create_member E (request_context u) (member_create_to_model name email i))
         (\<lambda>e. case e of ErrForbidden m \<Rightarrow> Refused 403 no_permission
            | ErrResourceNotFound m \<Rightarrow> Refused 404 (message ''group not found'')
            | ErrDuplicateKey m \<Rightarrow> Refused 409 e
            | ErrActiveRequestExists m \<Rightarrow> Refused 400 e
            | _ \<Rightarrow> Refused 500 (failed_to ''create member'' e))
         (\<lambda>m. answer 201 (member_to_api m)))"

end
