(* ===== verification/ApiPartners.thy ===== *)
theory ApiPartners
  imports ApiAccounts
begin

text \<open>
  The HTTP handlers of partners (\<open>internal/handlers/v1alpha1/partner.go\<close>) with their mappers.
\<close>

subsection \<open>Forms and bodies\<close>

record partner_request_create =
  pr_name :: string
  pr_contact_name :: string
  pr_contact_phone :: string
  pr_email :: string
  pr_location :: string

record partner_summary =
  psm_id :: uuid
  psm_name :: string
  psm_company :: string
  psm_icon :: string

record api_partner_request =
  apr_id :: uuid
  apr_username :: string
  apr_partner :: partner_summary
  apr_request_status :: string
  apr_name :: string
  apr_contact_name :: string
  apr_contact_phone :: string
  apr_email :: string
  apr_location :: string
  apr_reason :: "string option"
  apr_accepted_at :: "time option"
  apr_terminated_at :: "time option"
  apr_created_at :: time

record api_customer =
  apc_username :: string
  apc_name :: string
  apc_contact_name :: string
  apc_contact_phone :: string
  apc_email :: string
  apc_location :: string

definition partner_request_create_to_model :: "partner_request_create \<Rightarrow> partner_customer" where
  "partner_request_create_to_model f = \<lparr>pc_id = nil_uuid, pc_username = [], pc_username_org_id = [],
     pc_partner_id = [], pc_request_status = [], pc_name = pr_name f, pc_contact_name = pr_contact_name f,
     pc_contact_phone = pr_contact_phone f, pc_email = pr_email f, pc_location = pr_location f,
     pc_reason = None, pc_accepted_at = None, pc_terminated_at = None, pc_created_at = zero_time\<rparr>"

definition partner_request_update_to_model :: "string \<Rightarrow> string option \<Rightarrow> request" where
  "partner_request_update_to_model s reason = \<lparr>rq_status = s, rq_reason = given_or reason []\<rparr>"

definition map_request_status :: "string \<Rightarrow> string" where
  "map_request_status s =
     (if s = RequestStatusPending then ''pending'' else if s = RequestStatusAccepted then ''accepted''
      else if s = RequestStatusRejected then ''rejected''
      else if s = RequestStatusCancelled then ''cancelled'' else s)"

definition partner_request_to_api :: "env \<Rightarrow> partner_request \<Rightarrow> error + api_partner_request" where
  "partner_request_to_api E p = (case p of
     (pc, None) \<Rightarrow> Inl (OtherError (''partner relation not loaded for request %s'', [uuid_str E (pc_id pc)]))
   | (pc, Some (g, _)) \<Rightarrow> Inr \<lparr>apr_id = pc_id pc, apr_username = pc_username pc,
       apr_partner = \<lparr>psm_id = g_id g, psm_name = g_name g, psm_company = g_company g, psm_icon = g_icon g\<rparr>,
       apr_request_status = map_request_status (pc_request_status pc), apr_name = pc_name pc,
       apr_contact_name = pc_contact_name pc, apr_contact_phone = pc_contact_phone pc,
       apr_email = pc_email pc, apr_location = pc_location pc, apr_reason = pc_reason pc,
       apr_accepted_at = pc_accepted_at pc, apr_terminated_at = pc_terminated_at pc,
       apr_created_at = pc_created_at pc\<rparr>)"

fun partner_request_list_to_api :: "env \<Rightarrow> partner_request list \<Rightarrow> error + api_partner_request list" where
  "partner_request_list_to_api E [] = Inr []"
| "partner_request_list_to_api E (p # ps) = (case partner_request_to_api E p of
     Inl e \<Rightarrow> Inl e
   | Inr r \<Rightarrow> (case partner_request_list_to_api E ps of Inl e \<Rightarrow> Inl e | Inr rs \<Rightarrow> Inr (r # rs)))"

definition customer_to_api :: "partner_customer \<Rightarrow> api_customer" where
  "customer_to_api pc = \<lparr>apc_username = pc_username pc, apc_name = pc_name pc,
     apc_contact_name = pc_contact_name pc, apc_contact_phone = pc_contact_phone pc,
     apc_email = pc_email pc, apc_location = pc_location pc\<rparr>"

definition customer_list_to_api :: "partner_request list \<Rightarrow> api_customer list" where
  "customer_list_to_api ps = map (customer_to_api \<circ> fst) ps"

subsection \<open>Handlers\<close>

definition handle_list_partners :: "env \<Rightarrow> user \<Rightarrow> api_group list handler" where
  "handle_list_partners E u = on_result (authz_list_partners E (request_context u))
     (\<lambda>e. Refused 500 (failed_to ''list partners'' e)) (\<lambda>gs. answer 200 (group_list_to_api gs))"

definition handle_list_partner_requests :: "env \<Rightarrow> user \<Rightarrow> api_partner_request list handler" where
  "handle_list_partner_requests E u = on_result (authz_list_requests E (request_context u) u)
     (\<lambda>e. Refused 500 (failed_to ''list requests'' e)) (\<lambda>ps.
     case partner_request_list_to_api E ps of
       Inl e \<Rightarrow> refuse 500 (failed_to ''map requests'' e) | Inr rs \<Rightarrow> answer 200 rs)"

definition handle_create_partner_request ::
    "env \<Rightarrow> user \<Rightarrow> uuid \<Rightarrow> partner_request_create option \<Rightarrow> api_partner_request handler" where
  "handle_create_partner_request E u i body = (case body of
     None \<Rightarrow> refuse 400 (message ''empty body'')
   | Some f \<Rightarrow>
       on_result (authz_create_request E (request_context u) u (uuid_str E i) (partner_request_create_to_model f))
         (\<lambda>e. case e of ErrInvalidRequest m \<Rightarrow> Refused 400 e
            | ErrActiveRequestExists m \<Rightarrow> Refused 400 e
            | ErrForbidden m \<Rightarrow> Refused 403 e
            | ErrResourceNotFound m \<Rightarrow> Refused 404 e
            | _ \<Rightarrow> Refused 500 (failed_to ''create request'' e)) (\<lambda>p.
       case partner_request_to_api E p of
         Inl e \<Rightarrow> refuse 500 (failed_to ''map request'' e) | Inr r \<Rightarrow> answer 201 r))"

definition handle_cancel_partner_request :: "env \<Rightarrow> user \<Rightarrow> uuid \<Rightarrow> unit handler" where
  "handle_cancel_partner_request E u i = on_result (authz_cancel_request E (request_context u) u i)
     (\<lambda>e. case e of ErrResourceNotFound m \<Rightarrow> Refused 404 e | _ \<Rightarrow> Refused 500 (failed_to ''cancel request'' e))
     (\<lambda>_. answer 200 ())"

definition handle_get_partner :: "env \<Rightarrow> user \<Rightarrow> uuid \<Rightarrow> api_group handler" where
  "handle_get_partner E u i = on_result (authz_get_partner E (request_context u) u (uuid_str E i))
     (\<lambda>e. case e of ErrForbidden m \<Rightarrow> Refused 403 e | ErrResourceNotFound m \<Rightarrow> Refused 404 e
        | _ \<Rightarrow> Refused 500 (failed_to ''get partner'' e))
     (\<lambda>g. answer 200 (group_to_api (fst g)))"

definition handle_leave_partner :: "env \<Rightarrow> user \<Rightarrow> uuid \<Rightarrow> unit handler" where
  "handle_leave_partner E u i = on_result (authz_leave_partner E (request_context u) u (uuid_str E i))
     (\<lambda>e. case e of ErrForbidden m \<Rightarrow> Refused 403 e | ErrResourceNotFound m \<Rightarrow> Refused 404 e
        | _ \<Rightarrow> Refused 500 (failed_to ''leave partner'' e))
     (\<lambda>_. answer 200 ())"

definition handle_list_customers :: "env \<Rightarrow> user \<Rightarrow> api_customer list handler" where
  "handle_list_customers E u = on_result (authz_list_customers E (request_context u) u)
     (\<lambda>e. case e of ErrInvalidRequest m \<Rightarrow> Refused 400 e | ErrForbidden m \<Rightarrow> Refused 403 e
        | _ \<Rightarrow> Refused 500 (failed_to ''list customers'' e))
     (\<lambda>ps. answer 200 (customer_list_to_api ps))"

text \<open>The body is the status and the reason.\<close>

definition handle_update_partner_request ::
    "env \<Rightarrow> user \<Rightarrow> uuid \<Rightarrow> (string \<times> string option) option \<Rightarrow> api_partner_request handler" where
  "handle_update_partner_request E u i body = (case body of
     None \<Rightarrow> refuse 400 (message ''empty body'')
   | Some (s, reason) \<Rightarrow>
       if s \<noteq> ''accepted'' \<and> s \<noteq> ''rejected'' then refuse 400 (message ''invalid status'')
       else on_result (authz_update_request E (request_context u) u i (partner_request_update_to_model s reason))
         (\<lambda>e. case e of ErrInvalidRequest m \<Rightarrow> Refused 400 e
            | ErrForbidden m \<Rightarrow> Refused 403 e
            | ErrResourceNotFound m \<Rightarrow> Refused 404 e
            | _ \<Rightarrow> Refused 500 (failed_to ''update request'' e)) (\<lambda>p.
       case partner_request_to_api E p of
         Inl e \<Rightarrow> refuse 500 (failed_to ''map request'' e) | Inr r \<Rightarrow> answer 200 r))"

definition handle_remove_customer :: "env \<Rightarrow> user \<Rightarrow> string \<Rightarrow> unit handler" where
  "handle_remove_customer E u name = on_result (authz_remove_customer E (request_context u) u name)
     (\<lambda>e. case e of ErrInvalidRequest m \<Rightarrow> Refused 400 e
        | ErrForbidden m \<Rightarrow> Refused 403 e
        | ErrResourceNotFound m \<Rightarrow> Refused 404 e
        | _ \<Rightarrow> Refused 500 (failed_to ''remove customer'' e))
     (\<lambda>_. answer 200 ())"

end
