(* ===== verification/ApiSources.thy ===== *)
theory ApiSources
  imports InventoryBundle ApiPartners
begin

text \<open>
  The HTTP handlers of sources and of agents (\<open>internal/handlers/v1alpha1/source.go\<close>, \<open>agent.go\<close>) with
  their mappers (\<open>mappers/inbound.go\<close>, \<open>outbound.go\<close>). The validation of a body by its tags, the JSON codec and
  the current version are arguments; the e-mail domain of the user comes with the request.
\<close>

subsection \<open>Forms of the API\<close>

record api_proxy =
  px_http_url :: "string option"
  px_https_url :: "string option"
  px_no_proxy :: "string option"

record ipv4_config =
  ip_address :: string
  ip_subnet_mask :: string
  ip_default_gateway :: string
  ip_dns :: string

text \<open>A VM network is a pointer to its IPv4 configuration, and a label a key and a value.\<close>

type_synonym vm_network = "ipv4_config option"

record api_source_create =
  asc_name :: string
  asc_labels :: "(string \<times> string) list option"
  asc_proxy :: "api_proxy option"
  asc_vm_network :: "vm_network option"
  asc_network :: "vm_network option"
  asc_enable_proxy :: "bool option"
  asc_network_config_type :: "string option"
  asc_ssh_public_key :: "string option"
  asc_certificate_chain :: "string option"

record api_source_update =
  asu_name :: "string option"
  asu_labels :: "(string \<times> string) list option"
  asu_proxy :: "api_proxy option"
  asu_vm_network :: "vm_network option"
  asu_network :: "vm_network option"
  asu_enable_proxy :: "bool option"
  asu_network_config_type :: "string option"
  asu_ssh_public_key :: "string option"
  asu_certificate_chain :: "string option"

definition deref_string :: "string option \<Rightarrow> string" where
  "deref_string x = (case x of None \<Rightarrow> [] | Some s \<Rightarrow> s)"

fun put_label :: "string \<times> string \<Rightarrow> string gomap \<Rightarrow> string gomap" where
  "put_label (k, v) [] = [(k, v)]"
| "put_label (k, v) ((k', v') # m) = (if k = k' then (k, v) # m else (k', v') # put_label (k, v) m)"

definition map_labels :: "(string \<times> string) list option \<Rightarrow> string gomap" where
  "map_labels x = (case x of None \<Rightarrow> [] | Some ls \<Rightarrow> fold put_label ls [])"

definition map_proxy_fields :: "api_proxy option \<Rightarrow> string \<times> string \<times> string" where
  "map_proxy_fields x = (case x of None \<Rightarrow> ([], [], [])
     | Some p \<Rightarrow> (deref_string (px_http_url p), deref_string (px_https_url p), deref_string (px_no_proxy p)))"

definition map_proxy_fields_for_update ::
    "api_proxy option \<Rightarrow> string option \<times> string option \<times> string option" where
  "map_proxy_fields_for_update x = (case x of None \<Rightarrow> (None, None, None)
     | Some p \<Rightarrow> (Some (deref_string (px_http_url p)), Some (deref_string (px_https_url p)),
                 Some (deref_string (px_no_proxy p))))"

definition map_ipv4_fields :: "vm_network option \<Rightarrow> string \<times> string \<times> string \<times> string" where
  "map_ipv4_fields x = (case x of
     Some (Some n) \<Rightarrow> (ip_address n, ip_subnet_mask n, ip_default_gateway n, ip_dns n)
   | _ \<Rightarrow> ([], [], [], []))"

definition network_of :: "vm_network option \<Rightarrow> vm_network option \<Rightarrow> vm_network option" where
  "network_of vm_network network = (if vm_network = None then network else vm_network)"

text \<open>The handler sets the owner: \<open>source_form_api\<close> leaves it empty.\<close>

definition source_form_api :: "api_source_create \<Rightarrow> source_create_form" where
  "source_form_api x =
     (let (http, https, no_proxy) = map_proxy_fields (asc_proxy x);
          (ip, mask, gateway, dns) = map_ipv4_fields (network_of (asc_vm_network x) (asc_network x))
      in \<lparr>sc_certificate_chain = deref_string (asc_certificate_chain x), sc_name = asc_name x,
          sc_http_url = http, sc_https_url = https, sc_no_proxy = no_proxy,
          sc_ssh_public_key = deref_string (asc_ssh_public_key x), sc_username = [], sc_org_id = [],
          sc_email_domain = [], sc_labels = map_labels (asc_labels x), sc_ip_address = ip,
          sc_subnet_mask = mask, sc_default_gateway = gateway, sc_dns = dns,
          sc_enable_proxy = asc_enable_proxy x, sc_network_config_type = asc_network_config_type x\<rparr>)"

definition source_update_form_api :: "api_source_update \<Rightarrow> source_update_form" where
  "source_update_form_api x =
     (let (http, https, no_proxy) = map_proxy_fields_for_update (asu_proxy x);
          ipv4 = (case network_of (asu_vm_network x) (asu_network x) of None \<Rightarrow> None | Some n \<Rightarrow> n)
      in \<lparr>sf_name = asu_name x, sf_labels = asu_labels x, sf_ssh_public_key = asu_ssh_public_key x,
          sf_certificate_chain = asu_certificate_chain x, sf_http_url = http, sf_https_url = https,
          sf_no_proxy = no_proxy, sf_ip_address = map_option ip_address ipv4,
          sf_subnet_mask = map_option ip_subnet_mask ipv4,
          sf_default_gateway = map_option ip_default_gateway ipv4, sf_dns = map_option ip_dns ipv4,
          sf_enable_proxy = asu_enable_proxy x, sf_network_config_type = asu_network_config_type x\<rparr>)"

subsection \<open>Bodies of replies\<close>

record api_agent =
  aa_id :: uuid
  aa_status :: string
  aa_status_info :: string
  aa_created_at :: time
  aa_updated_at :: time
  aa_credential_url :: string
  aa_version :: string

record api_source_infra =
  asf_proxy :: "api_proxy option"
  asf_ssh_public_key :: "string option"
  asf_vm_network :: "vm_network option"

record api_source =
  aso_id :: uuid
  aso_name :: string
  aso_created_at :: time
  aso_updated_at :: time
  aso_on_premises :: bool
  aso_update_type :: "string option"
  aso_inventory :: "api_inventory option"
  aso_labels :: "(string \<times> string) list option"
  aso_infra :: api_source_infra
  aso_agent_version :: "string option"
  aso_agent_version_warning :: "string option"
  aso_agent :: "api_agent option"

record api_source_subset =
  asb_id :: uuid
  asb_name :: string
  asb_source_id :: uuid
  asb_vcenter_id :: string
  asb_vms_count :: goint
  asb_created_at :: time
  asb_updated_at :: time
  asb_update_type :: string
  asb_inventory :: "api_inventory option"

definition string_to_agent_status :: "string \<Rightarrow> string" where
  "string_to_agent_status s =
     (if s \<in> {''error'', ''gathering-initial-inventory'', ''up-to-date'', ''waiting-for-credentials'', ''not-connected''}
      then s else ''not-connected'')"

definition agent_to_api :: "agent_row \<Rightarrow> api_agent" where
  "agent_to_api a = \<lparr>aa_id = ag_id a, aa_status = string_to_agent_status (ag_status a),
     aa_status_info = ag_status_info a, aa_created_at = ag_created_at a,
     aa_updated_at = given_or (ag_updated_at a) zero_time, aa_credential_url = ag_cred_url a,
     aa_version = ag_version a\<rparr>"

definition if_set :: "string \<Rightarrow> string option" where
  "if_set s = (if s = [] then None else Some s)"

definition source_infra_to_api :: "image_infra_row \<Rightarrow> api_source_infra" where
  "source_infra_to_api i =
     \<lparr>asf_proxy = (if ii_http_proxy_url i \<noteq> [] \<or> ii_https_proxy_url i \<noteq> [] \<or> ii_no_proxy_domains i \<noteq> []
        then Some \<lparr>px_http_url = if_set (ii_http_proxy_url i), px_https_url = if_set (ii_https_proxy_url i),
                   px_no_proxy = if_set (ii_no_proxy_domains i)\<rparr>
        else None),
      asf_ssh_public_key = if_set (ii_ssh_public_key i),
      asf_vm_network =
        (if ii_ip_address i \<noteq> [] \<or> ii_subnet_mask i \<noteq> [] \<or> ii_default_gateway i \<noteq> [] \<or> ii_dns i \<noteq> []
         then Some (Some \<lparr>ip_address = ii_ip_address i, ip_subnet_mask = ii_subnet_mask i,
                    ip_default_gateway = ii_default_gateway i, ip_dns = ii_dns i\<rparr>)
         else None)\<rparr>"

text \<open>The inventory of a source: old ones hold the data of a vCenter only.\<close>

definition source_inventory_to_api :: "env \<Rightarrow> api_codec \<Rightarrow> string \<Rightarrow> error + api_inventory" where
  "source_inventory_to_api E C raw =
     (if get_inventory_version E raw = InventoryVersionV1
      then (case ac_decode_data C raw of
        Inl e \<Rightarrow> Inl (Wrapf (''failed to unmarshal v1 inventory: %w'', []) e)
      | Inr d \<Rightarrow> (case adt_vcenter d of
          None \<Rightarrow> Inl (OtherError (''v1 inventory missing vcenter data'', []))
        | Some v \<Rightarrow> Inr \<lparr>ainv_clusters = Some [], ainv_collection_time = None, ainv_created_at = None,
            ainv_vcenter = Some (normalize_inventory_data d), ainv_vcenter_id = avc_id v,
            ainv_vcenter_version = None\<rparr>))
      else (case ac_decode C raw of
        Inl e \<Rightarrow> Inl (Wrapf (''failed to unmarshal v2 inventory: %w'', []) e)
      | Inr i \<Rightarrow> Inr (normalize_inventory i)))"

text \<open>The agent of a source is its oldest one; at most twelve are sorted by insertion, which is stable.\<close>

definition oldest_agent :: "agent_row list \<Rightarrow> agent_row option" where
  "oldest_agent as = (case sort_key ag_created_at as of [] \<Rightarrow> None | a # _ \<Rightarrow> Some a)"

definition source_to_api :: "env \<Rightarrow> api_codec \<Rightarrow> string \<Rightarrow> source \<Rightarrow> error + api_source" where
  "source_to_api E C version s =
     (let r = so_row s;
          infra = (case so_image_infra s of None \<Rightarrow> zero_image_infra | Some i \<Rightarrow> i);
          reply = (\<lambda>inventory. \<lparr>aso_id = s_id r, aso_name = s_name r, aso_created_at = s_created_at r,
            aso_updated_at = given_or (s_updated_at r) zero_time, aso_on_premises = s_on_premises r,
            aso_update_type = if_set (s_update_type r), aso_inventory = inventory,
            aso_labels = (if so_labels s = [] then None
              else Some (map (\<lambda>l. (lb_key l, lb_value l)) (so_labels s))),
            aso_infra = source_infra_to_api infra, aso_agent_version = ii_agent_version infra,
            aso_agent_version_warning = check_agent_version_warning version (Some infra),
            aso_agent = map_option agent_to_api (oldest_agent (so_agents s))\<rparr>)
      in case s_inventory r of
           None \<Rightarrow> Inr (reply None)
         | Some [] \<Rightarrow> Inr (reply None)
         | Some raw \<Rightarrow> (case source_inventory_to_api E C raw of
             Inl e \<Rightarrow> Inl e | Inr i \<Rightarrow> Inr (reply (Some i))))"

text \<open>A source that cannot be converted is left out of a list.\<close>

fun source_list_to_api :: "env \<Rightarrow> api_codec \<Rightarrow> string \<Rightarrow> source list \<Rightarrow> api_source list" where
  "source_list_to_api E C version [] = []"
| "source_list_to_api E C version (s # ss) = (case source_to_api E C version s of
     Inl e \<Rightarrow> source_list_to_api E C version ss
   | Inr x \<Rightarrow> x # source_list_to_api E C version ss)"

definition subset_inventory_to_api :: "api_codec \<Rightarrow> subset_row \<Rightarrow> error + api_source_subset" where
  "subset_inventory_to_api C s =
     (let reply = (\<lambda>inventory. \<lparr>asb_id = ss_id s, asb_name = ss_name s, asb_source_id = ss_source_id s,
            asb_vcenter_id = ss_vcenter_id s, asb_vms_count = ss_vms_count s, asb_created_at = ss_created_at s,
            asb_updated_at = given_or (ss_updated_at s) zero_time, asb_update_type = ss_update_type s,
            asb_inventory = inventory\<rparr>)
      in if ss_inventory s = [] then Inr (reply None)
         else case ac_decode C (ss_inventory s) of
           Inl e \<Rightarrow> Inl (Wrapf (''failed to unmarshal inventory: %w'', []) e)
         | Inr i \<Rightarrow> Inr (reply (Some i)))"

definition mapped :: "nat \<Rightarrow> string \<Rightarrow> (error + 'a) \<Rightarrow> 'a handler" where
  "mapped code what r = (case r of
     Inl e \<Rightarrow> refuse 500 (failed_to (''map '' @ what @ '' to api'') e) | Inr x \<Rightarrow> answer code x)"

subsection \<open>Handlers of sources\<close>

record source_validator =
  sv_create :: "api_source_create \<Rightarrow> error option"
  sv_update :: "api_source_update \<Rightarrow> error option"

definition owns :: "user \<Rightarrow> source \<Rightarrow> bool" where
  "owns u s \<longleftrightarrow> u_username u = s_username (so_row s) \<and> u_organization u = s_org_id (so_row s)"

definition forbidden_to :: "string \<Rightarrow> string list \<Rightarrow> error" where
  "forbidden_to s args = OtherError (''forbidden to '' @ s, args)"

definition failed_for :: "string \<Rightarrow> string list \<Rightarrow> error \<Rightarrow> error" where
  "failed_for s args e = Wrapf (''failed to '' @ s @ '': %v'', args) e"

text \<open>\<open>errors.As\<close> for the types of the service errors, which wrap nothing.\<close>

fun unwrapped :: "error \<Rightarrow> error" where
  "unwrapped (Wrapf m e) = unwrapped e"
| "unwrapped e = e"

definition not_found_or :: "error \<Rightarrow> error \<Rightarrow> 'a reply" where
  "not_found_or e e' = (case e of ErrResourceNotFound m \<Rightarrow> Refused 404 e | _ \<Rightarrow> Refused 500 e')"

definition handle_list_sources :: "env \<Rightarrow> api_codec \<Rightarrow> string \<Rightarrow> user \<Rightarrow> api_source list handler" where
  "handle_list_sources E C version u =
     on_result (service_list_sources E (request_context u)
         (new_source_filter [with_username (u_username u), with_org_id (u_organization u)]))
       (\<lambda>e. Refused 500 (message []))
       (\<lambda>ss. answer 200 (source_list_to_api E C version ss))"

definition owned_form :: "user \<Rightarrow> string \<Rightarrow> source_create_form \<Rightarrow> source_create_form" where
  "owned_form u domain f =
     f\<lparr>sc_username := u_username u, sc_org_id := u_organization u, sc_email_domain := domain\<rparr>"

definition handle_create_source :: "env \<Rightarrow> token_lib \<Rightarrow> api_codec \<Rightarrow> source_validator \<Rightarrow> string \<Rightarrow> user \<Rightarrow>
    string \<Rightarrow> api_source_create option \<Rightarrow> api_source handler" where
  "handle_create_source E T C V version u domain body = (case body of
     None \<Rightarrow> refuse 400 (message ''empty body'')
   | Some x \<Rightarrow> (case sv_create V x of
       Some e \<Rightarrow> refuse 400 e
     | None \<Rightarrow>
         on_result (service_create_source E T (request_context u) (owned_form u domain (source_form_api x)))
           (\<lambda>e. case unwrapped e of ErrDuplicateKey m \<Rightarrow> Refused 400 (failed_to ''create source'' e)
              | _ \<Rightarrow> Refused 500 (failed_to ''create source'' e))
           (\<lambda>s. mapped 201 ''source'' (source_to_api E C version s))))"

definition handle_delete_source :: "env \<Rightarrow> user \<Rightarrow> uuid \<Rightarrow> unit handler" where
  "handle_delete_source E u i =
     on_result (service_get_source E (request_context u) i) (\<lambda>e. not_found_or e (message [])) (\<lambda>s.
     if \<not> owns u s then refuse 403 (forbidden_to ''delete source %s by user with org_id %s'' [uuid_str E i, u_organization u])
     else on_result (service_delete_source E (request_context u) i)
       (\<lambda>e. Refused 500 (failed_to ''delete source'' e)) (\<lambda>_. answer 200 ()))"

definition handle_get_source ::
    "env \<Rightarrow> api_codec \<Rightarrow> string \<Rightarrow> user \<Rightarrow> uuid \<Rightarrow> api_source handler" where
  "handle_get_source E C version u i =
     on_result (service_get_source E (request_context u) i) (\<lambda>e. not_found_or e (message [])) (\<lambda>s.
     if \<not> owns u s then refuse 403 (forbidden_to ''access source %s by user %s'' [uuid_str E i, u_username u])
     else mapped 200 ''source'' (source_to_api E C version s))"

definition handle_update_source :: "env \<Rightarrow> api_codec \<Rightarrow> source_validator \<Rightarrow> string \<Rightarrow> user \<Rightarrow> uuid \<Rightarrow>
    api_source_update option \<Rightarrow> api_source handler" where
  "handle_update_source E C V version u i body = (case body of
     None \<Rightarrow> refuse 400 (message ''There is nothing to update'')
   | Some x \<Rightarrow> (case sv_update V x of
       Some e \<Rightarrow> refuse 400 e
     | None \<Rightarrow>
         on_result (service_get_source E (request_context u) i) (\<lambda>e. not_found_or e (message [])) (\<lambda>s.
         if \<not> owns u s then refuse 403 (forbidden_to ''update source %s by user %s'' [uuid_str E i, u_username u])
         else on_result (service_update_source E (request_context u) i (source_update_form_api x))
           (\<lambda>e. not_found_or e (failed_for ''update source %s'' [uuid_str E i] e))
           (\<lambda>s'. mapped 200 ''source'' (source_to_api E C version s')))))"

text \<open>The source, if the user owns it, or the refusal.\<close>

definition authorize_source_access ::
    "env \<Rightarrow> user \<Rightarrow> uuid \<Rightarrow> world \<Rightarrow> ('a reply + source) \<times> world" where
  "authorize_source_access E u i w = (case service_get_source E (request_context u) i w of
     (Inl e, w') \<Rightarrow> (Inl (not_found_or e (failed_for ''get source %s'' [uuid_str E i] e)), w')
   | (Inr s, w') \<Rightarrow>
       if \<not> owns u s
       then (Inl (Refused 403 (forbidden_to ''update inventory for source %s by user %s with org_id %s''
              [uuid_str E i, u_username u, u_organization u])), w')
       else (Inr s, w'))"

definition inventory_update_response ::
    "env \<Rightarrow> api_codec \<Rightarrow> string \<Rightarrow> user \<Rightarrow> inventory_update_form \<Rightarrow> api_source handler" where
  "inventory_update_response E C version u f =
     on_result (update_inventory E (request_context u) f)
       (\<lambda>e. case e of ErrInvalidVCenterID m \<Rightarrow> Refused 400 e
          | _ \<Rightarrow> Refused 500 (failed_for ''update source inventory %s'' [uuid_str E (iu_source_id f)] e))
       (\<lambda>s. mapped 200 ''source'' (source_to_api E C version s))"

text \<open>The body is the agent and the inventory.\<close>

definition update_inventory_json ::
    "env \<Rightarrow> api_codec \<Rightarrow> string \<Rightarrow> user \<Rightarrow> uuid \<Rightarrow> uuid \<times> api_inventory \<Rightarrow> api_source handler" where
  "update_inventory_json E C version u i body w = (case authorize_source_access E u i w of
     (Inl refusal, w') \<Rightarrow> (refusal, w')
   | (Inr s, w') \<Rightarrow> (case ac_encode C (snd body) of
       Inl e \<Rightarrow> refuse 500 (failed_for ''update source inventory %s'' [uuid_str E i] e) w'
     | Inr raw \<Rightarrow> inventory_update_response E C version u
         \<lparr>iu_source_id = i, iu_agent_id = fst body, iu_vcenter_id = ainv_vcenter_id (snd body),
          iu_inventory = Some raw, iu_subsets = []\<rparr> w'))"

definition handle_update_inventory :: "env \<Rightarrow> api_codec \<Rightarrow> string \<Rightarrow> user \<Rightarrow> uuid \<Rightarrow>
    (uuid \<times> api_inventory) option \<Rightarrow> api_source handler" where
  "handle_update_inventory E C version u i body = (case body of
     None \<Rightarrow> refuse 400 (message ''empty body'')
   | Some b \<Rightarrow> update_inventory_json E C version u i b)"

definition bundle_subset_form :: "uuid \<Rightarrow> bundle_subset \<Rightarrow> subset_update_form" where
  "bundle_subset_form i s = \<lparr>su_id = bs_id s, su_name = bs_name s, su_source_id = i,
     su_vcenter_id = bs_vcenter_id s, su_vms_count = bs_vms_count s, su_inventory = bs_inventory s\<rparr>"

definition bundle_agent :: "uuid \<Rightarrow> parsed_bundle \<Rightarrow> source \<Rightarrow> uuid" where
  "bundle_agent new b s = (case pb_agent_id b of
     Some i \<Rightarrow> i | None \<Rightarrow> (case so_agents s of [] \<Rightarrow> new | a # _ \<Rightarrow> ag_id a))"

definition bundle_form :: "uuid \<Rightarrow> uuid \<Rightarrow> parsed_bundle \<Rightarrow> inventory_update_form" where
  "bundle_form i agent b = \<lparr>iu_source_id = i, iu_agent_id = agent, iu_vcenter_id = pb_vcenter_id b,
     iu_inventory = Some (pb_main_inventory b), iu_subsets = map (bundle_subset_form i) (pb_subsets b)\<rparr>"

definition upload_bundle :: "env \<Rightarrow> api_codec \<Rightarrow> zip_reader \<Rightarrow> string \<Rightarrow> user \<Rightarrow> uuid \<Rightarrow> source \<Rightarrow>
    string \<Rightarrow> api_source handler" where
  "upload_bundle E C Z version u i s bytes =
     on_result (parse_bundle E C Z bytes) (Refused 400) (\<lambda>b.
     on_result (uuid_new E) (Refused 500) (\<lambda>new.
     inventory_update_response E C version u (bundle_form i (bundle_agent new b s) b)))"

text \<open>The form may never end, and then neither does the request.\<close>

definition handle_upload_source_inventory_file :: "env \<Rightarrow> api_codec \<Rightarrow> zip_reader \<Rightarrow> string \<Rightarrow> user \<Rightarrow> uuid \<Rightarrow>
    (nat \<Rightarrow> next_part) option \<Rightarrow> world \<Rightarrow> (api_source reply \<times> world) option" where
  "handle_upload_source_inventory_file E C Z version u i body w = (case body of
     None \<Rightarrow> Some (refuse 400 (message ''empty body'') w)
   | Some r \<Rightarrow> (case authorize_source_access E u i w of
       (Inl refusal, w') \<Rightarrow> Some (refusal, w')
     | (Inr s, w') \<Rightarrow> (case read_uploaded_inventory_file r of
         None \<Rightarrow> None
       | Some (Inl e) \<Rightarrow> Some (refuse 400 e w')
       | Some (Inr bytes) \<Rightarrow> Some (upload_bundle E C Z version u i s bytes w'))))"

definition handle_get_source_download_url ::
    "env \<Rightarrow> token_lib \<Rightarrow> user \<Rightarrow> uuid \<Rightarrow> (string \<times> time) handler" where
  "handle_get_source_download_url E T u i =
     on_result (service_get_source E (request_context u) i)
       (\<lambda>e. not_found_or e (failed_for ''load source %s'' [uuid_str E i] e)) (\<lambda>s.
     if \<not> owns u s
     then refuse 403 (forbidden_to ''access source %s by user with org_id %s'' [uuid_str E i, u_organization u])
     else on_result (get_source_download_url E T (request_context u) i)
       (\<lambda>e. Refused 500 (failed_for ''get download URL for source %s'' [uuid_str E i] e)) (answer 200))"

subsection \<open>Handlers of agents\<close>

text \<open>
  An agent calls with the source of its token (\<open>jwt\<close>); its context holds no user. The inventory of a report
  takes its vCenter from the report, if one is given, and the current time, if it has none.
\<close>

definition agent_context :: gocontext where
  "agent_context = \<lparr>ctx_user = None, ctx_tx = False, ctx_owner = False\<rparr>"

definition not_authorized :: "env \<Rightarrow> uuid \<Rightarrow> error" where
  "not_authorized E i = OtherError (''agent is not authorized to update source %s'', [uuid_str E i])"

record source_report =
  sr_inventory :: api_inventory
  sr_vcenter_id :: "string option"

definition reported_inventory :: "env \<Rightarrow> string option \<Rightarrow> api_inventory \<Rightarrow> api_inventory go" where
  "reported_inventory E v i = stamped E (case v of None \<Rightarrow> i | Some x \<Rightarrow> i\<lparr>ainv_vcenter_id := x\<rparr>)"

definition agent_update_failed :: "error \<Rightarrow> 'a reply" where
  "agent_update_failed e = (case e of
     ErrInvalidVCenterID m \<Rightarrow> Refused 400 e
   | ErrAgentUpdateForbidden m \<Rightarrow> Refused 403 e
   | ErrResourceNotFound m \<Rightarrow> Refused 404 e
   | _ \<Rightarrow> Refused 500 e)"

definition handle_agent_update_inventory :: "env \<Rightarrow> api_codec \<Rightarrow> string \<Rightarrow> string \<Rightarrow> uuid \<Rightarrow>
    (uuid \<times> api_inventory) option \<Rightarrow> api_source handler" where
  "handle_agent_update_inventory E C version jwt i body = (case body of
     None \<Rightarrow> refuse 400 (message ''empty body'')
   | Some (agent, inventory) \<Rightarrow>
       if jwt \<noteq> uuid_str E i then refuse 403 (not_authorized E i)
       else on_result (stamped E inventory) (Refused 500) (\<lambda>v.
         case ac_encode C v of
           Inl e \<Rightarrow> refuse 500 e
         | Inr raw \<Rightarrow> on_result (update_source_inventory E agent_context
             \<lparr>iu_source_id = i, iu_agent_id = agent, iu_vcenter_id = ainv_vcenter_id v, iu_inventory = Some raw,
              iu_subsets = []\<rparr>) agent_update_failed
             (\<lambda>s. mapped 200 ''source'' (source_to_api E C version s))))"

definition handle_agent_update_source :: "env \<Rightarrow> api_codec \<Rightarrow> string \<Rightarrow> string \<Rightarrow> uuid \<Rightarrow>
    source_report option \<Rightarrow> api_source handler" where
  "handle_agent_update_source E C version jwt i body = (case body of
     None \<Rightarrow> refuse 400 (message ''empty body'')
   | Some b \<Rightarrow>
       if jwt \<noteq> uuid_str E i then refuse 403 (not_authorized E i)
       else on_result (reported_inventory E (sr_vcenter_id b) (sr_inventory b)) (Refused 500) (\<lambda>v.
         case ac_encode C v of
           Inl e \<Rightarrow> refuse 500 e
         | Inr raw \<Rightarrow> on_result (agent_update_source E agent_context
             \<lparr>sv_source_id = i, sv_vcenter_id = ainv_vcenter_id v, sv_inventory = Some raw\<rparr>) agent_update_failed
             (\<lambda>s. mapped 200 ''source'' (source_to_api E C version s))))"

definition handle_update_source_subset :: "env \<Rightarrow> api_codec \<Rightarrow> string \<Rightarrow> uuid \<Rightarrow> uuid \<Rightarrow>
    subset_update option \<Rightarrow> api_source_subset handler" where
  "handle_update_source_subset E C jwt i j body = (case body of
     None \<Rightarrow> refuse 400 (message ''empty body'')
   | Some b \<Rightarrow>
       if jwt \<noteq> uuid_str E i then refuse 403 (not_authorized E i)
       else on_result (reported_inventory E (sbu_vcenter_id b) (sbu_inventory b)) (Refused 500) (\<lambda>v.
         case ac_encode C v of
           Inl e \<Rightarrow> refuse 500 e
         | Inr raw \<Rightarrow> on_result (update_source_subset E agent_context
             \<lparr>su_id = j, su_name = sbu_name b, su_source_id = i, su_vcenter_id = ainv_vcenter_id v,
              su_vms_count = given_or (sbu_vms_count b) 0, su_inventory = raw\<rparr>)
             (\<lambda>e. case e of ErrSourceInventoryRequired m \<Rightarrow> Refused 400 e | _ \<Rightarrow> agent_update_failed e)
             (\<lambda>(s, created). mapped (if created then 201 else 200) ''source inventory''
                (subset_inventory_to_api C s))))"

definition handle_delete_source_subset :: "env \<Rightarrow> string \<Rightarrow> uuid \<Rightarrow> uuid \<Rightarrow> unit handler" where
  "handle_delete_source_subset E jwt i j =
     (if jwt \<noteq> uuid_str E i
      then refuse 403 (OtherError (''agent is not authorized to delete subset from source %s'', [uuid_str E i]))
      else on_result (delete_source_subset E agent_context i j)
        (\<lambda>e. not_found_or e e) (\<lambda>_. answer 204 ()))"

record agent_status =
  ast_credential_url :: string
  ast_source_id :: uuid
  ast_status :: string
  ast_status_info :: string
  ast_version :: string

text \<open>A missing body is dereferenced.\<close>

definition handle_update_agent_status :: "env \<Rightarrow> (agent_status \<Rightarrow> error option) \<Rightarrow> string \<Rightarrow> uuid \<Rightarrow>
    agent_status option \<Rightarrow> unit handler" where
  "handle_update_agent_status E V jwt i body = (case body of
     None \<Rightarrow> refuse 500 (Panic ''nil pointer dereference'')
   | Some b \<Rightarrow> (case V b of
       Some e \<Rightarrow> refuse 400 e
     | None \<Rightarrow>
         if jwt \<noteq> uuid_str E (ast_source_id b) then refuse 403 (not_authorized E (ast_source_id b))
         else on_result (update_agent_status E agent_context
             \<lparr>au_id = i, au_status = ast_status b, au_status_info = ast_status_info b,
              au_cred_url = ast_credential_url b, au_version = ast_version b, au_source_id = ast_source_id b\<rparr>)
           (\<lambda>e. not_found_or e e) (\<lambda>(a, created). answer (if created then 201 else 200) ())))"

end
