(* ===== verification/ApiAccess.thy ===== *)
theory ApiAccess
  imports ApiSources SourceTheorems
begin

text \<open>
  Who is served: the requests on a source answer its owner only, the reports of an agent only the holder of a token
  of the source.
\<close>

definition refused :: "world \<Rightarrow> 'a reply \<times> world \<Rightarrow> bool" where
  "refused w x \<longleftrightarrow> 400 \<le> status (fst x) \<and> committed (snd x) = committed w \<and> open_tx (snd x) = open_tx w"

text \<open>No source the identifier selects is the user's. A zero identifier selects every source.\<close>

definition stranger :: "user \<Rightarrow> uuid \<Rightarrow> world \<Rightarrow> bool" where
  "stranger u i w \<longleftrightarrow> list_all (\<lambda>s. s_username s \<noteq> u_username u \<or> s_org_id s \<noteq> u_organization u)
     (filter (primary_key i \<circ> s_id) (sources (committed w)))"

lemma refused_refuse [simp]: "refused w (refuse n e w') \<longleftrightarrow>
    400 \<le> n \<and> committed w' = committed w \<and> open_tx w' = open_tx w"
  by (simp add: refused_def refuse_def)

lemma refused_pair [simp]: "refused w (r, w') \<longleftrightarrow>
    400 \<le> status r \<and> committed w' = committed w \<and> open_tx w' = open_tx w"
  by (simp add: refused_def)

lemma status_not_found_or [simp]: "400 \<le> status (not_found_or e e')"
  by (cases e) (simp_all add: not_found_or_def)

lemma get_source_run:
  assumes "service_get_source E (request_context u) i w = (r, w')"
  shows "committed w' = committed w" "open_tx w' = open_tx w"
    "stranger u i w \<Longrightarrow> r = Inr s \<Longrightarrow> \<not> owns u s"
proof -
  have ro: "readonly (service_get_source E (request_context u) i)"
    by (simp add: service_get_source_def get_full_source_def gorm_first_def readonly_intro)
  show "committed w' = committed w" "open_tx w' = open_tx w"
    using readonly_run [OF ro assms] by simp_all
  show "\<not> owns u s" if "stranger u i w" "r = Inr s"
  proof -
    have "so_row s \<in> set (filter (primary_key i \<circ> s_id) (sources (committed w)))"
      using assms that(2)
      by (auto simp: service_get_source_def get_full_source_def gorm_first_def query_def map_err_def attempt_def
          ret_def raise_def preload_source_def get_db_def from_context_def request_context_def
          dest!: first_by_filterD split: prod.splits sum.splits option.splits if_splits)
    then show ?thesis
      using that(1) by (auto simp: stranger_def owns_def list_all_iff)
  qed
qed

text \<open>The guard of the handlers: the source is read, and the owner goes on.\<close>

lemma guarded_by_owner:
  assumes "stranger u i w" "\<And>e. 400 \<le> status (h e)" "\<And>s w'. \<not> owns u s \<Longrightarrow> committed w' = committed w \<Longrightarrow>
    open_tx w' = open_tx w \<Longrightarrow> refused w (k s w')"
  shows "refused w (on_result (service_get_source E (request_context u) i) h k w)"
proof (cases "service_get_source E (request_context u) i w")
  case (Pair r w')
  note run = get_source_run [OF Pair]
  show ?thesis
  proof (cases r)
    case (Inl e)
    then show ?thesis using run(1,2) assms(2) by (simp add: on_result_def Pair)
  next
    case (Inr s)
    then show ?thesis using run assms(1,3) by (simp add: on_result_def Pair)
  qed
qed

lemma authorize_stranger:
  assumes "stranger u i w"
  obtains r w' where "authorize_source_access E u i w = (Inl r, w')" "refused w (r, w')"
proof (cases "service_get_source E (request_context u) i w")
  case (Pair r w')
  then show ?thesis
    using get_source_run [OF Pair] assms that
    by (cases r) (auto simp: authorize_source_access_def)
qed

lemma strangers_refused:
  assumes "stranger u i w"
  shows "refused w (handle_get_source E C ver u i w)" "refused w (handle_delete_source E u i w)"
    "refused w (handle_update_source E C V ver u i x w)" "refused w (handle_update_inventory E C ver u i y w)"
    "refused w (handle_get_source_download_url E T u i w)"
    "pred_option (refused w) (handle_upload_source_inventory_file E C Z ver u i z w)"
proof -
  note guard = guarded_by_owner [OF assms]
  show "refused w (handle_get_source E C ver u i w)" "refused w (handle_delete_source E u i w)"
    "refused w (handle_get_source_download_url E T u i w)"
    unfolding handle_get_source_def handle_delete_source_def handle_get_source_download_url_def
    by (rule guard; simp)+
  show "refused w (handle_update_source E C V ver u i x w)"
    unfolding handle_update_source_def by (auto split: option.split intro!: guard)
  obtain r :: "api_source reply" and w' where "authorize_source_access E u i w = (Inl r, w')" "refused w (r, w')"
    by (rule authorize_stranger [OF assms])
  then show "refused w (handle_update_inventory E C ver u i y w)"
    by (simp add: handle_update_inventory_def update_inventory_json_def split: option.split)
  obtain r :: "api_source reply" and w' where "authorize_source_access E u i w = (Inl r, w')" "refused w (r, w')"
    by (rule authorize_stranger [OF assms])
  then show "pred_option (refused w) (handle_upload_source_inventory_file E C Z ver u i z w)"
    by (simp add: handle_upload_source_inventory_file_def split: option.split)
qed

lemma agents_refused:
  assumes "jwt \<noteq> uuid_str E i"
  shows "refused w (handle_agent_update_inventory E C ver jwt i x w)"
    "refused w (handle_agent_update_source E C ver jwt i y w)"
    "refused w (handle_update_source_subset E C jwt i j z w)"
    "refused w (handle_delete_source_subset E jwt i j w)"
    "refused w (handle_update_agent_status E VA jwt k (Some (b\<lparr>ast_source_id := i\<rparr>)) w)"
  using assms
  by (auto simp: handle_agent_update_inventory_def handle_agent_update_source_def handle_update_source_subset_def
      handle_delete_source_subset_def handle_update_agent_status_def split: option.split)

text \<open>
  C19: every request on a source by a user who does not own it, and every report under a token of another source,
  gets an error status and changes nothing, whatever its body.
\<close>

theorem source_requests_need_owner:
  assumes "stranger u i w" "jwt \<noteq> uuid_str E i"
  shows "refused w (handle_get_source E C ver u i w) \<and> refused w (handle_delete_source E u i w) \<and>
    refused w (handle_update_source E C V ver u i x w) \<and> refused w (handle_update_inventory E C ver u i y w) \<and>
    refused w (handle_get_source_download_url E T u i w) \<and>
    pred_option (refused w) (handle_upload_source_inventory_file E C Z ver u i z w) \<and>
    refused w (handle_agent_update_inventory E C ver jwt i y w) \<and>
    refused w (handle_agent_update_source E C ver jwt i report w) \<and>
    refused w (handle_update_source_subset E C jwt i j subset_report w) \<and>
    refused w (handle_delete_source_subset E jwt i j w) \<and>
    refused w (handle_update_agent_status E VA jwt k (Some (b\<lparr>ast_source_id := i\<rparr>)) w)"
  by (intro conjI strangers_refused [OF assms(1)] agents_refused [OF assms(2)])

theorem source_requests_need_owner_witness:
  "refused (start demo_sources_db) (handle_delete_source demo_env
     \<lparr>u_username = ''eve'', u_organization = ''org'', u_first_name = [], u_last_name = []\<rparr> 1 (start demo_sources_db))"
proof -
  have "stranger \<lparr>u_username = ''eve'', u_organization = ''org'', u_first_name = [], u_last_name = []\<rparr> 1
      (start demo_sources_db)" "[] \<noteq> uuid_str demo_env 1"
    by code_simp+
  then show ?thesis
    using source_requests_need_owner by blast
qed

end
