(* ===== verification/UploadTheorems.thy ===== *)
theory UploadTheorems
  imports InventoryBundle Scenario
begin

text \<open>What an accepted upload is: reading the form ends when the form does, and a bundle is well formed.\<close>

subsection \<open>Reading ends\<close>

text \<open>The parts that end the loop: the end of the form, an error, and a file that is not read.\<close>

definition file_unread :: "form_part \<Rightarrow> bool" where
  "file_unread p \<longleftrightarrow> fp_name p = ''file'' \<and>
     (case read_limited (Suc max_file_size) (fp_content p) (fp_error p) of
        Inl e \<Rightarrow> True | Inr bytes \<Rightarrow> length bytes > max_file_size)"

definition stops :: "next_part \<Rightarrow> bool" where
  "stops x \<longleftrightarrow> (case x of NextPart p \<Rightarrow> file_unread p | _ \<Rightarrow> True)"

text \<open>The file read so far, after a part that does not end the loop.\<close>

definition after_part :: "next_part \<Rightarrow> string \<Rightarrow> string" where
  "after_part x buf = (case x of NextPart p \<Rightarrow> if fp_name p = ''file'' then fp_content p else buf | _ \<Rightarrow> buf)"

lemma read_limited_whole:
  "read_limited (Suc n) content e = Inr bytes \<Longrightarrow> length bytes \<le> n \<Longrightarrow> bytes = content"
  by (auto simp: read_limited_def split: if_splits option.splits)

lemma read_parts_goes_on:
  assumes "\<not> stops (r n)"
  shows "read_parts r n buf = read_parts r (Suc n) (after_part (r n) buf)"
proof (cases "r n")
  case (NextPart p)
  show ?thesis
  proof (cases "fp_name p = ''file''")
    case True
    then obtain bytes where b: "read_limited (Suc max_file_size) (fp_content p) (fp_error p) = Inr bytes"
      "length bytes \<le> max_file_size"
      using assms by (auto simp: stops_def file_unread_def NextPart split: sum.splits)
    then show ?thesis
      using True read_limited_whole [OF b]
      by (subst read_parts.simps) (simp add: NextPart after_part_def)
  qed (subst read_parts.simps, simp add: NextPart after_part_def)
qed (use assms in \<open>simp_all add: stops_def\<close>)

lemma read_parts_stops:
  assumes "stops (r n)"
  shows "read_parts r n buf = Some (Inr bytes) \<longleftrightarrow> r n = EndOfForm \<and> bytes = buf \<and> buf \<noteq> []"
    "read_parts r n buf \<noteq> None"
  using assms
  by (subst read_parts.simps, auto simp: stops_def file_unread_def split: next_part.splits sum.splits)+

lemma read_parts_ends: "stops (r k) \<Longrightarrow> n \<le> k \<Longrightarrow> read_parts r n buf \<noteq> None"
proof (induction "k - n" arbitrary: n buf)
  case 0
  then show ?case using read_parts_stops(2) by simp
next
  case (Suc m)
  show ?case
  proof (cases "stops (r n)")
    case False
    then have "n \<noteq> k" using Suc.prems(1) by auto
    then show ?thesis
      using Suc.hyps(1) [of "Suc n"] Suc.hyps(2) Suc.prems False by (simp add: read_parts_goes_on)
  qed (use read_parts_stops(2) in simp)
qed

lemma read_parts_returns: "read_parts r n buf = Some x \<Longrightarrow> \<exists>k \<ge> n. stops (r k)"
proof (erule read_parts.raw_induct [rotated])
  fix rec r n buf x
  assume IH: "\<And>r n buf x. rec r n buf = Some x \<Longrightarrow> \<exists>k \<ge> n. stops (r k)"
    and body: "(case r n of
       EndOfForm \<Rightarrow> Some (if buf = [] then Inl (OtherError (''file is required'', [])) else Inr buf)
     | NextFailed e \<Rightarrow> Some (Inl (form_error ''parse form'' e))
     | NextPart p \<Rightarrow>
         if fp_name p \<noteq> ''file'' then rec r (Suc n) buf
         else (case read_limited (Suc max_file_size) (fp_content p) (fp_error p) of
           Inl e \<Rightarrow> Some (Inl (form_error ''read file'' e))
         | Inr bytes \<Rightarrow> if length bytes > max_file_size then Some (Inl too_large)
                        else rec r (Suc n) bytes)) = Some x"
  show "\<exists>k \<ge> n. stops (r k)"
  proof (cases "stops (r n)")
    case False
    then obtain p where p: "r n = NextPart p" "\<not> file_unread p"
      by (auto simp: stops_def split: next_part.splits)
    then obtain buf' where "rec r (Suc n) buf' = Some x"
      using body by (auto simp: file_unread_def split: if_splits sum.splits)
    then show ?thesis using IH [of r "Suc n" buf' x] by (meson Suc_leD)
  qed auto
qed

text \<open>A file that is read is the content of a part, and not too large.\<close>

definition file_of :: "(nat \<Rightarrow> next_part) \<Rightarrow> string \<Rightarrow> bool" where
  "file_of r bytes \<longleftrightarrow> length bytes \<le> max_file_size \<and>
     (\<exists>k p. r k = NextPart p \<and> fp_name p = ''file'' \<and> fp_content p = bytes)"

lemma after_part_file_of:
  assumes "\<not> stops (r n)" "buf = [] \<or> file_of r buf"
  shows "after_part (r n) buf = [] \<or> file_of r (after_part (r n) buf)"
proof (cases "r n")
  case (NextPart p)
  then show ?thesis
    using assms by (auto simp: after_part_def stops_def file_unread_def file_of_def read_limited_def
        not_le max_file_size_def split: sum.splits if_splits option.splits)
qed (use assms in \<open>simp_all add: stops_def\<close>)

lemma read_parts_file:
  assumes "stops (r k)" "n \<le> k" "buf = [] \<or> file_of r buf" "read_parts r n buf = Some (Inr bytes)"
  shows "bytes \<noteq> [] \<and> file_of r bytes"
  using assms
proof (induction "k - n" arbitrary: n buf)
  case 0
  then show ?case using read_parts_stops(1) [of r n buf bytes] by auto
next
  case (Suc m)
  show ?case
  proof (cases "stops (r n)")
    case True
    then show ?thesis using Suc.prems read_parts_stops(1) [of r n buf bytes] by auto
  next
    case False
    then have "n \<noteq> k" using Suc.prems(1) by auto
    then show ?thesis
      using Suc.hyps(1) [of "Suc n" "after_part (r n) buf"] Suc.hyps(2) Suc.prems False
        after_part_file_of [OF False Suc.prems(3)]
      by (simp add: read_parts_goes_on)
  qed
qed

text \<open>
  C20: reading an upload ends exactly if the form does (with its end, an error, or a file that cannot be read or is
  too large), and the file it accepts is one of the form, neither empty nor larger than 50 MiB.
\<close>

theorem reading_ends:
  "(read_uploaded_inventory_file r \<noteq> None) = (\<exists>n. stops (r n)) \<and>
   (case read_uploaded_inventory_file r of
      Some (Inr bytes) \<Rightarrow> bytes \<noteq> [] \<and> file_of r bytes
    | _ \<Rightarrow> True)"
proof (intro conjI)
  show "(read_uploaded_inventory_file r \<noteq> None) = (\<exists>n. stops (r n))"
    using read_parts_returns [of r 0 "[]"] read_parts_ends [of r _ 0 "[]"]
    by (auto simp: read_uploaded_inventory_file_def)
  show "case read_uploaded_inventory_file r of Some (Inr bytes) \<Rightarrow> bytes \<noteq> [] \<and> file_of r bytes | _ \<Rightarrow> True"
    using read_parts_returns [of r 0 "[]"] read_parts_file [of r _ 0 "[]"]
    by (fastforce simp: read_uploaded_inventory_file_def split: option.splits sum.splits)
qed

subsection \<open>What a bundle holds\<close>

text \<open>The entries that are read: the main inventories and the subsets, by their cleaned names.\<close>

definition clean_name :: "zip_entry \<Rightarrow> string" where
  "clean_name f = (case zip_entry_name (ze_name f) of Inl e \<Rightarrow> [] | Inr n \<Rightarrow> n)"

definition main_entry :: "zip_entry \<Rightarrow> bool" where
  "main_entry f \<longleftrightarrow> \<not> ze_is_dir f \<and> clean_name f = ''inventory.json''"

definition subset_entry :: "zip_entry \<Rightarrow> bool" where
  "subset_entry f \<longleftrightarrow> \<not> ze_is_dir f \<and> is_subset_name (clean_name f)"

definition contents_size :: "zip_entry list \<Rightarrow> nat" where
  "contents_size fs = sum_list (map (length \<circ> ze_content) (filter (\<lambda>f. main_entry f \<or> subset_entry f) fs))"

text \<open>What the loop has gathered from the entries so far.\<close>

definition gathered :: "env \<Rightarrow> zip_entry list \<Rightarrow> zip_state \<Rightarrow> bool" where
  "gathered E fs st \<longleftrightarrow>
     list_all (\<lambda>f. \<not> isl (zip_entry_name (ze_name f))) fs \<and>
     zs_total st = contents_size fs \<and> zs_total st \<le> max_decompressed_total \<and>
     (zs_main st = None \<and> filter main_entry fs = [] \<or>
      (\<exists>f. zs_main st = Some (ze_content f) \<and> filter main_entry fs = [f])) \<and>
     map (Inr \<circ> bs_id) (zs_subsets st) = map (subset_id_from_name E \<circ> clean_name) (filter subset_entry fs) \<and>
     distinct (map bs_id (zs_subsets st))"

lemma read_zip_entryD:
  assumes "read_zip_entry f n = Inr (content, n')"
  shows "content = ze_content f" "n' = n + length (ze_content f)" "n' \<le> max_decompressed_total"
  using assms read_limited_whole [of max_file_size "ze_content f" "ze_read_error f" content]
  by (auto simp: read_zip_entry_def split: option.splits sum.splits if_splits)

lemma parse_subsetD:
  assumes "parse_subset E C name content seen = Inr s"
  shows "subset_id_from_name E name = Inr (bs_id s)" "bs_id s \<notin> bs_id ` set seen"
  using assms by (auto simp: parse_subset_def subset_from_update_def split: sum.splits if_splits)

lemma not_both: "\<not> (main_entry f \<and> subset_entry f)"
  by (auto simp: main_entry_def subset_entry_def is_subset_name_def)

lemma parse_entry_gathers:
  assumes "gathered E fs st" "parse_entry E C f st = Inr st'"
  shows "gathered E (fs @ [f]) st'"
proof -
  from assms(2) obtain name where name: "zip_entry_name (ze_name f) = Inr name"
    by (auto simp: parse_entry_def split: sum.splits)
  then have clean: "clean_name f = name" by (simp add: clean_name_def)
  consider (skip) "\<not> main_entry f" "\<not> subset_entry f" "st' = st"
    | (main) content n where "main_entry f" "read_zip_entry f (zs_total st) = Inr (content, n)"
        "zs_main st = None" "st' = st\<lparr>zs_total := n, zs_main := Some content\<rparr>"
    | (sub) content n s where "subset_entry f" "\<not> main_entry f" "read_zip_entry f (zs_total st) = Inr (content, n)"
        "parse_subset E C name content (zs_subsets st) = Inr s"
        "st' = st\<lparr>zs_total := n, zs_subsets := zs_subsets st @ [s]\<rparr>"
    using assms(2) name clean
    by (auto simp: parse_entry_def main_entry_def subset_entry_def split: sum.splits if_splits)
  then show ?thesis
  proof cases
    case skip
    then show ?thesis using assms(1) name by (simp add: gathered_def contents_size_def)
  next
    case main
    then show ?thesis
      using assms(1) name read_zip_entryD [OF main(2)] not_both [of f] by (auto simp: gathered_def contents_size_def)
  next
    case sub
    then show ?thesis
      using assms(1) name clean read_zip_entryD [OF sub(3)] parse_subsetD [OF sub(4)]
      by (auto simp: gathered_def contents_size_def)
  qed
qed

lemma parse_entries_gathers:
  "parse_entries E C gs st = Inr st' \<Longrightarrow> gathered E fs st \<Longrightarrow> gathered E (fs @ gs) st'"
proof (induction gs arbitrary: fs st)
  case (Cons g gs)
  from Cons.prems(1) obtain s where "parse_entry E C g st = Inr s" "parse_entries E C gs s = Inr st'"
    by (auto split: sum.splits)
  then show ?case using Cons.IH [of s "fs @ [g]"] parse_entry_gathers [OF Cons.prems(2)] by simp
qed simp

lemma gathered_start: "gathered E [] \<lparr>zs_total = 0, zs_main = None, zs_subsets = []\<rparr>"
  by (simp add: gathered_def contents_size_def)

text \<open>The main inventory is decoded, given a time, and encoded again.\<close>

definition main_of :: "api_codec \<Rightarrow> string \<Rightarrow> parsed_bundle \<Rightarrow> bool" where
  "main_of C raw b \<longleftrightarrow> pb_agent_id b = ac_probe_agent C raw \<and>
     (\<exists>i. ac_encode C i = Inr (pb_main_inventory b) \<and> pb_vcenter_id b = ainv_vcenter_id i \<and>
          ainv_created_at i \<noteq> None)"

lemma parsed_withD:
  "parsed_with E C raw subs w = (Inr b, w') \<Longrightarrow> pb_subsets b = subs \<and> main_of C raw b"
  by (auto simp: parsed_with_def normalize_main_inventory_def stamped_def main_of_def bind_def attempt_def ret_def
      raise_def time_now_def Let_def split: prod.splits sum.splits if_splits)

definition well_formed_archive :: "env \<Rightarrow> api_codec \<Rightarrow> zip_entry list \<Rightarrow> parsed_bundle \<Rightarrow> bool" where
  "well_formed_archive E C fs b \<longleftrightarrow>
     length fs \<le> 512 \<and> list_all (\<lambda>f. \<not> isl (zip_entry_name (ze_name f))) fs \<and>
     contents_size fs \<le> 200 * 2 ^ 20 \<and> (\<exists>f. filter main_entry fs = [f] \<and> main_of C (ze_content f) b) \<and>
     map (Inr \<circ> bs_id) (pb_subsets b) = map (subset_id_from_name E \<circ> clean_name) (filter subset_entry fs) \<and>
     distinct (map bs_id (pb_subsets b))"

text \<open>
  C21: a bundle that is accepted is a JSON inventory without subsets, or an archive of at most 512 entries with
  legal names and one main inventory, whose contents that are read are at most 200 MiB; its subsets are those of the
  archive in their order, under the identifiers of their names, which are all different.
\<close>

theorem accepted_bundles_well_formed:
  assumes "parse_bundle E C Z d w = (Inr b, w')"
  shows "if is_zip d then (\<exists>fs. Z d = Inr fs \<and> well_formed_archive E C fs b)
    else d \<noteq> [] \<and> pb_subsets b = [] \<and> main_of C d b"
proof (cases "is_zip d")
  case False
  then show ?thesis
    using assms parsed_withD [of E C d "[]" w b w']
    by (auto simp: parse_bundle_def parse_json_def raise_def split: if_splits)
next
  case True
  then obtain fs st raw where run: "Z d = Inr fs" "length fs \<le> max_zip_entries"
    "parse_entries E C fs \<lparr>zs_total = 0, zs_main = None, zs_subsets = []\<rparr> = Inr st" "zs_main st = Some raw"
    "parsed_with E C raw (zs_subsets st) w = (Inr b, w')"
    using assms by (auto simp: parse_bundle_def parse_zip_def raise_def not_less is_zip_def
        split: if_splits sum.splits option.splits)
  have "gathered E fs st"
    using parse_entries_gathers [OF run(3) gathered_start] by simp
  then show ?thesis
    using True run(1,2,4) parsed_withD [OF run(5)]
    by (auto simp: well_formed_archive_def gathered_def max_zip_entries_def max_decompressed_total_def
        max_file_size_def)
qed

subsection \<open>A bundle\<close>

definition demo_api_inventory :: api_inventory where
  "demo_api_inventory = \<lparr>ainv_clusters = Some [], ainv_collection_time = None, ainv_created_at = Some 5,
     ainv_vcenter = None, ainv_vcenter_id = ''vc'', ainv_vcenter_version = None\<rparr>"

definition demo_codec :: api_codec where
  "demo_codec = \<lparr>ac_decode = (\<lambda>_. Inr demo_api_inventory), ac_decode_data = (\<lambda>_. Inl (OtherError (''v1'', []))),
     ac_encode = (\<lambda>_. Inr ''{}''), ac_decode_subset = (\<lambda>s. Inr \<lparr>sbu_name = s, sbu_vcenter_id = None,
       sbu_vms_count = Some 2, sbu_inventory = demo_api_inventory\<rparr>),
     ac_probe_agent = (\<lambda>_. None), ac_probe_inventory = (\<lambda>_. None)\<rparr>"

definition demo_entry :: "string \<Rightarrow> string \<Rightarrow> zip_entry" where
  "demo_entry n s = \<lparr>ze_name = n, ze_is_dir = False, ze_uncompressed_size = length s, ze_open_error = None,
     ze_content = s, ze_read_error = None\<rparr>"

definition demo_zip :: zip_reader where
  "demo_zip _ = Inr [demo_entry ''inventory.json'' ''{}'', demo_entry ''subsets/a.json'' ''app'',
     demo_entry ''subsets/aa.json'' ''web'']"

definition demo_archive :: string where
  "demo_archive = [CHR ''P'', CHR ''K'', CHR 0x03, CHR 0x04]"

lemma demo_bundle_accepted:
  "\<exists>b w. parse_bundle demo_env demo_codec demo_zip demo_archive (start empty_db) = (Inr b, w) \<and>
     length (pb_subsets b) = 2"
  by (simp add: parse_bundle_def demo_archive_def is_zip_def parse_zip_def demo_zip_def demo_entry_def
      max_zip_entries_def parse_entry_def zip_entry_name_def path_clean_def Let_def contains_def
      is_subset_name_def ends_with_def read_zip_entry_def check_decompressed_size_def max_file_size_def
      max_decompressed_total_def read_limited_def parse_subset_def subset_id_from_name_def subset_base_name_def
      demo_env_def demo_uuid_parse_def demo_codec_def subset_from_update_def parsed_with_def
      normalize_main_inventory_def main_inventory_bytes_def get_inventory_version_def stamped_def
      demo_api_inventory_def bind_def attempt_def ret_def)

theorem accepted_bundles_well_formed_witness:
  "\<exists>b fs. demo_zip demo_archive = Inr fs \<and> well_formed_archive demo_env demo_codec fs b \<and> length (pb_subsets b) = 2"
proof -
  obtain b w where b: "parse_bundle demo_env demo_codec demo_zip demo_archive (start empty_db) = (Inr b, w)"
    "length (pb_subsets b) = 2"
    using demo_bundle_accepted by blast
  have "is_zip demo_archive"
    by (simp add: is_zip_def demo_archive_def)
  then show ?thesis
    using accepted_bundles_well_formed [OF b(1)] b(2) by auto
qed

end
