(* ===== verification/InventoryAggregation.thy ===== *)
theory InventoryAggregation
  imports SizerService Scenario
begin

text \<open>
  Merging the inventories of an assessment into its main inventory
  (\<open>internal/service/helpers/inventory_aggregate.go\<close>) and the request of the assessment service that does
  it (\<open>AggregateInventories\<close>). Integers wrap at 64 bits, quotients are IEEE-754 doubles.
\<close>

subsection \<open>Adding up\<close>








subsection \<open>Issues\<close>








subsection \<open>Virtual machines\<close>



subsection \<open>Infrastructure\<close>

definition elements :: "'a list option \<Rightarrow> 'a list" where
  "elements x = (case x of None \<Rightarrow> [] | Some xs \<Rightarrow> xs)"











subsection \<open>Inventories\<close>






subsection \<open>What the aggregate holds\<close>


lemma elements_simps [simp]: "elements None = []" "elements (Some xs) = xs"
  by (simp_all add: elements_def)


















end
