(* ===== verification/Validators.thy ===== *)
theory Validators
  imports ApiInventory Errors Complexity
begin

text \<open>
  The checks of request bodies in \<open>internal/handlers/validator/custom.go\<close>. The struct tags that name them, the
  parsing of certificates and of addresses are third-party code. The regular expressions are written out.
\<close>

subsection \<open>Characters\<close>

definition digits :: string where "digits = ''0123456789''"

definition letters :: string where
  "letters = ''abcdefghijklmnopqrstuvwxyzABCDEFGHIJKLMNOPQRSTUVWXYZ''"

definition alphanumeric :: "char \<Rightarrow> bool" where
  "alphanumeric c \<longleftrightarrow> c \<in> set digits \<or> c \<in> set letters"

subsection \<open>Names and labels\<close>

text \<open>\<open>[a-zA-Z0-9_.-]{1,100}\<close>\<close>

definition name_char :: "char \<Rightarrow> bool" where
  "name_char c \<longleftrightarrow> alphanumeric c \<or> c \<in> set ''_.-''"

definition valid_name :: "string \<Rightarrow> bool" where
  "valid_name s \<longleftrightarrow> 1 \<le> length s \<and> length s \<le> 100 \<and> list_all name_char s"

definition validate_name :: "string \<Rightarrow> error option" where
  "validate_name s = (if valid_name s then None
     else Some (OtherError (''The provided name %q is invalid. Name must be 1-100 characters and contain only letters, numbers, underscores, periods, or hyphens (no spaces).'', [s])))"

text \<open>\<open>[a-zA-Z0-9]([a-zA-Z0-9._-]*[a-zA-Z0-9])?\<close>\<close>

definition valid_label :: "string \<Rightarrow> bool" where
  "valid_label s \<longleftrightarrow> s \<noteq> [] \<and> alphanumeric (hd s) \<and> alphanumeric (List.last s) \<and> list_all name_char s"

subsection \<open>Keys, files and fields\<close>

definition base64_char :: "char \<Rightarrow> bool" where
  "base64_char c \<longleftrightarrow> alphanumeric c \<or> c \<in> set ''+/''"

definition ssh_prefixes :: "string list" where
  "ssh_prefixes = [''ssh-rsa AAAAB3NzaC1yc2'', ''ssh-ed25519 AAAAC3NzaC1lZDI1NTE5'',
     ''ssh-dss AAAAB3NzaC1kc3'', ''ecdsa-sha2-nistp256 AAAAE2VjZHNhLXNoYTItbmlzdHAyNT'']"

text \<open>\<open>[0-9A-Za-z+/]+[=]{0,3}( [^\r\n]*)?\<close>: the key, its padding, and a comment on the same line.\<close>

definition ssh_key_rest :: "string \<Rightarrow> bool" where
  "ssh_key_rest s = (let key = takeWhile base64_char s; s1 = dropWhile base64_char s;
       padding = takeWhile (\<lambda>c. c = CHR ''='') s1; s2 = dropWhile (\<lambda>c. c = CHR ''='') s1
     in key \<noteq> [] \<and> length padding \<le> 3 \<and>
        (s2 = [] \<or> hd s2 = CHR '' '' \<and> CHR 0x0D \<notin> set s2 \<and> CHR 0x0A \<notin> set s2))"

definition valid_ssh_key :: "string \<Rightarrow> bool" where
  "valid_ssh_key s \<longleftrightarrow> list_ex (\<lambda>p. starts_with s p \<and> ssh_key_rest (drop (length p) s)) ssh_prefixes"

definition valid_agent_status :: "string \<Rightarrow> bool" where
  "valid_agent_status s \<longleftrightarrow> s \<in> set [''not-connected'', ''waiting-for-credentials'', ''error'',
     ''gathering-initial-inventory'', ''up-to-date'', ''source-gone'']"

definition valid_uuid :: "uuid \<Rightarrow> bool" where
  "valid_uuid i \<longleftrightarrow> i \<noteq> nil_uuid"

text \<open>\<open>strconv.Atoi\<close>\<close>

definition digit_value :: "char \<Rightarrow> int" where
  "digit_value c = int (length (takeWhile (\<lambda>d. d \<noteq> c) digits))"

definition atoi :: "string \<Rightarrow> int option" where
  "atoi s = (let sign = (if s \<noteq> [] \<and> hd s = CHR ''-'' then -1 else 1);
       ds = (if s \<noteq> [] \<and> (hd s = CHR ''-'' \<or> hd s = CHR ''+'') then tl s else s);
       n = sign * foldl (\<lambda>n c. 10 * n + digit_value c) 0 ds
     in if ds \<noteq> [] \<and> list_all (\<lambda>c. c \<in> set digits) ds \<and> - (2 ^ 63) \<le> n \<and> n < 2 ^ 63 then Some n else None)"

definition valid_subnet_mask :: "string \<Rightarrow> bool" where
  "valid_subnet_mask s = (case atoi s of None \<Rightarrow> False | Some n \<Rightarrow> 0 \<le> n \<and> n \<le> 32)"

definition xlsx_magic_bytes :: string where
  "xlsx_magic_bytes = [CHR 0x50, CHR 0x4B, CHR 0x03, CHR 0x04]"

definition not_excel :: error where
  "not_excel = OtherError (''file is not a valid Excel file'', [])"

definition validate_xlsx_magic_bytes :: "string \<Rightarrow> error option" where
  "validate_xlsx_magic_bytes d =
     (if length d < 4 \<or> take 4 d \<noteq> xlsx_magic_bytes then Some not_excel else None)"

subsection \<open>Assessment forms\<close>

record assessment_form =
  afm_name :: string
  afm_source_type :: string
  afm_source_id :: "uuid option"
  afm_inventory :: "api_inventory option"

definition total_vms :: "api_inventory \<Rightarrow> goint" where
  "total_vms v = sum_list (map (\<lambda>d. avm_total (adt_vms d))
     ((case ainv_vcenter v of None \<Rightarrow> [] | Some d \<Rightarrow> [d]) @
      (case ainv_clusters v of None \<Rightarrow> [] | Some m \<Rightarrow> map snd m)))"

text \<open>The errors the validator reports; \<open>marshals\<close> tells whether an inventory can be encoded.\<close>

definition assessment_form_errors :: "(api_inventory \<Rightarrow> bool) \<Rightarrow> assessment_form \<Rightarrow> string list" where
  "assessment_form_errors marshals f =
     (let source = (if afm_source_type f = ''agent'' \<and> afm_source_id f = None then [''agent''] else [])
      in if afm_source_type f \<noteq> ''inventory'' then source
         else case afm_inventory f of
           None \<Rightarrow> [''inventory is missing'']
         | Some v \<Rightarrow> (if marshals v then [] else [''failed to marshal'']) @
             (if ainv_vcenter_id v = [] then [''inventory has no vCenterID''] else []) @
             (if total_vms v = 0 then [''no VMs found in inventory''] else []) @ source)"

text \<open>The scheme of an address, if it can be parsed, is \<open>http\<close> or \<open>https\<close>.\<close>

definition valid_credential_url :: "string option \<Rightarrow> bool" where
  "valid_credential_url scheme \<longleftrightarrow> scheme = Some ''http'' \<or> scheme = Some ''https''"

subsection \<open>Error messages\<close>

text \<open>The failed checks, as tag and field; the one on addresses gets a message of its own.\<close>

definition transform_validation_errors :: "(string \<times> string) list \<Rightarrow> error list" where
  "transform_validation_errors es = map (\<lambda>(tag, field).
     if tag = ''ip4_addr'' then OtherError (''invalid %s format. Please use format like 192.168.1.100'', [field])
     else OtherError (tag, [field])) es"

end
