(* ===== verification/Spec2Isabelle.thy ===== *)
theory Spec2Isabelle
  imports AccessTheorems SizerRequestTheorems EstimationRuns SourceTokens ApiAccess UploadTheorems
    InventoryAggregation Validators
begin

text \<open>
  A model of the migration planner (\<open>src/\<close>, Go), a web service that stores inventories of VMware sites, turns
  them into assessments that can be shared with partners, and computes from an assessment the size of a cluster, the
  complexity and the duration of a migration.

  \<^bold>\<open>How the program is put together.\<close> A request reaches a handler (\<open>internal/handlers/v1alpha1\<close>), which checks
  the body, maps it to a form, calls a service and maps the result to a status and a body. The services
  (\<open>internal/service\<close>) hold the rules; \<open>authz_*.go\<close> wraps three of them with checks of permissions and roles.
  They keep all state in a database, reached through stores (\<open>internal/store\<close>) and, where several writes belong
  together, through a transaction held by the context of the request. Permissions are relationship tuples in a table of
  their own. The sizing of a cluster is computed by an external service; the complexity and the estimates are computed
  by \<open>pkg/estimations\<close>. Agents report inventories under signed tokens; users upload them as files.

  \<^bold>\<open>State.\<close> \<open>Database\<close> has one record per table row and the effect of each statement with the constraints of
  the schema. \<open>Transactions\<close> has the \<open>world\<close>: the committed rows, the rows of the open transaction, and a
  counter of steps. A Go function that returns a value and an error is a function of the world (\<open>'a go\<close>); the
  record \<open>env\<close> gives, for every step, whether the database call fails, the order of unordered rows and of map
  iterations, the clock and new identifiers, and holds the code that is not under \<open>src/\<close>: the JSON codec, the
  identity service and the text form of identifiers. Every theorem holds for all environments unless it names one.
  \<open>Prelude\<close>, \<open>Errors\<close>, \<open>Filters\<close> and \<open>Float64\<close> hold the base types (64-bit words with
  wrap-around, IEEE-754 doubles as exact rationals with rounding), the errors as a datatype, and the query filters.

  \<^bold>\<open>Parts.\<close>
  \<^item> Access control: \<open>RelationModel\<close>, \<open>AuthzStore\<close> (relations, tuples, permission queries);
    \<open>AccountsStore\<close>, \<open>AccountsService\<close>, \<open>AuthzAccounts\<close> (groups, members, identities);
    \<open>PartnerStore\<close>, \<open>PartnerService\<close>, \<open>AuthzPartner\<close> (requests of customers to partners);
    \<open>Inventory\<close>, \<open>AssessmentStore\<close>, \<open>AssessmentService\<close>, \<open>AssessmentSpec\<close>,
    \<open>AuthzAssessment\<close> (assessments and their sharing). \<open>Execution\<close> has weakest preconditions and the notions
    \<open>readonly\<close>, \<open>local_tx\<close>, \<open>observes\<close> and \<open>refines\<close>. Each request of the authorised services is proved
    to refine a one-step specification on the tables; \<open>AccessControl\<close> closes the specifications under any sequence of
    requests and failures, and \<open>AccessTheorems\<close> proves the invariants of the reachable states. \<open>Scenario\<close> is the
    deployment of the witnesses.
  \<^item> Sources and agents: \<open>SourceStore\<close>, \<open>SourceService\<close>; \<open>SourceInvariants\<close> (the locale \<open>row_invariant\<close>:
    what the statements keep, the requests keep; interpreted for the well-formedness of the tables and for the vCenter of
    a source), \<open>SourceTheorems\<close>, \<open>SourceUploads\<close>, \<open>SourceTokens\<close>.
  \<^item> The interface over HTTP: \<open>ApiAccounts\<close>, \<open>ApiPartners\<close>, \<open>ApiSources\<close> (handlers as functions to a
    reply, a status with a body or an error, and the world), \<open>Validators\<close>, \<open>ApiInventory\<close> (the types of the API and
    their conversion), \<open>InventoryBundle\<close> (uploaded forms and archives), with the theorems in \<open>ApiAccess\<close> and
    \<open>UploadTheorems\<close>. \<open>InventoryAggregation\<close> merges the inventories of an assessment.
  \<^item> Cluster sizing (\<open>internal/service/sizer.go\<close>): \<open>SizerTypes\<close>, \<open>SizerBatching\<close>, \<open>SizerPayload\<close>,
    \<open>SizerService\<close>, \<open>SizerRequests\<close>, with the theorems in \<open>SizerTheorems\<close> and \<open>SizerRequestTheorems\<close>.
  \<^item> Migration estimates (\<open>pkg/estimations\<close>, \<open>internal/service/estimation.go\<close>): \<open>Complexity\<close>,
    \<open>Calculators\<close>, \<open>EstimationService\<close>, with the theorems in \<open>EstimationTheorems\<close>,
    \<open>EstimationInventory\<close> and \<open>EstimationRuns\<close> (the locale \<open>reliable_engine\<close>: the contract between an engine
    and the parameters it is run with).

  \<^bold>\<open>Bounds and loops.\<close> All loops are structural recursions over the list the code ranges over, except reading a
  form, which ends only if the form does: \<open>read_parts\<close> is a \<open>partial_function\<close> and its end is a theorem. No fuel is
  used. The bounds of the code are definitions (\<open>max_file_size\<close>, \<open>max_zip_entries\<close>, \<open>MaxBatches\<close>,
  \<open>MaxNodeCount\<close> and others). The theorems on floating point name the range they need, for instance inventories of
  at most \<open>2 ^ 32\<close> gigabytes for the estimates.

  \<^bold>\<open>Simplifications.\<close> A request runs alone: two requests do not interleave, and at most one transaction is open; a
  transaction that a request leaves open stays in the world. The text of an error is its format with its arguments. A Go
  map is the list of its entries, a map iteration takes an order. A body that the generated code cannot decode does not
  reach a handler.

  \<^bold>\<open>Not modelled.\<close> The generated API code other than the types used here, the servers, middleware and wiring,
  image building (archives streamed to a client), the DuckDB parser of RVTools files (SQL run by an embedded database),
  logging, metrics, events and the command line: they are input and output, or code that is not written here.
\<close>

section \<open>Requests refine their specification\<close>

text \<open>C1: the account requests.\<close>

theorem account_requests_refine:
  "refines E (authz_create_group E (request_context u) g) (admin_only u ''groups'' (create_group_spec g)) \<and>
   refines E (authz_update_group E (request_context u) g) (admin_only u ''groups'' (update_group_spec E g)) \<and>
   refines E (authz_delete_group E (request_context u) i) (admin_only u ''groups'' (delete_group_spec E i)) \<and>
   refines E (authz_create_member E (request_context u) m)
     (admin_only u ''members'' (create_member_spec E m)) \<and>
   refines E (authz_update_group_member E (request_context u) i name m)
     (admin_only u ''members'' (update_group_member_spec E i name m)) \<and>
   refines E (authz_remove_group_member E (request_context u) i name)
     (admin_only u ''members'' (remove_group_member_spec E i name))"
  by (intro conjI authz_accounts_refine)

text \<open>C2: the partner requests.\<close>

theorem partner_requests_refine:
  "refines E (authz_create_request E (request_context u) u p pc)
     (guarded (\<lambda>d. kind_of d (u_username u) = KindRegular)
        (new_err_forbidden ''partner request'' (u_username u)) (create_request_spec E u p pc)) \<and>
   refines E (authz_cancel_request E (request_context u) u i) (cancel_request_spec E u i) \<and>
   refines E (authz_leave_partner E (request_context u) u p)
     (guarded (\<lambda>d. kind_of d (u_username u) = KindCustomer)
        (new_err_forbidden ''partner'' p) (leave_partner_spec E u p)) \<and>
   refines E (authz_update_request E (request_context u) u i req) (authz_update_request_spec E u i req) \<and>
   refines E (authz_remove_customer E (request_context u) u name) (authz_remove_customer_spec E u name)"
  by (intro conjI authz_create_request_refines authz_leave_partner_refines authz_update_request_refines
      authz_remove_customer_refines) (simp add: authz_cancel_request_def cancel_request_refines)

text \<open>C3: the assessment requests.\<close>

theorem assessment_requests_refine:
  "refines E (authz_create_assessment E (new_assessment_service E) (request_context u) f)
     (authz_create_spec E u f) \<and>
   refines E (authz_delete_assessment E (new_assessment_service E) (request_context u) i)
     (with_permission E u i DeletePermission (authz_delete_spec E i)) \<and>
   refines E (authz_share_assessment E (new_assessment_service E) (request_context u) i)
     (with_permission E u i SharePermission (sharing_spec E u i (share_with E i))) \<and>
   refines E (authz_unshare_assessment E (new_assessment_service E) (request_context u) i)
     (with_permission E u i SharePermission (sharing_spec E u i (unshare_with E i)))"
  by (intro conjI assessment_srv.authz_create_refines assessment_srv.authz_delete_refines
      assessment_srv.authz_sharing_refines)

end
